(* ===== verification/Wsrep_Prelude.thy ===== *)
theory Wsrep_Prelude
  imports Main "HOL-Library.Word" "HOL-Library.Char_ord" "HOL-Library.List_Lexorder"
    "HOL-Library.Product_Lexorder"
begin

text \<open>
  Shared ground of the development: the command type in which every operation of the
  library is written, its weakest preconditions, and the ordered map that models
  \<^verbatim>\<open>std::map\<close>.

  A command reads and updates a state and either returns a value or stops with an
  exception; the state reached so far is kept in both cases, as it is in C++ when an
  exception unwinds the stack.
\<close>

unbundle bit_operations_syntax

named_theorems wp_simps "weakest preconditions of the command combinators"
named_theorems wp_fun "the same without the state argument, for postconditions"
named_theorems frame_simps "what an operation leaves alone"

type_synonym u32 = "32 word"
type_synonym u64 = "64 word"
type_synonym octet = "8 word"

section \<open>Commands\<close>

text \<open>
  The ways an operation ends other than by returning: a failed \<^verbatim>\<open>assert()\<close> of a debug
  build, the two exception classes of \<^verbatim>\<open>wsrep/exception.hpp\<close>, a wait that no other
  thread of the model can end, and a step whose behaviour C++ leaves undefined.
\<close>

datatype exn = Assertion string | Runtime_error string | Fatal_error | Blocked string
  | Undefined string

type_synonym ('w, 'a) cmd = "'w \<Rightarrow> (exn + 'a) \<times> 'w"

definition return :: "'a \<Rightarrow> ('w, 'a) cmd" where
  "return a = (\<lambda>w. (Inr a, w))"

definition bind :: "('w, 'a) cmd \<Rightarrow> ('a \<Rightarrow> ('w, 'b) cmd) \<Rightarrow> ('w, 'b) cmd" where
  "bind m k = (\<lambda>w. case m w of (Inl e, w') \<Rightarrow> (Inl e, w') | (Inr a, w') \<Rightarrow> k a w')"

definition seq :: "('w, 'a) cmd \<Rightarrow> ('w, 'b) cmd \<Rightarrow> ('w, 'b) cmd" where
  "seq m k = bind m (\<lambda>_. k)"

definition throw :: "exn \<Rightarrow> ('w, 'a) cmd" where
  "throw e = (\<lambda>w. (Inl e, w))"

definition modify :: "('w \<Rightarrow> 'w) \<Rightarrow> ('w, unit) cmd" where
  "modify f = (\<lambda>w. (Inr (), f w))"

definition inspect :: "('w \<Rightarrow> ('w, 'a) cmd) \<Rightarrow> ('w, 'a) cmd" where
  "inspect b = (\<lambda>w. b w w)"

definition skip :: "('w, unit) cmd" where
  "skip = return ()"

definition only_if :: "bool \<Rightarrow> ('w, unit) cmd \<Rightarrow> ('w, unit) cmd" where
  "only_if b m = (if b then m else skip)"

text \<open>
  A block of statements, a statement and a choice guarded by a condition on the state, and a
  local variable that holds a value read from the state.
\<close>

fun block :: "('w, unit) cmd list \<Rightarrow> ('w, unit) cmd" where
  "block [] = skip"
| "block (m # ms) = seq m (block ms)"

definition when_st :: "('w \<Rightarrow> bool) \<Rightarrow> ('w, unit) cmd \<Rightarrow> ('w, unit) cmd" where
  "when_st P m = inspect (\<lambda>w. only_if (P w) m)"

definition branch :: "('w \<Rightarrow> bool) \<Rightarrow> ('w, 'a) cmd \<Rightarrow> ('w, 'a) cmd \<Rightarrow> ('w, 'a) cmd" where
  "branch P m n = inspect (\<lambda>w. if P w then m else n)"

definition fetch :: "('w \<Rightarrow> 'x) \<Rightarrow> ('x \<Rightarrow> ('w, 'a) cmd) \<Rightarrow> ('w, 'a) cmd" where
  "fetch f k = inspect (\<lambda>w. k (f w))"

text \<open>\<^verbatim>\<open>assert()\<close>: checked in a debug build only.\<close>

definition assert_that :: "bool \<Rightarrow> string \<Rightarrow> ('w \<Rightarrow> bool) \<Rightarrow> ('w, unit) cmd" where
  "assert_that debug msg P =
     (\<lambda>w. if debug \<and> \<not> P w then (Inl (Assertion msg), w) else (Inr (), w))"

text \<open>\<^verbatim>\<open>catch (const wsrep::runtime_error\&)\<close>: a failed assertion is not an exception.\<close>

definition catch_runtime_error ::
    "('w, 'a) cmd \<Rightarrow> (string \<Rightarrow> ('w, 'a) cmd) \<Rightarrow> ('w, 'a) cmd" where
  "catch_runtime_error m h =
     (\<lambda>w. case m w of (Inl (Runtime_error s), w') \<Rightarrow> h s w' | r \<Rightarrow> r)"

text \<open>\<^verbatim>\<open>catch (...)\<close>.\<close>

definition catch_all :: "('w, 'a) cmd \<Rightarrow> ('w, 'a) cmd \<Rightarrow> ('w, 'a) cmd" where
  "catch_all m h =
     (\<lambda>w. case m w of (Inl (Runtime_error s), w') \<Rightarrow> h w'
         | (Inl Fatal_error, w') \<Rightarrow> h w' | r \<Rightarrow> r)"

text \<open>
  Leaving a scope that owns a resource: the destructor runs when the body returns and when an
  exception unwinds the stack; a failed assertion ends the process without unwinding.
\<close>

definition unwinds :: "exn \<Rightarrow> bool" where
  "unwinds e = (case e of Runtime_error _ \<Rightarrow> True | Fatal_error \<Rightarrow> True | _ \<Rightarrow> False)"

definition finally_do :: "('w, 'a) cmd \<Rightarrow> ('w, unit) cmd \<Rightarrow> ('w, 'a) cmd" where
  "finally_do m d =
     (\<lambda>w. case m w of (Inl e, w') \<Rightarrow> (if unwinds e then seq d (throw e) w' else (Inl e, w'))
         | (Inr a, w') \<Rightarrow> seq d (return a) w')"

text \<open>C++ \<open>a || b\<close> on integer return codes: the second runs only if the first gave zero.\<close>

definition bool_int :: "bool \<Rightarrow> int" where
  "bool_int b = (if b then 1 else 0)"

definition or_else :: "('w, int) cmd \<Rightarrow> ('w, int) cmd \<Rightarrow> ('w, int) cmd" where
  "or_else a b = bind a (\<lambda>r. if r \<noteq> 0 then return 1 else bind b (\<lambda>s. return (bool_int (s \<noteq> 0))))"

text \<open>A loop over a list that stops at the first non-zero return code.\<close>

fun until_nonzero :: "('x \<Rightarrow> ('w, int) cmd) \<Rightarrow> 'x list \<Rightarrow> ('w, int) cmd" where
  "until_nonzero f [] = return 0"
| "until_nonzero f (x # xs) = bind (f x) (\<lambda>r. if r \<noteq> 0 then return r else until_nonzero f xs)"

fun for_each :: "('x \<Rightarrow> ('w, unit) cmd) \<Rightarrow> 'x list \<Rightarrow> ('w, unit) cmd" where
  "for_each f [] = skip"
| "for_each f (x # xs) = seq (f x) (for_each f xs)"

lemma bool_int_eq_0 [simp]: "bool_int b = 0 \<longleftrightarrow> \<not> b"
  by (simp add: bool_int_def)

lemma bool_int_simps [simp]: "bool_int True = 1" "bool_int False = 0"
  by (simp_all add: bool_int_def)

subsection \<open>Weakest preconditions\<close>

text \<open>
  \<open>wp m Q E w\<close>: run from \<open>w\<close>, the command \<open>m\<close> either returns a value and a state that
  satisfy \<open>Q\<close>, or stops with an exception and a state that satisfy \<open>E\<close>. With
  \<open>never\<close> for \<open>E\<close> this is total correctness: the command returns.
\<close>

definition wp :: "('w, 'a) cmd \<Rightarrow> ('a \<Rightarrow> 'w \<Rightarrow> bool) \<Rightarrow> (exn \<Rightarrow> 'w \<Rightarrow> bool) \<Rightarrow> 'w \<Rightarrow> bool" where
  "wp m Q E w = (case m w of (Inl e, w') \<Rightarrow> E e w' | (Inr a, w') \<Rightarrow> Q a w')"

abbreviation never :: "exn \<Rightarrow> 'w \<Rightarrow> bool" where
  "never \<equiv> \<lambda>_ _. False"

lemma wp_return [wp_simps]: "wp (return a) Q E w = Q a w"
  by (simp add: wp_def return_def)

lemma wp_bind [wp_simps]: "wp (bind m k) Q E w = wp m (\<lambda>a. wp (k a) Q E) E w"
  by (auto simp: wp_def bind_def split: prod.splits sum.splits)

lemma wp_seq [wp_simps]: "wp (seq m k) Q E w = wp m (\<lambda>_. wp k Q E) E w"
  by (simp add: seq_def wp_bind)

lemma wp_throw [wp_simps]: "wp (throw e) Q E w = E e w"
  by (simp add: wp_def throw_def)

lemma wp_modify [wp_simps]: "wp (modify f) Q E w = Q () (f w)"
  by (simp add: wp_def modify_def)

lemma wp_inspect [wp_simps]: "wp (inspect b) Q E w = wp (b w) Q E w"
  by (simp add: wp_def inspect_def)

lemma wp_skip [wp_simps]: "wp skip Q E w = Q () w"
  by (simp add: skip_def wp_return)

lemma wp_only_if [wp_simps]: "wp (only_if b m) Q E w = (if b then wp m Q E w else Q () w)"
  by (simp add: only_if_def wp_skip)

lemma wp_block [wp_simps]:
  "wp (block []) Q E w = Q () w"
  "wp (block (m # ms)) Q E w = wp m (\<lambda>_. wp (block ms) Q E) E w"
  by (simp_all add: wp_skip wp_seq)

lemma wp_when_st [wp_simps]: "wp (when_st P m) Q E w = (if P w then wp m Q E w else Q () w)"
  by (simp add: when_st_def wp_inspect wp_only_if)

lemma wp_branch [wp_simps]: "wp (branch P m n) Q E w = (if P w then wp m Q E w else wp n Q E w)"
  by (simp add: branch_def wp_inspect)

lemma wp_fetch [wp_simps]: "wp (fetch f k) Q E w = wp (k (f w)) Q E w"
  by (simp add: fetch_def wp_inspect)

lemma wp_if [wp_simps]: "wp (if b then m else n) Q E w = (if b then wp m Q E w else wp n Q E w)"
  by simp

lemma wp_assert [wp_simps]:
  "wp (assert_that d msg P) Q E w = (if d \<and> \<not> P w then E (Assertion msg) w else Q () w)"
  by (simp add: wp_def assert_that_def)

lemma wp_finally [wp_simps]:
  "wp (finally_do m d) Q E w =
     wp m (\<lambda>a. wp d (\<lambda>_. Q a) E)
       (\<lambda>e. if unwinds e then wp d (\<lambda>_. E e) E else E e) w"
  by (simp add: wp_def finally_do_def seq_def bind_def return_def throw_def
      split: prod.splits sum.splits)

lemma wp_catch_all [wp_simps]:
  "wp (catch_all m h) Q E w = wp m Q (\<lambda>e. if unwinds e then wp h Q E else E e) w"
  by (auto simp: wp_def catch_all_def unwinds_def split: prod.splits sum.splits exn.splits)

lemma wp_catch_runtime_error [wp_simps]:
  "wp (catch_runtime_error m h) Q E w =
     wp m Q (\<lambda>e v. case e of Runtime_error s \<Rightarrow> wp (h s) Q E v | _ \<Rightarrow> E e v) w"
  by (auto simp: wp_def catch_runtime_error_def split: prod.splits sum.splits exn.splits)

lemma wp_or_else [wp_simps]:
  "wp (or_else a b) Q E w =
     wp a (\<lambda>r. if r \<noteq> 0 then Q 1 else wp b (\<lambda>s. Q (bool_int (s \<noteq> 0))) E) E w"
  by (simp add: or_else_def wp_bind wp_return if_distrib cong: if_cong)
     (simp add: wp_def return_def bind_def split: prod.splits sum.splits)

lemma wp_return_fun [wp_fun]: "wp (return a) Q E = Q a"
  by (simp add: fun_eq_iff wp_simps)

lemma wp_bind_fun [wp_fun]: "wp (bind m k) Q E = wp m (\<lambda>a. wp (k a) Q E) E"
  by (simp add: fun_eq_iff wp_simps)

lemma wp_seq_fun [wp_fun]: "wp (seq m k) Q E = wp m (\<lambda>_. wp k Q E) E"
  by (simp add: fun_eq_iff wp_simps)

lemma wp_if_fun [wp_fun]: "wp (if b then m else n) Q E = (if b then wp m Q E else wp n Q E)"
  by simp

lemma wp_unit_fun [wp_fun]:
  "wp skip Q E = Q ()" "wp (modify f) Q E = (\<lambda>w. Q () (f w))"
  "wp (block []) Q E = Q ()" "wp (block (n # ms)) Q E = wp n (\<lambda>_. wp (block ms) Q E) E"
  "wp (only_if b n) Q E = (if b then wp n Q E else Q ())"
  by (simp_all add: fun_eq_iff wp_simps)

lemma wp_mono:
  assumes "wp m Q E w"
    and "\<And>a v. Q a v \<Longrightarrow> Q' a v" and "\<And>e v. E e v \<Longrightarrow> E' e v"
  shows "wp m Q' E' w"
  using assms by (auto simp: wp_def split: prod.splits sum.splits)

lemma wp_conj:
  assumes "wp m Q E w" and "wp m Q' E' w"
  shows "wp m (\<lambda>a v. Q a v \<and> Q' a v) (\<lambda>e v. E e v \<and> E' e v) w"
  using assms by (auto simp: wp_def split: prod.splits sum.splits)

text \<open>A scope that owns a resource, when its body returns.\<close>

lemma wp_finally_total:
  assumes "wp m (\<lambda>a. wp d (\<lambda>_. Q a) never) never w"
  shows "wp (finally_do m d) Q never w"
  unfolding wp_finally by (rule wp_mono [OF assms]) simp_all

text \<open>From total correctness to the run itself.\<close>

lemma wp_never_returns:
  assumes "wp m Q never w"
  shows "\<exists>a w'. m w = (Inr a, w') \<and> Q a w'"
  using assms by (auto simp: wp_def split: prod.splits sum.splits)

lemma wp_returns_iff: "wp m Q never w \<longleftrightarrow> (\<exists>a w'. m w = (Inr a, w') \<and> Q a w')"
  by (auto simp: wp_def split: prod.splits sum.splits)

lemma wp_run:
  assumes "wp m Q E w" and "m w = (Inr a, w')"
  shows "Q a w'"
  using assms by (simp add: wp_def)

lemma wp_until_nonzero_inv:
  assumes "\<And>x v. x \<in> set xs \<Longrightarrow> I v \<Longrightarrow> wp (f x) (\<lambda>_. I) E v" and "I w"
  shows "wp (until_nonzero f xs) (\<lambda>_. I) E w"
  using assms
proof (induction xs arbitrary: w)
  case Nil
  then show ?case by (simp add: wp_simps)
next
  case (Cons x xs)
  have rest: "I v \<Longrightarrow> wp (until_nonzero f xs) (\<lambda>_. I) E v" for v
    by (rule Cons.IH) (use Cons.prems(1) in auto)
  have "wp (f x) (\<lambda>_. I) E w" using Cons.prems by simp
  then show ?case
    by (simp add: wp_simps) (erule wp_mono, auto simp: wp_simps intro: rest)
qed

lemma wp_for_each_inv:
  assumes "\<And>x v. x \<in> set xs \<Longrightarrow> I v \<Longrightarrow> wp (f x) (\<lambda>_. I) E v" and "I w"
  shows "wp (for_each f xs) (\<lambda>_. I) E w"
  using assms
proof (induction xs arbitrary: w)
  case Nil
  then show ?case by (simp add: wp_simps)
next
  case (Cons x xs)
  have rest: "I v \<Longrightarrow> wp (for_each f xs) (\<lambda>_. I) E v" for v
    by (rule Cons.IH) (use Cons.prems(1) in auto)
  have "wp (f x) (\<lambda>_. I) E w" using Cons.prems by simp
  then show ?case by (simp add: wp_simps) (erule wp_mono, auto intro: rest)
qed

section \<open>Ordered maps\<close>

text \<open>
  \<^verbatim>\<open>std::map\<close> as a list of key/value pairs in strictly increasing key order, so that
  iteration visits the keys in the order the C++ iterators do. \<^verbatim>\<open>insert\<close> leaves an
  existing entry alone and reports whether it inserted.
\<close>

definition om_inv :: "('k::linorder \<times> 'v) list \<Rightarrow> bool" where
  "om_inv m \<longleftrightarrow> sorted_wrt (<) (map fst m)"

definition om_find :: "'k \<Rightarrow> ('k \<times> 'v) list \<Rightarrow> 'v option" where
  "om_find k m = map_of m k"

fun om_put :: "'k::linorder \<Rightarrow> 'v \<Rightarrow> ('k \<times> 'v) list \<Rightarrow> ('k \<times> 'v) list" where
  "om_put k v [] = [(k, v)]"
| "om_put k v ((j, u) # m) =
     (if k < j then (k, v) # (j, u) # m
      else if k = j then (k, v) # m
      else (j, u) # om_put k v m)"

definition om_insert :: "'k::linorder \<Rightarrow> 'v \<Rightarrow> ('k \<times> 'v) list \<Rightarrow> ('k \<times> 'v) list \<times> bool" where
  "om_insert k v m = (case om_find k m of Some _ \<Rightarrow> (m, False) | None \<Rightarrow> (om_put k v m, True))"

definition om_erase :: "'k \<Rightarrow> ('k \<times> 'v) list \<Rightarrow> ('k \<times> 'v) list" where
  "om_erase k m = filter (\<lambda>p. fst p \<noteq> k) m"

lemma om_find_put: "om_find j (om_put k v m) = (if j = k then Some v else om_find j m)"
  by (induction k v m rule: om_put.induct) (auto simp: om_find_def)

lemma om_put_keys: "fst ` set (om_put k v m) = insert k (fst ` set m)"
  by (induction k v m rule: om_put.induct) auto

lemma om_inv_put: "om_inv m \<Longrightarrow> om_inv (om_put k v m)"
proof (induction k v m rule: om_put.induct)
  case (1 k v)
  then show ?case by (simp add: om_inv_def)
next
  case (2 k v j u m)
  have keys: "\<And>x. x \<in> set (om_put k v m) \<Longrightarrow> fst x = k \<or> fst x \<in> fst ` set m"
    using om_put_keys [of k v m] by (metis imageI insertE)
  show ?case
    using 2 keys by (fastforce simp: om_inv_def)
qed

lemma om_inv_erase: "om_inv m \<Longrightarrow> om_inv (om_erase k m)"
  by (induction m) (auto simp: om_inv_def om_erase_def)

lemma om_find_erase: "om_find j (om_erase k m) = (if j = k then None else om_find j m)"
  by (induction m) (auto simp: om_find_def om_erase_def)

text \<open>The contract of an ordered map, and what its clients may conclude from it.\<close>

locale std_map =
  fixes empty_map :: "'m"
    and find :: "'k \<Rightarrow> 'm \<Rightarrow> 'v option"
    and insert_new :: "'k \<Rightarrow> 'v \<Rightarrow> 'm \<Rightarrow> 'm \<times> bool"
    and erase :: "'k \<Rightarrow> 'm \<Rightarrow> 'm"
    and invar :: "'m \<Rightarrow> bool"
  assumes find_empty: "find k empty_map = None"
    and insert_absent: "find k m = None \<Longrightarrow>
       snd (insert_new k v m) \<and> find j (fst (insert_new k v m)) = (if j = k then Some v else find j m)"
    and insert_present: "find k m = Some u \<Longrightarrow> insert_new k v m = (m, False)"
    and find_erase: "find j (erase k m) = (if j = k then None else find j m)"
    and invar_empty: "invar empty_map"
    and invar_insert: "invar m \<Longrightarrow> invar (fst (insert_new k v m))"
    and invar_erase: "invar m \<Longrightarrow> invar (erase k m)"
begin

lemma inserted_iff: "snd (insert_new k v m) \<longleftrightarrow> find k m = None"
  by (cases "find k m") (simp_all add: insert_absent insert_present)

lemma find_insert:
  "find j (fst (insert_new k v m)) =
     (if j = k then (case find k m of None \<Rightarrow> Some v | Some u \<Rightarrow> Some u) else find j m)"
  by (cases "find k m") (simp_all add: insert_absent insert_present)

lemma insert_keeps_others: "j \<noteq> k \<Longrightarrow> find j (fst (insert_new k v m)) = find j m"
  by (simp add: find_insert)

lemma erase_undoes_insert:
  "find k m = None \<Longrightarrow> find j (erase k (fst (insert_new k v m))) = find j m"
  by (simp add: find_erase find_insert)

lemma insert_after_erase: "find k (fst (insert_new k v (erase k m))) = Some v"
  by (simp add: find_insert find_erase)

end

interpretation om: std_map "[]" om_find om_insert om_erase om_inv
proof
  show "om_find k [] = None" for k :: 'a
    by (simp add: om_find_def)
  show "snd (om_insert k v m) \<and>
      om_find j (fst (om_insert k v m)) = (if j = k then Some v else om_find j m)"
    if "om_find k m = None" for k j :: 'a and v :: 'b and m
    using that by (simp add: om_insert_def om_find_put)
  show "om_insert k v m = (m, False)" if "om_find k m = Some u" for k :: 'a and u v :: 'b and m
    using that by (simp add: om_insert_def)
  show "om_find j (om_erase k m) = (if j = k then None else om_find j m)"
    for j k :: 'a and m :: "('a \<times> 'b) list"
    by (rule om_find_erase)
  show "om_inv []" by (simp add: om_inv_def)
  show "om_inv (fst (om_insert k v m))" if "om_inv m" for k :: 'a and v :: 'b and m
    using that by (simp add: om_insert_def om_inv_put split: option.split)
  show "om_inv (om_erase k m)" if "om_inv m" for k :: 'a and m :: "('a \<times> 'b) list"
    using that by (rule om_inv_erase)
qed

lemma om_find_Some_in: "om_find k m = Some v \<Longrightarrow> (k, v) \<in> set m"
  by (simp add: om_find_def map_of_SomeD)

lemma om_find_iff: "om_inv m \<Longrightarrow> (k, v) \<in> set m \<longleftrightarrow> om_find k m = Some v"
  unfolding om_inv_def om_find_def by (metis distinct_map map_of_eq_Some_iff strict_sorted_iff)

lemma om_find_None_iff: "om_find k m = None \<longleftrightarrow> k \<notin> fst ` set m"
  by (simp add: om_find_def map_of_eq_None_iff)

section \<open>Bounded histories\<close>

text \<open>
  The state histories kept for troubleshooting: push the old state at the end, and drop the
  oldest entry once the list has grown to the limit.
\<close>

definition push_history :: "(nat \<Rightarrow> bool) \<Rightarrow> 's \<Rightarrow> 's list \<Rightarrow> 's list" where
  "push_history over s h = (let h' = h @ [s] in if over (length h') then tl h' else h')"

text \<open>
  The contract of such a history: each new entry goes to the end, at most the oldest one is
  dropped, and a full history drops one. A path of a state machine stays one, and the history stays
  bounded.
\<close>

lemma successively_tl: "successively P xs \<Longrightarrow> successively P (tl xs)"
  by (cases xs) (auto simp: successively_Cons)

locale state_log =
  fixes log_state :: "'s \<Rightarrow> 's list \<Rightarrow> 's list"
  assumes logged: "log_state s h = h @ [s] \<or> log_state s h = tl (h @ [s])"
begin

lemma path_extended:
  assumes "successively P (h @ [s])" and "P s n"
  shows "successively P (log_state s h @ [n])"
proof -
  have path: "successively P (h @ [s, n])"
    using assms by (auto simp: successively_append_iff)
  show ?thesis
    using logged [of s h]
  proof
    assume "log_state s h = tl (h @ [s])"
    then show ?thesis using successively_tl [OF path] by (cases h) auto
  qed (use path in simp)
qed

end

locale bounded_log = state_log log_state
  for log_state :: "'s \<Rightarrow> 's list \<Rightarrow> 's list" +
  fixes limit :: nat
  assumes full: "length h = limit \<Longrightarrow> log_state s h = tl (h @ [s])"
begin

lemma length_logged: "length h \<le> limit \<Longrightarrow> length (log_state s h) \<le> limit"
  using logged [of s h] full [of h s] by (cases "length h = limit") auto

end

lemma bounded_log_push_history:
  assumes "over (Suc n)"
  shows "bounded_log (push_history over) n"
  using assms by unfold_locales (auto simp: push_history_def Let_def)

end
