(* ===== verification/Keeps.thy ===== *)
theory Keeps
  imports Wsrep_Prelude
begin

text \<open>
  Commands that keep a predicate of the state, whether they return or stop with an exception,
  and the rules that derive this for a compound command from its parts.
\<close>

named_theorems keeps_intro "rules that break up \<open>keeps\<close> goals"

definition keeps :: "('w \<Rightarrow> bool) \<Rightarrow> ('w, 'a) cmd \<Rightarrow> bool" where
  "keeps I m \<longleftrightarrow> (\<forall>w. I w \<longrightarrow> wp m (\<lambda>_. I) (\<lambda>_. I) w)"

lemma keepsI: "(\<And>w. I w \<Longrightarrow> wp m (\<lambda>_. I) (\<lambda>_. I) w) \<Longrightarrow> keeps I m"
  by (simp add: keeps_def)

lemma keepsD: "keeps I m \<Longrightarrow> I w \<Longrightarrow> wp m (\<lambda>_. I) (\<lambda>_. I) w"
  by (simp add: keeps_def)

lemma keeps_run: "keeps I m \<Longrightarrow> I w \<Longrightarrow> m w = (r, w') \<Longrightarrow> I w'"
  by (cases r) (auto simp: keeps_def wp_def)

lemma keeps_return [keeps_intro]: "keeps I (return a)"
  by (simp add: keeps_def wp_simps)

lemma keeps_throw [keeps_intro]: "keeps I (throw e)"
  by (simp add: keeps_def wp_simps)

lemma keeps_skip [keeps_intro]: "keeps I skip"
  by (simp add: keeps_def wp_simps)

lemma keeps_modify: "(\<And>w. I w \<Longrightarrow> I (f w)) \<Longrightarrow> keeps I (modify f)"
  by (simp add: keeps_def wp_simps)

lemma keeps_bind [keeps_intro]:
  assumes "keeps I m" and "\<And>a. keeps I (k a)"
  shows "keeps I (bind m k)"
proof (rule keepsI)
  fix w assume "I w"
  then have "wp m (\<lambda>_. I) (\<lambda>_. I) w" using assms(1) by (simp add: keeps_def)
  then show "wp (bind m k) (\<lambda>_. I) (\<lambda>_. I) w"
    unfolding wp_bind by (rule wp_mono) (use assms(2) in \<open>simp_all add: keeps_def\<close>)
qed

lemma keeps_seq [keeps_intro]: "keeps I m \<Longrightarrow> keeps I n \<Longrightarrow> keeps I (seq m n)"
  by (simp add: seq_def keeps_bind)

lemma keeps_block_Nil [keeps_intro]: "keeps I (block [])"
  by (simp add: keeps_skip)

lemma keeps_block_Cons [keeps_intro]: "keeps I m \<Longrightarrow> keeps I (block ms) \<Longrightarrow> keeps I (block (m # ms))"
  by (simp add: keeps_seq)

lemma keeps_inspect [keeps_intro]: "(\<And>v. keeps I (b v)) \<Longrightarrow> keeps I (inspect b)"
  by (simp add: keeps_def wp_simps)

lemma keeps_fetch [keeps_intro]: "(\<And>x. keeps I (k x)) \<Longrightarrow> keeps I (fetch f k)"
  by (simp add: keeps_def wp_simps)

lemma keeps_only_if [keeps_intro]: "(b \<Longrightarrow> keeps I m) \<Longrightarrow> keeps I (only_if b m)"
  by (simp add: keeps_def wp_simps)

lemma keeps_when_st [keeps_intro]: "keeps I m \<Longrightarrow> keeps I (when_st P m)"
  by (simp add: keeps_def wp_simps)

lemma keeps_branch [keeps_intro]: "keeps I m \<Longrightarrow> keeps I n \<Longrightarrow> keeps I (branch P m n)"
  by (simp add: keeps_def wp_simps)

lemma keeps_if [keeps_intro]: "(b \<Longrightarrow> keeps I m) \<Longrightarrow> (\<not> b \<Longrightarrow> keeps I n) \<Longrightarrow> keeps I (if b then m else n)"
  by simp

lemma keeps_Let [keeps_intro]: "(\<And>x. keeps I (k x)) \<Longrightarrow> keeps I (Let v k)"
  by (simp add: Let_def)

lemma keeps_assert [keeps_intro]: "keeps I (assert_that d msg P)"
  by (simp add: keeps_def wp_simps)

lemma keeps_finally [keeps_intro]:
  assumes "keeps I m" and "keeps I d"
  shows "keeps I (finally_do m d)"
proof (rule keepsI)
  fix w assume "I w"
  then have "wp m (\<lambda>_. I) (\<lambda>_. I) w" using assms(1) by (simp add: keeps_def)
  then show "wp (finally_do m d) (\<lambda>_. I) (\<lambda>_. I) w"
    unfolding wp_finally by (rule wp_mono) (use assms(2) in \<open>simp_all add: keeps_def\<close>)
qed

lemma keeps_catch_all [keeps_intro]:
  assumes "keeps I m" and "keeps I h"
  shows "keeps I (catch_all m h)"
proof (rule keepsI)
  fix w assume "I w"
  then have "wp m (\<lambda>_. I) (\<lambda>_. I) w" using assms(1) by (simp add: keeps_def)
  then show "wp (catch_all m h) (\<lambda>_. I) (\<lambda>_. I) w"
    unfolding wp_catch_all by (rule wp_mono) (use assms(2) in \<open>simp_all add: keeps_def\<close>)
qed

lemma keeps_catch_runtime_error [keeps_intro]:
  assumes "keeps I m" and "\<And>s. keeps I (h s)"
  shows "keeps I (catch_runtime_error m h)"
proof (rule keepsI)
  fix w assume "I w"
  then have "wp m (\<lambda>_. I) (\<lambda>_. I) w" using assms(1) by (simp add: keeps_def)
  then show "wp (catch_runtime_error m h) (\<lambda>_. I) (\<lambda>_. I) w"
    unfolding wp_catch_runtime_error
    by (rule wp_mono) (use assms(2) in \<open>simp_all add: keeps_def split: exn.split\<close>)
qed

lemma keeps_or_else [keeps_intro]: "keeps I a \<Longrightarrow> keeps I b \<Longrightarrow> keeps I (or_else a b)"
  unfolding or_else_def by (intro keeps_intro)

lemma keeps_until_nonzero [keeps_intro]: "(\<And>x. keeps I (f x)) \<Longrightarrow> keeps I (until_nonzero f xs)"
  by (induction xs) (auto intro!: keeps_intro)

lemma keeps_for_each [keeps_intro]: "(\<And>x. keeps I (f x)) \<Longrightarrow> keeps I (for_each f xs)"
  by (induction xs) (auto intro!: keeps_intro)

lemma keeps_case_prod [keeps_intro]:
  "(\<And>a b. keeps I (f a b)) \<Longrightarrow> keeps I (case p of (a, b) \<Rightarrow> f a b)"
  by (simp add: split_beta)

lemma keeps_case_option [keeps_intro]:
  "keeps I m \<Longrightarrow> (\<And>a. keeps I (f a)) \<Longrightarrow> keeps I (case x of None \<Rightarrow> m | Some a \<Rightarrow> f a)"
  by (simp split: option.split)

lemma keeps_case_sum [keeps_intro]:
  "(\<And>a. keeps I (f a)) \<Longrightarrow> (\<And>a. keeps I (g a)) \<Longrightarrow> keeps I (case x of Inl a \<Rightarrow> f a | Inr a \<Rightarrow> g a)"
  by (simp split: sum.split)

end
