(* ===== verification/Identifiers.thy ===== *)
theory Identifiers
  imports Wsrep_Prelude
begin

text \<open>
  Identifiers: sequence numbers (\<^verbatim>\<open>seqno.hpp\<close>), UUID text (\<^verbatim>\<open>uuid.cpp\<close>), the
  16 byte identifier (\<^verbatim>\<open>id.hpp\<close>, \<^verbatim>\<open>id.cpp\<close>), global transaction
  identifiers (\<^verbatim>\<open>gtid.hpp\<close>, \<^verbatim>\<open>gtid.cpp\<close>), transaction and client
  identifiers, and XA identifiers (\<^verbatim>\<open>xid.hpp\<close>).

  Bytes are \<^typ>\<open>char\<close>s, read as unsigned numbers with \<^term>\<open>of_char\<close>. A sequence number is
  an unbounded \<^typ>\<open>int\<close>; \<open>ll_range\<close> is the range of \<^verbatim>\<open>long long\<close> where it matters.
\<close>

section \<open>Sequence numbers, transaction and client identifiers\<close>

type_synonym seqno = int

definition seqno_undefined :: seqno where
  "seqno_undefined = -1"

definition seqno_is_undefined :: "seqno \<Rightarrow> bool" where
  "seqno_is_undefined s \<longleftrightarrow> s = -1"

definition seqno_prev :: "seqno \<Rightarrow> seqno" where
  "seqno_prev s = s - 1"

definition ll_range :: "int \<Rightarrow> bool" where
  "ll_range s \<longleftrightarrow> - (2 ^ 63) \<le> s \<and> s < 2 ^ 63"

type_synonym transaction_id = u64
type_synonym client_id = u64

definition transaction_id_undefined :: transaction_id where
  "transaction_id_undefined = -1"

definition client_id_undefined :: client_id where
  "client_id_undefined = -1"

section \<open>UUID text\<close>

definition EINVAL :: int where
  "EINVAL = 22"

definition ENOBUFS :: int where
  "ENOBUFS = 105"

definition EMSGSIZE :: int where
  "EMSGSIZE = 90"

definition code :: "char \<Rightarrow> nat" where
  "code c = of_char c"

definition isdigit :: "char \<Rightarrow> bool" where
  "isdigit c \<longleftrightarrow> 48 \<le> code c \<and> code c \<le> 57"

definition isxdigit :: "char \<Rightarrow> bool" where
  "isxdigit c \<longleftrightarrow> isdigit c \<or> 97 \<le> code c \<and> code c \<le> 102 \<or> 65 \<le> code c \<and> code c \<le> 70"

definition isalnum :: "char \<Rightarrow> bool" where
  "isalnum c \<longleftrightarrow> isdigit c \<or> 97 \<le> code c \<and> code c \<le> 122 \<or> 65 \<le> code c \<and> code c \<le> 90"

definition isspace :: "char \<Rightarrow> bool" where
  "isspace c \<longleftrightarrow> code c = 32 \<or> 9 \<le> code c \<and> code c \<le> 13"

definition hex_value :: "char \<Rightarrow> nat" where
  "hex_value c = (if isdigit c then code c - 48
     else if 97 \<le> code c then code c - 87 else code c - 55)"

definition hex_digit :: "nat \<Rightarrow> char" where
  "hex_digit n = char_of (if n < 10 then 48 + n else 87 + n)"

text \<open>The printf conversion \<^verbatim>\<open>%02x\<close>.\<close>

definition hex_byte :: "char \<Rightarrow> string" where
  "hex_byte b = [hex_digit (code b div 16), hex_digit (code b mod 16)]"

definition uuid_initializer :: string where
  "uuid_initializer = replicate 16 (CHR 0x00)"

definition UUID_STR_LEN :: nat where
  "UUID_STR_LEN = 36"

text \<open>
  \<^verbatim>\<open>uuid_scan\<close>: the loop reads the string from offset \<open>len\<close>, of which \<open>str\<close> is what is
  left, with \<open>offt\<close> bytes already in \<open>acc\<close>. The test on \<open>offt\<close> is made in unsigned
  arithmetic, where \<open>0 - 2\<close> and \<open>1 - 2\<close> wrap around.
\<close>

fun uuid_scan_loop :: "string \<Rightarrow> nat \<Rightarrow> u32 \<Rightarrow> string \<Rightarrow> int \<times> string" where
  "uuid_scan_loop (c # d # cs) len offt acc =
     (if drop_bit 1 offt - 2 \<le> 3 \<and> c = CHR ''-'' then uuid_scan_loop (d # cs) (len + 1) offt acc
      else if isxdigit c \<and> isxdigit d then
        (let acc' = acc @ [char_of (16 * hex_value c + hex_value d)] in
         if offt + 1 = 16 then (int (len + 2), acc')
         else uuid_scan_loop cs (len + 2) (offt + 1) acc')
      else (- EINVAL, uuid_initializer))"
| "uuid_scan_loop str len offt acc = (- EINVAL, uuid_initializer)"

definition uuid_scan :: "string \<Rightarrow> int \<times> string" where
  "uuid_scan str = uuid_scan_loop str 0 0 []"

text \<open>\<^verbatim>\<open>uuid_print\<close>: the text it writes to a buffer of \<open>str_len\<close> bytes and what it returns.\<close>

definition uuid_text :: "string \<Rightarrow> string" where
  "uuid_text u =
     concat (map hex_byte (take 4 u)) @ ''-'' @ concat (map hex_byte (take 2 (drop 4 u))) @ ''-'' @
     concat (map hex_byte (take 2 (drop 6 u))) @ ''-'' @ concat (map hex_byte (take 2 (drop 8 u))) @
     ''-'' @ concat (map hex_byte (take 6 (drop 10 u)))"

definition uuid_print :: "string \<Rightarrow> nat \<Rightarrow> int \<times> string" where
  "uuid_print u str_len =
     (if str_len > UUID_STR_LEN then (int (length (uuid_text u)), uuid_text u) else (- EMSGSIZE, []))"

section \<open>The 16 byte identifier\<close>

type_synonym id = string

definition id_undefined :: id where
  "id_undefined = replicate 16 (CHR 0x00)"

definition id_is_undefined :: "id \<Rightarrow> bool" where
  "id_is_undefined i \<longleftrightarrow> i = id_undefined"

definition id_wf :: "id \<Rightarrow> bool" where
  "id_wf i \<longleftrightarrow> length i = 16"

definition pad16 :: "string \<Rightarrow> id" where
  "pad16 s = s @ replicate (16 - length s) (CHR 0x00)"

definition id_of_data :: "string \<Rightarrow> exn + id" where
  "id_of_data d = (if length d > 16 then Inl (Runtime_error ''Too long identifier'') else Inr (pad16 d))"

definition id_of_string :: "string \<Rightarrow> exn + id" where
  "id_of_string str =
     (if length str = UUID_STR_LEN \<and> fst (uuid_scan str) = int UUID_STR_LEN then Inr (snd (uuid_scan str))
      else if length str \<le> 16 then Inr (pad16 str)
      else Inl (Runtime_error (''String '' @ [CHR 0x27] @ str @ [CHR 0x27] @
                  '' does not contain UUID or is longer thatn 16 bytes'')))"

definition is_alphanumeric_string :: "string \<Rightarrow> bool" where
  "is_alphanumeric_string p =
     (case p of [] \<Rightarrow> False
      | c # _ \<Rightarrow> c \<noteq> CHR 0x00 \<and>
          (let rest = dropWhile isalnum p in rest \<noteq> [] \<and> list_all (\<lambda>c. c = CHR 0x00) rest))"

definition id_to_string :: "id \<Rightarrow> string" where
  "id_to_string i =
     (if is_alphanumeric_string i then takeWhile (\<lambda>c. c \<noteq> CHR 0x00) i else uuid_text i)"

section \<open>Global transaction identifiers\<close>

record gtid =
  gtid_id :: id
  gtid_seqno :: seqno

definition gtid_undefined :: gtid where
  "gtid_undefined = \<lparr>gtid_id = id_undefined, gtid_seqno = seqno_undefined\<rparr>"

definition gtid_is_undefined :: "gtid \<Rightarrow> bool" where
  "gtid_is_undefined g \<longleftrightarrow> seqno_is_undefined (gtid_seqno g) \<and> id_is_undefined (gtid_id g)"

text \<open>Decimal output and input of a \<^verbatim>\<open>long long\<close> through a C++ stream.\<close>

fun decimal :: "nat \<Rightarrow> string" where
  "decimal n = (if n < 10 then [char_of (48 + n)] else decimal (n div 10) @ [char_of (48 + n mod 10)])"

declare decimal.simps [simp del]

definition seqno_to_string :: "seqno \<Rightarrow> string" where
  "seqno_to_string s = (if s < 0 then CHR ''-'' # decimal (nat (- s)) else decimal (nat s))"

definition digits_value :: "string \<Rightarrow> nat" where
  "digits_value ds = foldl (\<lambda>n c. 10 * n + (code c - 48)) 0 ds"

text \<open>
  \<^verbatim>\<open>is >> seq\<close>: skip white space, take an optional sign and the digits that follow. No
  digits, or a value outside \<^verbatim>\<open>long long\<close>, sets failbit (\<^term>\<open>None\<close>). The result carries
  what is left of the stream.
\<close>

definition stream_read_ll :: "string \<Rightarrow> (int \<times> string) option" where
  "stream_read_ll str =
     (let s = dropWhile isspace str;
          neg = (s \<noteq> [] \<and> hd s = CHR ''-'');
          t = (if s \<noteq> [] \<and> (hd s = CHR ''-'' \<or> hd s = CHR ''+'') then tl s else s);
          ds = takeWhile isdigit t;
          v = (if neg then - int (digits_value ds) else int (digits_value ds))
      in if ds = [] \<or> \<not> ll_range v then None else Some (v, dropWhile isdigit t))"

definition gtid_to_string :: "gtid \<Rightarrow> string" where
  "gtid_to_string g = id_to_string (gtid_id g) @ '':'' @ seqno_to_string (gtid_seqno g)"

text \<open>
  \<^verbatim>\<open>operator>>\<close> for a GTID: the text up to the first colon is the identifier. Without a
  colon the stream is at its end when the number is read, which fails. \<^term>\<open>None\<close> is failbit;
  otherwise the GTID and what is left of the stream.
\<close>

definition gtid_read :: "string \<Rightarrow> (gtid \<times> string) option" where
  "gtid_read str =
     (let id_str = takeWhile (\<lambda>c. c \<noteq> CHR '':'') str;
          rest = dropWhile (\<lambda>c. c \<noteq> CHR '':'') str
      in if rest = [] then None
         else case stream_read_ll (tl rest) of None \<Rightarrow> None
           | Some (sq, left) \<Rightarrow>
              (case id_of_string id_str of Inl _ \<Rightarrow> None
               | Inr i \<Rightarrow> Some (\<lparr>gtid_id = i, gtid_seqno = sq\<rparr>, left)))"

definition gtid_scan_from_c_str :: "string \<Rightarrow> int \<times> gtid option" where
  "gtid_scan_from_c_str buf =
     (case gtid_read buf of None \<Rightarrow> (- EINVAL, None)
      | Some (g, left) \<Rightarrow>
          (if left = [] then (int (length buf), Some g)
           else (int (length buf - length left), Some g)))"

definition gtid_print_to_c_str :: "gtid \<Rightarrow> nat \<Rightarrow> int \<times> string" where
  "gtid_print_to_c_str g buf_len =
     (let s = gtid_to_string g in
      if length s > buf_len then (- ENOBUFS, []) else (int (length s), s))"

definition GTID_C_STR_LEN :: nat where
  "GTID_C_STR_LEN = 57"

section \<open>XA identifiers\<close>

record xid =
  xid_format_id :: int
  xid_gtrid_len :: int
  xid_bqual_len :: int
  xid_data :: string

definition xid_null :: xid where
  "xid_null = \<lparr>xid_format_id = -1, xid_gtrid_len = 0, xid_bqual_len = 0, xid_data = []\<rparr>"

definition xid_make :: "int \<Rightarrow> int \<Rightarrow> int \<Rightarrow> string \<Rightarrow> exn + xid" where
  "xid_make format_id gtrid_len bqual_len data =
     (if gtrid_len > 64 \<or> bqual_len > 64 then Inl (Runtime_error ''maximum wsrep::xid size exceeded'')
      else Inr \<lparr>xid_format_id = format_id, xid_gtrid_len = gtrid_len, xid_bqual_len = bqual_len,
                xid_data = (if gtrid_len + bqual_len > 0
                            then take (nat (gtrid_len + bqual_len)) data else [])\<rparr>)"

definition xid_is_null :: "xid \<Rightarrow> bool" where
  "xid_is_null x \<longleftrightarrow> xid_format_id x = -1"

definition xid_eq :: "xid \<Rightarrow> xid \<Rightarrow> bool" where
  "xid_eq a b =
     (if xid_format_id a \<noteq> xid_format_id b \<or> xid_gtrid_len a \<noteq> xid_gtrid_len b \<or>
         xid_bqual_len a \<noteq> xid_bqual_len b \<or> length (xid_data a) \<noteq> length (xid_data b)
      then False else xid_data a = xid_data b)"

definition xid_to_string :: "xid \<Rightarrow> string" where
  "xid_to_string x = xid_data x"

section \<open>Properties\<close>

subsection \<open>Hexadecimal bytes\<close>

lemma code_less: "code c < 256"
  unfolding code_def by (rule nat_of_char_less_256)

lemma char_of_code: "char_of (code c) = c"
  by (simp add: code_def)

lemma code_char_of: "n < 256 \<Longrightarrow> code (char_of n) = n"
  by (simp add: code_def)

lemma hex_digit_props:
  assumes "n < 16"
  shows "isxdigit (hex_digit n)" "hex_value (hex_digit n) = n" "hex_digit n \<noteq> CHR ''-''"
proof -
  have c: "code (hex_digit n) = (if n < 10 then 48 + n else 87 + n)"
    using assms by (simp add: hex_digit_def code_char_of)
  show "isxdigit (hex_digit n)" using assms c by (auto simp: isxdigit_def isdigit_def)
  show "hex_value (hex_digit n) = n" using assms c by (auto simp: hex_value_def isdigit_def)
  have d: "code (CHR ''-'') = 45" by (simp add: code_def)
  have "code (hex_digit n) \<noteq> 45" using c by simp
  with d show "hex_digit n \<noteq> CHR ''-''" by metis
qed

lemma hex_value_bytes:
  "char_of (16 * hex_value (hex_digit (code b div 16)) + hex_value (hex_digit (code b mod 16))) = b"
proof -
  have "code b div 16 < 16" "code b mod 16 < 16" using code_less [of b] by auto
  then show ?thesis by (simp add: hex_digit_props(2) char_of_code)
qed

lemma uuid_scan_byte:
  "uuid_scan_loop (hex_byte b @ cs) len offt acc =
     (if offt + 1 = 16 then (int (len + 2), acc @ [b])
      else uuid_scan_loop cs (len + 2) (offt + 1) (acc @ [b]))"
proof -
  have lt: "code b div 16 < 16" "code b mod 16 < 16" using code_less [of b] by auto
  show ?thesis
    by (simp add: hex_byte_def hex_digit_props [OF lt(1)] hex_digit_props [OF lt(2)] Let_def
        char_of_code)
qed

lemma uuid_scan_dash:
  assumes "drop_bit 1 offt - 2 \<le> 3"
  shows "uuid_scan_loop (CHR ''-'' # hex_byte b @ cs) len offt acc =
     uuid_scan_loop (hex_byte b @ cs) (len + 1) offt acc"
  using assms by (simp add: hex_byte_def)

lemma length16E:
  assumes "length (xs :: 'a list) = 16"
  obtains a0 a1 a2 a3 a4 a5 a6 a7 a8 a9 b0 b1 b2 b3 b4 b5
  where "xs = [a0, a1, a2, a3, a4, a5, a6, a7, a8, a9, b0, b1, b2, b3, b4, b5]"
proof -
  have "length xs = Suc (Suc (Suc (Suc (Suc (Suc (Suc (Suc (Suc (Suc (Suc (Suc (Suc (Suc (Suc (Suc 0)))))))))))))))"
    using assms by simp
  then show ?thesis
    by (simp only: length_Suc_conv length_0_conv) (elim exE conjE, simp add: that)
qed

lemma uuid_text_length: "length u = 16 \<Longrightarrow> length (uuid_text u) = 36"
  by (erule length16E) (simp add: uuid_text_def hex_byte_def)

lemma uuid_scan_text:
  assumes "length u = 16"
  shows "uuid_scan (uuid_text u) = (36, u)"
  using assms
proof (rule length16E)
  fix a0 a1 a2 a3 a4 a5 a6 a7 a8 a9 b0 b1 b2 b3 b4 b5
  assume u: "u = [a0, a1, a2, a3, a4, a5, a6, a7, a8, a9, b0, b1, b2, b3, b4, b5]"
  have last: "uuid_scan_loop (hex_byte b5) len 15 acc = (int (len + 2), acc @ [b5])" for len acc
    using uuid_scan_byte [of b5 "[]" len 15 acc] by simp
  show ?thesis
    by (simp add: u uuid_scan_def uuid_text_def uuid_scan_byte uuid_scan_dash last
        del: uuid_scan_loop.simps)
qed

subsection \<open>Identifiers\<close>

lemma alphanumeric_parts:
  assumes "is_alphanumeric_string i"
  shows "dropWhile isalnum i \<noteq> []"
    and "dropWhile isalnum i = replicate (length (dropWhile isalnum i)) (CHR 0x00)"
    and "takeWhile (\<lambda>c. c \<noteq> CHR 0x00) i = takeWhile isalnum i"
proof -
  let ?a = "takeWhile isalnum i" and ?r = "dropWhile isalnum i"
  have nz: "isalnum c \<Longrightarrow> c \<noteq> CHR 0x00" for c
    by (auto simp: isalnum_def isdigit_def code_def)
  show r: "?r \<noteq> []"
    using assms by (auto simp: is_alphanumeric_string_def Let_def split: list.splits)
  have "list_all (\<lambda>c. c = CHR 0x00) ?r"
    using assms by (auto simp: is_alphanumeric_string_def Let_def split: list.splits)
  then show rep: "?r = replicate (length ?r) (CHR 0x00)"
    by (simp add: list_all_iff replicate_length_same)
  have all: "\<forall>c\<in>set ?a. c \<noteq> CHR 0x00"
    using nz by (auto dest: set_takeWhileD)
  have "takeWhile (\<lambda>c. c \<noteq> CHR 0x00) (?a @ ?r) = ?a"
    using all rep r by (subst rep) (cases ?r, auto simp: takeWhile_append)
  then show "takeWhile (\<lambda>c. c \<noteq> CHR 0x00) i = takeWhile isalnum i" by simp
qed

lemma pad16_takeWhile:
  assumes "length i = 16" and "is_alphanumeric_string i"
  shows "pad16 (takeWhile (\<lambda>c. c \<noteq> CHR 0x00) i) = i" and
    "length (takeWhile (\<lambda>c. c \<noteq> CHR 0x00) i) < 16"
proof -
  note parts = alphanumeric_parts [OF assms(2)]
  have len: "length (takeWhile isalnum i) + length (dropWhile isalnum i) = 16"
    using assms(1) by (metis length_append takeWhile_dropWhile_id)
  have "0 < length (dropWhile isalnum i)"
    using parts(1) by (simp only: length_greater_0_conv not_False_eq_True)
  then have "length (takeWhile isalnum i) < 16" using len by linarith
  then show "length (takeWhile (\<lambda>c. c \<noteq> CHR 0x00) i) < 16" by (simp only: parts(3))
  have "16 - length (takeWhile isalnum i) = length (dropWhile isalnum i)" using len by linarith
  then have "pad16 (takeWhile isalnum i) = takeWhile isalnum i @ dropWhile isalnum i"
    using parts(2) by (simp only: pad16_def)
  then show "pad16 (takeWhile (\<lambda>c. c \<noteq> CHR 0x00) i) = i" by (simp add: parts(3))
qed

lemma id_string_roundtrip: "id_wf i \<Longrightarrow> id_of_string (id_to_string i) = Inr i"
  unfolding id_wf_def
  using pad16_takeWhile [of i]
  by (cases "is_alphanumeric_string i")
     (auto simp: id_to_string_def id_of_string_def UUID_STR_LEN_def uuid_scan_text uuid_text_length)

lemma id_of_string_wf:
  assumes "id_of_string s = Inr i" and "length s \<le> 16 \<or> length (snd (uuid_scan s)) = 16"
  shows "id_wf i"
  using assms by (auto simp: id_of_string_def id_wf_def pad16_def UUID_STR_LEN_def split: if_splits)

lemma id_to_string_length: "id_wf i \<Longrightarrow> length (id_to_string i) \<le> 36"
  using pad16_takeWhile(2) [of i]
  by (auto simp: id_to_string_def id_wf_def uuid_text_length)

lemma hex_digit_no_colon: "n < 16 \<Longrightarrow> hex_digit n \<noteq> CHR '':''"
proof -
  assume "n < 16"
  then have "code (hex_digit n) \<noteq> 58" by (auto simp: hex_digit_def code_char_of)
  moreover have "code (CHR '':'') = 58" by (simp add: code_def)
  ultimately show ?thesis by metis
qed

lemma hex_byte_no_colon: "CHR '':'' \<notin> set (hex_byte b)"
proof -
  have "code b div 16 < 16" "code b mod 16 < 16" using code_less [of b] by auto
  from this [THEN hex_digit_no_colon] show ?thesis by (auto simp: hex_byte_def)
qed

lemma id_to_string_no_colon: "id_wf i \<Longrightarrow> CHR '':'' \<notin> set (id_to_string i)"
proof (cases "is_alphanumeric_string i")
  case True
  have "\<not> isalnum (CHR '':'')" by (simp add: isalnum_def isdigit_def code_def)
  then have "CHR '':'' \<notin> set (takeWhile isalnum i)" by (auto dest: set_takeWhileD)
  with True show ?thesis by (simp add: id_to_string_def alphanumeric_parts(3))
next
  case False
  then show ?thesis using hex_byte_no_colon by (auto simp: id_to_string_def uuid_text_def)
qed

subsection \<open>Decimal numbers and GTIDs\<close>

lemma code_digit: "d < 10 \<Longrightarrow> code (char_of (48 + d)) = 48 + d"
  by (rule code_char_of) simp

lemma decimal_digits: "\<forall>c\<in>set (decimal n). isdigit c"
proof (induction n rule: decimal.induct)
  case (1 n)
  have "isdigit (char_of (48 + n mod 10))" and "n < 10 \<Longrightarrow> isdigit (char_of (48 + n))"
    using code_digit [of "n mod 10"] code_digit [of n] by (simp_all add: isdigit_def)
  with 1 show ?case by (subst decimal.simps) auto
qed

lemma decimal_nonempty: "decimal n \<noteq> []"
  by (subst decimal.simps) simp

lemma digits_value_snoc: "digits_value (ds @ [c]) = 10 * digits_value ds + (code c - 48)"
  by (simp add: digits_value_def)

lemma digits_value_decimal: "digits_value (decimal n) = n"
proof (induction n rule: decimal.induct)
  case (1 n)
  show ?case
  proof (cases "n < 10")
    case True
    then have "code (char_of (48 + n)) = 48 + n" by (rule code_digit)
    with True show ?thesis by (subst decimal.simps) (simp add: digits_value_def)
  next
    case False
    have "code (char_of (48 + n mod 10)) = 48 + n mod 10" by (rule code_digit) simp
    with False 1 show ?thesis by (subst decimal.simps) (simp add: digits_value_snoc)
  qed
qed

lemma decimal_length: "0 < k \<Longrightarrow> n < 10 ^ k \<Longrightarrow> length (decimal n) \<le> k"
proof (induction n arbitrary: k rule: decimal.induct)
  case (1 n)
  show ?case
  proof (cases "n < 10")
    case True
    with 1 show ?thesis by (subst decimal.simps) simp
  next
    case False
    with 1 have "k \<noteq> 1" by auto
    with "1.prems" obtain j where k: "k = Suc j" "0 < j" by (cases k) auto
    with "1.prems" have "n div 10 < 10 ^ j" by (simp add: less_mult_imp_div_less mult.commute)
    with False k 1 have "length (decimal (n div 10)) \<le> j" by blast
    with False k show ?thesis by (subst decimal.simps) simp
  qed
qed

lemma digit_not_space_sign:
  assumes "isdigit c"
  shows "\<not> isspace c" "c \<noteq> CHR ''-''" "c \<noteq> CHR ''+''"
  using assms by (auto simp: isdigit_def isspace_def code_def)

lemma takeWhile_decimal:
  "takeWhile isdigit (decimal n) = decimal n" "dropWhile isdigit (decimal n) = []"
  using decimal_digits [of n] by (simp_all add: takeWhile_eq_all_conv)

lemma stream_read_seqno:
  assumes "ll_range v"
  shows "stream_read_ll (seqno_to_string v) = Some (v, [])"
proof (cases "v < 0")
  case True
  have "\<not> isspace (CHR ''-'')" by (simp add: isspace_def code_def)
  with True assms show ?thesis
    by (simp add: stream_read_ll_def seqno_to_string_def Let_def takeWhile_decimal
        decimal_nonempty digits_value_decimal)
next
  case False
  obtain c cs where dec: "decimal (nat v) = c # cs"
    using decimal_nonempty [of "nat v"] by (cases "decimal (nat v)") auto
  then have "isdigit c" using decimal_digits [of "nat v"] by simp
  note digit_not_space_sign [OF this]
  with False assms dec show ?thesis
    using takeWhile_decimal [of "nat v"] digits_value_decimal [of "nat v"]
    by (simp add: stream_read_ll_def seqno_to_string_def Let_def)
qed

lemma gtid_read_to_string:
  assumes "id_wf (gtid_id g)" and "ll_range (gtid_seqno g)"
  shows "gtid_read (gtid_to_string g) = Some (g, [])"
proof -
  let ?i = "id_to_string (gtid_id g)"
  have nc: "\<forall>c\<in>set ?i. c \<noteq> CHR '':''" using id_to_string_no_colon [OF assms(1)] by auto
  have tw: "takeWhile (\<lambda>c. c \<noteq> CHR '':'') (?i @ CHR '':'' # r) = ?i"
    and dw: "dropWhile (\<lambda>c. c \<noteq> CHR '':'') (?i @ CHR '':'' # r) = CHR '':'' # r" for r
    using nc by (simp_all add: takeWhile_append dropWhile_append)
  show ?thesis
    by (simp add: gtid_read_def gtid_to_string_def tw dw stream_read_seqno [OF assms(2)]
        id_string_roundtrip [OF assms(1)])
qed

lemma seqno_to_string_length: "ll_range v \<Longrightarrow> length (seqno_to_string v) \<le> 20"
proof -
  assume "ll_range v"
  then have "nat \<bar>v\<bar> < 10 ^ 19" by (auto simp: ll_range_def)
  then have "length (decimal (nat \<bar>v\<bar>)) \<le> 19" by (intro decimal_length) auto
  then show ?thesis by (cases "v < 0") (simp_all add: seqno_to_string_def)
qed

lemma gtid_to_string_length:
  "id_wf (gtid_id g) \<Longrightarrow> ll_range (gtid_seqno g) \<Longrightarrow> length (gtid_to_string g) \<le> GTID_C_STR_LEN"
  using id_to_string_length [of "gtid_id g"] seqno_to_string_length [of "gtid_seqno g"]
  by (simp add: gtid_to_string_def GTID_C_STR_LEN_def)

end
