(* ===== verification/Provider_Types.thy ===== *)
theory Provider_Types
  imports Identifiers
begin

text \<open>
  The data of the provider interface (\<^verbatim>\<open>provider.hpp\<close>, \<^verbatim>\<open>provider.cpp\<close>): status
  codes, write set flags and capabilities, write set handles and meta data; certification
  keys and the key set of streaming transactions (\<^verbatim>\<open>key.hpp\<close>, \<^verbatim>\<open>sr_key_set.cpp\<close>);
  cluster views (\<^verbatim>\<open>view.hpp\<close>, \<^verbatim>\<open>view.cpp\<close>).

  Flags are C++ \<^verbatim>\<open>int\<close>s used as bit sets, hence 32 bit words.
\<close>

section \<open>Status codes\<close>

datatype status = success | error_warning | error_transaction_missing
  | error_certification_failed | error_bf_abort | error_size_exceeded | error_connection_failed
  | error_provider_failed | error_fatal | error_not_implemented | error_not_allowed | error_unknown

fun status_int :: "status \<Rightarrow> int" where
  "status_int success = 0"
| "status_int error_warning = 1"
| "status_int error_transaction_missing = 2"
| "status_int error_certification_failed = 3"
| "status_int error_bf_abort = 4"
| "status_int error_size_exceeded = 5"
| "status_int error_connection_failed = 6"
| "status_int error_provider_failed = 7"
| "status_int error_fatal = 8"
| "status_int error_not_implemented = 9"
| "status_int error_not_allowed = 10"
| "status_int error_unknown = 11"

lemma status_int_0 [simp]: "status_int s = 0 \<longleftrightarrow> s = success"
  by (cases s) auto

fun status_to_string :: "status \<Rightarrow> string" where
  "status_to_string success = ''Success''"
| "status_to_string error_warning = ''Warning''"
| "status_to_string error_transaction_missing = ''Transaction not registered with provider''"
| "status_to_string error_certification_failed = ''Certification failed''"
| "status_to_string error_bf_abort = ''Transaction was BF aborted''"
| "status_to_string error_size_exceeded = ''Transaction size exceeded''"
| "status_to_string error_connection_failed = ''Not connected to Primary Component''"
| "status_to_string error_provider_failed = ''Provider in bad state, needs to be reinitialized.''"
| "status_to_string error_fatal = ''Fatal error, must abort.''"
| "status_to_string error_not_implemented = ''Function not implemented''"
| "status_to_string error_not_allowed = ''Operation not allowed''"
| "status_to_string error_unknown = ''Unknown error''"

section \<open>Flags and capabilities\<close>

definition flag_start_transaction :: u32 where "flag_start_transaction = push_bit 0 1"
definition flag_commit :: u32 where "flag_commit = push_bit 1 1"
definition flag_rollback :: u32 where "flag_rollback = push_bit 2 1"
definition flag_isolation :: u32 where "flag_isolation = push_bit 3 1"
definition flag_pa_unsafe :: u32 where "flag_pa_unsafe = push_bit 4 1"
definition flag_commutative :: u32 where "flag_commutative = push_bit 5 1"
definition flag_native :: u32 where "flag_native = push_bit 6 1"
definition flag_prepare :: u32 where "flag_prepare = push_bit 7 1"
definition flag_snapshot :: u32 where "flag_snapshot = push_bit 8 1"
definition flag_implicit_deps :: u32 where "flag_implicit_deps = push_bit 9 1"

lemmas flag_defs = flag_start_transaction_def flag_commit_def flag_rollback_def flag_isolation_def
  flag_pa_unsafe_def flag_commutative_def flag_native_def flag_prepare_def flag_snapshot_def
  flag_implicit_deps_def

definition starts_transaction :: "u32 \<Rightarrow> bool" where
  "starts_transaction flags \<longleftrightarrow> flags AND flag_start_transaction \<noteq> 0"

definition commits_transaction :: "u32 \<Rightarrow> bool" where
  "commits_transaction flags \<longleftrightarrow> flags AND flag_commit \<noteq> 0"

definition rolls_back_transaction :: "u32 \<Rightarrow> bool" where
  "rolls_back_transaction flags \<longleftrightarrow> flags AND flag_rollback \<noteq> 0"

definition prepares_transaction :: "u32 \<Rightarrow> bool" where
  "prepares_transaction flags \<longleftrightarrow> flags AND flag_prepare \<noteq> 0"

definition is_toi :: "u32 \<Rightarrow> bool" where
  "is_toi flags \<longleftrightarrow> flags AND flag_isolation \<noteq> 0"

definition is_commutative :: "u32 \<Rightarrow> bool" where
  "is_commutative flags \<longleftrightarrow> flags AND flag_commutative \<noteq> 0"

definition is_native :: "u32 \<Rightarrow> bool" where
  "is_native flags \<longleftrightarrow> flags AND flag_native \<noteq> 0"

text \<open>\<^verbatim>\<open>flags_to_string\<close>: the names of the set flags, joined by \<open>" | "\<close>.\<close>

definition drop_end :: "nat \<Rightarrow> string \<Rightarrow> string" where
  "drop_end n s = (if length s > n then take (length s - n) s else s)"

definition flags_to_string :: "u32 \<Rightarrow> string" where
  "flags_to_string flags = drop_end 3
    ((if flags AND flag_start_transaction \<noteq> 0 then ''start_transaction | '' else []) @
     (if flags AND flag_commit \<noteq> 0 then ''commit | '' else []) @
     (if flags AND flag_rollback \<noteq> 0 then ''rollback | '' else []) @
     (if flags AND flag_isolation \<noteq> 0 then ''isolation | '' else []) @
     (if flags AND flag_pa_unsafe \<noteq> 0 then ''pa_unsafe | '' else []) @
     (if flags AND flag_prepare \<noteq> 0 then ''prepare | '' else []) @
     (if flags AND flag_snapshot \<noteq> 0 then ''read_view | '' else []) @
     (if flags AND flag_implicit_deps \<noteq> 0 then ''implicit_deps | '' else []))"

definition capabilities :: "(u32 \<times> string) list" where
  "capabilities =
    [(push_bit 0 1, ''MULTI-MASTER''), (push_bit 1 1, ''CERTIFICATION''),
     (push_bit 2 1, ''PARALLEL_APPLYING''), (push_bit 3 1, ''REPLAY''), (push_bit 4 1, ''ISOLATION''),
     (push_bit 5 1, ''PAUSE''), (push_bit 6 1, ''CAUSAL_READ''), (push_bit 7 1, ''CAUSAL_TRX''),
     (push_bit 8 1, ''INCREMENTAL_WS''), (push_bit 9 1, ''SESSION_LOCK''),
     (push_bit 10 1, ''DISTRIBUTED_LOCK''), (push_bit 11 1, ''CONSISTENCY_CHECK''),
     (push_bit 12 1, ''UNORDERED''), (push_bit 13 1, ''ANNOTATION''), (push_bit 14 1, ''PREORDERED''),
     (push_bit 15 1, ''STREAMING''), (push_bit 16 1, ''READ_VIEW''), (push_bit 17 1, ''NBO'')]"

text \<open>
  \<^verbatim>\<open>capability::str\<close>: print and clear each known capability, then report what is left over
  (as a signed \<^verbatim>\<open>int\<close>).
\<close>

fun capability_loop :: "(u32 \<times> string) list \<Rightarrow> u32 \<Rightarrow> string \<Rightarrow> u32 \<times> string" where
  "capability_loop [] caps os = (caps, os)"
| "capability_loop ((v, name) # rest) caps os =
     (if caps AND v \<noteq> 0 then capability_loop rest (caps AND NOT v) (os @ name @ '', '')
      else capability_loop rest caps os)"

definition capability_str :: "u32 \<Rightarrow> string" where
  "capability_str caps =
     (let (left, os) = capability_loop capabilities caps [] in
      drop_end 2 (if left \<noteq> 0 then os @ ''UNKNOWN('' @ seqno_to_string (sint left) @ '')  '' else os))"

section \<open>Write set handles and meta data\<close>

record stid =
  stid_server_id :: id
  stid_transaction_id :: transaction_id
  stid_client_id :: client_id

definition stid_default :: stid where
  "stid_default = \<lparr>stid_server_id = id_undefined, stid_transaction_id = transaction_id_undefined,
     stid_client_id = client_id_undefined\<rparr>"

text \<open>The opaque pointer of the provider is an address; 0 is the null pointer.\<close>

record ws_handle =
  wsh_transaction_id :: transaction_id
  wsh_opaque :: u64

definition ws_handle_default :: ws_handle where
  "ws_handle_default = \<lparr>wsh_transaction_id = transaction_id_undefined, wsh_opaque = 0\<rparr>"

definition ws_handle_of :: "transaction_id \<Rightarrow> ws_handle" where
  "ws_handle_of i = \<lparr>wsh_transaction_id = i, wsh_opaque = 0\<rparr>"

record ws_meta =
  wsm_gtid :: gtid
  wsm_stid :: stid
  wsm_depends_on :: seqno
  wsm_flags :: u32

definition ws_meta_default :: ws_meta where
  "ws_meta_default = \<lparr>wsm_gtid = gtid_undefined, wsm_stid = stid_default,
     wsm_depends_on = seqno_undefined, wsm_flags = 0\<rparr>"

definition ws_meta_of_stid :: "stid \<Rightarrow> ws_meta" where
  "ws_meta_of_stid s = ws_meta_default\<lparr>wsm_stid := s\<rparr>"

definition wsm_seqno :: "ws_meta \<Rightarrow> seqno" where
  "wsm_seqno m = gtid_seqno (wsm_gtid m)"

definition wsm_server_id :: "ws_meta \<Rightarrow> id" where
  "wsm_server_id m = stid_server_id (wsm_stid m)"

definition wsm_client_id :: "ws_meta \<Rightarrow> client_id" where
  "wsm_client_id m = stid_client_id (wsm_stid m)"

definition wsm_transaction_id :: "ws_meta \<Rightarrow> transaction_id" where
  "wsm_transaction_id m = stid_transaction_id (wsm_stid m)"

definition wsm_ordered :: "ws_meta \<Rightarrow> bool" where
  "wsm_ordered m \<longleftrightarrow> \<not> gtid_is_undefined (wsm_gtid m)"

lemma wsm_seqno_default [simp]: "wsm_seqno ws_meta_default = -1"
  by (simp add: wsm_seqno_def ws_meta_default_def gtid_undefined_def seqno_undefined_def)

section \<open>Keys\<close>

datatype key_type = shared | reference | update | exclusive

record key =
  key_type :: key_type
  key_parts :: "string list"

definition key_make :: "key_type \<Rightarrow> key" where
  "key_make t = \<lparr>key_type = t, key_parts = []\<rparr>"

definition append_key_part :: "string \<Rightarrow> key \<Rightarrow> exn + key" where
  "append_key_part part k =
     (if length (key_parts k) = 3 then Inl (Runtime_error ''key parts exceed maximum of 3'')
      else Inr (k\<lparr>key_parts := key_parts k @ [part]\<rparr>))"

text \<open>
  The key set: a map from the first key part to the set of second parts, both in the order in
  which the C++ containers iterate.
\<close>

type_synonym sr_key_set = "(string \<times> (string \<times> unit) list) list"

definition sr_key_set_insert :: "bool \<Rightarrow> key \<Rightarrow> sr_key_set \<Rightarrow> (exn + sr_key_set)" where
  "sr_key_set_insert debug k root =
     (if debug \<and> length (key_parts k) < 2 then Inl (Assertion ''key.size() >= 2'')
      else if length (key_parts k) < 2 then Inl (Runtime_error ''Invalid key size'')
      else let b = key_parts k ! 0; l = key_parts k ! 1;
               leaf = (case om_find b root of None \<Rightarrow> [] | Some leaf \<Rightarrow> leaf)
           in Inr (om_put b (om_put l () leaf) root))"

definition sr_key_set_mem :: "string \<Rightarrow> string \<Rightarrow> sr_key_set \<Rightarrow> bool" where
  "sr_key_set_mem b l root \<longleftrightarrow>
     (case om_find b root of None \<Rightarrow> False | Some leaf \<Rightarrow> om_find l leaf = Some ())"

text \<open>The pairs in iteration order, as \<^verbatim>\<open>append_sr_keys_for_commit\<close> visits them.\<close>

definition sr_key_set_pairs :: "sr_key_set \<Rightarrow> (string \<times> string) list" where
  "sr_key_set_pairs root = concat (map (\<lambda>(b, leaf). map (\<lambda>(l, _). (b, l)) leaf) root)"

definition sr_key_set_inv :: "sr_key_set \<Rightarrow> bool" where
  "sr_key_set_inv root \<longleftrightarrow> om_inv root \<and> (\<forall>(b, leaf) \<in> set root. om_inv leaf)"

lemma sr_key_set_insert_mem:
  assumes "sr_key_set_insert d k root = Inr root'"
  shows "sr_key_set_mem b l root' \<longleftrightarrow>
    sr_key_set_mem b l root \<or> b = key_parts k ! 0 \<and> l = key_parts k ! 1"
  using assms by (auto simp: sr_key_set_insert_def sr_key_set_mem_def om_find_put Let_def
      om_find_def [of _ "[_]"] split: if_splits option.splits)

lemma om_put_set: "x \<in> set (om_put k v m) \<Longrightarrow> x = (k, v) \<or> x \<in> set m"
  by (induction k v m rule: om_put.induct) (auto split: if_splits)

lemma sr_key_set_insert_inv:
  assumes "sr_key_set_insert d k root = Inr root'" and "sr_key_set_inv root"
  shows "sr_key_set_inv root'"
proof -
  let ?leaf = "case om_find (key_parts k ! 0) root of None \<Rightarrow> [] | Some leaf \<Rightarrow> leaf"
  have "om_inv ?leaf"
    using assms(2) by (auto simp: sr_key_set_inv_def om.invar_empty split: option.split
        dest: om_find_Some_in)
  moreover have "root' = om_put (key_parts k ! 0) (om_put (key_parts k ! 1) () ?leaf) root"
    using assms(1) by (auto simp: sr_key_set_insert_def Let_def split: if_splits)
  ultimately show ?thesis
    using assms(2) by (auto simp: sr_key_set_inv_def om_inv_put dest!: om_put_set)
qed

section \<open>Views\<close>

datatype view_status = primary | non_primary | disconnected

record member =
  member_id :: id
  member_name :: string
  member_incoming :: string

record view =
  view_state_id :: gtid
  view_seqno :: seqno
  view_status :: view_status
  view_capabilities :: u32
  view_own_index :: int
  view_protocol_version :: int
  view_members :: "member list"

definition view_default :: view where
  "view_default = \<lparr>view_state_id = gtid_undefined, view_seqno = seqno_undefined,
     view_status = disconnected, view_capabilities = 0, view_own_index = -1,
     view_protocol_version = 0, view_members = []\<rparr>"

definition is_final :: "view \<Rightarrow> bool" where
  "is_final v \<longleftrightarrow> view_status v \<noteq> primary \<and> view_members v = [] \<and> view_own_index v = -1"

fun member_index_from :: "int \<Rightarrow> member list \<Rightarrow> id \<Rightarrow> int" where
  "member_index_from n [] i = -1"
| "member_index_from n (m # ms) i = (if member_id m = i then n else member_index_from (n + 1) ms i)"

definition member_index :: "view \<Rightarrow> id \<Rightarrow> int" where
  "member_index v i = member_index_from 0 (view_members v) i"

definition is_member :: "view \<Rightarrow> id \<Rightarrow> bool" where
  "is_member v i \<longleftrightarrow> member_index v i \<noteq> -1"

definition equal_membership :: "view \<Rightarrow> view \<Rightarrow> bool" where
  "equal_membership v u =
     (if length (view_members v) \<noteq> length (view_members u) then False
      else list_all (\<lambda>m. member_index u (member_id m) \<noteq> -1) (view_members v))"

lemma member_index_from_iff:
  "0 \<le> n \<Longrightarrow> member_index_from n ms i = -1 \<longleftrightarrow> i \<notin> member_id ` set ms"
  by (induction n ms i rule: member_index_from.induct) auto

lemma member_index_from_correct:
  "0 \<le> n \<Longrightarrow> member_index_from n ms i = k \<Longrightarrow> k \<noteq> -1 \<Longrightarrow>
     n \<le> k \<and> k < n + int (length ms) \<and> member_id (ms ! nat (k - n)) = i \<and>
     (\<forall>j. j < nat (k - n) \<longrightarrow> member_id (ms ! j) \<noteq> i)"
proof (induction n ms i rule: member_index_from.induct)
  case (1 n i)
  then show ?case by simp
next
  case (2 n m ms i)
  show ?case
  proof (cases "member_id m = i")
    case True
    with 2 show ?thesis by simp
  next
    case False
    with 2 have *: "n + 1 \<le> k" "k < n + 1 + int (length ms)"
      "member_id (ms ! nat (k - (n + 1))) = i"
      "\<forall>j. j < nat (k - (n + 1)) \<longrightarrow> member_id (ms ! j) \<noteq> i" by auto
    from *(1) have s: "nat (k - n) = Suc (nat (k - (n + 1)))" by simp
    from * False show ?thesis by (auto simp: s nth_Cons split: nat.splits)
  qed
qed

lemma is_member_iff: "is_member v i \<longleftrightarrow> i \<in> member_id ` set (view_members v)"
  by (simp add: is_member_def member_index_def member_index_from_iff)

lemma equal_membership_sets:
  assumes "distinct (map member_id (view_members v))" and "distinct (map member_id (view_members u))"
  shows "equal_membership v u \<longleftrightarrow>
    member_id ` set (view_members v) = member_id ` set (view_members u)"
proof -
  let ?V = "member_id ` set (view_members v)" and ?U = "member_id ` set (view_members u)"
  have card: "card ?V = length (view_members v)" "card ?U = length (view_members u)"
    using assms distinct_card by fastforce+
  have sub: "equal_membership v u \<longleftrightarrow> length (view_members v) = length (view_members u) \<and> ?V \<subseteq> ?U"
    by (auto simp: equal_membership_def list_all_iff member_index_def member_index_from_iff)
  show ?thesis
    unfolding sub using card by (metis List.finite_set card_subset_eq finite_imageI order_refl)
qed

end
