(* ===== verification/Streaming_Context.thy ===== *)
theory Streaming_Context
  imports Provider_Types
begin

text \<open>
  The context of a streaming transaction (\<^verbatim>\<open>streaming_context.hpp\<close>,
  \<^verbatim>\<open>streaming_context.cpp\<close>): how many fragments were certified, which are stored, and the
  counters that decide when the next fragment is due. The fragment counter is a \<^typ>\<open>nat\<close>
  (2^64 certified fragments are out of reach); sizes and positions are 64 bit words, as
  \<^verbatim>\<open>size_t\<close> is.
\<close>

datatype fragment_unit = bytes | row | statement

record streaming_context =
  fragments_certified :: nat
  fragments :: "seqno list"
  rollback_replicated_for :: transaction_id
  fragment_unit :: fragment_unit
  fragment_size :: u64
  unit_counter :: u64
  log_position :: u64

definition streaming_context_default :: streaming_context where
  "streaming_context_default = \<lparr>fragments_certified = 0, fragments = [],
     rollback_replicated_for = transaction_id_undefined, fragment_unit = bytes, fragment_size = 0,
     unit_counter = 0, log_position = 0\<rparr>"

definition sc_reset_unit_counter :: "streaming_context \<Rightarrow> streaming_context" where
  "sc_reset_unit_counter c = c\<lparr>unit_counter := 0\<rparr>"

definition sc_set_unit_counter :: "u64 \<Rightarrow> streaming_context \<Rightarrow> streaming_context" where
  "sc_set_unit_counter n c = c\<lparr>unit_counter := n\<rparr>"

definition sc_increment_unit_counter :: "u64 \<Rightarrow> streaming_context \<Rightarrow> streaming_context" where
  "sc_increment_unit_counter n c = c\<lparr>unit_counter := unit_counter c + n\<rparr>"

definition sc_set_log_position :: "u64 \<Rightarrow> streaming_context \<Rightarrow> streaming_context" where
  "sc_set_log_position n c = c\<lparr>log_position := n\<rparr>"

definition sc_params :: "fragment_unit \<Rightarrow> u64 \<Rightarrow> streaming_context \<Rightarrow> streaming_context" where
  "sc_params u n c = sc_reset_unit_counter (c\<lparr>fragment_unit := u, fragment_size := n\<rparr>)"

definition sc_enable :: "bool \<Rightarrow> fragment_unit \<Rightarrow> u64 \<Rightarrow> streaming_context \<Rightarrow> exn + streaming_context" where
  "sc_enable debug u n c =
     (if debug \<and> \<not> n > 0 then Inl (Assertion ''fragment_size > 0'')
      else Inr (c\<lparr>fragment_unit := u, fragment_size := n\<rparr>))"

definition sc_disable :: "streaming_context \<Rightarrow> streaming_context" where
  "sc_disable c = c\<lparr>fragment_size := 0\<rparr>"

definition sc_certified :: "streaming_context \<Rightarrow> streaming_context" where
  "sc_certified c = c\<lparr>fragments_certified := Suc (fragments_certified c)\<rparr>"

definition fragments_stored :: "streaming_context \<Rightarrow> nat" where
  "fragments_stored c = length (fragments c)"

definition check_fragment_seqno :: "bool \<Rightarrow> seqno \<Rightarrow> streaming_context \<Rightarrow> exn + unit" where
  "check_fragment_seqno debug s c =
     (if debug \<and> seqno_is_undefined s then Inl (Assertion ''seqno.is_undefined() == false'')
      else if debug \<and> \<not> (fragments c = [] \<or> last (fragments c) < s)
        then Inl (Assertion ''fragments_.empty() || fragments_.back() < seqno'')
      else Inr ())"

definition sc_stored :: "bool \<Rightarrow> seqno \<Rightarrow> streaming_context \<Rightarrow> exn + streaming_context" where
  "sc_stored debug s c =
     (case check_fragment_seqno debug s c of Inl e \<Rightarrow> Inl e
      | Inr _ \<Rightarrow> Inr (c\<lparr>fragments := fragments c @ [s]\<rparr>))"

definition sc_applied :: "bool \<Rightarrow> seqno \<Rightarrow> streaming_context \<Rightarrow> exn + streaming_context" where
  "sc_applied debug s c =
     (case check_fragment_seqno debug s c of Inl e \<Rightarrow> Inl e
      | Inr _ \<Rightarrow> Inr (c\<lparr>fragments_certified := Suc (fragments_certified c),
                        fragments := fragments c @ [s]\<rparr>))"

definition sc_is_rolled_back :: "streaming_context \<Rightarrow> bool" where
  "sc_is_rolled_back c \<longleftrightarrow> rollback_replicated_for c \<noteq> transaction_id_undefined"

definition sc_rolled_back ::
    "bool \<Rightarrow> transaction_id \<Rightarrow> streaming_context \<Rightarrow> exn + streaming_context" where
  "sc_rolled_back debug i c =
     (if debug \<and> rollback_replicated_for c \<noteq> transaction_id_undefined
        then Inl (Assertion ''rollback_replicated_for_ == transaction_id::undefined()'')
      else Inr (c\<lparr>rollback_replicated_for := i\<rparr>))"

definition fragment_size_exceeded :: "streaming_context \<Rightarrow> bool" where
  "fragment_size_exceeded c \<longleftrightarrow> unit_counter c \<ge> fragment_size c"

definition sc_cleanup :: "streaming_context \<Rightarrow> streaming_context" where
  "sc_cleanup c = c\<lparr>fragments_certified := 0, fragments := [],
     rollback_replicated_for := transaction_id_undefined, unit_counter := 0, log_position := 0\<rparr>"

section \<open>Invariant\<close>

text \<open>
  Every stored fragment was certified, stored seqnos are defined and strictly increasing.
\<close>

definition sc_inv :: "streaming_context \<Rightarrow> bool" where
  "sc_inv c \<longleftrightarrow> fragments_stored c \<le> fragments_certified c \<and>
     (\<forall>s\<in>set (fragments c). \<not> seqno_is_undefined s) \<and> sorted_wrt (<) (fragments c)"

lemmas sc_defs = sc_reset_unit_counter_def sc_set_unit_counter_def sc_increment_unit_counter_def
  sc_set_log_position_def sc_params_def sc_enable_def sc_disable_def sc_certified_def sc_stored_def
  sc_applied_def sc_rolled_back_def sc_cleanup_def

lemma sorted_wrt_snoc_less:
  fixes s :: "'a::linorder"
  assumes "sorted_wrt (<) xs" and "xs = [] \<or> last xs < s"
  shows "sorted_wrt (<) (xs @ [s])"
proof -
  have "x \<le> last xs" if "x \<in> set xs" for x
    using assms(1) that by (induction xs) (auto simp: less_imp_le split: if_splits)
  with assms show ?thesis by (fastforce simp: sorted_wrt_append)
qed

lemma sc_inv_default: "sc_inv streaming_context_default"
  by (simp add: sc_inv_def streaming_context_default_def fragments_stored_def)

lemma sc_inv_cleanup: "sc_inv (sc_cleanup c)"
  by (simp add: sc_inv_def sc_cleanup_def fragments_stored_def)

lemma sc_inv_certified: "sc_inv c \<Longrightarrow> sc_inv (sc_certified c)"
  by (simp add: sc_inv_def sc_certified_def fragments_stored_def)

lemma sc_inv_applied: "sc_inv c \<Longrightarrow> sc_applied True s c = Inr c' \<Longrightarrow> sc_inv c'"
  by (auto simp: sc_inv_def sc_applied_def check_fragment_seqno_def fragments_stored_def
      intro: sorted_wrt_snoc_less split: if_splits)

lemma sc_inv_stored:
  "sc_inv c \<Longrightarrow> fragments_stored c < fragments_certified c \<Longrightarrow> sc_stored True s c = Inr c' \<Longrightarrow> sc_inv c'"
  by (auto simp: sc_inv_def sc_stored_def check_fragment_seqno_def fragments_stored_def
      intro: sorted_wrt_snoc_less split: if_splits)

lemma sc_inv_counters [simp]:
  "sc_inv (sc_reset_unit_counter c) = sc_inv c" "sc_inv (sc_set_unit_counter n c) = sc_inv c"
  "sc_inv (sc_increment_unit_counter n c) = sc_inv c" "sc_inv (sc_set_log_position n c) = sc_inv c"
  "sc_inv (sc_params u n c) = sc_inv c" "sc_inv (sc_disable c) = sc_inv c"
  by (simp_all add: sc_inv_def sc_defs fragments_stored_def)

end
