(* ===== verification/World.thy ===== *)
theory World
  imports Streaming_Context
begin

text \<open>
  The state of the library and the code around it.

  \<^item> The records \<open>transaction\<close>, \<open>client_state\<close> and \<open>server_state\<close> hold the data members of
    the three classes of the same names.
  \<^item> The provider, the DBMS services and the storage are abstract classes that the application
    implements. They appear as records of functions over an environment state \<^typ>\<open>'e\<close>: the
    provider and the storage only see the environment; callbacks that may call back into the
    library (rollback, replay) are commands over the whole world.
  \<^item> A \<open>world\<close> is one client session together with the server it belongs to, the thread that
    runs, and the client mutex.

  The client mutex is modelled with what it protects against: while it is not held, other
  threads may brute force abort the transaction. \<open>bf_arrivals\<close> tells, each time the mutex is
  taken, which aborts came in since it was released.

  Debug logging, \<^verbatim>\<open>debug_sync\<close> and \<^verbatim>\<open>debug_crash\<close> have no effect on the state and are
  left out.
\<close>

section \<open>Enumerations\<close>

datatype trx_state = s_executing | s_preparing | s_prepared | s_certifying | s_committing
  | s_ordered_commit | s_committed | s_cert_failed | s_must_abort | s_aborting | s_aborted
  | s_must_replay | s_replaying

datatype client_mode = m_undefined | m_local | m_high_priority | m_toi | m_rsu | m_nbo

datatype client_session_state = s_none | s_idle | s_exec | s_result | s_quitting

fun session_state_int :: "client_session_state \<Rightarrow> int" where
  "session_state_int s_none = 0"
| "session_state_int s_idle = 1"
| "session_state_int s_exec = 2"
| "session_state_int s_result = 3"
| "session_state_int s_quitting = 4"

datatype client_error = e_success | e_error_during_commit | e_deadlock_error | e_interrupted_error
  | e_size_exceeded_error | e_append_fragment_error | e_not_supported_error | e_timeout_error

datatype srv_state = s_disconnected | s_initializing | s_initialized | s_connected | s_joiner
  | s_joined | s_donor | s_synced | s_disconnecting

datatype rollback_mode = rm_async | rm_sync

text \<open>What other threads of the server can do while a thread waits for a server state.\<close>

datatype server_event = Ev_initialized | Ev_disconnect

section \<open>Transaction, client and server\<close>

type_synonym thread_id = nat
type_synonym client_ref = nat
type_synonym hps_ref = nat

record transaction =
  trx_server_id :: id
  trx_id :: transaction_id
  trx_state :: trx_state
  trx_state_hist :: "trx_state list"
  bf_abort_state :: trx_state
  bf_abort_provider_status :: status
  bf_abort_client_state :: int
  bf_aborted_in_total_order :: bool
  trx_ws_handle :: ws_handle
  trx_ws_meta :: ws_meta
  trx_flags :: u32
  implicit_deps :: bool
  certified :: bool
  fragments_certified_for_statement :: nat
  trx_streaming_context :: streaming_context
  sr_keys :: sr_key_set
  apply_error_buf :: string
  trx_xid :: xid
  streaming_rollback_in_progress :: bool
  is_bf_immutable :: bool

definition transaction_init :: transaction where
  "transaction_init = \<lparr>trx_server_id = id_undefined, trx_id = transaction_id_undefined,
     trx_state = s_executing, trx_state_hist = [], bf_abort_state = s_executing,
     bf_abort_provider_status = success, bf_abort_client_state = 0,
     bf_aborted_in_total_order = False, trx_ws_handle = ws_handle_default,
     trx_ws_meta = ws_meta_default, trx_flags = 0, implicit_deps = False, certified = False,
     fragments_certified_for_statement = 0, trx_streaming_context = streaming_context_default,
     sr_keys = [], apply_error_buf = [], trx_xid = xid_null,
     streaming_rollback_in_progress = False, is_bf_immutable = False\<rparr>"

definition active :: "transaction \<Rightarrow> bool" where
  "active t \<longleftrightarrow> trx_id t \<noteq> transaction_id_undefined"

definition ordered :: "transaction \<Rightarrow> bool" where
  "ordered t \<longleftrightarrow> \<not> seqno_is_undefined (wsm_seqno (trx_ws_meta t))"

definition is_streaming :: "transaction \<Rightarrow> bool" where
  "is_streaming t \<longleftrightarrow> fragments_certified (trx_streaming_context t) > 0"

definition is_empty :: "transaction \<Rightarrow> bool" where
  "is_empty t \<longleftrightarrow> sr_keys t = []"

definition is_xa :: "transaction \<Rightarrow> bool" where
  "is_xa t \<longleftrightarrow> \<not> xid_is_null (trx_xid t)"

definition bf_aborted :: "transaction \<Rightarrow> bool" where
  "bf_aborted t \<longleftrightarrow> bf_abort_client_state t \<noteq> 0"

definition set_pa_unsafe :: "bool \<Rightarrow> transaction \<Rightarrow> transaction" where
  "set_pa_unsafe b t = (if b then t\<lparr>trx_flags := trx_flags t OR flag_pa_unsafe\<rparr>
     else t\<lparr>trx_flags := trx_flags t AND NOT flag_pa_unsafe\<rparr>)"

record client_state =
  owning_thread :: thread_id
  rollbacker_active :: bool
  cs_id :: client_id
  cs_mode :: client_mode
  toi_mode :: client_mode
  cs_state :: client_session_state
  cs_state_hist :: "client_session_state list"
  cs_transaction :: transaction
  toi_meta :: ws_meta
  nbo_meta :: ws_meta
  sync_wait_gtid :: gtid
  last_written_gtid :: gtid
  current_error :: client_error
  current_error_status :: status
  keep_command_error :: bool

definition client_state_init :: "thread_id \<Rightarrow> client_id \<Rightarrow> client_mode \<Rightarrow> client_state" where
  "client_state_init t i m = \<lparr>owning_thread = t, rollbacker_active = False, cs_id = i, cs_mode = m,
     toi_mode = m_undefined, cs_state = s_none, cs_state_hist = [], cs_transaction = transaction_init,
     toi_meta = ws_meta_default, nbo_meta = ws_meta_default, sync_wait_gtid = gtid_undefined,
     last_written_gtid = gtid_undefined, current_error = e_success, current_error_status = success,
     keep_command_error = False\<rparr>"

record server_state =
  sv_state :: srv_state
  sv_state_hist :: "srv_state list"
  bootstrap :: bool
  initial_position :: gtid
  init_initialized :: bool
  init_synced :: bool
  desync_count :: nat
  desynced_on_pause :: bool
  pause_count :: nat
  pause_seqno :: seqno
  streaming_clients :: "(client_id \<times> client_ref) list"
  streaming_appliers :: "((id \<times> transaction_id) \<times> hps_ref) list"
  streaming_appliers_recovered :: bool
  provider_loaded :: bool
  sv_name :: string
  sv_id :: id
  rollback_mode :: rollback_mode
  connected_gtid :: gtid
  previous_primary_view :: view
  current_view :: view
  rollback_event_queue :: "transaction_id list"

definition server_state_init :: "string \<Rightarrow> gtid \<Rightarrow> rollback_mode \<Rightarrow> server_state" where
  "server_state_init name pos rm = \<lparr>sv_state = s_disconnected, sv_state_hist = [], bootstrap = False,
     initial_position = pos, init_initialized = False, init_synced = False, desync_count = 0,
     desynced_on_pause = False, pause_count = 0, pause_seqno = seqno_undefined,
     streaming_clients = [], streaming_appliers = [], streaming_appliers_recovered = False,
     provider_loaded = False, sv_name = name, sv_id = id_undefined, rollback_mode = rm,
     connected_gtid = gtid_undefined, previous_primary_view = view_default,
     current_view = view_default, rollback_event_queue = []\<rparr>"

record 'e world =
  w_cs :: client_state
  w_ss :: server_state
  w_self :: client_ref
  w_thread :: thread_id
  w_locked :: bool
  w_env :: 'e

abbreviation trx :: "'e world \<Rightarrow> transaction" where
  "trx w \<equiv> cs_transaction (w_cs w)"

abbreviation tstate :: "'e world \<Rightarrow> trx_state" where
  "tstate w \<equiv> trx_state (trx w)"

abbreviation upd_trx :: "(transaction \<Rightarrow> transaction) \<Rightarrow> 'e world \<Rightarrow> 'e world" where
  "upd_trx f \<equiv> w_cs_update (cs_transaction_update f)"

section \<open>Services\<close>

record 'e provider_ops =
  prov_start_transaction :: "ws_handle \<Rightarrow> 'e \<Rightarrow> (int \<times> ws_handle) \<times> 'e"
  prov_assign_read_view :: "ws_handle \<Rightarrow> gtid option \<Rightarrow> 'e \<Rightarrow> ((exn + status) \<times> ws_handle) \<times> 'e"
  prov_append_key :: "ws_handle \<Rightarrow> key \<Rightarrow> 'e \<Rightarrow> ((exn + int) \<times> ws_handle) \<times> 'e"
  prov_append_data :: "ws_handle \<Rightarrow> string \<Rightarrow> 'e \<Rightarrow> (status \<times> ws_handle) \<times> 'e"
  prov_certify :: "client_id \<Rightarrow> ws_handle \<Rightarrow> u32 \<Rightarrow> ws_meta \<Rightarrow> bool \<Rightarrow> 'e \<Rightarrow>
     (status \<times> ws_handle \<times> ws_meta) \<times> 'e"
  prov_bf_abort :: "seqno \<Rightarrow> transaction_id \<Rightarrow> 'e \<Rightarrow> status \<times> 'e"
  prov_rollback :: "transaction_id \<Rightarrow> 'e \<Rightarrow> status \<times> 'e"
  prov_commit_order_enter :: "ws_handle \<Rightarrow> ws_meta \<Rightarrow> 'e \<Rightarrow> status \<times> 'e"
  prov_commit_order_leave :: "ws_handle \<Rightarrow> ws_meta \<Rightarrow> string \<Rightarrow> 'e \<Rightarrow> int \<times> 'e"
  prov_release :: "ws_handle \<Rightarrow> 'e \<Rightarrow> (int \<times> ws_handle) \<times> 'e"
  prov_enter_toi :: "client_id \<Rightarrow> key list \<Rightarrow> string \<Rightarrow> ws_meta \<Rightarrow> u32 \<Rightarrow> 'e \<Rightarrow> (status \<times> ws_meta) \<times> 'e"
  prov_leave_toi :: "client_id \<Rightarrow> ws_meta \<Rightarrow> string \<Rightarrow> 'e \<Rightarrow> status \<times> 'e"
  prov_causal_read :: "int \<Rightarrow> 'e \<Rightarrow> (gtid \<times> status) \<times> 'e"
  prov_connect :: "string \<Rightarrow> string \<Rightarrow> string \<Rightarrow> bool \<Rightarrow> 'e \<Rightarrow> status \<times> 'e"
  prov_disconnect :: "'e \<Rightarrow> int \<times> 'e"
  prov_desync :: "'e \<Rightarrow> int \<times> 'e"
  prov_resync :: "'e \<Rightarrow> int \<times> 'e"
  prov_pause :: "'e \<Rightarrow> seqno \<times> 'e"
  prov_resume :: "'e \<Rightarrow> int \<times> 'e"
  prov_sst_sent :: "gtid \<Rightarrow> int \<Rightarrow> 'e \<Rightarrow> status \<times> 'e"
  prov_sst_received :: "gtid \<Rightarrow> int \<Rightarrow> 'e \<Rightarrow> status \<times> 'e"

text \<open>Callbacks of \<^verbatim>\<open>client_service\<close> that return nothing.\<close>

datatype client_callback = Notify_state_change | Will_replay | Signal_replayed | Store_globals
  | Reset_globals | Cleanup_transaction | Emergency_shutdown | Wait_for_replayers

record 'e client_ops =
  cl_event :: "client_callback \<Rightarrow> 'e \<Rightarrow> 'e"
  cl_interrupted :: "'e \<Rightarrow> bool \<times> 'e"
  cl_statement_allowed_for_streaming :: "'e \<Rightarrow> bool"
  cl_bytes_generated :: "'e \<Rightarrow> u64"
  cl_prepare_data_for_replication :: "ws_handle \<Rightarrow> 'e \<Rightarrow> (int \<times> ws_handle) \<times> 'e"
  cl_prepare_fragment_for_replication :: "ws_handle \<Rightarrow> 'e \<Rightarrow> (int \<times> string \<times> u64 \<times> ws_handle) \<times> 'e"
  cl_remove_fragments :: "('e world, int) cmd"
  cl_bf_rollback :: "('e world, int) cmd"
  cl_replay :: "('e world, status) cmd"
  cl_replay_unordered :: "('e world, status) cmd"
  cl_commit_by_xid :: "('e world, status) cmd"
  cl_is_explicit_xa :: "'e \<Rightarrow> bool"
  cl_is_prepared_xa :: "'e \<Rightarrow> bool"
  cl_is_xa_rollback :: "'e \<Rightarrow> bool"

record 'e storage_ops =
  st_acquire :: "'e \<Rightarrow> bool \<times> 'e"
  st_release :: "'e \<Rightarrow> 'e"
  st_requires_globals :: "'e \<Rightarrow> bool"
  st_store_globals :: "'e \<Rightarrow> 'e"
  st_start_transaction :: "ws_handle \<Rightarrow> 'e \<Rightarrow> int \<times> 'e"
  st_adopt_transaction :: "transaction \<Rightarrow> 'e \<Rightarrow> 'e"
  st_append_fragment :: "id \<Rightarrow> transaction_id \<Rightarrow> u32 \<Rightarrow> string \<Rightarrow> xid \<Rightarrow> 'e \<Rightarrow> int \<times> 'e"
  st_update_fragment_meta :: "ws_meta \<Rightarrow> 'e \<Rightarrow> int \<times> 'e"
  st_remove_fragments :: "'e \<Rightarrow> int \<times> 'e"
  st_commit :: "ws_handle \<Rightarrow> ws_meta \<Rightarrow> 'e \<Rightarrow> int \<times> 'e"
  st_rollback :: "ws_handle \<Rightarrow> ws_meta \<Rightarrow> 'e \<Rightarrow> int \<times> 'e"

record 'e server_ops =
  sv_set_position :: "gtid \<Rightarrow> 'e \<Rightarrow> 'e"
  sv_background_rollback :: "('e world, unit) cmd"
  sv_streaming_applier_service :: "'e \<Rightarrow> hps_ref \<times> 'e"
  sv_release_high_priority_service :: "hps_ref \<Rightarrow> 'e \<Rightarrow> 'e"
  sv_bootstrap :: "'e \<Rightarrow> 'e"
  sv_log_view :: "hps_ref option \<Rightarrow> view \<Rightarrow> 'e \<Rightarrow> 'e"
  sv_recover_streaming_appliers :: "('e world, unit) cmd"
  sv_get_view :: "id \<Rightarrow> 'e \<Rightarrow> view \<times> 'e"
  sv_get_position :: "'e \<Rightarrow> gtid \<times> 'e"
  sv_log_state_change :: "srv_state \<Rightarrow> srv_state \<Rightarrow> 'e \<Rightarrow> 'e"
  sv_sst_before_init :: "'e \<Rightarrow> bool"
  sv_sst_request :: "'e \<Rightarrow> string \<times> 'e"
  sv_start_sst :: "string \<Rightarrow> gtid \<Rightarrow> bool \<Rightarrow> 'e \<Rightarrow> int \<times> 'e"
  sv_wait_committing_transactions :: "int \<Rightarrow> 'e \<Rightarrow> int \<times> 'e"

record 'e hps_ops =
  hps_transaction :: "hps_ref \<Rightarrow> 'e \<Rightarrow> transaction"
  hps_is_replaying :: "hps_ref \<Rightarrow> 'e \<Rightarrow> bool"
  hps_start_transaction :: "hps_ref \<Rightarrow> ws_handle \<Rightarrow> ws_meta \<Rightarrow> 'e \<Rightarrow> int \<times> 'e"
  hps_next_fragment :: "hps_ref \<Rightarrow> ws_meta \<Rightarrow> 'e \<Rightarrow> int \<times> 'e"
  hps_adopt_transaction :: "hps_ref \<Rightarrow> transaction \<Rightarrow> 'e \<Rightarrow> int \<times> 'e"
  hps_apply_write_set :: "hps_ref \<Rightarrow> ws_meta \<Rightarrow> string \<Rightarrow> 'e \<Rightarrow> (int \<times> string) \<times> 'e"
  hps_append_fragment_and_commit ::
    "hps_ref \<Rightarrow> ws_handle \<Rightarrow> ws_meta \<Rightarrow> string \<Rightarrow> xid \<Rightarrow> 'e \<Rightarrow> int \<times> 'e"
  hps_remove_fragments :: "hps_ref \<Rightarrow> ws_meta \<Rightarrow> 'e \<Rightarrow> int \<times> 'e"
  hps_commit :: "hps_ref \<Rightarrow> ws_handle \<Rightarrow> ws_meta \<Rightarrow> 'e \<Rightarrow> int \<times> 'e"
  hps_rollback :: "hps_ref \<Rightarrow> ws_handle \<Rightarrow> ws_meta \<Rightarrow> 'e \<Rightarrow> int \<times> 'e"
  hps_apply_toi :: "hps_ref \<Rightarrow> ws_meta \<Rightarrow> string \<Rightarrow> 'e \<Rightarrow> (int \<times> string) \<times> 'e"
  hps_apply_nbo_begin :: "hps_ref \<Rightarrow> ws_meta \<Rightarrow> string \<Rightarrow> 'e \<Rightarrow> (int \<times> string) \<times> 'e"
  hps_after_apply :: "hps_ref \<Rightarrow> 'e \<Rightarrow> 'e"
  hps_store_globals :: "hps_ref \<Rightarrow> 'e \<Rightarrow> 'e"
  hps_reset_globals :: "hps_ref \<Rightarrow> 'e \<Rightarrow> 'e"
  hps_switch_execution_context :: "hps_ref \<Rightarrow> hps_ref \<Rightarrow> 'e \<Rightarrow> 'e"
  hps_log_dummy_write_set :: "hps_ref \<Rightarrow> ws_handle \<Rightarrow> ws_meta \<Rightarrow> string \<Rightarrow> 'e \<Rightarrow> (int \<times> string) \<times> 'e"
  hps_adopt_apply_error :: "hps_ref \<Rightarrow> string \<Rightarrow> 'e \<Rightarrow> string \<times> 'e"

record 'e services =
  debug_build :: bool
  prov :: "'e provider_ops"
  client_ops :: "'e client_ops"
  storage :: "'e storage_ops"
  server_ops :: "'e server_ops"
  hps :: "'e hps_ops"
  bf_arrivals :: "'e \<Rightarrow> (seqno \<times> bool) list \<times> 'e"
  bf_thread :: thread_id
  server_events :: "'e \<Rightarrow> server_event list \<times> 'e"
  peer_transaction :: "client_ref \<Rightarrow> 'e \<Rightarrow> transaction"
  peer_total_order_bf_abort :: "client_ref \<Rightarrow> seqno \<Rightarrow> ('e world, unit) cmd"
  clock :: "'e \<Rightarrow> int"
  usleep :: "'e \<Rightarrow> 'e"

text \<open>
  \<open>server_events\<close> are the server calls other threads make while one waits for a state change;
  \<open>peer_transaction\<close> and \<open>peer_total_order_bf_abort\<close> are the other client sessions of the
  server; \<open>clock\<close> is \<^verbatim>\<open>wsrep::clock::now()\<close>.
\<close>

section \<open>Calls\<close>

definition env_call :: "('e \<Rightarrow> 'r \<times> 'e) \<Rightarrow> ('e world, 'r) cmd" where
  "env_call f = (\<lambda>w. let (r, e) = f (w_env w) in (Inr r, w\<lparr>w_env := e\<rparr>))"

definition env_do :: "('e \<Rightarrow> 'e) \<Rightarrow> ('e world, unit) cmd" where
  "env_do f = modify (\<lambda>w. w\<lparr>w_env := f (w_env w)\<rparr>)"

text \<open>\<^verbatim>\<open>server_state::provider()\<close> throws if no provider is loaded.\<close>

definition provider_call :: "('e \<Rightarrow> 'r \<times> 'e) \<Rightarrow> ('e world, 'r) cmd" where
  "provider_call f =
     inspect (\<lambda>w. if provider_loaded (w_ss w) then env_call f
                  else throw (Runtime_error ''provider not loaded''))"

definition client_event :: "'e services \<Rightarrow> client_callback \<Rightarrow> ('e world, unit) cmd" where
  "client_event svc ev = env_do (cl_event (client_ops svc) ev)"

text \<open>Update the streaming context by one of its own operations.\<close>

definition on_context :: "(streaming_context \<Rightarrow> exn + streaming_context) \<Rightarrow> ('e world, unit) cmd" where
  "on_context f =
     (\<lambda>w. case f (trx_streaming_context (trx w)) of Inl e \<Rightarrow> (Inl e, w)
          | Inr c \<Rightarrow> (Inr (), upd_trx (trx_streaming_context_update (\<lambda>_. c)) w))"

definition set_context :: "(streaming_context \<Rightarrow> streaming_context) \<Rightarrow> ('e world, unit) cmd" where
  "set_context f = modify (upd_trx (trx_streaming_context_update f))"

definition set_flags :: "(u32 \<Rightarrow> u32) \<Rightarrow> ('e world, unit) cmd" where
  "set_flags f = modify (upd_trx (trx_flags_update f))"

definition set_handle :: "ws_handle \<Rightarrow> ('e world, unit) cmd" where
  "set_handle h = modify (upd_trx (trx_ws_handle_update (\<lambda>_. h)))"

lemma wp_env_call [wp_simps]:
  "wp (env_call f) Q E w = (case f (w_env w) of (r, e) \<Rightarrow> Q r (w\<lparr>w_env := e\<rparr>))"
  by (simp add: wp_def env_call_def split: prod.splits)

lemma wp_env_do [wp_simps]: "wp (env_do f) Q E w = Q () (w\<lparr>w_env := f (w_env w)\<rparr>)"
  by (simp add: env_do_def wp_simps)

lemma wp_provider_call [wp_simps]:
  "wp (provider_call f) Q E w =
     (if provider_loaded (w_ss w) then (case f (w_env w) of (r, e) \<Rightarrow> Q r (w\<lparr>w_env := e\<rparr>))
      else E (Runtime_error ''provider not loaded'') w)"
  by (simp add: provider_call_def wp_simps)

lemma wp_client_event [wp_simps]:
  "wp (client_event svc ev) Q E w = Q () (w\<lparr>w_env := cl_event (client_ops svc) ev (w_env w)\<rparr>)"
  by (simp add: client_event_def wp_simps)

lemma wp_on_context [wp_simps]:
  "wp (on_context f) Q E w =
     (case f (trx_streaming_context (trx w)) of Inl e \<Rightarrow> E e w
      | Inr c \<Rightarrow> Q () (upd_trx (trx_streaming_context_update (\<lambda>_. c)) w))"
  by (simp add: wp_def on_context_def split: sum.splits)

lemma wp_set_context [wp_simps]:
  "wp (set_context f) Q E w = Q () (upd_trx (trx_streaming_context_update f) w)"
  by (simp add: set_context_def wp_simps)

lemma wp_set_flags [wp_simps]: "wp (set_flags f) Q E w = Q () (upd_trx (trx_flags_update f) w)"
  by (simp add: set_flags_def wp_simps)

lemma wp_set_handle [wp_simps]:
  "wp (set_handle h) Q E w = Q () (upd_trx (trx_ws_handle_update (\<lambda>_. h)) w)"
  by (simp add: set_handle_def wp_simps)

end
