(* ===== verification/Server_Registry.thy ===== *)
theory Server_Registry
  imports World
begin

text \<open>
  The parts of \<^verbatim>\<open>server_state.cpp\<close> that a client session calls: the registers of streaming
  clients and streaming appliers, and the queue of rollback events that could not be
  replicated. They are \<^verbatim>\<open>std::map\<close>s and a \<^verbatim>\<open>std::deque\<close>; the maps follow the contract
  \<open>std_map\<close>. The server mutex, held by each of these operations from its first to its last
  line, is not part of the state.
\<close>

abbreviation assert_svc :: "'e services \<Rightarrow> string \<Rightarrow> ('e world \<Rightarrow> bool) \<Rightarrow> ('e world, unit) cmd" where
  "assert_svc svc \<equiv> assert_that (debug_build svc)"

definition unreachable :: "'e services \<Rightarrow> ('e world, unit) cmd" where
  "unreachable svc = assert_svc svc ''0'' (\<lambda>_. False)"

abbreviation upd_ss :: "(server_state \<Rightarrow> server_state) \<Rightarrow> 'e world \<Rightarrow> 'e world" where
  "upd_ss f \<equiv> w_ss_update f"

section \<open>Streaming clients and appliers\<close>

definition start_streaming_client :: "'e services \<Rightarrow> ('e world, unit) cmd" where
  "start_streaming_client svc =
     inspect (\<lambda>w. case om_insert (cs_id (w_cs w)) (w_self w) (streaming_clients (w_ss w)) of
       (m, inserted) \<Rightarrow>
         seq (modify (upd_ss (streaming_clients_update (\<lambda>_. m))))
             (only_if (\<not> inserted) (unreachable svc)))"

definition stop_streaming_client :: "'e services \<Rightarrow> ('e world, unit) cmd" where
  "stop_streaming_client svc =
     inspect (\<lambda>w. case om_find (cs_id (w_cs w)) (streaming_clients (w_ss w)) of
       None \<Rightarrow> seq (assert_svc svc ''i != streaming_clients_.end()'' (\<lambda>_. False)) (unreachable svc)
     | Some _ \<Rightarrow> modify (upd_ss (\<lambda>s. s\<lparr>streaming_clients :=
                    om_erase (cs_id (w_cs w)) (streaming_clients s)\<rparr>)))"

definition start_streaming_applier ::
    "id \<Rightarrow> transaction_id \<Rightarrow> hps_ref \<Rightarrow> ('e world, unit) cmd" where
  "start_streaming_applier server_id transaction_id sa =
     inspect (\<lambda>w. case om_insert (server_id, transaction_id) sa (streaming_appliers (w_ss w)) of
       (m, inserted) \<Rightarrow>
         seq (modify (upd_ss (streaming_appliers_update (\<lambda>_. m))))
             (if inserted then skip else throw Fatal_error))"

definition stop_streaming_applier ::
    "'e services \<Rightarrow> id \<Rightarrow> transaction_id \<Rightarrow> ('e world, unit) cmd" where
  "stop_streaming_applier svc server_id transaction_id =
     inspect (\<lambda>w. case om_find (server_id, transaction_id) (streaming_appliers (w_ss w)) of
       None \<Rightarrow> assert_svc svc ''i != streaming_appliers_.end()'' (\<lambda>_. False)
     | Some _ \<Rightarrow> modify (upd_ss (\<lambda>s. s\<lparr>streaming_appliers :=
                    om_erase (server_id, transaction_id) (streaming_appliers s)\<rparr>)))"

definition find_streaming_applier :: "id \<Rightarrow> transaction_id \<Rightarrow> 'e world \<Rightarrow> hps_ref option" where
  "find_streaming_applier server_id transaction_id w =
     om_find (server_id, transaction_id) (streaming_appliers (w_ss w))"

text \<open>The search by XA identifier visits the appliers in key order.\<close>

definition find_streaming_applier_xid :: "'e services \<Rightarrow> xid \<Rightarrow> 'e world \<Rightarrow> hps_ref option" where
  "find_streaming_applier_xid svc x w =
     find (\<lambda>sa. xid_eq (trx_xid (hps_transaction (hps svc) sa (w_env w))) x)
       (map snd (streaming_appliers (w_ss w)))"

text \<open>
  \<^verbatim>\<open>convert_streaming_client_to_applier\<close>: an applier takes over the streaming transaction of
  a client, unless the server is disconnected.
\<close>

definition convert_streaming_client_to_applier :: "'e services \<Rightarrow> ('e world, unit) cmd" where
  "convert_streaming_client_to_applier svc =
     bind (env_call (sv_streaming_applier_service (server_ops svc))) (\<lambda>sa.
     seq (inspect (\<lambda>w. case om_find (cs_id (w_cs w)) (streaming_clients (w_ss w)) of
            None \<Rightarrow> seq (assert_svc svc ''i != streaming_clients_.end()'' (\<lambda>_. False)) (unreachable svc)
          | Some _ \<Rightarrow> modify (upd_ss (\<lambda>s. s\<lparr>streaming_clients :=
                         om_erase (cs_id (w_cs w)) (streaming_clients s)\<rparr>))))
     (inspect (\<lambda>w. if sv_state (w_ss w) \<noteq> s_disconnected then
        bind (env_call (hps_adopt_transaction (hps svc) sa (trx w))) (\<lambda>r.
        if r \<noteq> 0 then
          seq (env_do (hps_after_apply (hps svc) sa))
              (env_do (sv_release_high_priority_service (server_ops svc) sa))
        else inspect (\<lambda>w.
          case om_insert (trx_server_id (trx w), trx_id (trx w)) sa (streaming_appliers (w_ss w)) of
            (m, inserted) \<Rightarrow>
              seq (modify (upd_ss (streaming_appliers_update (\<lambda>_. m))))
                  (only_if (\<not> inserted) (unreachable svc))))
      else
        seq (env_do (sv_release_high_priority_service (server_ops svc) sa))
            (client_event svc Store_globals))))"

section \<open>Rollback events\<close>

definition queue_rollback_event :: "'e services \<Rightarrow> transaction_id \<Rightarrow> ('e world, unit) cmd" where
  "queue_rollback_event svc i =
     seq (assert_svc svc ''id != i'' (\<lambda>w. i \<notin> set (rollback_event_queue (w_ss w))))
         (modify (upd_ss (\<lambda>s. s\<lparr>rollback_event_queue := rollback_event_queue s @ [i]\<rparr>)))"

text \<open>
  \<^verbatim>\<open>send_pending_rollback_events\<close>: events leave the front of the queue one by one; the first
  that cannot be replicated stays at the front. The loop is over the queue it finds.
\<close>

fun send_events :: "'e services \<Rightarrow> transaction_id list \<Rightarrow> ('e world, status) cmd" where
  "send_events svc [] = return success"
| "send_events svc (i # is) =
     bind (provider_call (prov_rollback (prov svc) i)) (\<lambda>st.
       if st \<noteq> success then return st
       else seq (modify (upd_ss (\<lambda>s. s\<lparr>rollback_event_queue := tl (rollback_event_queue s)\<rparr>)))
                (send_events svc is))"

definition send_pending_rollback_events :: "'e services \<Rightarrow> ('e world, status) cmd" where
  "send_pending_rollback_events svc =
     inspect (\<lambda>w. send_events svc (rollback_event_queue (w_ss w)))"

section \<open>What the operations leave alone\<close>

lemma wp_unreachable [wp_simps]:
  "wp (unreachable svc) Q E w = (if debug_build svc then E (Assertion ''0'') w else Q () w)"
  by (simp add: unreachable_def wp_simps)

text \<open>
  Two worlds agree outside the environment and the server: the client session, the thread and
  the mutex are the same.
\<close>

definition same_client :: "'e world \<Rightarrow> 'e world \<Rightarrow> bool" where
  "same_client w v \<longleftrightarrow> w_cs v = w_cs w \<and> w_self v = w_self w \<and> w_thread v = w_thread w \<and>
     w_locked v = w_locked w \<and> provider_loaded (w_ss v) = provider_loaded (w_ss w) \<and>
     sv_id (w_ss v) = sv_id (w_ss w) \<and> rollback_mode (w_ss v) = rollback_mode (w_ss w) \<and>
     sv_state (w_ss v) = sv_state (w_ss w)"

lemma same_client_refl [simp]: "same_client w w"
  by (simp add: same_client_def)

lemma same_client_trans: "same_client u v \<Longrightarrow> same_client v w \<Longrightarrow> same_client u w"
  by (simp add: same_client_def)

lemma same_client_frame [simp]:
  "same_client w (v\<lparr>w_env := e\<rparr>) = same_client w v"
  "same_client w (upd_ss (\<lambda>s. s\<lparr>rollback_event_queue := f s\<rparr>) v) = same_client w v"
  by (simp_all add: same_client_def)

text \<open>Partial correctness: whatever happens, the client session is untouched.\<close>

abbreviation keeps_client :: "('e world, 'a) cmd \<Rightarrow> 'e world \<Rightarrow> bool" where
  "keeps_client m w \<equiv> wp m (\<lambda>_. same_client w) (\<lambda>_. same_client w) w"

lemma start_streaming_client_keeps: "keeps_client (start_streaming_client svc) w"
  by (simp add: start_streaming_client_def wp_simps same_client_def split: prod.splits)

lemma stop_streaming_client_keeps: "keeps_client (stop_streaming_client svc) w"
  by (simp add: stop_streaming_client_def wp_simps same_client_def split: option.splits)

lemma stop_streaming_applier_keeps: "keeps_client (stop_streaming_applier svc i t) w"
  by (simp add: stop_streaming_applier_def wp_simps same_client_def split: option.splits)

lemma convert_streaming_client_keeps: "keeps_client (convert_streaming_client_to_applier svc) w"
  by (simp add: convert_streaming_client_to_applier_def wp_simps same_client_def
      split: option.splits prod.splits)

lemma queue_rollback_event_keeps: "keeps_client (queue_rollback_event svc i) w"
  by (simp add: queue_rollback_event_def wp_simps same_client_def)

lemma send_events_keeps: "keeps_client (send_events svc is) w"
proof (induction "is" arbitrary: w)
  case Nil
  then show ?case by (simp add: wp_simps)
next
  case (Cons i "is")
  have tail: "wp (send_events svc is) (\<lambda>_. same_client w) (\<lambda>_. same_client w) v"
    if "same_client w v" for v
    by (rule wp_mono [OF Cons.IH [of v]]) (use that in \<open>auto intro: same_client_trans\<close>)
  show ?case
    by (auto simp: wp_simps split: prod.splits intro!: tail)
qed

lemma send_pending_keeps: "keeps_client (send_pending_rollback_events svc) w"
  by (simp add: send_pending_rollback_events_def wp_simps send_events_keeps)

end
