(* ===== verification/Transaction.thy ===== *)
theory Transaction
  imports Server_Registry
begin

text \<open>
  The transaction of a client session (\<^verbatim>\<open>transaction.cpp\<close>), one definition per member
  function, in an order in which each is defined before it is called.

  A function that takes the client lock as a parameter expects it held; one that takes the
  lock itself is wrapped in \<open>with_lock\<close>. \<open>unlock\<close> and \<open>lock\<close> inside a body are the windows
  in which a brute force (BF) abort by another thread can happen: \<open>lock\<close> runs the aborts that
  arrived, with the model's own \<open>trx_bf_abort\<close>, before it takes the mutex.
\<close>

section \<open>State\<close>

fun trx_state_index :: "trx_state \<Rightarrow> nat" where
  "trx_state_index s_executing = 0"
| "trx_state_index s_preparing = 1"
| "trx_state_index s_prepared = 2"
| "trx_state_index s_certifying = 3"
| "trx_state_index s_committing = 4"
| "trx_state_index s_ordered_commit = 5"
| "trx_state_index s_committed = 6"
| "trx_state_index s_cert_failed = 7"
| "trx_state_index s_must_abort = 8"
| "trx_state_index s_aborting = 9"
| "trx_state_index s_aborted = 10"
| "trx_state_index s_must_replay = 11"
| "trx_state_index s_replaying = 12"

definition trx_allowed_table :: "nat list list" where
  "trx_allowed_table =
    [[0, 1, 0, 1, 0, 0, 0, 0, 1, 1, 0, 0, 0],
     [0, 0, 1, 0, 1, 0, 0, 0, 1, 0, 0, 0, 0],
     [0, 0, 0, 1, 1, 0, 0, 0, 1, 1, 0, 0, 0],
     [1, 1, 1, 0, 1, 0, 0, 1, 1, 0, 0, 0, 0],
     [0, 0, 0, 0, 0, 1, 1, 0, 1, 0, 0, 0, 0],
     [0, 0, 0, 0, 0, 0, 1, 0, 0, 0, 0, 0, 0],
     [0, 0, 0, 0, 0, 0, 0, 0, 0, 0, 0, 0, 0],
     [0, 0, 0, 0, 0, 0, 0, 0, 0, 1, 0, 0, 0],
     [0, 0, 0, 0, 0, 0, 0, 1, 0, 1, 0, 1, 0],
     [0, 0, 0, 0, 0, 0, 0, 0, 0, 0, 1, 0, 0],
     [0, 0, 0, 0, 0, 0, 0, 0, 0, 0, 0, 0, 0],
     [0, 0, 0, 0, 0, 0, 0, 0, 0, 0, 0, 0, 1],
     [0, 1, 0, 0, 1, 0, 1, 0, 0, 0, 1, 0, 0]]"

definition trx_allowed :: "trx_state \<Rightarrow> trx_state \<Rightarrow> bool" where
  "trx_allowed s t \<longleftrightarrow> trx_allowed_table ! trx_state_index s ! trx_state_index t \<noteq> 0"

definition trx_push_state :: "trx_state \<Rightarrow> transaction \<Rightarrow> transaction" where
  "trx_push_state s t =
     t\<lparr>trx_state_hist := push_history (\<lambda>n. n = 12) (trx_state t) (trx_state_hist t), trx_state := s\<rparr>"

text \<open>The history meets the contract of a history of at most 11 states.\<close>

interpretation trx_log: bounded_log "push_history (\<lambda>n. n = 12)" 11
  by (rule bounded_log_push_history) simp

definition set_state :: "'e services \<Rightarrow> trx_state \<Rightarrow> ('e world, unit) cmd" where
  "set_state svc next_state = block
     [assert_svc svc ''lock.owns_lock()'' w_locked,
      assert_svc svc ''owning thread or BF aborter''
        (\<lambda>w. owning_thread (w_cs w) = w_thread w \<or> next_state = s_must_abort \<or>
             next_state = s_must_replay \<or> next_state = s_aborting),
      when_st (\<lambda>w. \<not> trx_allowed (tstate w) next_state) (unreachable svc),
      modify (upd_trx (trx_push_state next_state)),
      client_event svc Notify_state_change,
      only_if (next_state = s_must_replay) (client_event svc Will_replay)]"

section \<open>Client state services\<close>

definition override_error :: "'e services \<Rightarrow> client_error \<Rightarrow> status \<Rightarrow> ('e world, unit) cmd" where
  "override_error svc err st =
     seq (assert_svc svc ''this_thread == owning_thread_id_'' (\<lambda>w. w_thread w = owning_thread (w_cs w)))
     (seq (assert_svc svc ''current_error_ == e_success || error != e_success''
             (\<lambda>w. current_error (w_cs w) = e_success \<or> err \<noteq> e_success))
          (modify (w_cs_update (\<lambda>c. c\<lparr>current_error := err, current_error_status := st\<rparr>))))"

definition update_last_written_gtid :: "'e services \<Rightarrow> gtid \<Rightarrow> ('e world, unit) cmd" where
  "update_last_written_gtid svc g =
     seq (assert_svc svc ''last_written_gtid_ grows''
            (\<lambda>w. let l = last_written_gtid (w_cs w) in
               gtid_is_undefined l \<or> gtid_id l = gtid_id g \<and> \<not> gtid_seqno l > gtid_seqno g))
         (modify (w_cs_update (\<lambda>c. c\<lparr>last_written_gtid := g\<rparr>)))"

definition unlock :: "('e world, unit) cmd" where
  "unlock = modify (\<lambda>w. w\<lparr>w_locked := False\<rparr>)"

definition take_lock :: "('e world, unit) cmd" where
  "take_lock = inspect (\<lambda>w. if w_locked w then throw (Blocked ''client mutex'')
     else modify (\<lambda>w. w\<lparr>w_locked := True\<rparr>))"

section \<open>BF abort\<close>

text \<open>
  \<^verbatim>\<open>bf_abort\<close> up to the point where it may release the lock: ask the provider, and if it
  agrees mark the transaction. This is all that can happen while another thread is in
  \<^verbatim>\<open>streaming_rollback\<close>: the rest of the abort waits for it to finish, and finds the
  rollback done.
\<close>

definition bf_abort_allowed_state :: "trx_state \<Rightarrow> bool" where
  "bf_abort_allowed_state s \<longleftrightarrow> s \<in> {s_executing, s_preparing, s_prepared, s_certifying, s_committing}"

definition bf_abort_enter :: "'e services \<Rightarrow> seqno \<Rightarrow> ('e world, bool) cmd" where
  "bf_abort_enter svc bf_seqno =
     fetch tstate (\<lambda>state_at_enter.
     seq (assert_svc svc ''lock.owns_lock()'' w_locked)
     (inspect (\<lambda>w.
       if \<not> active (trx w) then return False
       else if is_bf_immutable (trx w) then return False
       else if bf_abort_allowed_state state_at_enter then
         bind (provider_call (prov_bf_abort (prov svc) bf_seqno (trx_id (trx w)))) (\<lambda>st.
           if st = success then
             seq (block
               [modify (upd_trx (\<lambda>t. t\<lparr>bf_abort_state := state_at_enter\<rparr>)),
                set_state svc s_must_abort,
                modify (\<lambda>w. upd_trx (\<lambda>t. t\<lparr>bf_abort_client_state :=
                  session_state_int (cs_state (w_cs w))\<rparr>) w)])
               (return True)
           else return False)
       else return False)))"

text \<open>Run a command as the aborting thread, with the client lock held by it.\<close>

definition as_bf_thread :: "'e services \<Rightarrow> ('e world, 'a) cmd \<Rightarrow> ('e world, unit) cmd" where
  "as_bf_thread svc m =
     fetch w_thread (\<lambda>t.
       seq (modify (\<lambda>v. v\<lparr>w_thread := bf_thread svc, w_locked := True\<rparr>))
       (seq m (modify (\<lambda>v. v\<lparr>w_thread := t, w_locked := False\<rparr>))))"

text \<open>
  \<^verbatim>\<open>total_order_bf_abort\<close> around either form of the abort: the flag is set before the abort
  and cleared again if the abort was not allowed.
\<close>

definition in_total_order :: "('e world, bool) cmd \<Rightarrow> ('e world, bool) cmd" where
  "in_total_order m =
     seq (modify (upd_trx (\<lambda>t. t\<lparr>bf_aborted_in_total_order := True\<rparr>)))
     (bind m (\<lambda>ret.
       seq (only_if (\<not> ret) (modify (upd_trx (\<lambda>t. t\<lparr>bf_aborted_in_total_order := False\<rparr>))))
           (return ret)))"

text \<open>
  Who can be the victim (\<^verbatim>\<open>client_state::bf_abort\<close>): local clients and streaming appliers.
\<close>

definition bf_abortable :: "'e world \<Rightarrow> bool" where
  "bf_abortable w \<longleftrightarrow> cs_mode (w_cs w) = m_local \<or> is_streaming (trx w)"

definition bf_arrival ::
    "'e services \<Rightarrow> (seqno \<Rightarrow> ('e world, bool) cmd) \<Rightarrow> seqno \<times> bool \<Rightarrow> ('e world, unit) cmd" where
  "bf_arrival svc abort a =
     when_st bf_abortable
       (as_bf_thread svc (if snd a then in_total_order (abort (fst a)) else abort (fst a)))"

text \<open>
  \<^verbatim>\<open>lock.lock()\<close>: the aborts that came in since the mutex was released happen first. A
  thread that already holds the mutex would wait for itself.
\<close>

definition lock_with ::
    "'e services \<Rightarrow> (seqno \<Rightarrow> ('e world, bool) cmd) \<Rightarrow> ('e world, unit) cmd" where
  "lock_with svc abort =
     branch w_locked (throw (Blocked ''client mutex''))
       (bind (env_call (bf_arrivals svc)) (\<lambda>arrivals.
          seq (for_each (bf_arrival svc abort) arrivals) take_lock))"

abbreviation lock_in_rollback :: "'e services \<Rightarrow> ('e world, unit) cmd" where
  "lock_in_rollback svc \<equiv> lock_with svc (bf_abort_enter svc)"

text \<open>
  The part of \<^verbatim>\<open>streaming_rollback\<close> that runs once per streaming transaction.
\<close>

definition replicate_rollback :: "'e services \<Rightarrow> ('e world, unit) cmd" where
  "replicate_rollback svc =
     branch (\<lambda>w. bf_aborted_in_total_order (trx w))
       (block [unlock, stop_streaming_client svc, lock_in_rollback svc])
       (seq (block [unlock, convert_streaming_client_to_applier svc, lock_in_rollback svc])
         (fetch (\<lambda>w. trx_id (trx w)) (\<lambda>i.
            bind (provider_call (prov_rollback (prov svc) i)) (\<lambda>st.
              only_if (st \<noteq> success)
                (block [unlock, queue_rollback_event svc i, lock_in_rollback svc])))))"

definition streaming_rollback :: "'e services \<Rightarrow> ('e world, unit) cmd" where
  "streaming_rollback svc = block
     [assert_svc svc ''state_ != s_must_replay'' (\<lambda>w. tstate w \<noteq> s_must_replay),
      assert_svc svc ''is_streaming()'' (\<lambda>w. is_streaming (trx w)),
      assert_svc svc ''lock.owns_lock()'' w_locked,
      when_st (\<lambda>w. streaming_rollback_in_progress (trx w))
        (throw (Blocked ''streaming_rollback_in_progress_'')),
      modify (upd_trx (\<lambda>t. t\<lparr>streaming_rollback_in_progress := True\<rparr>)),
      when_st (\<lambda>w. \<not> sc_is_rolled_back (trx_streaming_context (trx w)))
        (block [replicate_rollback svc,
                fetch (\<lambda>w. trx_id (trx w)) (\<lambda>i. on_context (sc_rolled_back (debug_build svc) i))]),
      modify (upd_trx (\<lambda>t. t\<lparr>streaming_rollback_in_progress := False\<rparr>))]"

text \<open>
  The rest of \<^verbatim>\<open>bf_abort\<close>: replicate the rollback of a streaming victim, and hand an idle
  victim or a streaming applier to the background rollbacker.
\<close>

definition hand_to_rollbacker :: "'e services \<Rightarrow> trx_state \<Rightarrow> ('e world, unit) cmd" where
  "hand_to_rollbacker svc state_at_enter = block
     [branch (\<lambda>w. is_xa (trx w) \<and> state_at_enter = s_prepared)
        (block [set_state svc s_must_replay,
                modify (w_cs_update (\<lambda>c. c\<lparr>rollbacker_active := True\<rparr>))])
        (block [set_state svc s_aborting,
                modify (w_cs_update (\<lambda>c. c\<lparr>rollbacker_active := True\<rparr>)),
                when_st (\<lambda>w. cs_mode (w_cs w) = m_high_priority)
                  (fetch (\<lambda>w. trx w) (\<lambda>t. block
                    [unlock, stop_streaming_applier svc (trx_server_id t) (trx_id t), take_lock]))]),
      sv_background_rollback (server_ops svc)]"

definition trx_bf_abort :: "'e services \<Rightarrow> seqno \<Rightarrow> ('e world, bool) cmd" where
  "trx_bf_abort svc bf_seqno =
     fetch tstate (\<lambda>state_at_enter.
     bind (bf_abort_enter svc bf_seqno) (\<lambda>ret.
       seq (only_if ret (block
         [when_st (\<lambda>w. cs_mode (w_cs w) = m_local \<and> is_streaming (trx w) \<and>
                       state_at_enter = s_executing) (streaming_rollback svc),
          when_st (\<lambda>w. cs_state (w_cs w) = s_idle \<and> rollback_mode (w_ss w) = rm_sync \<or>
                       cs_mode (w_cs w) = m_high_priority \<and> is_streaming (trx w))
            (hand_to_rollbacker svc state_at_enter)]))
       (return ret)))"

definition trx_total_order_bf_abort :: "'e services \<Rightarrow> seqno \<Rightarrow> ('e world, bool) cmd" where
  "trx_total_order_bf_abort svc bf_seqno = in_total_order (trx_bf_abort svc bf_seqno)"

definition lock :: "'e services \<Rightarrow> ('e world, unit) cmd" where
  "lock svc = lock_with svc (trx_bf_abort svc)"

text \<open>A \<^verbatim>\<open>unique_lock\<close> over a whole function.\<close>

definition with_lock :: "'e services \<Rightarrow> ('e world, 'a) cmd \<Rightarrow> ('e world, 'a) cmd" where
  "with_lock svc m = seq (lock svc) (finally_do m unlock)"

end
