(* ===== verification/Certification.thy ===== *)
theory Certification
  imports Transaction
begin

text \<open>
  Certification of a transaction (\<^verbatim>\<open>transaction.cpp\<close>): of a fragment of a streaming
  transaction, and of the whole transaction at commit.
\<close>

section \<open>Helpers\<close>

text \<open>
  \<^verbatim>\<open>scoped_storage_service\<close>: take a storage service from the server service, switch the
  globals to it if it asks for that, and undo both when the scope ends.
\<close>

definition with_storage :: "'e services \<Rightarrow> ('e world, 'a) cmd \<Rightarrow> ('e world, 'a) cmd" where
  "with_storage svc body =
     bind (env_call (st_acquire (storage svc))) (\<lambda>acquired.
     if \<not> acquired then throw (Runtime_error ''Null client_state provided'')
     else
       seq (when_st (\<lambda>w. st_requires_globals (storage svc) (w_env w))
              (block [client_event svc Reset_globals, env_do (st_store_globals (storage svc))]))
       (finally_do body
         (fetch (\<lambda>w. st_requires_globals (storage svc) (w_env w)) (\<lambda>restore_globals. block
           [env_do (st_release (storage svc)),
            only_if restore_globals (client_event svc Store_globals)]))))"

definition storage_rollback :: "'e services \<Rightarrow> ('e world, int) cmd" where
  "storage_rollback svc = env_call (st_rollback (storage svc) ws_handle_default ws_meta_default)"

text \<open>\<^verbatim>\<open>wait_for_replayers(lock)\<close> releases the lock while it waits.\<close>

definition wait_for_replayers :: "'e services \<Rightarrow> ('e world, unit) cmd" where
  "wait_for_replayers svc = block [unlock, client_event svc Wait_for_replayers, lock svc]"

definition pa_unsafe_on :: "('e world, unit) cmd" where
  "pa_unsafe_on = modify (upd_trx (set_pa_unsafe True))"

definition abort_or_interrupt :: "'e services \<Rightarrow> ('e world, bool) cmd" where
  "abort_or_interrupt svc =
     seq (assert_svc svc ''lock.owns_lock()'' w_locked)
     (inspect (\<lambda>w.
       if tstate w = s_must_abort then
         seq (override_error svc e_deadlock_error success) (return True)
       else if tstate w = s_aborting \<or> tstate w = s_aborted then
         seq (only_if (bf_abort_client_state (trx w) \<noteq> 0 \<and> current_error (w_cs w) = e_success)
                (block [override_error svc e_deadlock_error success, unreachable svc]))
             (return True)
       else
         bind (env_call (cl_interrupted (client_ops svc))) (\<lambda>interrupted.
           if interrupted then
             seq (block
               [assert_svc svc ''not aborting''
                  (\<lambda>w. tstate w \<noteq> s_must_abort \<and> tstate w \<noteq> s_aborting \<and> tstate w \<noteq> s_aborted),
                override_error svc e_interrupted_error success,
                when_st (\<lambda>w. tstate w \<noteq> s_prepared) (set_state svc s_must_abort)])
               (return True)
           else return False)))"

text \<open>
  \<^verbatim>\<open>append_sr_keys_for_commit\<close>: every branch and leaf of the recorded keys as a shared key.
  A call into the provider that fails stops the loop; an exception passes through.
\<close>

definition append_key_call :: "'e services \<Rightarrow> key \<Rightarrow> ('e world, int) cmd" where
  "append_key_call svc k =
     fetch (\<lambda>w. trx_ws_handle (trx w)) (\<lambda>h.
       bind (provider_call (prov_append_key (prov svc) h k)) (\<lambda>(r, h').
         seq (set_handle h') (case r of Inl e \<Rightarrow> throw e | Inr n \<Rightarrow> return n)))"

definition append_sr_keys_for_commit :: "'e services \<Rightarrow> ('e world, int) cmd" where
  "append_sr_keys_for_commit svc =
     seq (assert_svc svc ''mode() == m_local'' (\<lambda>w. cs_mode (w_cs w) = m_local))
     (fetch (\<lambda>w. sr_key_set_pairs (sr_keys (trx w)))
       (until_nonzero (\<lambda>(b, l).
          append_key_call svc \<lparr>key_type = shared, key_parts = [b, l]\<rparr>)))"

definition certify_call ::
    "'e services \<Rightarrow> ws_meta \<Rightarrow> bool \<Rightarrow> ('e world, status \<times> ws_meta) cmd" where
  "certify_call svc meta seq_cb =
     inspect (\<lambda>w.
       bind (provider_call (prov_certify (prov svc) (cs_id (w_cs w)) (trx_ws_handle (trx w))
               (trx_flags (trx w)) meta seq_cb)) (\<lambda>(st, h, m).
         seq (set_handle h) (return (st, m))))"

definition release_call :: "'e services \<Rightarrow> ('e world, int) cmd" where
  "release_call svc =
     fetch (\<lambda>w. trx_ws_handle (trx w)) (\<lambda>h.
       bind (provider_call (prov_release (prov svc) h)) (\<lambda>(r, h').
         seq (set_handle h') (return r)))"

definition append_data_call :: "'e services \<Rightarrow> string \<Rightarrow> ('e world, status) cmd" where
  "append_data_call svc d =
     fetch (\<lambda>w. trx_ws_handle (trx w)) (\<lambda>h.
       bind (provider_call (prov_append_data (prov svc) h d)) (\<lambda>(r, h').
         seq (set_handle h') (return r)))"

text \<open>Lock, move to \<^verbatim>\<open>s_must_abort\<close>, report, and give up.\<close>

definition fail_must_abort ::
    "'e services \<Rightarrow> (client_error \<times> status) option \<Rightarrow> ('e world, int) cmd" where
  "fail_must_abort svc err =
     seq (block
       [lock svc,
        set_state svc s_must_abort,
        (case err of None \<Rightarrow> skip | Some (e, st) \<Rightarrow> override_error svc e st)])
       (return 1)"

section \<open>Fragments\<close>

text \<open>
  The certification of a fragment inside the storage scope, after the fragment was appended to
  the storage. The result is the return code and the error to report.
\<close>

definition certify_fragment_result ::
    "'e services \<Rightarrow> status \<Rightarrow> ws_meta \<Rightarrow> ('e world, int \<times> client_error) cmd" where
  "certify_fragment_result svc cert_ret sr_ws_meta =
     (case cert_ret of
        success \<Rightarrow>
          seq (block
            [modify (upd_trx (\<lambda>t. t\<lparr>fragments_certified_for_statement :=
               Suc (fragments_certified_for_statement t)\<rparr>)),
             assert_svc svc ''sr_ws_meta.seqno().is_undefined() == false''
               (\<lambda>_. \<not> seqno_is_undefined (wsm_seqno sr_ws_meta)),
             set_context sc_certified])
          (bind (env_call (st_update_fragment_meta (storage svc) sr_ws_meta)) (\<lambda>r.
             if r \<noteq> 0 then seq (storage_rollback svc) (return (1, e_deadlock_error))
             else
               fetch (\<lambda>w. trx_ws_handle (trx w)) (\<lambda>h.
               bind (env_call (st_commit (storage svc) h sr_ws_meta)) (\<lambda>r.
                 if r \<noteq> 0 then return (1, e_deadlock_error)
                 else seq (on_context (sc_stored (debug_build svc) (wsm_seqno sr_ws_meta)))
                          (return (0, e_success))))))
      | error_bf_abort \<Rightarrow>
          seq (storage_rollback svc) (seq (set_context sc_certified) (return (1, e_deadlock_error)))
      | error_certification_failed \<Rightarrow>
          seq (storage_rollback svc) (seq (set_context sc_certified) (return (1, e_deadlock_error)))
      | _ \<Rightarrow>
          seq (storage_rollback svc)
              (return (1, if cert_ret = error_size_exceeded then e_size_exceeded_error
                          else e_deadlock_error)))"

definition store_and_certify_fragment ::
    "'e services \<Rightarrow> string \<Rightarrow> ('e world, int \<times> client_error \<times> status) cmd" where
  "store_and_certify_fragment svc data =
     with_storage svc
      (fetch (\<lambda>w. sv_id (w_ss w)) (\<lambda>server_id.
       if id_is_undefined server_id then return (1, e_append_fragment_error, success)
       else
         fetch trx (\<lambda>t.
         bind (env_call (st_start_transaction (storage svc) (trx_ws_handle t))) (\<lambda>ret.
         if ret \<noteq> 0 then return (ret, e_append_fragment_error, success)
         else
           bind (env_call (st_append_fragment (storage svc) server_id (trx_id t) (trx_flags t) data
                   (trx_xid t))) (\<lambda>ret.
           if ret \<noteq> 0 then
             seq (storage_rollback svc) (return (ret, e_append_fragment_error, success))
           else
             bind (certify_call svc ws_meta_default False) (\<lambda>(cert_ret, sr_ws_meta).
             bind (certify_fragment_result svc cert_ret sr_ws_meta) (\<lambda>(ret, err).
               return (ret, err, cert_ret))))))))"

text \<open>The last part, with the lock held again.\<close>

definition conclude_fragment ::
    "'e services \<Rightarrow> int \<Rightarrow> client_error \<Rightarrow> status \<Rightarrow> ('e world, int) cmd" where
  "conclude_fragment svc ret err cert_ret =
     (if ret \<noteq> 0 then
        seq (block
          [assert_svc svc ''error != e_success'' (\<lambda>_. err \<noteq> e_success),
           branch (\<lambda>w. \<not> is_streaming (trx w))
             (block [unlock, stop_streaming_client svc, lock svc])
             (streaming_rollback svc),
           when_st (\<lambda>w. tstate w \<noteq> s_must_abort) (set_state svc s_must_abort),
           override_error svc err cert_ret])
          (return ret)
      else
        branch (\<lambda>w. tstate w = s_must_abort)
          (seq (block
            [when_st (\<lambda>w. is_streaming (trx w)) (streaming_rollback svc),
             override_error svc e_deadlock_error cert_ret])
            (return 1))
          (seq (block
            [assert_svc svc ''state_ == s_certifying'' (\<lambda>w. tstate w = s_certifying),
             set_state svc s_executing,
             set_flags (\<lambda>f. f AND NOT flag_start_transaction),
             set_flags (\<lambda>f. f AND NOT flag_pa_unsafe)])
            (return ret)))"

text \<open>The middle part: the data is in the provider, the lock is not held.\<close>

definition replicate_fragment :: "'e services \<Rightarrow> string \<Rightarrow> ('e world, int) cmd" where
  "replicate_fragment svc data =
     seq (block
       [when_st (\<lambda>w. \<not> is_streaming (trx w)) (start_streaming_client svc),
        when_st (\<lambda>w. implicit_deps (trx w)) (set_flags (\<lambda>f. f OR flag_implicit_deps))])
     (bind (store_and_certify_fragment svc data) (\<lambda>(ret, err, cert_ret).
      bind (if ret = 0 then
              seq (assert_svc svc ''error == e_success'' (\<lambda>_. err = e_success))
              (bind (release_call svc) (\<lambda>r.
                return (r, if r \<noteq> 0 then e_deadlock_error else err)))
            else return (ret, err)) (\<lambda>(ret, err).
      seq (lock svc) (conclude_fragment svc ret err cert_ret))))"

text \<open>
  \<^verbatim>\<open>certify_fragment\<close>. For an XA transaction the lock is taken once more after the data was
  appended, to see whether the transaction was aborted.
\<close>

definition certify_fragment :: "'e services \<Rightarrow> ('e world, int) cmd" where
  "certify_fragment svc =
     seq (block
       [assert_svc svc ''lock.owns_lock()'' w_locked,
        assert_svc svc ''mode() == m_local'' (\<lambda>w. cs_mode (w_cs w) = m_local),
        assert_svc svc ''rolled_back() == false || s_must_abort''
          (\<lambda>w. \<not> sc_is_rolled_back (trx_streaming_context (trx w)) \<or> tstate w = s_must_abort),
        wait_for_replayers svc])
     (bind (abort_or_interrupt svc) (\<lambda>aborted.
      if aborted then return 1
      else
        seq (block [set_state svc s_certifying, unlock])
        (bind (send_pending_rollback_events svc) (\<lambda>st.
         if st \<noteq> success then fail_must_abort svc None
         else
           fetch (\<lambda>w. trx_ws_handle (trx w)) (\<lambda>h.
           bind (env_call (cl_prepare_fragment_for_replication (client_ops svc) h))
             (\<lambda>(r, data, log_position, h').
           seq (set_handle h')
           (if r \<noteq> 0 then fail_must_abort svc (Some (e_error_during_commit, success))
            else
              seq (set_context (sc_set_log_position log_position))
              (if data = [] then
                 seq (block [lock svc, set_state svc s_executing]) (return 0)
               else
                 bind (append_data_call svc data) (\<lambda>st.
                 if st \<noteq> success then fail_must_abort svc (Some (e_error_during_commit, success))
                 else
                   bind (branch (\<lambda>w. is_xa (trx w))
                           (seq (lock svc)
                           (bind (abort_or_interrupt svc) (\<lambda>aborted.
                              if aborted then return True else seq unlock (return False))))
                           (return False)) (\<lambda>aborted.
                   if aborted then return 1 else replicate_fragment svc data))))))))))"

definition streaming_step :: "'e services \<Rightarrow> bool \<Rightarrow> ('e world, int) cmd" where
  "streaming_step svc force =
     seq (block
       [assert_svc svc ''lock.owns_lock()'' w_locked,
        assert_svc svc ''fragment_size() || is_xa()''
          (\<lambda>w. fragment_size (trx_streaming_context (trx w)) \<noteq> 0 \<or> is_xa (trx w))])
     (fetch (\<lambda>w. cl_bytes_generated (client_ops svc) (w_env w)) (\<lambda>bytes_generated.
      fetch (\<lambda>w. log_position (trx_streaming_context (trx w))) (\<lambda>log_position.
      if bytes_generated < log_position then return 1
      else
        let bytes_to_replicate = bytes_generated - log_position in
        seq (fetch (\<lambda>w. fragment_unit (trx_streaming_context (trx w))) (\<lambda>u. case u of
               row \<Rightarrow> set_context (sc_increment_unit_counter 1)
             | statement \<Rightarrow> set_context (sc_increment_unit_counter 1)
             | bytes \<Rightarrow> set_context (sc_set_unit_counter bytes_to_replicate)))
        (if bytes_to_replicate \<le> 0 \<and> \<not> force then
           seq (assert_svc svc ''bytes_to_replicate == 0'' (\<lambda>_. bytes_to_replicate = 0)) (return 0)
         else
           branch (\<lambda>w. fragment_size_exceeded (trx_streaming_context (trx w)) \<or> force)
             (seq (set_context sc_reset_unit_counter) (certify_fragment svc))
             (return 0)))))"

section \<open>Commit\<close>

text \<open>The outcome of certification, with the lock held: one branch per provider status.\<close>

definition must_abort_unless_aborted :: "'e services \<Rightarrow> ('e world, unit) cmd" where
  "must_abort_unless_aborted svc =
     when_st (\<lambda>w. tstate w \<noteq> s_must_abort) (set_state svc s_must_abort)"

definition certify_commit_result :: "'e services \<Rightarrow> status \<Rightarrow> ('e world, int) cmd" where
  "certify_commit_result svc cert_ret =
     (case cert_ret of
        success \<Rightarrow>
          seq (block
            [assert_svc svc ''ordered()'' (\<lambda>w. ordered (trx w)),
             modify (upd_trx (\<lambda>t. t\<lparr>certified := True\<rparr>)),
             modify (upd_trx (\<lambda>t. t\<lparr>fragments_certified_for_statement :=
               Suc (fragments_certified_for_statement t)\<rparr>))])
          (fetch tstate (\<lambda>s. case s of
             s_certifying \<Rightarrow>
               seq (branch (\<lambda>w. is_xa (trx w)) (set_state svc s_committing) (set_state svc s_preparing))
                   (return 0)
           | s_must_abort \<Rightarrow> seq (set_state svc s_must_replay) (return 1)
           | _ \<Rightarrow> seq (unreachable svc) (return 1)))
      | error_warning \<Rightarrow>
          seq (block
            [assert_svc svc ''ordered() == false'' (\<lambda>w. \<not> ordered (trx w)),
             set_state svc s_must_abort,
             override_error svc e_error_during_commit cert_ret])
            (return 1)
      | error_transaction_missing \<Rightarrow>
          seq (block [set_state svc s_must_abort, override_error svc e_error_during_commit cert_ret])
              (return 1)
      | error_bf_abort \<Rightarrow>
          seq (block [must_abort_unless_aborted svc, set_state svc s_must_replay]) (return 1)
      | error_certification_failed \<Rightarrow>
          seq (block [set_state svc s_cert_failed, override_error svc e_deadlock_error success])
              (return 1)
      | error_size_exceeded \<Rightarrow>
          seq (block [set_state svc s_must_abort, override_error svc e_error_during_commit cert_ret])
              (return 1)
      | error_connection_failed \<Rightarrow>
          seq (branch (\<lambda>w. tstate w = s_must_abort)
                (block [when_st (\<lambda>w. is_xa (trx w)) (set_state svc s_must_replay),
                        override_error svc e_deadlock_error success])
                (block [override_error svc e_error_during_commit cert_ret,
                        branch (\<lambda>w. is_xa (trx w))
                          (set_state svc s_prepared) (set_state svc s_must_abort)]))
              (return 1)
      | error_provider_failed \<Rightarrow>
          seq (block [must_abort_unless_aborted svc,
                      override_error svc e_error_during_commit cert_ret])
              (return 1)
      | error_fatal \<Rightarrow>
          seq (block [override_error svc e_error_during_commit cert_ret, set_state svc s_must_abort,
                      client_event svc Emergency_shutdown])
              (return 1)
      | error_not_implemented \<Rightarrow>
          seq (block [override_error svc e_error_during_commit cert_ret, set_state svc s_must_abort])
              (return 1)
      | error_not_allowed \<Rightarrow>
          seq (block [override_error svc e_error_during_commit cert_ret, set_state svc s_must_abort])
              (return 1)
      | _ \<Rightarrow>
          seq (block [set_state svc s_must_abort, override_error svc e_error_during_commit cert_ret])
              (return 1))"

text \<open>
  The middle part: flags and data of the commit fragment, the call of the provider, and the
  lock again.
\<close>

definition replicate_commit :: "'e services \<Rightarrow> bool \<Rightarrow> ('e world, int) cmd" where
  "replicate_commit svc seq_cb =
     seq (block
       [when_st (\<lambda>w. is_streaming (trx w))
          (block
            [when_st (\<lambda>w. \<not> is_xa (trx w)) (seq (append_sr_keys_for_commit svc) skip),
             pa_unsafe_on]),
        when_st (\<lambda>w. implicit_deps (trx w)) (set_flags (\<lambda>f. f OR flag_implicit_deps)),
        set_flags (\<lambda>f. f OR flag_commit),
        set_flags (\<lambda>f. f AND NOT flag_prepare)])
     (fetch (\<lambda>w. trx_ws_handle (trx w)) (\<lambda>h.
      bind (env_call (cl_prepare_data_for_replication (client_ops svc) h)) (\<lambda>(r, h').
      seq (set_handle h')
      (if r \<noteq> 0 then
         seq (block [lock svc, override_error svc e_size_exceeded_error error_size_exceeded,
                     must_abort_unless_aborted svc])
             (return 1)
       else
         fetch (\<lambda>w. trx_ws_meta (trx w)) (\<lambda>meta.
         bind (certify_call svc meta seq_cb) (\<lambda>(cert_ret, meta').
         seq (block
           [modify (upd_trx (\<lambda>t. t\<lparr>trx_ws_meta := meta'\<rparr>)),
            lock svc,
            assert_svc svc ''state() == s_certifying || state() == s_must_abort''
              (\<lambda>w. tstate w = s_certifying \<or> tstate w = s_must_abort)])
           (certify_commit_result svc cert_ret)))))))"

text \<open>The first part after the check for an abort: pending rollbacks of others go first.\<close>

definition start_certifying :: "'e services \<Rightarrow> bool \<Rightarrow> ('e world, int) cmd" where
  "start_certifying svc seq_cb =
     seq (block [set_state svc s_certifying, unlock])
     (bind (send_pending_rollback_events svc) (\<lambda>st.
        branch (\<lambda>w. st \<noteq> success \<and> \<not> is_xa (trx w))
          (fail_must_abort svc None)
          (replicate_commit svc seq_cb)))"

definition certify_unless_aborted :: "'e services \<Rightarrow> bool \<Rightarrow> ('e world, int) cmd" where
  "certify_unless_aborted svc seq_cb =
     bind (abort_or_interrupt svc) (\<lambda>aborted.
       if aborted then
         seq (when_st (\<lambda>w. is_xa (trx w) \<and> tstate w = s_must_abort) (set_state svc s_must_replay))
             (return 1)
       else start_certifying svc seq_cb)"

definition certify_commit :: "'e services \<Rightarrow> bool \<Rightarrow> ('e world, int) cmd" where
  "certify_commit svc seq_cb =
     seq (block
       [assert_svc svc ''lock.owns_lock()'' w_locked,
        assert_svc svc ''active()'' (\<lambda>w. active (trx w)),
        wait_for_replayers svc,
        assert_svc svc ''lock.owns_lock()'' w_locked])
     (certify_unless_aborted svc seq_cb)"

end
