(* ===== verification/Transaction_Hooks.thy ===== *)
theory Transaction_Hooks
  imports Certification
begin

text \<open>
  The hooks of a transaction (\<^verbatim>\<open>transaction.cpp\<close>) that the DBMS calls through
  \<^verbatim>\<open>client_state\<close>: start, prepare, commit, rollback, the end of a statement and replay.
\<close>

section \<open>Starting\<close>

definition trx_start_transaction :: "'e services \<Rightarrow> transaction_id \<Rightarrow> ('e world, int) cmd" where
  "trx_start_transaction svc i =
     seq (block
       [assert_svc svc ''active() == false'' (\<lambda>w. \<not> active (trx w)),
        assert_svc svc ''is_xa() == false'' (\<lambda>w. \<not> is_xa (trx w)),
        assert_svc svc ''flags() == 0'' (\<lambda>w. trx_flags (trx w) = 0),
        modify (\<lambda>w. upd_trx (\<lambda>t. t\<lparr>trx_server_id := sv_id (w_ss w), trx_id := i,
          trx_state := s_executing, trx_state_hist := [], trx_ws_handle := ws_handle_of i,
          trx_flags := flag_start_transaction\<rparr>) w),
        client_event svc Notify_state_change])
     (inspect (\<lambda>w. case cs_mode (w_cs w) of
        m_high_priority \<Rightarrow> return 0
      | m_local \<Rightarrow>
          bind (provider_call (prov_start_transaction (prov svc) (trx_ws_handle (trx w))))
            (\<lambda>(r, h). seq (set_handle h) (return r))
      | _ \<Rightarrow> seq (unreachable svc) (return 1)))"

definition trx_start_transaction_applying ::
    "'e services \<Rightarrow> ws_handle \<Rightarrow> ws_meta \<Rightarrow> ('e world, int) cmd" where
  "trx_start_transaction_applying svc h m =
     seq (branch (\<lambda>w. tstate w \<noteq> s_replaying)
       (block
         [assert_svc svc ''active() == false'' (\<lambda>w. \<not> active (trx w)),
          assert_svc svc ''flags() == 0'' (\<lambda>w. trx_flags (trx w) = 0),
          modify (upd_trx (\<lambda>t. t\<lparr>trx_server_id := wsm_server_id m, trx_id := wsm_transaction_id m\<rparr>)),
          assert_svc svc ''mode() == m_high_priority'' (\<lambda>w. cs_mode (w_cs w) = m_high_priority),
          modify (upd_trx (\<lambda>t. t\<lparr>trx_state := s_executing\<rparr>)),
          client_event svc Notify_state_change,
          modify (upd_trx (\<lambda>t. t\<lparr>trx_state_hist := [], trx_ws_handle := h, trx_ws_meta := m,
            trx_flags := flag_start_transaction, certified := True\<rparr>))])
       (block
         [modify (upd_trx (\<lambda>t. t\<lparr>trx_ws_meta := m\<rparr>)),
          assert_svc svc ''flags() & commit'' (\<lambda>_. commits_transaction (wsm_flags m)),
          assert_svc svc ''active()'' (\<lambda>w. active (trx w)),
          assert_svc svc ''mode() == m_high_priority'' (\<lambda>w. cs_mode (w_cs w) = m_high_priority),
          assert_svc svc ''state() == s_replaying'' (\<lambda>w. tstate w = s_replaying),
          assert_svc svc ''seqno().is_undefined() == false'' (\<lambda>w. ordered (trx w)),
          modify (upd_trx (\<lambda>t. t\<lparr>certified := True\<rparr>))]))
     (return 0)"

definition trx_next_fragment :: "ws_meta \<Rightarrow> ('e world, int) cmd" where
  "trx_next_fragment m = seq (modify (upd_trx (\<lambda>t. t\<lparr>trx_ws_meta := m\<rparr>))) (return 0)"

definition trx_adopt :: "'e services \<Rightarrow> transaction \<Rightarrow> ('e world, unit) cmd" where
  "trx_adopt svc other =
     seq (assert_svc svc ''is_streaming()'' (\<lambda>_. is_streaming other))
     (seq (trx_start_transaction svc (trx_id other))
          (modify (upd_trx (\<lambda>t. t\<lparr>trx_server_id := trx_server_id other, trx_flags := trx_flags other,
             trx_streaming_context := trx_streaming_context other\<rparr>))))"

definition trx_fragment_applied :: "'e services \<Rightarrow> seqno \<Rightarrow> ('e world, unit) cmd" where
  "trx_fragment_applied svc s =
     seq (assert_svc svc ''active()'' (\<lambda>w. active (trx w)))
         (on_context (sc_applied (debug_build svc) s))"

definition trx_prepare_for_ordering ::
    "'e services \<Rightarrow> ws_handle \<Rightarrow> ws_meta \<Rightarrow> bool \<Rightarrow> ('e world, int) cmd" where
  "trx_prepare_for_ordering svc h m is_commit =
     seq (assert_svc svc ''active()'' (\<lambda>w. active (trx w)))
     (seq (when_st (\<lambda>w. tstate w \<noteq> s_replaying)
            (modify (upd_trx (\<lambda>t. t\<lparr>trx_ws_handle := h, trx_ws_meta := m, certified := is_commit\<rparr>))))
          (return 0))"

definition trx_assign_read_view :: "'e services \<Rightarrow> gtid option \<Rightarrow> ('e world, int) cmd" where
  "trx_assign_read_view svc g =
     catch_all
       (fetch (\<lambda>w. trx_ws_handle (trx w)) (\<lambda>h.
          bind (provider_call (prov_assign_read_view (prov svc) h g)) (\<lambda>(r, h').
            seq (set_handle h') (case r of Inl e \<Rightarrow> throw e | Inr st \<Rightarrow> return (status_int st)))))
       (return 1)"

definition trx_append_key :: "'e services \<Rightarrow> key \<Rightarrow> ('e world, int) cmd" where
  "trx_append_key svc k =
     seq (assert_svc svc ''active()'' (\<lambda>w. active (trx w)))
     (catch_all
       (seq (inspect (\<lambda>w. case sr_key_set_insert (debug_build svc) k (sr_keys (trx w)) of
               Inl e \<Rightarrow> throw e
             | Inr ks \<Rightarrow> modify (upd_trx (\<lambda>t. t\<lparr>sr_keys := ks\<rparr>))))
            (append_key_call svc k))
       (return 1))"

definition trx_append_data :: "'e services \<Rightarrow> string \<Rightarrow> ('e world, int) cmd" where
  "trx_append_data svc d =
     seq (assert_svc svc ''active()'' (\<lambda>w. active (trx w)))
         (bind (append_data_call svc d) (\<lambda>st. return (status_int st)))"

definition trx_after_row :: "'e services \<Rightarrow> ('e world, int) cmd" where
  "trx_after_row svc = with_lock svc
     (branch (\<lambda>w. fragment_size (trx_streaming_context (trx w)) \<noteq> 0 \<and>
                 fragment_unit (trx_streaming_context (trx w)) \<noteq> statement)
        (streaming_step svc False) (return 0))"

section \<open>Prepare\<close>

text \<open>
  First part of \<^verbatim>\<open>before_prepare\<close> for a local streaming transaction: remove the stored
  fragments, except for XA.
\<close>

definition remove_fragments_before_prepare :: "'e services \<Rightarrow> ('e world, int) cmd" where
  "remove_fragments_before_prepare svc =
     seq unlock
     (bind (branch (\<lambda>w. \<not> cl_statement_allowed_for_streaming (client_ops svc) (w_env w))
         (seq (override_error svc e_error_during_commit error_not_allowed) (return 1))
         (branch (\<lambda>w. \<not> is_xa (trx w))
           (bind (cl_remove_fragments (client_ops svc)) (\<lambda>ret.
              seq (only_if (ret \<noteq> 0) (block
                [lock svc,
                 when_st (\<lambda>w. tstate w = s_executing) (set_state svc s_must_abort),
                 unlock,
                 override_error svc e_deadlock_error success]))
              (return ret)))
           (return 0))) (\<lambda>ret.
      seq (lock svc)
      (branch (\<lambda>w. tstate w = s_must_abort)
        (seq (override_error svc e_deadlock_error success) (return 1))
        (return ret))))"

definition prepare_failed_state :: "trx_state \<Rightarrow> bool" where
  "prepare_failed_state s \<longleftrightarrow> s = s_must_abort \<or> s = s_must_replay \<or> s = s_cert_failed"

definition before_prepare_local :: "'e services \<Rightarrow> bool \<Rightarrow> ('e world, int) cmd" where
  "before_prepare_local svc seq_cb =
     bind (branch (\<lambda>w. is_streaming (trx w)) (remove_fragments_before_prepare svc) (return 0)) (\<lambda>ret.
     if ret \<noteq> 0 then return ret
     else
       bind (branch (\<lambda>w. is_xa (trx w))
         (seq (block [set_flags (\<lambda>f. f OR flag_prepare), pa_unsafe_on,
                      seq (append_sr_keys_for_commit svc) skip])
          (bind (streaming_step svc True) (\<lambda>ret.
           seq (only_if (ret = 0) (block
                  [assert_svc svc ''state() == s_executing'' (\<lambda>w. tstate w = s_executing),
                   set_state svc s_preparing]))
               (return ret))))
         (certify_commit svc seq_cb)) (\<lambda>ret.
       seq (assert_svc svc ''prepared or failed''
              (\<lambda>w. ret = 0 \<and> tstate w = s_preparing \<or> prepare_failed_state (tstate w)))
       (if ret \<noteq> 0 then
          seq (assert_svc svc ''state() == s_must_replay || current_error()''
                 (\<lambda>w. tstate w = s_must_replay \<or> current_error (w_cs w) \<noteq> e_success))
              (return 1)
        else return ret)))"

definition trx_before_prepare :: "'e services \<Rightarrow> bool \<Rightarrow> ('e world, int) cmd" where
  "trx_before_prepare svc seq_cb =
     seq (block
       [assert_svc svc ''lock.owns_lock()'' w_locked,
        assert_svc svc ''executing, must_abort or replaying''
          (\<lambda>w. tstate w = s_executing \<or> tstate w = s_must_abort \<or> tstate w = s_replaying)])
     (branch (\<lambda>w. tstate w = s_must_abort)
       (seq (block
         [assert_svc svc ''mode() == m_local'' (\<lambda>w. cs_mode (w_cs w) = m_local),
          override_error svc e_deadlock_error success])
         (return 1))
       (bind (fetch (\<lambda>w. cs_mode (w_cs w)) (\<lambda>m. case m of
            m_local \<Rightarrow> before_prepare_local svc seq_cb
          | m_high_priority \<Rightarrow>
              seq (when_st (\<lambda>w. is_xa (trx w))
                    (assert_svc svc ''executing or replaying''
                      (\<lambda>w. tstate w = s_executing \<or> tstate w = s_replaying)))
              (seq (when_st (\<lambda>w. \<not> (is_xa (trx w) \<and> tstate w = s_replaying))
                     (set_state svc s_preparing))
                   (return 0))
          | _ \<Rightarrow> seq (unreachable svc) (return 0))) (\<lambda>ret.
        seq (assert_svc svc ''preparing or failed''
               (\<lambda>w. tstate w = s_preparing \<or> is_xa (trx w) \<and> tstate w = s_replaying \<or>
                    ret \<noteq> 0 \<and> (prepare_failed_state (tstate w) \<or> tstate w = s_aborted)))
            (return ret))))"

definition trx_after_prepare :: "'e services \<Rightarrow> ('e world, int) cmd" where
  "trx_after_prepare svc =
     seq (assert_svc svc ''lock.owns_lock()'' w_locked)
     (branch (\<lambda>w. is_xa (trx w))
       (fetch tstate (\<lambda>s. case s of
          s_preparing \<Rightarrow>
            seq (block
              [assert_svc svc ''m_local || (certified() && ordered())''
                 (\<lambda>w. cs_mode (w_cs w) = m_local \<or> certified (trx w) \<and> ordered (trx w)),
               set_state svc s_prepared])
              (return 0)
        | s_must_abort \<Rightarrow>
            seq (block
              [assert_svc svc ''mode() == m_local'' (\<lambda>w. cs_mode (w_cs w) = m_local),
               override_error svc e_deadlock_error success])
              (return 1)
        | s_replaying \<Rightarrow>
            seq (assert_svc svc ''mode() == m_high_priority'' (\<lambda>w. cs_mode (w_cs w) = m_high_priority))
                (return 0)
        | _ \<Rightarrow> seq (unreachable svc) (return 0)))
       (seq (block
         [assert_svc svc ''certified() && ordered()'' (\<lambda>w. certified (trx w) \<and> ordered (trx w)),
          assert_svc svc ''preparing or must_abort''
            (\<lambda>w. tstate w = s_preparing \<or> tstate w = s_must_abort)])
        (branch (\<lambda>w. tstate w = s_must_abort)
          (seq (block
            [assert_svc svc ''mode() == m_local'' (\<lambda>w. cs_mode (w_cs w) = m_local),
             set_state svc s_must_replay])
            (return 1))
          (seq (set_state svc s_committing) (return 0)))))"

section \<open>Commit\<close>

definition commit_order_enter_call :: "'e services \<Rightarrow> ('e world, status) cmd" where
  "commit_order_enter_call svc =
     fetch trx (\<lambda>t.
       provider_call (prov_commit_order_enter (prov svc) (trx_ws_handle t) (trx_ws_meta t)))"

definition commit_order_leave_call :: "'e services \<Rightarrow> ('e world, int) cmd" where
  "commit_order_leave_call svc =
     fetch trx (\<lambda>t.
       provider_call (prov_commit_order_leave (prov svc) (trx_ws_handle t) (trx_ws_meta t)
         (apply_error_buf t)))"

text \<open>
  \<^verbatim>\<open>before_commit\<close> of a local transaction: prepare if that was not done yet, certify a prepared
  XA transaction, and enter the commit order.
\<close>

definition before_commit_prepare :: "'e services \<Rightarrow> bool \<Rightarrow> ('e world, int) cmd" where
  "before_commit_prepare svc seq_cb =
     fetch tstate (\<lambda>s.
     if s = s_executing then
       bind (or_else (trx_before_prepare svc seq_cb) (trx_after_prepare svc)) (\<lambda>ret.
       seq (assert_svc svc ''committing or failed''
              (\<lambda>w. ret = 0 \<and> (tstate w = s_committing \<or> tstate w = s_prepared) \<or>
                   prepare_failed_state (tstate w) \<or> tstate w = s_aborted))
           (return ret))
     else if s \<noteq> s_committing \<and> s \<noteq> s_prepared then
       seq (block
         [assert_svc svc ''state() == s_must_abort'' (\<lambda>w. tstate w = s_must_abort),
          branch (\<lambda>w. certified (trx w) \<or> is_xa (trx w) \<and> is_streaming (trx w))
            (set_state svc s_must_replay)
            (override_error svc e_deadlock_error success)])
         (return 1)
     else return 0)"

definition enter_commit_order :: "'e services \<Rightarrow> ('e world, int) cmd" where
  "enter_commit_order svc =
     seq (block
       [assert_svc svc ''certified()'' (\<lambda>w. certified (trx w)),
        assert_svc svc ''ordered()'' (\<lambda>w. ordered (trx w)),
        unlock])
     (bind (commit_order_enter_call svc) (\<lambda>st.
      seq (lock svc)
      (if st = success then return 0
       else if st = error_bf_abort then
         seq (block [must_abort_unless_aborted svc, set_state svc s_must_replay]) (return 1)
       else seq (unreachable svc) (return 1))))"

definition before_commit_local :: "'e services \<Rightarrow> bool \<Rightarrow> ('e world, int) cmd" where
  "before_commit_local svc seq_cb =
     bind (before_commit_prepare svc seq_cb) (\<lambda>ret.
     bind (branch (\<lambda>w. ret = 0 \<and> tstate w = s_prepared)
       (bind (certify_commit svc False) (\<lambda>ret.
         seq (assert_svc svc ''committing or failed''
                (\<lambda>w. ret = 0 \<and> tstate w = s_committing \<or> prepare_failed_state (tstate w) \<or>
                     tstate w = s_prepared))
             (return ret)))
       (return ret)) (\<lambda>ret.
     if ret = 0 then enter_commit_order svc else return ret))"

definition before_commit_high_priority :: "'e services \<Rightarrow> ('e world, int) cmd" where
  "before_commit_high_priority svc =
     seq (block
       [assert_svc svc ''certified()'' (\<lambda>w. certified (trx w)),
        assert_svc svc ''ordered()'' (\<lambda>w. ordered (trx w))])
     (bind (inspect (\<lambda>w.
         if is_xa (trx w) then
           seq (block
             [assert_svc svc ''prepared or replaying''
                (\<lambda>w. tstate w = s_prepared \<or> tstate w = s_replaying),
              set_state svc s_committing])
             (return 0)
         else if tstate w = s_executing \<or> tstate w = s_replaying then
           or_else (trx_before_prepare svc False) (trx_after_prepare svc)
         else return 0)) (\<lambda>ret.
      seq unlock
      (bind (if ret \<noteq> 0 then return 1
             else bind (commit_order_enter_call svc) (\<lambda>st. return (bool_int (st \<noteq> success)))) (\<lambda>ret.
       seq (lock svc)
       (seq (only_if (ret \<noteq> 0) (block [set_state svc s_must_abort, set_state svc s_aborting]))
            (return ret))))))"

definition trx_before_commit :: "'e services \<Rightarrow> bool \<Rightarrow> ('e world, int) cmd" where
  "trx_before_commit svc seq_cb = with_lock svc
     (seq (block
       [assert_svc svc ''mode() != m_toi'' (\<lambda>w. cs_mode (w_cs w) \<noteq> m_toi),
        assert_svc svc ''state before commit''
          (\<lambda>w. tstate w \<in> {s_executing, s_prepared, s_committing, s_must_abort, s_replaying}),
        assert_svc svc ''certified()''
          (\<lambda>w. tstate w \<noteq> s_committing \<and> tstate w \<noteq> s_replaying \<or> certified (trx w))])
     (bind (fetch (\<lambda>w. cs_mode (w_cs w)) (\<lambda>m. case m of
          m_local \<Rightarrow> before_commit_local svc seq_cb
        | m_high_priority \<Rightarrow> before_commit_high_priority svc
        | _ \<Rightarrow> seq (unreachable svc) (return 1))) (\<lambda>ret.
      seq (when_st (\<lambda>w. ret = 0 \<and> tstate w = s_committing)
             (modify (upd_trx (\<lambda>t. t\<lparr>is_bf_immutable := True\<rparr>))))
          (return ret))))"

definition trx_ordered_commit :: "'e services \<Rightarrow> ('e world, int) cmd" where
  "trx_ordered_commit svc = with_lock svc
     (seq (block
       [assert_svc svc ''state() == s_committing'' (\<lambda>w. tstate w = s_committing),
        assert_svc svc ''is_bf_immutable_'' (\<lambda>w. is_bf_immutable (trx w)),
        assert_svc svc ''ordered()'' (\<lambda>w. ordered (trx w))])
     (bind (commit_order_leave_call svc) (\<lambda>ret.
      seq (if ret \<noteq> 0 then block
             [assert_svc svc ''mode() == m_high_priority'' (\<lambda>w. cs_mode (w_cs w) = m_high_priority),
              set_state svc s_must_abort, set_state svc s_aborting]
           else set_state svc s_ordered_commit)
          (return ret))))"

definition remove_fragments_in_storage_service_scope :: "'e services \<Rightarrow> ('e world, unit) cmd" where
  "remove_fragments_in_storage_service_scope svc = block
     [assert_svc svc ''lock.owns_lock()'' w_locked,
      unlock,
      with_storage svc (block
        [fetch trx (\<lambda>t. env_do (st_adopt_transaction (storage svc) t)),
         seq (env_call (st_remove_fragments (storage svc))) skip,
         seq (env_call (st_commit (storage svc) ws_handle_default ws_meta_default)) skip]),
      lock svc]"

definition trx_after_commit :: "'e services \<Rightarrow> ('e world, int) cmd" where
  "trx_after_commit svc = with_lock svc
     (seq (block
       [assert_svc svc ''is_bf_immutable_'' (\<lambda>w. is_bf_immutable (trx w)),
        assert_svc svc ''state() == s_ordered_commit'' (\<lambda>w. tstate w = s_ordered_commit),
        when_st (\<lambda>w. is_streaming (trx w)) (block
          [assert_svc svc ''local or high priority''
             (\<lambda>w. cs_mode (w_cs w) = m_local \<or> cs_mode (w_cs w) = m_high_priority),
           when_st (\<lambda>w. is_xa (trx w)) (remove_fragments_in_storage_service_scope svc),
           when_st (\<lambda>w. cs_mode (w_cs w) = m_local)
             (block [unlock, stop_streaming_client svc, lock svc]),
           set_context sc_cleanup])])
     (bind (fetch (\<lambda>w. cs_mode (w_cs w)) (\<lambda>m. case m of
          m_local \<Rightarrow> release_call svc
        | m_high_priority \<Rightarrow> return 0
        | _ \<Rightarrow> seq (unreachable svc) (return 0))) (\<lambda>ret.
      seq (block [assert_svc svc ''ret == 0'' (\<lambda>_. ret = 0), set_state svc s_committed])
          (return ret))))"

section \<open>Rollback\<close>

definition rollback_streaming :: "'e services \<Rightarrow> ('e world, unit) cmd" where
  "rollback_streaming svc = when_st (\<lambda>w. is_streaming (trx w)) (streaming_rollback svc)"

definition before_rollback_local :: "'e services \<Rightarrow> ('e world, unit) cmd" where
  "before_rollback_local svc =
     fetch tstate (\<lambda>s. case s of
       s_preparing \<Rightarrow>
         block [set_state svc s_must_abort, rollback_streaming svc, set_state svc s_aborting]
     | s_prepared \<Rightarrow> block [rollback_streaming svc, set_state svc s_aborting]
     | s_executing \<Rightarrow> block [rollback_streaming svc, set_state svc s_aborting]
     | s_must_abort \<Rightarrow>
         branch (\<lambda>w. certified (trx w))
           (set_state svc s_must_replay)
           (block [rollback_streaming svc, set_state svc s_aborting])
     | s_cert_failed \<Rightarrow> block [rollback_streaming svc, set_state svc s_aborting]
     | s_aborting \<Rightarrow> rollback_streaming svc
     | s_must_replay \<Rightarrow> skip
     | _ \<Rightarrow> unreachable svc)"

definition trx_before_rollback :: "'e services \<Rightarrow> ('e world, int) cmd" where
  "trx_before_rollback svc = with_lock svc
     (seq (block
       [assert_svc svc ''state before rollback''
          (\<lambda>w. tstate w \<in> {s_executing, s_preparing, s_prepared, s_must_abort, s_aborting,
                          s_cert_failed, s_must_replay}),
        fetch (\<lambda>w. cs_mode (w_cs w)) (\<lambda>m. case m of
          m_local \<Rightarrow> before_rollback_local svc
        | m_high_priority \<Rightarrow> block
            [assert_svc svc ''executing, prepared or aborting''
               (\<lambda>w. tstate w = s_executing \<or> tstate w = s_prepared \<or> tstate w = s_aborting),
             when_st (\<lambda>w. tstate w \<noteq> s_aborting) (set_state svc s_aborting)]
        | _ \<Rightarrow> unreachable svc)])
     (return 0))"

definition trx_after_rollback :: "'e services \<Rightarrow> ('e world, int) cmd" where
  "trx_after_rollback svc = with_lock svc
     (seq (block
       [assert_svc svc ''aborting or must_replay''
          (\<lambda>w. tstate w = s_aborting \<or> tstate w = s_must_replay),
        when_st (\<lambda>w. is_streaming (trx w) \<and> bf_aborted_in_total_order (trx w))
          (remove_fragments_in_storage_service_scope svc),
        when_st (\<lambda>w. tstate w = s_aborting) (block
          [when_st (\<lambda>w. is_streaming (trx w)) (set_context sc_cleanup),
           set_state svc s_aborted])])
     (return 0))"

definition release_commit_order :: "'e services \<Rightarrow> ('e world, int) cmd" where
  "release_commit_order svc =
     seq unlock
     (bind (commit_order_enter_call svc) (\<lambda>st.
      bind (if st = success then
              seq (fetch trx (\<lambda>t. env_do (sv_set_position (server_ops svc) (wsm_gtid (trx_ws_meta t)))))
                  (commit_order_leave_call svc)
            else return (status_int st)) (\<lambda>ret.
      seq (lock svc) (return ret))))"

section \<open>End of a transaction\<close>

definition reset_transaction :: "transaction \<Rightarrow> transaction" where
  "reset_transaction t = t\<lparr>bf_abort_state := s_executing, bf_abort_provider_status := success,
     bf_abort_client_state := 0, bf_aborted_in_total_order := False, trx_ws_meta := ws_meta_default,
     trx_flags := 0, certified := False, implicit_deps := False, sr_keys := [],
     trx_streaming_context := sc_cleanup (trx_streaming_context t)\<rparr>"

definition trx_cleanup :: "'e services \<Rightarrow> ('e world, unit) cmd" where
  "trx_cleanup svc = block
     [assert_svc svc ''committed or aborted'' (\<lambda>w. tstate w = s_committed \<or> tstate w = s_aborted),
      modify (upd_trx (\<lambda>t. t\<lparr>trx_id := transaction_id_undefined, trx_ws_handle := ws_handle_default\<rparr>)),
      when_st (\<lambda>w. ordered (trx w))
        (fetch trx (\<lambda>t. update_last_written_gtid svc (wsm_gtid (trx_ws_meta t)))),
      modify (upd_trx reset_transaction),
      client_event svc Cleanup_transaction,
      modify (upd_trx (\<lambda>t. t\<lparr>apply_error_buf := [], trx_xid := xid_null, is_bf_immutable := False\<rparr>))]"

text \<open>How \<^verbatim>\<open>replay\<close> goes on after the replay has ended, with the lock held again.\<close>

definition replay_result :: "'e services \<Rightarrow> status \<Rightarrow> ('e world, int) cmd" where
  "replay_result svc replay_ret = (case replay_ret of
      success \<Rightarrow>
        seq (block
          [when_st (\<lambda>w. tstate w = s_replaying) (set_state svc s_committed),
           when_st (\<lambda>w. is_streaming (trx w)) (set_context sc_cleanup),
           seq (release_call svc) skip])
          (return 0)
    | error_certification_failed \<Rightarrow>
        seq (block
          [override_error svc e_deadlock_error success,
           when_st (\<lambda>w. is_streaming (trx w)) (block
             [unlock, seq (cl_remove_fragments (client_ops svc)) skip, lock svc,
              set_context sc_cleanup]),
           set_state svc s_aborted])
          (return 1)
    | _ \<Rightarrow> seq (client_event svc Emergency_shutdown) (return 0))"

definition replay :: "'e services \<Rightarrow> ('e world, int) cmd" where
  "replay svc =
     seq (set_state svc s_replaying)
     (fetch (\<lambda>w. is_streaming (trx w)) (\<lambda>was_streaming.
      seq unlock
      (bind (cl_replay (client_ops svc)) (\<lambda>replay_ret.
       seq (block
         [client_event svc Signal_replayed,
          only_if was_streaming (stop_streaming_client svc),
          lock svc])
       (replay_result svc replay_ret)))))"

definition xa_replay_common :: "'e services \<Rightarrow> ('e world, unit) cmd" where
  "xa_replay_common svc =
     seq (block
       [assert_svc svc ''lock.owns_lock()'' w_locked,
        assert_svc svc ''is_xa()'' (\<lambda>w. is_xa (trx w)),
        assert_svc svc ''is_streaming()'' (\<lambda>w. is_streaming (trx w)),
        assert_svc svc ''state() == s_must_replay'' (\<lambda>w. tstate w = s_must_replay),
        assert_svc svc ''bf_aborted()'' (\<lambda>w. bf_aborted (trx w)),
        set_state svc s_replaying,
        unlock,
        convert_streaming_client_to_applier svc])
     (bind (cl_replay_unordered (client_ops svc)) (\<lambda>st. block
       [client_event svc Store_globals,
        lock svc,
        only_if (st \<noteq> success) (client_event svc Emergency_shutdown)]))"

definition xa_replay :: "'e services \<Rightarrow> ('e world, int) cmd" where
  "xa_replay svc =
     seq (block
       [xa_replay_common svc,
        set_state svc s_aborted,
        set_context sc_cleanup,
        seq (release_call svc) skip,
        trx_cleanup svc,
        client_event svc Signal_replayed])
     (return 0)"

definition xa_replay_commit :: "'e services \<Rightarrow> ('e world, int) cmd" where
  "xa_replay_commit svc =
     seq (block [xa_replay_common svc, unlock])
     (bind (cl_commit_by_xid (client_ops svc)) (\<lambda>st.
      seq (lock svc)
      (bind (if st = success then
               seq (block
                 [set_state svc s_committed,
                  set_context sc_cleanup,
                  seq (release_call svc) skip,
                  trx_cleanup svc])
                 (return 0)
             else
               seq (block
                 [set_state svc s_preparing,
                  set_state svc s_prepared,
                  override_error svc e_error_during_commit st])
                 (return 1)) (\<lambda>ret.
       seq (client_event svc Signal_replayed) (return ret)))))"

text \<open>The \<^verbatim>\<open>switch (state())\<close> of \<^verbatim>\<open>after_statement\<close>; \<open>ret\<close> is the return code so far.\<close>

definition after_statement_replay :: "'e services \<Rightarrow> ('e world, int) cmd" where
  "after_statement_replay svc =
     branch (\<lambda>w. is_xa (trx w) \<and> \<not> ordered (trx w)) (xa_replay_commit svc) (replay svc)"

definition after_statement_rollback :: "'e services \<Rightarrow> ('e world, int) cmd" where
  "after_statement_rollback svc =
     seq (block
       [when_st (\<lambda>w. current_error (w_cs w) = e_success) (override_error svc e_deadlock_error success),
        unlock])
     (bind (cl_bf_rollback (client_ops svc)) (\<lambda>ret.
      seq (lock svc)
      (branch (\<lambda>w. tstate w \<noteq> s_must_replay) (return ret) (after_statement_replay svc))))"

definition after_statement_switch :: "'e services \<Rightarrow> int \<Rightarrow> ('e world, int) cmd" where
  "after_statement_switch svc ret =
     fetch tstate (\<lambda>s. case s of
       s_executing \<Rightarrow> return ret
     | s_prepared \<Rightarrow> seq (assert_svc svc ''is_xa()'' (\<lambda>w. is_xa (trx w))) (return ret)
     | s_committed \<Rightarrow>
         seq (assert_svc svc ''is_streaming() == false'' (\<lambda>w. \<not> is_streaming (trx w))) (return ret)
     | s_must_abort \<Rightarrow> after_statement_rollback svc
     | s_cert_failed \<Rightarrow> after_statement_rollback svc
     | s_must_replay \<Rightarrow> after_statement_replay svc
     | s_aborted \<Rightarrow>
         seq (when_st (\<lambda>w. bf_aborted (trx w) \<and> current_error (w_cs w) = e_success \<and>
                           \<not> cl_is_xa_rollback (client_ops svc) (w_env w))
                (override_error svc e_deadlock_error success))
             (return ret)
     | _ \<Rightarrow> seq (unreachable svc) (return ret))"

text \<open>The last part: an aborted transaction gives back the commit order and the write set handle.\<close>

definition release_aborted :: "'e services \<Rightarrow> int \<Rightarrow> ('e world, int) cmd" where
  "release_aborted svc ret =
     branch (\<lambda>w. tstate w = s_aborted)
       (bind (branch (\<lambda>w. ordered (trx w)) (release_commit_order svc) (return ret)) (\<lambda>ret.
          seq (block [unlock, seq (release_call svc) skip, lock svc]) (return ret)))
       (return ret)"

definition conclude_statement :: "'e services \<Rightarrow> int \<Rightarrow> ('e world, int) cmd" where
  "conclude_statement svc ret =
     seq (block
       [when_st (\<lambda>w. tstate w \<noteq> s_executing \<and>
                     (\<not> cl_is_explicit_xa (client_ops svc) (w_env w) \<or>
                      cs_state (w_cs w) = s_quitting))
          (trx_cleanup svc),
        modify (upd_trx (\<lambda>t. t\<lparr>fragments_certified_for_statement := 0\<rparr>)),
        assert_svc svc ''ret == 0 || state() == s_aborted'' (\<lambda>w. ret = 0 \<or> tstate w = s_aborted)])
       (return ret)"

definition after_statement_locked :: "'e services \<Rightarrow> ('e world, int) cmd" where
  "after_statement_locked svc =
     seq (block
       [assert_svc svc ''lock.owns_lock()'' w_locked,
        assert_svc svc ''mode() == m_local'' (\<lambda>w. cs_mode (w_cs w) = m_local),
        assert_svc svc ''state after statement''
          (\<lambda>w. tstate w \<in> {s_executing, s_prepared, s_committed, s_aborted, s_must_abort,
                          s_cert_failed, s_must_replay})])
     (bind (branch (\<lambda>w. tstate w = s_executing \<and> fragment_size (trx_streaming_context (trx w)) \<noteq> 0 \<and>
                       fragment_unit (trx_streaming_context (trx w)) = statement)
              (streaming_step svc False) (return 0)) (\<lambda>ret.
      bind (after_statement_switch svc ret) (\<lambda>ret.
      seq (assert_svc svc ''state after the switch''
             (\<lambda>w. tstate w \<in> {s_executing, s_prepared, s_committed, s_aborted, s_must_replay}))
      (bind (release_aborted svc ret) (conclude_statement svc)))))"

definition trx_after_statement :: "'e services \<Rightarrow> ('e world, int) cmd" where
  "trx_after_statement svc = with_lock svc (after_statement_locked svc)"

definition trx_after_command_must_abort :: "'e services \<Rightarrow> ('e world, unit) cmd" where
  "trx_after_command_must_abort svc = block
     [assert_svc svc ''active()'' (\<lambda>w. active (trx w)),
      assert_svc svc ''state_ == s_must_abort'' (\<lambda>w. tstate w = s_must_abort),
      when_st (\<lambda>w. is_xa (trx w) \<and> is_streaming (trx w)) (set_state svc s_must_replay),
      unlock,
      seq (cl_bf_rollback (client_ops svc)) skip,
      lock svc,
      branch (\<lambda>w. is_xa (trx w) \<and> is_streaming (trx w))
        (seq (xa_replay svc) skip)
        (override_error svc e_deadlock_error success)]"

definition trx_after_applying :: "'e services \<Rightarrow> ('e world, unit) cmd" where
  "trx_after_applying svc = with_lock svc (block
     [assert_svc svc ''state after applying''
        (\<lambda>w. tstate w \<in> {s_executing, s_prepared, s_committed, s_aborted, s_replaying}),
      branch (\<lambda>w. tstate w \<noteq> s_executing \<and> tstate w \<noteq> s_prepared)
        (block
          [when_st (\<lambda>w. tstate w = s_replaying) (set_state svc s_aborted),
           trx_cleanup svc])
        (modify (upd_trx (\<lambda>t. t\<lparr>trx_ws_meta := ws_meta_default\<rparr>)))])"

section \<open>Replay and XA\<close>

definition clone_for_replay :: "'e services \<Rightarrow> transaction \<Rightarrow> ('e world, unit) cmd" where
  "clone_for_replay svc other = block
     [assert_svc svc ''other.state() == s_replaying'' (\<lambda>_. trx_state other = s_replaying),
      modify (upd_trx (\<lambda>t. t\<lparr>trx_id := trx_id other, trx_xid := trx_xid other,
        trx_server_id := trx_server_id other, trx_ws_handle := trx_ws_handle other,
        trx_ws_meta := trx_ws_meta other, trx_streaming_context := trx_streaming_context other,
        trx_state := s_replaying\<rparr>)),
      client_event svc Notify_state_change]"

definition trx_assign_xid :: "'e services \<Rightarrow> xid \<Rightarrow> ('e world, unit) cmd" where
  "trx_assign_xid svc x = block
     [assert_svc svc ''active()'' (\<lambda>w. active (trx w)),
      assert_svc svc ''!is_xa()'' (\<lambda>w. \<not> is_xa (trx w)),
      modify (upd_trx (\<lambda>t. t\<lparr>trx_xid := x\<rparr>))]"

definition trx_restore_to_prepared_state :: "'e services \<Rightarrow> xid \<Rightarrow> ('e world, int) cmd" where
  "trx_restore_to_prepared_state svc x = with_lock svc
     (seq (block
       [assert_svc svc ''active()'' (\<lambda>w. active (trx w)),
        assert_svc svc ''is_empty()'' (\<lambda>w. is_empty (trx w)),
        assert_svc svc ''executing or replaying''
          (\<lambda>w. tstate w = s_executing \<or> tstate w = s_replaying),
        set_flags (\<lambda>f. f AND NOT flag_start_transaction),
        branch (\<lambda>w. tstate w = s_executing) (set_state svc s_certifying) (set_state svc s_preparing),
        set_state svc s_prepared,
        modify (upd_trx (\<lambda>t. t\<lparr>trx_xid := x\<rparr>))])
     (return 0))"

definition trx_commit_or_rollback_by_xid :: "'e services \<Rightarrow> xid \<Rightarrow> bool \<Rightarrow> ('e world, int) cmd" where
  "trx_commit_or_rollback_by_xid svc x commit = with_lock svc
     (fetch (find_streaming_applier_xid svc x) (\<lambda>found. case found of
        None \<Rightarrow>
          seq (block
            [assert_svc svc ''sa'' (\<lambda>_. False),
             override_error svc e_error_during_commit success])
            (return 1)
      | Some sa \<Rightarrow>
          seq (block
            [set_flags (\<lambda>_. if commit then flag_commit else flag_rollback),
             pa_unsafe_on])
          (fetch (\<lambda>w. ws_meta_of_stid \<lparr>
              stid_server_id = trx_server_id (hps_transaction (hps svc) sa (w_env w)),
              stid_transaction_id = trx_id (hps_transaction (hps svc) sa (w_env w)),
              stid_client_id = cs_id (w_cs w)\<rparr>) (\<lambda>meta.
           bind (certify_call svc meta False) (\<lambda>(cert_ret, _).
           if cert_ret = success then
             seq (if commit
                  then block [set_state svc s_certifying, set_state svc s_committing,
                              set_state svc s_committed]
                  else block [set_state svc s_aborting, set_state svc s_aborted])
                 (return 0)
           else
             seq (override_error svc e_error_during_commit cert_ret) (return 1))))))"

definition trx_xa_detach :: "'e services \<Rightarrow> ('e world, unit) cmd" where
  "trx_xa_detach svc = block
     [assert_svc svc ''prepared or quitting''
        (\<lambda>w. tstate w = s_prepared \<or> cs_state (w_cs w) = s_quitting),
      when_st (\<lambda>w. tstate w = s_prepared) (block
        [convert_streaming_client_to_applier svc,
         client_event svc Store_globals,
         client_event svc Cleanup_transaction]),
      with_lock svc (block
        [set_context sc_cleanup,
         set_state svc s_aborting,
         set_state svc s_aborted,
         seq (release_call svc) skip,
         trx_cleanup svc])]"

end
