(* ===== verification/Server_Control.thy ===== *)
theory Server_Control
  imports Server_Registry
begin

text \<open>
  The server's own state machine (\<^verbatim>\<open>server_state.cpp\<close>): state changes, connecting and
  disconnecting, desync and pause, and state transfer. The server mutex is released and taken
  again inside some of these operations; what other threads do meanwhile matters only where a
  thread waits for a state, and there it is given by \<open>server_events\<close>.
\<close>

section \<open>State\<close>

fun srv_state_index :: "srv_state \<Rightarrow> nat" where
  "srv_state_index s_disconnected = 0"
| "srv_state_index s_initializing = 1"
| "srv_state_index s_initialized = 2"
| "srv_state_index s_connected = 3"
| "srv_state_index s_joiner = 4"
| "srv_state_index s_joined = 5"
| "srv_state_index s_donor = 6"
| "srv_state_index s_synced = 7"
| "srv_state_index s_disconnecting = 8"

definition srv_allowed_table :: "nat list list" where
  "srv_allowed_table =
    [[0, 1, 0, 1, 0, 0, 0, 0, 0],
     [1, 0, 1, 0, 0, 0, 0, 0, 1],
     [1, 0, 0, 1, 0, 1, 0, 0, 1],
     [1, 0, 0, 1, 1, 0, 0, 1, 1],
     [1, 1, 0, 0, 0, 1, 0, 0, 1],
     [1, 0, 0, 1, 0, 0, 1, 1, 1],
     [1, 0, 0, 1, 0, 1, 0, 0, 1],
     [1, 0, 0, 1, 0, 1, 1, 0, 1],
     [1, 0, 0, 0, 0, 0, 0, 0, 0]]"

definition srv_allowed :: "srv_state \<Rightarrow> srv_state \<Rightarrow> bool" where
  "srv_allowed s t \<longleftrightarrow> srv_allowed_table ! srv_state_index s ! srv_state_index t \<noteq> 0"

abbreviation srv :: "'e world \<Rightarrow> srv_state" where
  "srv w \<equiv> sv_state (w_ss w)"

text \<open>
  \<^verbatim>\<open>state(lock, state)\<close>. A server that is disconnecting ignores transitions that are not
  allowed. The list of past states is never cut.
\<close>

definition sv_set_state :: "'e services \<Rightarrow> srv_state \<Rightarrow> ('e world, unit) cmd" where
  "sv_set_state svc s =
     branch (\<lambda>w. \<not> srv_allowed (srv w) s \<and> srv w = s_disconnecting) skip
      (block
        [when_st (\<lambda>w. \<not> srv_allowed (srv w) s) (unreachable svc),
         modify (upd_ss (\<lambda>ss. ss\<lparr>sv_state_hist := sv_state_hist ss @ [sv_state ss]\<rparr>)),
         fetch srv (\<lambda>old. env_do (sv_log_state_change (server_ops svc) old s)),
         modify (upd_ss (\<lambda>ss. ss\<lparr>sv_state := s\<rparr>))])"

interpretation server_log: state_log "\<lambda>s h. h @ [s]"
  by unfold_locales simp

section \<open>Connecting\<close>

definition is_bootstrap :: "string \<Rightarrow> bool \<Rightarrow> bool" where
  "is_bootstrap cluster_address boot \<longleftrightarrow> boot \<or> cluster_address = ''gcomm://''"

definition sv_connect ::
    "'e services \<Rightarrow> string \<Rightarrow> string \<Rightarrow> string \<Rightarrow> bool \<Rightarrow> ('e world, int) cmd" where
  "sv_connect svc cluster_name cluster_address state_donor boot =
     seq (modify (upd_ss (\<lambda>ss. ss\<lparr>bootstrap := is_bootstrap cluster_address boot\<rparr>)))
     (fetch (\<lambda>w. bootstrap (w_ss w)) (\<lambda>b.
       bind (provider_call (prov_connect (prov svc) cluster_name cluster_address state_donor b))
         (\<lambda>st. return (status_int st))))"

definition sv_disconnect :: "'e services \<Rightarrow> ('e world, int) cmd" where
  "sv_disconnect svc =
     branch (\<lambda>w. srv w = s_disconnecting \<or> srv w = s_disconnected) (return 0)
       (seq (sv_set_state svc s_disconnecting) (provider_call (prov_disconnect (prov svc))))"

definition sv_initialized :: "'e services \<Rightarrow> ('e world, unit) cmd" where
  "sv_initialized svc =
     seq (modify (upd_ss (\<lambda>ss. ss\<lparr>init_initialized := True\<rparr>)))
     (branch (\<lambda>w. sv_sst_before_init (server_ops svc) (w_env w))
       (sv_set_state svc s_initialized)
       (block [sv_set_state svc s_initializing, sv_set_state svc s_initialized]))"

section \<open>Waiting for a state\<close>

definition run_server_event :: "'e services \<Rightarrow> server_event \<Rightarrow> ('e world, unit) cmd" where
  "run_server_event svc ev = (case ev of
      Ev_initialized \<Rightarrow> sv_initialized svc
    | Ev_disconnect \<Rightarrow> seq (sv_disconnect svc) skip)"

definition wait_interrupted :: "srv_state \<Rightarrow> srv_state \<Rightarrow> bool" where
  "wait_interrupted target s \<longleftrightarrow> target \<noteq> s_disconnecting \<and> target \<noteq> s_disconnected \<and>
     (s = s_disconnecting \<or> s = s_disconnected)"

text \<open>
  \<^verbatim>\<open>wait_until_state(lock, state)\<close>: each wake-up is one event of another thread. If no event
  is left the thread waits for ever.
\<close>

fun wait_loop :: "'e services \<Rightarrow> srv_state \<Rightarrow> server_event list \<Rightarrow> ('e world, unit) cmd" where
  "wait_loop svc target [] =
     branch (\<lambda>w. srv w = target) skip (throw (Blocked ''wait_until_state''))"
| "wait_loop svc target (ev # evs) =
     branch (\<lambda>w. srv w = target) skip
       (seq (run_server_event svc ev)
         (branch (\<lambda>w. wait_interrupted target (srv w))
           (throw (Runtime_error ''State wait was interrupted''))
           (wait_loop svc target evs)))"

definition wait_until_state :: "'e services \<Rightarrow> srv_state \<Rightarrow> ('e world, unit) cmd" where
  "wait_until_state svc target =
     bind (env_call (server_events svc)) (\<lambda>evs. wait_loop svc target evs)"

definition wait_until_state_ret :: "'e services \<Rightarrow> srv_state \<Rightarrow> ('e world, int) cmd" where
  "wait_until_state_ret svc target =
     catch_all (seq (wait_until_state svc target) (return 0)) (return 1)"

section \<open>Desync and pause\<close>

definition sv_desync :: "'e services \<Rightarrow> ('e world, int) cmd" where
  "sv_desync svc =
     seq (modify (upd_ss (\<lambda>ss. ss\<lparr>desync_count := Suc (desync_count ss)\<rparr>)))
     (bind (provider_call (prov_desync (prov svc))) (\<lambda>ret.
      seq (only_if (ret \<noteq> 0) (modify (upd_ss (\<lambda>ss. ss\<lparr>desync_count := desync_count ss - 1\<rparr>))))
          (return ret)))"

definition sv_resync :: "'e services \<Rightarrow> ('e world, unit) cmd" where
  "sv_resync svc =
     seq (assert_svc svc ''desync_count_ > 0'' (\<lambda>w. desync_count (w_ss w) > 0))
     (branch (\<lambda>w. desync_count (w_ss w) > 0)
       (seq (modify (upd_ss (\<lambda>ss. ss\<lparr>desync_count := desync_count ss - 1\<rparr>)))
        (bind (provider_call (prov_resync (prov svc))) (\<lambda>ret.
         only_if (ret \<noteq> 0) (throw (Runtime_error ''Failed to resync'')))))
       skip)"

definition sv_pause :: "'e services \<Rightarrow> ('e world, seqno) cmd" where
  "sv_pause svc =
     seq (block
       [when_st (\<lambda>w. pause_count (w_ss w) > 0) (throw (Blocked ''pause'')),
        modify (upd_ss (\<lambda>ss. ss\<lparr>pause_count := Suc (pause_count ss)\<rparr>)),
        assert_svc svc ''pause_seqno_.is_undefined()''
          (\<lambda>w. seqno_is_undefined (pause_seqno (w_ss w)))])
     (bind (provider_call (prov_pause (prov svc))) (\<lambda>s.
      seq (block
        [modify (upd_ss (\<lambda>ss. ss\<lparr>pause_seqno := s\<rparr>)),
         only_if (seqno_is_undefined s)
           (modify (upd_ss (\<lambda>ss. ss\<lparr>pause_count := pause_count ss - 1\<rparr>)))])
        (return s)))"

definition sv_resume :: "'e services \<Rightarrow> ('e world, unit) cmd" where
  "sv_resume svc =
     seq (block
       [assert_svc svc ''pause_seqno_.is_undefined() == false''
          (\<lambda>w. \<not> seqno_is_undefined (pause_seqno (w_ss w))),
        assert_svc svc ''pause_count_ == 1'' (\<lambda>w. pause_count (w_ss w) = 1)])
     (bind (provider_call (prov_resume (prov svc))) (\<lambda>ret.
      if ret \<noteq> 0 then throw (Runtime_error ''Failed to resume provider'')
      else modify (upd_ss (\<lambda>ss. ss\<lparr>pause_seqno := seqno_undefined,
             pause_count := pause_count ss - 1\<rparr>))))"

definition desync_and_pause :: "'e services \<Rightarrow> ('e world, seqno) cmd" where
  "desync_and_pause svc =
     bind (sv_desync svc) (\<lambda>r. let desync_successful = (r = 0) in
     bind (sv_pause svc) (\<lambda>ret.
       if seqno_is_undefined ret then seq (sv_resync svc) (return seqno_undefined)
       else seq (modify (upd_ss (\<lambda>ss. ss\<lparr>desynced_on_pause := desync_successful\<rparr>))) (return ret)))"

definition resume_and_resync :: "'e services \<Rightarrow> ('e world, unit) cmd" where
  "resume_and_resync svc =
     catch_runtime_error
       (fetch (\<lambda>w. desynced_on_pause (w_ss w)) (\<lambda>do_resync. block
         [modify (upd_ss (\<lambda>ss. ss\<lparr>desynced_on_pause := False\<rparr>)),
          sv_resume svc,
          only_if do_resync (sv_resync svc)]))
       (\<lambda>_. skip)"

definition causal_read :: "'e services \<Rightarrow> int \<Rightarrow> ('e world, gtid \<times> status) cmd" where
  "causal_read svc timeout = provider_call (prov_causal_read (prov svc) timeout)"

section \<open>State transfer\<close>

definition return_from_donor_state :: "'e services \<Rightarrow> ('e world, unit) cmd" where
  "return_from_donor_state svc = when_st (\<lambda>w. srv w = s_donor) (sv_set_state svc s_joined)"

definition prepare_for_sst :: "'e services \<Rightarrow> ('e world, string) cmd" where
  "prepare_for_sst svc = seq (sv_set_state svc s_joiner) (env_call (sv_sst_request (server_ops svc)))"

definition start_sst :: "'e services \<Rightarrow> string \<Rightarrow> gtid \<Rightarrow> bool \<Rightarrow> ('e world, int) cmd" where
  "start_sst svc request g bypass =
     seq (sv_set_state svc s_donor)
     (bind (env_call (sv_start_sst (server_ops svc) request g bypass)) (\<lambda>r.
       if r \<noteq> 0 then seq (return_from_donor_state svc) (return 1) else return 0))"

definition sst_sent :: "'e services \<Rightarrow> gtid \<Rightarrow> int \<Rightarrow> ('e world, unit) cmd" where
  "sst_sent svc g err =
     seq (return_from_donor_state svc)
         (seq (provider_call (prov_sst_sent (prov svc) g err)) skip)"

definition recover_streaming_appliers_if_not_recovered :: "'e services \<Rightarrow> ('e world, unit) cmd" where
  "recover_streaming_appliers_if_not_recovered svc = block
     [when_st (\<lambda>w. \<not> streaming_appliers_recovered (w_ss w))
        (sv_recover_streaming_appliers (server_ops svc)),
      modify (upd_ss (\<lambda>ss. ss\<lparr>streaming_appliers_recovered := True\<rparr>))]"

text \<open>
  The view recovered from the state transfer becomes the current view, if it fits the position.
\<close>

definition adopt_recovered_view :: "'e services \<Rightarrow> gtid \<Rightarrow> view \<Rightarrow> ('e world, unit) cmd" where
  "adopt_recovered_view svc g v =
     only_if (\<not> id_is_undefined (gtid_id (view_state_id v)))
      (if gtid_id (view_state_id v) \<noteq> gtid_id g \<or> gtid_seqno (view_state_id v) > gtid_seqno g
       then throw (Runtime_error ''SST script passed bogus GTID'')
       else block
        [modify (upd_ss (\<lambda>ss. if view_status (current_view ss) = primary
           then ss\<lparr>previous_primary_view := current_view ss\<rparr> else ss)),
         modify (upd_ss (\<lambda>ss. ss\<lparr>current_view := v\<rparr>)),
         env_do (sv_log_view (server_ops svc) None v)])"

definition sst_received_ok :: "'e services \<Rightarrow> ('e world, gtid) cmd" where
  "sst_received_ok svc =
     seq (block
       [when_st (\<lambda>w. sv_sst_before_init (server_ops svc) (w_env w) \<and> \<not> init_initialized (w_ss w))
          (block
            [sv_set_state svc s_initializing,
             wait_until_state svc s_initialized,
             assert_svc svc ''init_initialized_'' (\<lambda>w. init_initialized (w_ss w))]),
        when_st (\<lambda>w. id_is_undefined (sv_id (w_ss w)))
          (block
            [unreachable svc,
             throw (Runtime_error ''wsrep::sst_received() called before connection to cluster'')])])
     (bind (env_call (sv_get_position (server_ops svc))) (\<lambda>g.
      seq (when_st (\<lambda>w. gtid_seqno g \<ge> gtid_seqno (connected_gtid (w_ss w)))
             (sv_set_state svc s_joined))
      (fetch (\<lambda>w. sv_id (w_ss w)) (\<lambda>i.
       bind (env_call (sv_get_view (server_ops svc) i)) (\<lambda>v.
       seq (block
         [adopt_recovered_view svc g v,
          recover_streaming_appliers_if_not_recovered svc])
         (return g))))))"

definition EINTR :: int where
  "EINTR = 4"

definition sst_received :: "'e services \<Rightarrow> int \<Rightarrow> ('e world, int) cmd" where
  "sst_received svc err =
     catch_runtime_error
       (seq (assert_svc svc ''joiner or initialized'' (\<lambda>w. srv w = s_joiner \<or> srv w = s_initialized))
        (bind (if err = 0 then sst_received_ok svc else return gtid_undefined) (\<lambda>g.
         bind (provider_call (prov_sst_received (prov svc) g err)) (\<lambda>st.
         return (bool_int (st \<noteq> success))))))
       (\<lambda>_. seq (branch (\<lambda>w. provider_loaded (w_ss w))
                   (seq (env_call (prov_sst_received (prov svc) gtid_undefined (- EINTR))) skip) skip)
                (return 1))"

end
