(* ===== verification/Client_State.thy ===== *)
theory Client_State
  imports Transaction_Hooks Server_Control
begin

text \<open>
  A client session (\<^verbatim>\<open>client_state.cpp\<close>): its two state machines (session state and mode),
  the hooks around commands and statements, the transaction hooks, and total order isolation
  (TOI), rolling schema upgrade (RSU) and non-blocking operations (NBO).
\<close>

section \<open>State and mode\<close>

fun session_state_index :: "client_session_state \<Rightarrow> nat" where
  "session_state_index s_none = 0"
| "session_state_index s_idle = 1"
| "session_state_index s_exec = 2"
| "session_state_index s_result = 3"
| "session_state_index s_quitting = 4"

definition session_allowed_table :: "nat list list" where
  "session_allowed_table =
    [[0, 1, 0, 0, 0],
     [0, 0, 1, 0, 1],
     [0, 0, 0, 1, 0],
     [0, 1, 0, 0, 0],
     [1, 0, 0, 0, 0]]"

definition session_allowed :: "client_session_state \<Rightarrow> client_session_state \<Rightarrow> bool" where
  "session_allowed s t \<longleftrightarrow>
     session_allowed_table ! session_state_index s ! session_state_index t \<noteq> 0"

definition session_push_state :: "client_session_state \<Rightarrow> client_state \<Rightarrow> client_state" where
  "session_push_state s c =
     c\<lparr>cs_state_hist := push_history (\<lambda>n. n > 10) (cs_state c) (cs_state_hist c), cs_state := s\<rparr>"

text \<open>The history meets the contract of a history of at most 10 states.\<close>

interpretation session_log: bounded_log "push_history (\<lambda>n. n > 10)" 10
  by (rule bounded_log_push_history) simp

definition set_session_state :: "'e services \<Rightarrow> client_session_state \<Rightarrow> ('e world, unit) cmd" where
  "set_session_state svc s = block
     [assert_svc svc ''this_thread == owning_thread_id_'' (\<lambda>w. w_thread w = owning_thread (w_cs w)),
      assert_svc svc ''lock.owns_lock()'' w_locked,
      when_st (\<lambda>w. \<not> session_allowed (cs_state (w_cs w)) s) (unreachable svc),
      modify (w_cs_update (session_push_state s)),
      client_event svc Notify_state_change]"

fun mode_index :: "client_mode \<Rightarrow> nat" where
  "mode_index m_undefined = 0"
| "mode_index m_local = 1"
| "mode_index m_high_priority = 2"
| "mode_index m_toi = 3"
| "mode_index m_rsu = 4"
| "mode_index m_nbo = 5"

definition mode_allowed_table :: "nat list list" where
  "mode_allowed_table =
    [[0, 0, 0, 0, 0, 0],
     [0, 0, 1, 1, 1, 1],
     [0, 1, 0, 1, 0, 1],
     [0, 1, 1, 0, 0, 0],
     [0, 1, 0, 0, 0, 0],
     [0, 1, 1, 0, 0, 0]]"

definition mode_allowed :: "client_mode \<Rightarrow> client_mode \<Rightarrow> bool" where
  "mode_allowed m n \<longleftrightarrow> mode_allowed_table ! mode_index m ! mode_index n \<noteq> 0"

definition set_mode :: "'e services \<Rightarrow> client_mode \<Rightarrow> ('e world, unit) cmd" where
  "set_mode svc m = block
     [assert_svc svc ''lock.owns_lock()'' w_locked,
      when_st (\<lambda>w. \<not> mode_allowed (cs_mode (w_cs w)) m) (unreachable svc),
      modify (w_cs_update (\<lambda>c. c\<lparr>cs_mode := m\<rparr>)),
      client_event svc Notify_state_change]"

abbreviation upd_cs :: "(client_state \<Rightarrow> client_state) \<Rightarrow> ('e world, unit) cmd" where
  "upd_cs f \<equiv> modify (w_cs_update f)"

definition in_toi :: "client_state \<Rightarrow> bool" where
  "in_toi c \<longleftrightarrow> \<not> seqno_is_undefined (wsm_seqno (toi_meta c))"

section \<open>Ownership\<close>

definition do_acquire_ownership :: "'e services \<Rightarrow> ('e world, unit) cmd" where
  "do_acquire_ownership svc = block
     [assert_svc svc ''lock.owns_lock()'' w_locked,
      assert_svc svc ''state_ == s_idle || mode_ != m_local''
        (\<lambda>w. cs_state (w_cs w) = s_idle \<or> cs_mode (w_cs w) \<noteq> m_local),
      modify (\<lambda>w. w_cs_update (\<lambda>c. c\<lparr>owning_thread := w_thread w\<rparr>) w)]"

text \<open>
  The thread waits while the background rollbacker works. The rollbacker runs to its end
  inside \<^verbatim>\<open>background_rollback\<close>; one that never reports back keeps the thread waiting.
\<close>

definition wait_rollbacker :: "('e world, unit) cmd" where
  "wait_rollbacker = when_st (\<lambda>w. rollbacker_active (w_cs w)) (throw (Blocked ''rollbacker_active_''))"

definition do_wait_rollback_complete_and_acquire_ownership :: "'e services \<Rightarrow> ('e world, unit) cmd" where
  "do_wait_rollback_complete_and_acquire_ownership svc = block
     [assert_svc svc ''lock.owns_lock()'' w_locked,
      assert_svc svc ''state_ == s_idle'' (\<lambda>w. cs_state (w_cs w) = s_idle),
      wait_rollbacker,
      do_acquire_ownership svc,
      set_session_state svc s_exec]"

definition sync_rollback_complete :: "'e services \<Rightarrow> ('e world, unit) cmd" where
  "sync_rollback_complete svc = with_lock svc (block
     [assert_svc svc ''idle, local and aborted''
        (\<lambda>w. cs_state (w_cs w) = s_idle \<and> cs_mode (w_cs w) = m_local \<and> tstate w = s_aborted),
      upd_cs (\<lambda>c. c\<lparr>rollbacker_active := False\<rparr>)])"

definition wait_rollback_complete_and_acquire_ownership :: "'e services \<Rightarrow> ('e world, unit) cmd" where
  "wait_rollback_complete_and_acquire_ownership svc = with_lock svc (block
     [when_st (\<lambda>w. cs_state (w_cs w) = s_idle) (do_wait_rollback_complete_and_acquire_ownership svc),
      assert_svc svc ''state_ == s_exec'' (\<lambda>w. cs_state (w_cs w) = s_exec)])"

section \<open>Session\<close>

definition client_open :: "'e services \<Rightarrow> client_id \<Rightarrow> ('e world, unit) cmd" where
  "client_open svc i = with_lock svc (block
     [assert_svc svc ''state_ == s_none'' (\<lambda>w. cs_state (w_cs w) = s_none),
      assert_svc svc ''keep_command_error_ == false'' (\<lambda>w. \<not> keep_command_error (w_cs w)),
      modify (\<lambda>w. w_cs_update (\<lambda>c. c\<lparr>owning_thread := w_thread w, rollbacker_active := False,
        sync_wait_gtid := gtid_undefined, last_written_gtid := gtid_undefined\<rparr>) w),
      set_session_state svc s_idle,
      upd_cs (\<lambda>c. c\<lparr>cs_id := i\<rparr>)])"

definition disable_streaming :: "'e services \<Rightarrow> ('e world, unit) cmd" where
  "disable_streaming svc = block
     [assert_svc svc ''mode_ == m_local'' (\<lambda>w. cs_mode (w_cs w) = m_local),
      assert_svc svc ''exec or quitting''
        (\<lambda>w. cs_state (w_cs w) = s_exec \<or> cs_state (w_cs w) = s_quitting),
      set_context sc_disable]"

definition client_close :: "'e services \<Rightarrow> ('e world, unit) cmd" where
  "client_close svc = block
     [with_lock svc (block
        [when_st (\<lambda>w. cs_mode (w_cs w) = m_local) wait_rollbacker,
         do_acquire_ownership svc,
         set_session_state svc s_quitting,
         upd_cs (\<lambda>c. c\<lparr>keep_command_error := False\<rparr>)]),
      when_st (\<lambda>w. active (trx w) \<and>
          (cs_mode (w_cs w) \<noteq> m_local \<or> \<not> cl_is_prepared_xa (client_ops svc) (w_env w)))
        (block [seq (cl_bf_rollback (client_ops svc)) skip, seq (trx_after_statement svc) skip]),
      when_st (\<lambda>w. cs_mode (w_cs w) = m_local) (disable_streaming svc)]"

definition client_cleanup :: "'e services \<Rightarrow> ('e world, unit) cmd" where
  "client_cleanup svc = with_lock svc (set_session_state svc s_none)"

text \<open>
  The aborted transaction that \<^verbatim>\<open>before_command\<close> finds: roll it back if that was not done,
  then clean up, or keep the error for the next command.
\<close>

definition before_command_aborted :: "'e services \<Rightarrow> ('e world, int) cmd" where
  "before_command_aborted svc =
     seq (block
       [override_error svc e_deadlock_error success,
        when_st (\<lambda>w. tstate w = s_must_abort)
          (block [unlock, seq (cl_bf_rollback (client_ops svc)) skip, lock svc])])
     (branch (\<lambda>w. keep_command_error (w_cs w)) (return 0)
       (seq (block
         [seq (after_statement_locked svc) skip,
          assert_svc svc ''active() == false'' (\<lambda>w. \<not> active (trx w)),
          assert_svc svc ''state() == s_aborted'' (\<lambda>w. tstate w = s_aborted),
          assert_svc svc ''current_error() != e_success'' (\<lambda>w. current_error (w_cs w) \<noteq> e_success)])
         (return 1)))"

definition before_command :: "'e services \<Rightarrow> bool \<Rightarrow> ('e world, int) cmd" where
  "before_command svc keep_error = with_lock svc
     (seq (block
       [branch (\<lambda>w. cs_state (w_cs w) \<noteq> s_exec)
          (block
            [assert_svc svc ''state_ == s_idle'' (\<lambda>w. cs_state (w_cs w) = s_idle),
             do_wait_rollback_complete_and_acquire_ownership svc,
             assert_svc svc ''state_ == s_exec'' (\<lambda>w. cs_state (w_cs w) = s_exec),
             client_event svc Store_globals])
          (assert_svc svc ''this_thread == owning_thread_id_''
             (\<lambda>w. w_thread w = owning_thread (w_cs w))),
        upd_cs (\<lambda>c. c\<lparr>keep_command_error := keep_error\<rparr>),
        assert_svc svc ''transaction state''
          (\<lambda>w. \<not> active (trx w) \<or> tstate w \<in> {s_executing, s_prepared, s_aborted, s_must_abort})])
     (branch (\<lambda>w. active (trx w) \<and> (tstate w = s_must_abort \<or> tstate w = s_aborted))
       (branch (\<lambda>w. is_xa (trx w)) (return 1) (before_command_aborted svc))
       (return 0)))"

definition after_command_before_result :: "'e services \<Rightarrow> ('e world, unit) cmd" where
  "after_command_before_result svc = with_lock svc (block
     [assert_svc svc ''state() == s_exec'' (\<lambda>w. cs_state (w_cs w) = s_exec),
      when_st (\<lambda>w. active (trx w) \<and> tstate w = s_must_abort) (block
        [trx_after_command_must_abort svc,
         when_st (\<lambda>w. \<not> keep_command_error (w_cs w)) (seq (after_statement_locked svc) skip),
         assert_svc svc ''state() == s_aborted'' (\<lambda>w. tstate w = s_aborted)]),
      set_session_state svc s_result])"

definition after_command_after_result :: "'e services \<Rightarrow> ('e world, unit) cmd" where
  "after_command_after_result svc = with_lock svc (block
     [assert_svc svc ''state() == s_result'' (\<lambda>w. cs_state (w_cs w) = s_result),
      assert_svc svc ''transaction state != s_aborting'' (\<lambda>w. tstate w \<noteq> s_aborting),
      branch (\<lambda>w. active (trx w) \<and> tstate w = s_must_abort)
        (block
          [trx_after_command_must_abort svc,
           assert_svc svc ''state() == s_aborted'' (\<lambda>w. tstate w = s_aborted)])
        (when_st (\<lambda>w. \<not> active (trx w) \<and> \<not> keep_command_error (w_cs w))
          (upd_cs (\<lambda>c. c\<lparr>current_error := e_success, current_error_status := success\<rparr>))),
      upd_cs (\<lambda>c. c\<lparr>keep_command_error := False, sync_wait_gtid := gtid_undefined\<rparr>),
      set_session_state svc s_idle])"

definition before_statement :: "'e services \<Rightarrow> ('e world, int) cmd" where
  "before_statement svc = with_lock svc
     (branch (\<lambda>w. active (trx w) \<and> tstate w = s_must_abort) (return 1) (return 0))"

definition after_statement :: "'e services \<Rightarrow> ('e world, int) cmd" where
  "after_statement svc = with_lock svc
     (seq (block
       [assert_svc svc ''state() == s_exec'' (\<lambda>w. cs_state (w_cs w) = s_exec),
        assert_svc svc ''mode() == m_local'' (\<lambda>w. cs_mode (w_cs w) = m_local),
        seq (after_statement_locked svc) skip])
     (branch (\<lambda>w. current_error (w_cs w) = e_deadlock_error) (return 1) (return 0)))"

section \<open>Transaction hooks\<close>

text \<open>The checks the hooks share.\<close>

abbreviation local_exec :: "'e services \<Rightarrow> ('e world, unit) cmd" where
  "local_exec svc \<equiv> block
     [assert_svc svc ''mode_ == m_local'' (\<lambda>w. cs_mode (w_cs w) = m_local),
      assert_svc svc ''state_ == s_exec'' (\<lambda>w. cs_state (w_cs w) = s_exec)]"

abbreviation owned :: "'e services \<Rightarrow> ('e world, unit) cmd" where
  "owned svc \<equiv> assert_svc svc ''owning_thread_id_ == this_thread''
     (\<lambda>w. owning_thread (w_cs w) = w_thread w)"

abbreviation high_priority_only :: "'e services \<Rightarrow> ('e world, unit) cmd" where
  "high_priority_only svc \<equiv>
     assert_svc svc ''mode_ == m_high_priority'' (\<lambda>w. cs_mode (w_cs w) = m_high_priority)"

abbreviation exec_only :: "'e services \<Rightarrow> ('e world, unit) cmd" where
  "exec_only svc \<equiv> assert_svc svc ''state_ == s_exec'' (\<lambda>w. cs_state (w_cs w) = s_exec)"

definition client_after_applying :: "'e services \<Rightarrow> ('e world, unit) cmd" where
  "client_after_applying svc = seq (high_priority_only svc) (trx_after_applying svc)"

definition client_start_transaction :: "'e services \<Rightarrow> transaction_id \<Rightarrow> ('e world, int) cmd" where
  "client_start_transaction svc i = with_lock svc (seq (exec_only svc) (trx_start_transaction svc i))"

definition client_assign_read_view :: "'e services \<Rightarrow> gtid option \<Rightarrow> ('e world, int) cmd" where
  "client_assign_read_view svc g = seq (local_exec svc) (trx_assign_read_view svc g)"

definition client_append_key :: "'e services \<Rightarrow> key \<Rightarrow> ('e world, int) cmd" where
  "client_append_key svc k = seq (local_exec svc) (trx_append_key svc k)"

definition client_append_keys :: "'e services \<Rightarrow> key list \<Rightarrow> ('e world, int) cmd" where
  "client_append_keys svc ks =
     seq (block
       [assert_svc svc ''local or toi''
          (\<lambda>w. cs_mode (w_cs w) = m_local \<or> cs_mode (w_cs w) = m_toi),
        exec_only svc])
     (until_nonzero (\<lambda>k. bind (trx_append_key svc k) (\<lambda>r. return (bool_int (r \<noteq> 0)))) ks)"

definition client_append_data :: "'e services \<Rightarrow> string \<Rightarrow> ('e world, int) cmd" where
  "client_append_data svc d = seq (local_exec svc) (trx_append_data svc d)"

definition client_after_row :: "'e services \<Rightarrow> ('e world, int) cmd" where
  "client_after_row svc =
     seq (local_exec svc)
     (branch (\<lambda>w. fragment_size (trx_streaming_context (trx w)) \<noteq> 0) (trx_after_row svc) (return 0))"

definition client_fragment_applied :: "'e services \<Rightarrow> seqno \<Rightarrow> ('e world, unit) cmd" where
  "client_fragment_applied svc s = seq (high_priority_only svc) (trx_fragment_applied svc s)"

definition client_prepare_for_ordering ::
    "'e services \<Rightarrow> ws_handle \<Rightarrow> ws_meta \<Rightarrow> bool \<Rightarrow> ('e world, int) cmd" where
  "client_prepare_for_ordering svc h m is_commit =
     seq (exec_only svc) (trx_prepare_for_ordering svc h m is_commit)"

definition client_start_transaction_applying ::
    "'e services \<Rightarrow> ws_handle \<Rightarrow> ws_meta \<Rightarrow> ('e world, int) cmd" where
  "client_start_transaction_applying svc h m = with_lock svc
     (seq (block [owned svc, high_priority_only svc]) (trx_start_transaction_applying svc h m))"

definition client_next_fragment :: "'e services \<Rightarrow> ws_meta \<Rightarrow> ('e world, int) cmd" where
  "client_next_fragment svc m = with_lock svc (seq (high_priority_only svc) (trx_next_fragment m))"

definition client_before_prepare :: "'e services \<Rightarrow> bool \<Rightarrow> ('e world, int) cmd" where
  "client_before_prepare svc seq_cb = with_lock svc
     (seq (block [owned svc, exec_only svc]) (trx_before_prepare svc seq_cb))"

definition client_after_prepare :: "'e services \<Rightarrow> ('e world, int) cmd" where
  "client_after_prepare svc = with_lock svc
     (seq (block [owned svc, exec_only svc]) (trx_after_prepare svc))"

abbreviation in_commit :: "'e services \<Rightarrow> ('e world, unit) cmd" where
  "in_commit svc \<equiv> block
     [owned svc, assert_svc svc ''state_ == s_exec || mode_ == m_local''
        (\<lambda>w. cs_state (w_cs w) = s_exec \<or> cs_mode (w_cs w) = m_local)]"

definition client_before_commit :: "'e services \<Rightarrow> bool \<Rightarrow> ('e world, int) cmd" where
  "client_before_commit svc seq_cb = seq (in_commit svc) (trx_before_commit svc seq_cb)"

definition client_ordered_commit :: "'e services \<Rightarrow> ('e world, int) cmd" where
  "client_ordered_commit svc = seq (in_commit svc) (trx_ordered_commit svc)"

definition client_after_commit :: "'e services \<Rightarrow> ('e world, int) cmd" where
  "client_after_commit svc = seq (in_commit svc) (trx_after_commit svc)"

abbreviation in_rollback :: "'e services \<Rightarrow> ('e world, unit) cmd" where
  "in_rollback svc \<equiv> block
     [owned svc, assert_svc svc ''not s_none'' (\<lambda>w. cs_state (w_cs w) \<noteq> s_none)]"

definition client_before_rollback :: "'e services \<Rightarrow> ('e world, int) cmd" where
  "client_before_rollback svc = seq (in_rollback svc) (trx_before_rollback svc)"

definition client_after_rollback :: "'e services \<Rightarrow> ('e world, int) cmd" where
  "client_after_rollback svc = seq (in_rollback svc) (trx_after_rollback svc)"

section \<open>Streaming, XA and BF abort\<close>

definition streaming_params ::
    "'e services \<Rightarrow> fragment_unit \<Rightarrow> u64 \<Rightarrow> ('e world, unit) cmd" where
  "streaming_params svc u n =
     seq (assert_svc svc ''mode_ == m_local'' (\<lambda>w. cs_mode (w_cs w) = m_local))
         (set_context (sc_params u n))"

definition enable_streaming :: "'e services \<Rightarrow> fragment_unit \<Rightarrow> u64 \<Rightarrow> ('e world, int) cmd" where
  "enable_streaming svc u n =
     seq (assert_svc svc ''mode_ == m_local'' (\<lambda>w. cs_mode (w_cs w) = m_local))
     (branch (\<lambda>w. is_streaming (trx w) \<and> fragment_unit (trx_streaming_context (trx w)) \<noteq> u)
       (return 1)
       (seq (on_context (sc_enable (debug_build svc) u n)) (return 0)))"

definition client_xa_detach :: "'e services \<Rightarrow> ('e world, unit) cmd" where
  "client_xa_detach svc = block
     [assert_svc svc ''mode_ == m_local'' (\<lambda>w. cs_mode (w_cs w) = m_local),
      assert_svc svc ''none, exec or quitting''
        (\<lambda>w. cs_state (w_cs w) \<in> {s_none, s_exec, s_quitting}),
      trx_xa_detach svc]"

definition client_xa_replay :: "'e services \<Rightarrow> ('e world, unit) cmd" where
  "client_xa_replay svc = block
     [assert_svc svc ''mode_ == m_local'' (\<lambda>w. cs_mode (w_cs w) = m_local),
      assert_svc svc ''state_ == s_idle'' (\<lambda>w. cs_state (w_cs w) = s_idle),
      with_lock svc (seq (xa_replay svc) skip)]"

text \<open>
  \<^verbatim>\<open>bf_abort(lock, seqno)\<close> and \<^verbatim>\<open>total_order_bf_abort(lock, seqno)\<close>, called by another
  thread that holds the client lock.
\<close>

definition client_bf_abort :: "'e services \<Rightarrow> seqno \<Rightarrow> ('e world, int) cmd" where
  "client_bf_abort svc bf_seqno =
     seq (block
       [assert_svc svc ''lock.owns_lock()'' w_locked,
        assert_svc svc ''m_local || is_streaming()'' bf_abortable])
     (bind (trx_bf_abort svc bf_seqno) (\<lambda>ret.
       seq (assert_svc svc ''lock.owns_lock()'' w_locked) (return (bool_int ret))))"

definition client_total_order_bf_abort :: "'e services \<Rightarrow> seqno \<Rightarrow> ('e world, int) cmd" where
  "client_total_order_bf_abort svc bf_seqno =
     seq (block
       [assert_svc svc ''lock.owns_lock()'' w_locked,
        assert_svc svc ''m_local || is_streaming()'' bf_abortable])
     (bind (trx_total_order_bf_abort svc bf_seqno) (\<lambda>ret.
       seq (assert_svc svc ''lock.owns_lock()'' w_locked) (return (bool_int ret))))"

definition client_adopt_transaction :: "'e services \<Rightarrow> transaction \<Rightarrow> ('e world, unit) cmd" where
  "client_adopt_transaction svc other = seq (high_priority_only svc) (trx_adopt svc other)"

definition client_adopt_apply_error :: "'e services \<Rightarrow> string \<Rightarrow> ('e world, unit) cmd" where
  "client_adopt_apply_error svc err =
     seq (high_priority_only svc) (modify (upd_trx (\<lambda>t. t\<lparr>apply_error_buf := err\<rparr>)))"

definition mark_transaction_pa_unsafe :: "('e world, int) cmd" where
  "mark_transaction_pa_unsafe =
     branch (\<lambda>w. active (trx w)) (seq pa_unsafe_on (return 0)) (return 1)"

section \<open>Total order isolation\<close>

definition toi_retry :: "status \<Rightarrow> bool" where
  "toi_retry st \<longleftrightarrow> st = error_certification_failed \<or> st = error_connection_failed"

text \<open>
  One attempt of \<^verbatim>\<open>poll_enter_toi\<close>. If the provider reports a failure after the operation was
  ordered, TOI is left again.
\<close>

definition enter_toi_attempt ::
    "'e services \<Rightarrow> key list \<Rightarrow> string \<Rightarrow> ws_meta \<Rightarrow> u32 \<Rightarrow> ('e world, status \<times> ws_meta) cmd" where
  "enter_toi_attempt svc keys buffer meta flags =
     seq unlock
     (fetch (\<lambda>w. cs_id (w_cs w)) (\<lambda>i.
      bind (provider_call (prov_enter_toi (prov svc) i keys buffer meta flags)) (\<lambda>(st, poll_meta).
      bind (if st \<noteq> success \<and> \<not> gtid_is_undefined (wsm_gtid poll_meta) then
              seq (provider_call (prov_leave_toi (prov svc) i poll_meta [])) (return ws_meta_default)
            else return poll_meta) (\<lambda>poll_meta.
      seq (block [only_if (toi_retry st) (env_do (usleep svc)), lock svc])
          (return (st, poll_meta))))))"

text \<open>
  The loop of \<^verbatim>\<open>poll_enter_toi\<close>: \<open>n\<close> bounds the number of further attempts. The result is the
  status, the meta data and whether the time ran out.
\<close>

fun poll_enter_toi_loop ::
    "'e services \<Rightarrow> nat \<Rightarrow> key list \<Rightarrow> string \<Rightarrow> ws_meta \<Rightarrow> u32 \<Rightarrow> int \<Rightarrow>
     ('e world, status \<times> ws_meta \<times> bool) cmd" where
  "poll_enter_toi_loop svc 0 keys buffer meta flags wait_until = throw (Blocked ''poll_enter_toi'')"
| "poll_enter_toi_loop svc (Suc n) keys buffer meta flags wait_until =
     bind (enter_toi_attempt svc keys buffer meta flags) (\<lambda>(st, poll_meta).
     fetch (\<lambda>w. \<not> (wait_until \<noteq> 0 \<and> clock svc (w_env w) < wait_until)) (\<lambda>timed_out.
     if toi_retry st \<and> \<not> timed_out then
       bind (env_call (cl_interrupted (client_ops svc))) (\<lambda>interrupted.
         if interrupted then return (st, poll_meta, timed_out)
         else poll_enter_toi_loop svc n keys buffer meta flags wait_until)
     else return (st, poll_meta, timed_out)))"

text \<open>An attempt per tick of the clock until \<open>wait_until\<close>, and one more.\<close>

definition poll_enter_toi ::
    "'e services \<Rightarrow> key list \<Rightarrow> string \<Rightarrow> ws_meta \<Rightarrow> u32 \<Rightarrow> int \<Rightarrow>
     ('e world, status \<times> ws_meta \<times> bool) cmd" where
  "poll_enter_toi svc keys buffer meta flags wait_until =
     fetch (\<lambda>w. Suc (nat (wait_until - clock svc (w_env w)))) (\<lambda>n.
       poll_enter_toi_loop svc n keys buffer meta flags wait_until)"

definition enter_toi_common :: "'e services \<Rightarrow> ('e world, unit) cmd" where
  "enter_toi_common svc = block
     [assert_svc svc ''lock.owns_lock()'' w_locked,
      upd_cs (\<lambda>c. c\<lparr>toi_mode := cs_mode c\<rparr>),
      set_mode svc m_toi]"

text \<open>The errors of a failed attempt to enter TOI.\<close>

definition toi_error :: "'e services \<Rightarrow> status \<Rightarrow> bool \<Rightarrow> ('e world, int) cmd" where
  "toi_error svc st timed_out =
     seq (if st = error_certification_failed then override_error svc e_deadlock_error st
          else if timed_out then override_error svc e_timeout_error success
          else override_error svc e_error_during_commit st)
         (return 1)"

definition enter_toi_local ::
    "'e services \<Rightarrow> key list \<Rightarrow> string \<Rightarrow> int \<Rightarrow> ('e world, int) cmd" where
  "enter_toi_local svc keys buffer wait_until =
     seq (block
       [assert_svc svc ''state_ == s_exec'' (\<lambda>w. cs_state (w_cs w) = s_exec),
        assert_svc svc ''mode_ == m_local'' (\<lambda>w. cs_mode (w_cs w) = m_local)])
     (with_lock svc
       (fetch (\<lambda>w. toi_meta (w_cs w)) (\<lambda>meta.
        bind (poll_enter_toi svc keys buffer meta (flag_start_transaction OR flag_commit) wait_until)
          (\<lambda>(st, meta', timed_out).
        seq (upd_cs (\<lambda>c. c\<lparr>toi_meta := meta'\<rparr>))
        (if st = success then seq (enter_toi_common svc) (return 0)
         else toi_error svc st timed_out)))))"

definition enter_toi_mode :: "'e services \<Rightarrow> ws_meta \<Rightarrow> ('e world, unit) cmd" where
  "enter_toi_mode svc m = with_lock svc (block
     [assert_svc svc ''mode_ == m_high_priority'' (\<lambda>w. cs_mode (w_cs w) = m_high_priority),
      enter_toi_common svc,
      upd_cs (\<lambda>c. c\<lparr>toi_meta := m\<rparr>)])"

definition leave_toi_common :: "'e services \<Rightarrow> ('e world, unit) cmd" where
  "leave_toi_common svc = with_lock svc (block
     [fetch (\<lambda>w. toi_mode (w_cs w)) (\<lambda>m. set_mode svc m),
      upd_cs (\<lambda>c. c\<lparr>toi_mode := m_undefined\<rparr>),
      when_st (\<lambda>w. \<not> gtid_is_undefined (wsm_gtid (toi_meta (w_cs w))))
        (fetch (\<lambda>w. wsm_gtid (toi_meta (w_cs w))) (\<lambda>g. update_last_written_gtid svc g)),
      upd_cs (\<lambda>c. c\<lparr>toi_meta := ws_meta_default\<rparr>)])"

definition leave_toi_call :: "'e services \<Rightarrow> string \<Rightarrow> ('e world, status) cmd" where
  "leave_toi_call svc err =
     fetch w_cs (\<lambda>c. provider_call (prov_leave_toi (prov svc) (cs_id c) (toi_meta c) err))"

definition leave_toi_local :: "'e services \<Rightarrow> string \<Rightarrow> ('e world, int) cmd" where
  "leave_toi_local svc err =
     seq (assert_svc svc ''toi_mode_ == m_local'' (\<lambda>w. toi_mode (w_cs w) = m_local))
     (bind (leave_toi_call svc err) (\<lambda>st.
       seq (leave_toi_common svc) (return (bool_int (st \<noteq> success)))))"

definition leave_toi_mode :: "'e services \<Rightarrow> ('e world, unit) cmd" where
  "leave_toi_mode svc =
     seq (assert_svc svc ''toi_mode_ == m_high_priority'' (\<lambda>w. toi_mode (w_cs w) = m_high_priority))
         (leave_toi_common svc)"

section \<open>Rolling schema upgrade\<close>

definition begin_rsu :: "'e services \<Rightarrow> int \<Rightarrow> ('e world, int) cmd" where
  "begin_rsu svc timeout =
     bind (sv_desync svc) (\<lambda>r.
     if r \<noteq> 0 then return 1
     else
       bind (env_call (sv_wait_committing_transactions (server_ops svc) timeout)) (\<lambda>r.
       if r \<noteq> 0 then seq (sv_resync svc) (return 1)
       else
         bind (sv_pause svc) (\<lambda>s.
         if seqno_is_undefined s then seq (sv_resync svc) (return 1)
         else
           with_lock svc (seq (block
             [upd_cs (\<lambda>c. c\<lparr>toi_mode := cs_mode c\<rparr>), set_mode svc m_rsu])
             (return 0)))))"

definition end_rsu :: "'e services \<Rightarrow> ('e world, int) cmd" where
  "end_rsu svc =
     bind (catch_runtime_error
             (seq (block [sv_resume svc, sv_resync svc]) (return 0))
             (\<lambda>_. return 1)) (\<lambda>ret.
     with_lock svc (seq (block
       [fetch (\<lambda>w. toi_mode (w_cs w)) (\<lambda>m. set_mode svc m),
        upd_cs (\<lambda>c. c\<lparr>toi_mode := m_undefined\<rparr>)])
       (return ret)))"

section \<open>Non-blocking operations\<close>

definition begin_nbo_phase_one ::
    "'e services \<Rightarrow> key list \<Rightarrow> string \<Rightarrow> int \<Rightarrow> ('e world, int) cmd" where
  "begin_nbo_phase_one svc keys buffer wait_until = with_lock svc
     (seq (block
       [assert_svc svc ''state_ == s_exec'' (\<lambda>w. cs_state (w_cs w) = s_exec),
        assert_svc svc ''mode_ == m_local'' (\<lambda>w. cs_mode (w_cs w) = m_local),
        assert_svc svc ''toi_mode_ == m_undefined'' (\<lambda>w. toi_mode (w_cs w) = m_undefined)])
     (fetch (\<lambda>w. toi_meta (w_cs w)) (\<lambda>meta.
      bind (poll_enter_toi svc keys buffer meta flag_start_transaction wait_until)
        (\<lambda>(st, meta', timed_out).
      seq (upd_cs (\<lambda>c. c\<lparr>toi_meta := meta'\<rparr>))
      (if st = success then
         seq (block [upd_cs (\<lambda>c. c\<lparr>toi_mode := cs_mode c\<rparr>), set_mode svc m_nbo]) (return 0)
       else toi_error svc st timed_out)))))"

text \<open>The status of leaving TOI becomes the return code of both ends of phases.\<close>

definition leave_status :: "'e services \<Rightarrow> status \<Rightarrow> ('e world, int) cmd" where
  "leave_status svc st =
     (if st = success then return 0
      else seq (override_error svc e_error_during_commit st) (return 1))"

definition end_nbo_phase_one :: "'e services \<Rightarrow> string \<Rightarrow> ('e world, int) cmd" where
  "end_nbo_phase_one svc err =
     seq (block
       [assert_svc svc ''state_ == s_exec'' (\<lambda>w. cs_state (w_cs w) = s_exec),
        assert_svc svc ''mode_ == m_nbo'' (\<lambda>w. cs_mode (w_cs w) = m_nbo),
        assert_svc svc ''in_toi()'' (\<lambda>w. in_toi (w_cs w))])
     (bind (leave_toi_call svc err) (\<lambda>st.
      with_lock svc
       (bind (leave_status svc st) (\<lambda>ret.
        seq (upd_cs (\<lambda>c. c\<lparr>nbo_meta := toi_meta c, toi_meta := ws_meta_default,
               toi_mode := m_undefined\<rparr>))
            (return ret)))))"

definition enter_nbo_mode :: "'e services \<Rightarrow> ws_meta \<Rightarrow> ('e world, int) cmd" where
  "enter_nbo_mode svc m =
     seq (block
       [assert_svc svc ''state_ == s_exec'' (\<lambda>w. cs_state (w_cs w) = s_exec),
        assert_svc svc ''mode_ == m_local'' (\<lambda>w. cs_mode (w_cs w) = m_local),
        assert_svc svc ''toi_mode_ == m_undefined'' (\<lambda>w. toi_mode (w_cs w) = m_undefined)])
     (with_lock svc
       (seq (block [upd_cs (\<lambda>c. c\<lparr>nbo_meta := m\<rparr>), set_mode svc m_nbo]) (return 0)))"

definition begin_nbo_phase_two :: "'e services \<Rightarrow> key list \<Rightarrow> int \<Rightarrow> ('e world, int) cmd" where
  "begin_nbo_phase_two svc keys wait_until =
     seq (block
       [assert_svc svc ''state_ == s_exec'' (\<lambda>w. cs_state (w_cs w) = s_exec),
        assert_svc svc ''mode_ == m_nbo'' (\<lambda>w. cs_mode (w_cs w) = m_nbo),
        assert_svc svc ''toi_mode_ == m_undefined'' (\<lambda>w. toi_mode (w_cs w) = m_undefined),
        assert_svc svc ''!in_toi()'' (\<lambda>w. \<not> in_toi (w_cs w))])
     (with_lock svc
      (fetch (\<lambda>w. nbo_meta (w_cs w)) (\<lambda>meta.
       bind (poll_enter_toi svc keys [] meta flag_commit wait_until) (\<lambda>(st, meta', timed_out).
       seq (upd_cs (\<lambda>c. c\<lparr>nbo_meta := meta'\<rparr>))
       (bind (if st = success then
                seq (upd_cs (\<lambda>c. c\<lparr>toi_meta := nbo_meta c, toi_mode := m_local\<rparr>)) (return 0)
              else
                seq (if st = error_provider_failed then override_error svc e_interrupted_error st
                     else if timed_out then override_error svc e_timeout_error st
                     else override_error svc e_error_during_commit st)
                    (return 1)) (\<lambda>ret.
        seq (only_if (ret \<noteq> 0)
              (block [set_mode svc m_local, upd_cs (\<lambda>c. c\<lparr>nbo_meta := ws_meta_default\<rparr>)]))
            (return ret)))))))"

definition end_nbo_phase_two :: "'e services \<Rightarrow> string \<Rightarrow> ('e world, int) cmd" where
  "end_nbo_phase_two svc err =
     seq (block
       [assert_svc svc ''state_ == s_exec'' (\<lambda>w. cs_state (w_cs w) = s_exec),
        assert_svc svc ''mode_ == m_nbo'' (\<lambda>w. cs_mode (w_cs w) = m_nbo),
        assert_svc svc ''toi_mode_ == m_local'' (\<lambda>w. toi_mode (w_cs w) = m_local),
        assert_svc svc ''in_toi()'' (\<lambda>w. in_toi (w_cs w))])
     (bind (leave_toi_call svc err) (\<lambda>st.
      with_lock svc
       (bind (leave_status svc st) (\<lambda>ret.
        seq (block
          [upd_cs (\<lambda>c. c\<lparr>toi_meta := ws_meta_default, toi_mode := m_undefined,
             nbo_meta := ws_meta_default\<rparr>),
           set_mode svc m_local])
          (return ret)))))"

section \<open>Miscellaneous\<close>

definition sync_wait :: "'e services \<Rightarrow> int \<Rightarrow> ('e world, int) cmd" where
  "sync_wait svc timeout =
     bind (causal_read svc timeout) (\<lambda>(g, st).
       if st = success then seq (upd_cs (\<lambda>c. c\<lparr>sync_wait_gtid := g\<rparr>)) (return 0)
       else if st = error_not_implemented then
         seq (override_error svc e_not_supported_error success) (return 1)
       else seq (override_error svc e_timeout_error success) (return 1))"

text \<open>
  \<^verbatim>\<open>high_priority_context\<close>: the body runs in high priority mode, then the mode is restored.
\<close>

definition high_priority_context :: "'e services \<Rightarrow> ('e world, 'a) cmd \<Rightarrow> ('e world, 'a) cmd" where
  "high_priority_context svc body =
     fetch (\<lambda>w. cs_mode (w_cs w)) (\<lambda>orig_mode.
       seq (with_lock svc (set_mode svc m_high_priority))
       (finally_do body
         (with_lock svc (block
           [assert_svc svc ''mode() == m_high_priority'' (\<lambda>w. cs_mode (w_cs w) = m_high_priority),
            set_mode svc orig_mode]))))"

end
