(* ===== verification/Server_View.thy ===== *)
theory Server_View
  imports Client_State
begin

text \<open>
  Membership changes (\<^verbatim>\<open>server_state.cpp\<close>): connecting to the group, views, orphaned
  streaming transactions, and the synced event.
\<close>

section \<open>Connected\<close>

definition view_own_id :: "view \<Rightarrow> id" where
  "view_own_id v = member_id (view_members v ! nat (view_own_index v))"

definition own_index_valid :: "view \<Rightarrow> bool" where
  "own_index_valid v \<longleftrightarrow> 0 \<le> view_own_index v \<and> nat (view_own_index v) < length (view_members v)"

definition on_connect :: "'e services \<Rightarrow> view \<Rightarrow> ('e world, unit) cmd" where
  "on_connect svc v =
     (if \<not> own_index_valid v then
        block [unreachable svc, throw (Runtime_error ''Invalid view on connect'')]
      else
        branch (\<lambda>w. \<not> id_is_undefined (sv_id (w_ss w)) \<and> sv_id (w_ss w) \<noteq> view_own_id v)
          (block [unreachable svc, throw (Runtime_error ''Connection in connected state'')])
          (block
            [modify (upd_ss (\<lambda>ss. ss\<lparr>sv_id := view_own_id v\<rparr>)),
             modify (upd_ss (\<lambda>ss. ss\<lparr>connected_gtid := view_state_id v\<rparr>)),
             sv_set_state svc s_connected]))"

section \<open>Orphaned streaming transactions\<close>

text \<open>The streaming clients of the server are this session and its peers.\<close>

definition client_transaction :: "'e services \<Rightarrow> client_ref \<Rightarrow> 'e world \<Rightarrow> transaction" where
  "client_transaction svc c w = (if c = w_self w then trx w else peer_transaction svc c (w_env w))"

definition abort_streaming_client :: "'e services \<Rightarrow> client_ref \<Rightarrow> seqno \<Rightarrow> ('e world, unit) cmd" where
  "abort_streaming_client svc c s =
     branch (\<lambda>w. c = w_self w)
       (with_lock svc (seq (client_total_order_bf_abort svc s) skip))
       (peer_total_order_bf_abort svc c s)"

text \<open>
  Every streaming client that is not prepared is aborted in total order, and waited for: a
  client that is still registered with the same transaction keeps the view handler waiting.
  The bound \<open>n\<close> is one more than the number of clients.
\<close>

fun abort_streaming_clients :: "'e services \<Rightarrow> nat \<Rightarrow> seqno \<Rightarrow> ('e world, unit) cmd" where
  "abort_streaming_clients svc 0 s = throw (Blocked ''streaming clients'')"
| "abort_streaming_clients svc (Suc n) s =
     fetch (\<lambda>w. find (\<lambda>(_, c). trx_state (client_transaction svc c w) \<noteq> s_prepared)
                  (streaming_clients (w_ss w))) (\<lambda>found. case found of
       None \<Rightarrow> skip
     | Some (client_id, c) \<Rightarrow>
         fetch (\<lambda>w. trx_id (client_transaction svc c w)) (\<lambda>i.
         seq (abort_streaming_client svc c s)
         (branch (\<lambda>w. case om_find client_id (streaming_clients (w_ss w)) of
                    None \<Rightarrow> False | Some c' \<Rightarrow> trx_id (client_transaction svc c' w) = i)
           (throw (Blocked ''streaming client''))
           (abort_streaming_clients svc n s))))"

definition roll_back_applier :: "'e services \<Rightarrow> hps_ref \<Rightarrow> hps_ref \<Rightarrow> ('e world, unit) cmd" where
  "roll_back_applier svc h sa = block
     [env_do (hps_reset_globals (hps svc) h),
      env_do (hps_switch_execution_context (hps svc) sa h),
      env_do (hps_store_globals (hps svc) sa),
      seq (env_call (hps_rollback (hps svc) sa ws_handle_default ws_meta_default)) skip,
      env_do (hps_after_apply (hps svc) sa),
      env_do (hps_reset_globals (hps svc) sa),
      env_do (hps_store_globals (hps svc) h)]"

definition erase_applier ::
    "'e services \<Rightarrow> hps_ref \<Rightarrow> id \<times> transaction_id \<Rightarrow> hps_ref \<Rightarrow> ('e world, unit) cmd" where
  "erase_applier svc h k sa = block
     [modify (upd_ss (\<lambda>ss. ss\<lparr>streaming_appliers := om_erase k (streaming_appliers ss)\<rparr>)),
      env_do (sv_release_high_priority_service (server_ops svc) sa),
      env_do (hps_store_globals (hps svc) h)]"

definition close_applier ::
    "'e services \<Rightarrow> hps_ref \<Rightarrow> bool \<Rightarrow> (id \<times> transaction_id) \<times> hps_ref \<Rightarrow> ('e world, unit) cmd" where
  "close_applier svc h equal_views entry =
     (case entry of ((server_id, transaction_id), sa) \<Rightarrow>
      fetch (\<lambda>w. hps_transaction (hps svc) sa (w_env w)) (\<lambda>t.
      when_st (\<lambda>w. trx_state t \<noteq> s_prepared \<and>
                   (equal_views \<or> \<not> is_member (current_view (w_ss w)) (trx_server_id t)))
        (bind (env_call (hps_adopt_transaction (hps svc) h t)) (\<lambda>adopt_error.
         let m = ws_meta_of_stid \<lparr>stid_server_id = server_id, stid_transaction_id = transaction_id,
                   stid_client_id = client_id_undefined\<rparr> in
         block
          [roll_back_applier svc h sa,
           erase_applier svc h (server_id, transaction_id) sa,
           only_if (adopt_error = 0) (block
             [seq (env_call (hps_remove_fragments (hps svc) h m)) skip,
              seq (env_call (hps_commit (hps svc) h (ws_handle_of transaction_id) m)) skip]),
           env_do (hps_after_apply (hps svc) h)]))))"

definition close_orphaned_sr_transactions :: "'e services \<Rightarrow> hps_ref \<Rightarrow> ('e world, unit) cmd" where
  "close_orphaned_sr_transactions svc h =
     fetch (\<lambda>w. equal_membership (current_view (w_ss w)) (previous_primary_view (w_ss w)))
       (\<lambda>equal_views. block
       [when_st (\<lambda>w. view_own_index (current_view (w_ss w)) = -1 \<or> equal_views)
          (fetch w_ss (\<lambda>ss. abort_streaming_clients svc (Suc (length (streaming_clients ss)))
             (view_seqno (current_view ss)))),
        fetch (\<lambda>w. streaming_appliers (w_ss w)) (for_each (close_applier svc h equal_views))])"

definition close_transactions_at_disconnect :: "'e services \<Rightarrow> hps_ref \<Rightarrow> ('e world, unit) cmd" where
  "close_transactions_at_disconnect svc h = block
     [fetch (\<lambda>w. streaming_appliers (w_ss w)) (for_each (\<lambda>(k, sa). block
        [roll_back_applier svc h sa, erase_applier svc h k sa])),
      modify (upd_ss (\<lambda>ss. ss\<lparr>streaming_appliers_recovered := False\<rparr>))]"

section \<open>Views\<close>

text \<open>The walk of a server that reached a primary view from the connected state.\<close>

definition walk_to_joiner :: "'e services \<Rightarrow> ('e world, unit) cmd" where
  "walk_to_joiner svc =
     branch (\<lambda>w. sv_sst_before_init (server_ops svc) (w_env w))
       (when_st (\<lambda>w. srv w = s_connected)
         (seq (sv_set_state svc s_joiner)
          (fetch (\<lambda>w. init_initialized (w_ss w)) (\<lambda>was_initialized. block
            [sv_set_state svc s_initializing,
             only_if was_initialized (sv_set_state svc s_initialized)]))))
       (when_st (\<lambda>w. srv w = s_connected) (sv_set_state svc s_joiner))"

definition on_primary_view :: "'e services \<Rightarrow> view \<Rightarrow> hps_ref option \<Rightarrow> ('e world, unit) cmd" where
  "on_primary_view svc v h = block
     [assert_svc svc ''view.is_final() == false'' (\<lambda>_. \<not> is_final v),
      walk_to_joiner svc,
      when_st (\<lambda>w. \<not> init_initialized (w_ss w)) (wait_until_state svc s_initialized),
      assert_svc svc ''init_initialized_'' (\<lambda>w. init_initialized (w_ss w)),
      when_st (\<lambda>w. bootstrap (w_ss w)) (block
        [env_do (sv_bootstrap (server_ops svc)),
         modify (upd_ss (\<lambda>ss. ss\<lparr>bootstrap := False\<rparr>))]),
      assert_svc svc ''high_priority_service'' (\<lambda>_. h \<noteq> None),
      (case h of None \<Rightarrow> skip | Some hp \<Rightarrow> block
        [recover_streaming_appliers_if_not_recovered svc,
         close_orphaned_sr_transactions svc hp]),
      when_st (\<lambda>w. srv_state_index (srv w) < srv_state_index s_joined \<and>
                   gtid_seqno (view_state_id v) \<ge> gtid_seqno (connected_gtid (w_ss w)))
        (sv_set_state svc s_joined)]"

definition go_final :: "'e services \<Rightarrow> view \<Rightarrow> hps_ref option \<Rightarrow> ('e world, unit) cmd" where
  "go_final svc v h = block
     [assert_svc svc ''view.is_final()'' (\<lambda>_. is_final v),
      assert_svc svc ''hps'' (\<lambda>_. h \<noteq> None),
      (case h of None \<Rightarrow> skip | Some hp \<Rightarrow> close_transactions_at_disconnect svc hp),
      sv_set_state svc s_disconnected,
      modify (upd_ss (\<lambda>ss. ss\<lparr>sv_id := id_undefined\<rparr>))]"

definition on_non_primary_view :: "'e services \<Rightarrow> view \<Rightarrow> hps_ref option \<Rightarrow> ('e world, unit) cmd" where
  "on_non_primary_view svc v h =
     (if is_final v then go_final svc v h
      else when_st (\<lambda>w. srv w \<noteq> s_disconnecting) (sv_set_state svc s_connected))"

definition on_view :: "'e services \<Rightarrow> view \<Rightarrow> hps_ref option \<Rightarrow> ('e world, unit) cmd" where
  "on_view svc v h = block
     [modify (upd_ss (\<lambda>ss. if view_status (current_view ss) = primary
        then ss\<lparr>previous_primary_view := current_view ss\<rparr> else ss)),
      modify (upd_ss (\<lambda>ss. ss\<lparr>current_view := v\<rparr>)),
      (case view_status v of
         primary \<Rightarrow> on_primary_view svc v h
       | non_primary \<Rightarrow> on_non_primary_view svc v h
       | disconnected \<Rightarrow> go_final svc v h),
      env_do (sv_log_view (server_ops svc) h v)]"

section \<open>Synced\<close>

text \<open>
  The first synced event of a server that initializes after the state transfer takes it through
  the states it skipped.
\<close>

definition on_initial_sync :: "'e services \<Rightarrow> ('e world, unit) cmd" where
  "on_initial_sync svc =
     fetch srv (\<lambda>s. case s of
       s_disconnecting \<Rightarrow> skip
     | s_synced \<Rightarrow> skip
     | s_connected \<Rightarrow> block [sv_set_state svc s_joiner, sv_set_state svc s_initializing]
     | s_joiner \<Rightarrow> sv_set_state svc s_initializing
     | s_donor \<Rightarrow> block [unreachable svc, sv_set_state svc s_joined, sv_set_state svc s_synced]
     | s_initialized \<Rightarrow> block [sv_set_state svc s_joined, sv_set_state svc s_synced]
     | _ \<Rightarrow> sv_set_state svc s_synced)"

definition on_sync :: "'e services \<Rightarrow> ('e world, unit) cmd" where
  "on_sync svc = block
     [branch (\<lambda>w. sv_sst_before_init (server_ops svc) (w_env w) \<and> \<not> init_synced (w_ss w))
        (on_initial_sync svc)
        (when_st (\<lambda>w. srv w \<noteq> s_synced \<and> srv w \<noteq> s_disconnecting) (sv_set_state svc s_synced)),
      modify (upd_ss (\<lambda>ss. ss\<lparr>init_synced := True\<rparr>)),
      seq (send_pending_rollback_events svc) skip]"

end
