(* ===== verification/Applier.thy ===== *)
theory Applier
  imports Server_Registry
begin

text \<open>
  Applying replicated write sets (\<^verbatim>\<open>server_state.cpp\<close>): fragments of streaming transactions go
  to the streaming applier registered for them, other write sets to the applier that received
  them. The appliers are \<^verbatim>\<open>high_priority_service\<close> objects of the application.
\<close>

section \<open>Helpers\<close>

text \<open>\<^verbatim>\<open>ret = a; ret = ret || b; ...\<close>\<close>

fun or_chain :: "('w, int) cmd \<Rightarrow> ('w, int) cmd list \<Rightarrow> ('w, int) cmd" where
  "or_chain a [] = a"
| "or_chain a (b # bs) = or_chain (or_else a b) bs"

definition resolve_return_error :: "bool \<Rightarrow> int \<Rightarrow> int \<Rightarrow> int" where
  "resolve_return_error vote vote_err apply_err =
     (if vote then vote_err else if vote_err \<noteq> 0 then vote_err else apply_err)"

text \<open>\<^verbatim>\<open>high_priority_switch\<close>: the body runs in the context of another applier.\<close>

definition high_priority_switch ::
    "'e services \<Rightarrow> hps_ref \<Rightarrow> hps_ref \<Rightarrow> ('e world, 'a) cmd \<Rightarrow> ('e world, 'a) cmd" where
  "high_priority_switch svc orig cur body =
     seq (block
       [env_do (hps_reset_globals (hps svc) orig),
        env_do (hps_switch_execution_context (hps svc) cur orig),
        env_do (hps_store_globals (hps svc) cur)])
     (finally_do body (block
       [env_do (hps_reset_globals (hps svc) cur), env_do (hps_store_globals (hps svc) orig)]))"

definition after_apply :: "'e services \<Rightarrow> hps_ref \<Rightarrow> ('e world, int) cmd" where
  "after_apply svc h = seq (env_do (hps_after_apply (hps svc) h)) (return 0)"

definition log_dummy :: "'e services \<Rightarrow> hps_ref \<Rightarrow> ws_handle \<Rightarrow> ws_meta \<Rightarrow> string \<Rightarrow>
    ('e world, int \<times> string) cmd" where
  "log_dummy svc h wsh m err = env_call (hps_log_dummy_write_set (hps svc) h wsh m err)"

text \<open>\<^verbatim>\<open>log_dummy_write_set\<close> with no error to report.\<close>

definition log_dummy_no_error ::
    "'e services \<Rightarrow> hps_ref \<Rightarrow> ws_handle \<Rightarrow> ws_meta \<Rightarrow> ('e world, int) cmd" where
  "log_dummy_no_error svc h wsh m = bind (log_dummy svc h wsh m []) (\<lambda>(r, _). return r)"

definition has_fragments :: "'e services \<Rightarrow> hps_ref \<Rightarrow> 'e world \<Rightarrow> bool" where
  "has_fragments svc sa w \<longleftrightarrow>
     fragments (trx_streaming_context (hps_transaction (hps svc) sa (w_env w))) \<noteq> []"

definition discard_streaming_applier ::
    "'e services \<Rightarrow> hps_ref \<Rightarrow> hps_ref \<Rightarrow> ws_meta \<Rightarrow> ('e world, unit) cmd" where
  "discard_streaming_applier svc h sa m = block
     [stop_streaming_applier svc (wsm_server_id m) (wsm_transaction_id m),
      env_do (sv_release_high_priority_service (server_ops svc) sa),
      env_do (hps_store_globals (hps svc) h)]"

section \<open>Fragments\<close>

text \<open>
  A fragment that could not be applied: roll the streaming transaction back, and remove its
  fragments, or log a dummy write set if it has none. \<^verbatim>\<open>adopt_apply_error\<close> takes the error
  buffer away; what is left of it is the second component of the result.
\<close>

definition fragment_apply_failed ::
    "'e services \<Rightarrow> hps_ref \<Rightarrow> ws_handle \<Rightarrow> ws_meta \<Rightarrow> string \<Rightarrow> ('e world, int \<times> string) cmd" where
  "fragment_apply_failed svc sa wsh m err =
     fetch (has_fragments svc sa) (\<lambda>remove_fragments.
     bind (or_else (env_call (hps_rollback (hps svc) sa wsh m)) (after_apply svc sa)) (\<lambda>ret.
     if remove_fragments then
       bind (or_else (return ret) (env_call (hps_start_transaction (hps svc) sa wsh m))) (\<lambda>ret.
       bind (if ret = 0 then env_call (hps_adopt_apply_error (hps svc) sa err) else return err) (\<lambda>err.
       bind (or_chain (return ret)
              [env_call (hps_remove_fragments (hps svc) sa m),
               env_call (hps_commit (hps svc) sa wsh m),
               after_apply svc sa]) (\<lambda>ret. return (ret, err))))
     else log_dummy svc sa wsh m err))"

definition apply_fragment ::
    "'e services \<Rightarrow> hps_ref \<Rightarrow> hps_ref \<Rightarrow> ws_handle \<Rightarrow> ws_meta \<Rightarrow> string \<Rightarrow> ('e world, int) cmd" where
  "apply_fragment svc h sa wsh m data =
     bind (high_priority_switch svc h sa
       (bind (env_call (hps_apply_write_set (hps svc) sa m data)) (\<lambda>(apply_err, err).
        if apply_err = 0 then
          seq (assert_svc svc ''err.size() == 0'' (\<lambda>_. err = []))
          (seq (after_apply svc sa) (return (0, apply_err, err)))
        else
          bind (fragment_apply_failed svc sa wsh m err) (\<lambda>(ret, err).
            return (ret, apply_err, err))))) (\<lambda>(ret, apply_err, err).
     if ret \<noteq> 0 then return ret
     else if apply_err = 0 then
       fetch (\<lambda>w. trx_xid (hps_transaction (hps svc) sa (w_env w))) (\<lambda>x.
         or_else (env_call (hps_append_fragment_and_commit (hps svc) h wsh m data x))
                 (after_apply svc h))
     else
       seq (discard_streaming_applier svc h sa m)
           (return (resolve_return_error (err \<noteq> []) ret apply_err)))"

definition commit_fragment ::
    "'e services \<Rightarrow> hps_ref \<Rightarrow> hps_ref \<Rightarrow> ws_handle \<Rightarrow> ws_meta \<Rightarrow> string \<Rightarrow> ('e world, int) cmd" where
  "commit_fragment svc h sa wsh m data =
     bind (high_priority_switch svc h sa
       (bind (env_call (hps_apply_write_set (hps svc) sa m data)) (\<lambda>(apply_err, err).
        bind (if apply_err \<noteq> 0 then
                seq (assert_svc svc ''fragments().size() > 0'' (has_fragments svc sa))
                (bind (or_chain (env_call (hps_rollback (hps svc) sa wsh m))
                        [after_apply svc sa,
                         env_call (hps_start_transaction (hps svc) sa wsh m)]) (\<lambda>ret.
                 bind (if ret = 0 then env_call (hps_adopt_apply_error (hps svc) sa err)
                       else return err) (\<lambda>err. return (ret, err))))
              else
                seq (assert_svc svc ''err.size() == 0'' (\<lambda>_. err = [])) (return (0, err)))
          (\<lambda>(ret, err).
        bind (branch (\<lambda>w. trx_state (hps_transaction (hps svc) sa (w_env w)) \<noteq> s_prepared)
                (or_else (return ret) (env_call (hps_remove_fragments (hps svc) sa m)))
                (return ret)) (\<lambda>ret.
        bind (or_chain (return ret)
                [env_call (hps_commit (hps svc) sa wsh m), after_apply svc sa]) (\<lambda>ret.
        return (resolve_return_error (err \<noteq> []) ret apply_err)))))) ) (\<lambda>ret.
     seq (only_if (ret = 0) (discard_streaming_applier svc h sa m)) (return ret))"

definition rollback_fragment ::
    "'e services \<Rightarrow> hps_ref \<Rightarrow> hps_ref \<Rightarrow> ws_handle \<Rightarrow> ws_meta \<Rightarrow> ('e world, int) cmd" where
  "rollback_fragment svc h sa wsh m =
     fetch (has_fragments svc sa) (\<lambda>remove_fragments.
     bind (if remove_fragments then
             fetch (\<lambda>w. hps_transaction (hps svc) sa (w_env w)) (\<lambda>t.
               env_call (hps_adopt_transaction (hps svc) h t))
           else return 0) (\<lambda>adopt_error.
     bind (high_priority_switch svc h sa
             (or_else (env_call (hps_rollback (hps svc) sa ws_handle_default ws_meta_default))
                      (after_apply svc sa))) (\<lambda>ret.
     if ret \<noteq> 0 then return ret
     else
       seq (discard_streaming_applier svc h sa m)
       (if adopt_error \<noteq> 0 then return ret
        else if remove_fragments then
          bind (or_else (env_call (hps_remove_fragments (hps svc) h m))
                        (env_call (hps_commit (hps svc) h wsh m))) (\<lambda>ret.
          seq (only_if (ret \<noteq> 0) (seq (env_call (hps_rollback (hps svc) h wsh m)) skip))
          (seq (after_apply svc h) (return ret)))
        else if wsm_ordered m then log_dummy_no_error svc h wsh m
        else return ret))))"

section \<open>Write sets\<close>

text \<open>A write set that is a whole transaction.\<close>

definition apply_one_shot ::
    "'e services \<Rightarrow> hps_ref \<Rightarrow> ws_handle \<Rightarrow> ws_meta \<Rightarrow> string \<Rightarrow> ('e world, int) cmd" where
  "apply_one_shot svc h wsh m data =
     bind (env_call (hps_start_transaction (hps svc) h wsh m)) (\<lambda>ret.
     if ret \<noteq> 0 then return ret
     else
       bind (env_call (hps_apply_write_set (hps svc) h m data)) (\<lambda>(apply_err, err).
       if apply_err = 0 then
         seq (assert_svc svc ''err.size() == 0'' (\<lambda>_. err = []))
             (or_else (env_call (hps_commit (hps svc) h wsh m)) (after_apply svc h))
       else
         bind (or_else (env_call (hps_rollback (hps svc) h wsh m)) (after_apply svc h)) (\<lambda>ret.
         bind (if ret \<noteq> 0 then return (1, err)
               else bind (log_dummy svc h wsh m err) (\<lambda>(r, err). return (bool_int (r \<noteq> 0), err)))
           (\<lambda>(ret, err).
         return (resolve_return_error (err \<noteq> []) ret apply_err)))))"

text \<open>
  A write set for a streaming applier that may not be there: then a dummy write set is logged.
\<close>

definition with_streaming_applier ::
    "'e services \<Rightarrow> hps_ref \<Rightarrow> ws_handle \<Rightarrow> ws_meta \<Rightarrow> (hps_ref \<Rightarrow> ('e world, int) cmd) \<Rightarrow>
     ('e world, int) cmd" where
  "with_streaming_applier svc h wsh m body =
     fetch (find_streaming_applier (wsm_server_id m) (wsm_transaction_id m)) (\<lambda>found.
       case found of None \<Rightarrow> log_dummy_no_error svc h wsh m | Some sa \<Rightarrow> body sa)"

definition next_fragment :: "'e services \<Rightarrow> hps_ref \<Rightarrow> ws_meta \<Rightarrow> ('e world, unit) cmd" where
  "next_fragment svc sa m = seq (env_call (hps_next_fragment (hps svc) sa m)) skip"

definition apply_write_set ::
    "'e services \<Rightarrow> hps_ref \<Rightarrow> ws_handle \<Rightarrow> ws_meta \<Rightarrow> string \<Rightarrow> ('e world, int) cmd" where
  "apply_write_set svc h wsh m data =
     (let flags = wsm_flags m in
      if rolls_back_transaction flags then
        (if starts_transaction flags then log_dummy_no_error svc h wsh m
         else with_streaming_applier svc h wsh m (\<lambda>sa. rollback_fragment svc h sa wsh m))
      else if starts_transaction flags \<and> commits_transaction flags then
        apply_one_shot svc h wsh m data
      else if starts_transaction flags then
        seq (assert_svc svc ''find_streaming_applier() == 0''
               (\<lambda>w. find_streaming_applier (wsm_server_id m) (wsm_transaction_id m) w = None))
        (bind (env_call (sv_streaming_applier_service (server_ops svc))) (\<lambda>sa.
         seq (block
           [start_streaming_applier (wsm_server_id m) (wsm_transaction_id m) sa,
            seq (env_call (hps_start_transaction (hps svc) sa wsh m)) skip])
           (apply_fragment svc h sa wsh m data)))
      else if flags = 0 \<or> flags = flag_pa_unsafe \<or> prepares_transaction flags then
        with_streaming_applier svc h wsh m (\<lambda>sa.
          seq (next_fragment svc sa m) (apply_fragment svc h sa wsh m data))
      else if commits_transaction flags then
        branch (\<lambda>w. hps_is_replaying (hps svc) h (w_env w))
          (or_chain (env_call (hps_start_transaction (hps svc) h wsh m))
            [bind (env_call (hps_apply_write_set (hps svc) h m data)) (\<lambda>(r, _). return r),
             env_call (hps_commit (hps svc) h wsh m)])
          (with_streaming_applier svc h wsh m (\<lambda>sa.
            seq (next_fragment svc sa m) (commit_fragment svc h sa wsh m data)))
      else seq (unreachable svc) (return 0))"

section \<open>Total order isolation\<close>

definition ordered_section ::
    "'e services \<Rightarrow> ws_handle \<Rightarrow> ws_meta \<Rightarrow> ('e world, int \<times> string) cmd \<Rightarrow>
     ('e world, int) cmd" where
  "ordered_section svc wsh m body =
     seq (provider_call (prov_commit_order_enter (prov svc) wsh m))
     (bind body (\<lambda>(apply_err, err).
      bind (provider_call (prov_commit_order_leave (prov svc) wsh m err)) (\<lambda>vote_err.
      return (resolve_return_error (err \<noteq> []) vote_err apply_err))))"

definition apply_toi ::
    "'e services \<Rightarrow> hps_ref \<Rightarrow> ws_handle \<Rightarrow> ws_meta \<Rightarrow> string \<Rightarrow> ('e world, int) cmd" where
  "apply_toi svc h wsh m data =
     (let flags = wsm_flags m in
      if starts_transaction flags \<and> commits_transaction flags then
        ordered_section svc wsh m (env_call (hps_apply_toi (hps svc) h m data))
      else if starts_transaction flags then
        ordered_section svc wsh m (env_call (hps_apply_nbo_begin (hps svc) h m data))
      else if commits_transaction flags then
        seq (provider_call (prov_commit_order_enter (prov svc) wsh m))
        (seq (provider_call (prov_commit_order_leave (prov svc) wsh m [])) (return 0))
      else seq (unreachable svc) (return 0))"

definition on_apply ::
    "'e services \<Rightarrow> hps_ref \<Rightarrow> ws_handle \<Rightarrow> ws_meta \<Rightarrow> string \<Rightarrow> ('e world, int) cmd" where
  "on_apply svc h wsh m data =
     (if is_toi (wsm_flags m) then
        branch (\<lambda>w. provider_loaded (w_ss w)) (apply_toi svc h wsh m data)
          (throw (Runtime_error ''provider not loaded''))
      else if is_commutative (wsm_flags m) \<or> is_native (wsm_flags m) then
        seq (unreachable svc) (return 0)
      else apply_write_set svc h wsh m data)"

end
