(* ===== verification/Invariants.thy ===== *)
theory Invariants
  imports Keeps Server_View Applier
begin

text \<open>
  Invariants of the library's own data that every operation keeps, whatever the provider and
  the DBMS do and whichever BF aborts arrive. The locale states what is needed of the parts of
  such an invariant and derives that every operation keeps it; it is interpreted below.
\<close>

section \<open>Case distinctions\<close>

lemma keeps_case_status [keeps_intro]:
  assumes "keeps I a" "keeps I b" "keeps I c" "keeps I d" "keeps I e" "keeps I f" "keeps I g"
    "keeps I h" "keeps I i" "keeps I j" "keeps I k" "keeps I l"
  shows "keeps I (case st of success \<Rightarrow> a | error_warning \<Rightarrow> b | error_transaction_missing \<Rightarrow> c
    | error_certification_failed \<Rightarrow> d | error_bf_abort \<Rightarrow> e | error_size_exceeded \<Rightarrow> f
    | error_connection_failed \<Rightarrow> g | error_provider_failed \<Rightarrow> h | error_fatal \<Rightarrow> i
    | error_not_implemented \<Rightarrow> j | error_not_allowed \<Rightarrow> k | error_unknown \<Rightarrow> l)"
  using assms by (simp split: status.split)

lemma keeps_case_trx_state [keeps_intro]:
  assumes "keeps I a" "keeps I b" "keeps I c" "keeps I d" "keeps I e" "keeps I f" "keeps I g"
    "keeps I h" "keeps I i" "keeps I j" "keeps I k" "keeps I l" "keeps I m"
  shows "keeps I (case s of s_executing \<Rightarrow> a | s_preparing \<Rightarrow> b | s_prepared \<Rightarrow> c | s_certifying \<Rightarrow> d
    | s_committing \<Rightarrow> e | s_ordered_commit \<Rightarrow> f | s_committed \<Rightarrow> g | s_cert_failed \<Rightarrow> h
    | s_must_abort \<Rightarrow> i | s_aborting \<Rightarrow> j | s_aborted \<Rightarrow> k | s_must_replay \<Rightarrow> l | s_replaying \<Rightarrow> m)"
  using assms by (simp split: trx_state.split)

lemma keeps_case_mode [keeps_intro]:
  assumes "keeps I a" "keeps I b" "keeps I c" "keeps I d" "keeps I e" "keeps I f"
  shows "keeps I (case m of m_undefined \<Rightarrow> a | m_local \<Rightarrow> b | m_high_priority \<Rightarrow> c | m_toi \<Rightarrow> d
    | m_rsu \<Rightarrow> e | m_nbo \<Rightarrow> f)"
  using assms by (simp split: client_mode.split)

lemma keeps_case_unit [keeps_intro]:
  assumes "keeps I a" "keeps I b" "keeps I c"
  shows "keeps I (case u of bytes \<Rightarrow> a | row \<Rightarrow> b | statement \<Rightarrow> c)"
  using assms by (simp split: fragment_unit.split)

lemma keeps_case_srv [keeps_intro]:
  assumes "keeps I a" "keeps I b" "keeps I c" "keeps I d" "keeps I e" "keeps I f" "keeps I g"
    "keeps I h" "keeps I i"
  shows "keeps I (case s of s_disconnected \<Rightarrow> a | s_initializing \<Rightarrow> b | s_initialized \<Rightarrow> c
    | s_connected \<Rightarrow> d | s_joiner \<Rightarrow> e | s_joined \<Rightarrow> f | s_donor \<Rightarrow> g | s_synced \<Rightarrow> h
    | s_disconnecting \<Rightarrow> i)"
  using assms by (simp split: srv_state.split)

lemma keeps_case_view_status [keeps_intro]:
  assumes "keeps I a" "keeps I b" "keeps I c"
  shows "keeps I (case s of primary \<Rightarrow> a | non_primary \<Rightarrow> b | disconnected \<Rightarrow> c)"
  using assms by (simp split: view_status.split)

lemma keeps_case_event [keeps_intro]:
  assumes "keeps I a" "keeps I b"
  shows "keeps I (case e of Ev_initialized \<Rightarrow> a | Ev_disconnect \<Rightarrow> b)"
  using assms by (simp split: server_event.split)

lemma keeps_or_chain [keeps_intro]:
  "keeps I a \<Longrightarrow> keeps I (or_chain a [])"
  "keeps I (or_chain (or_else a b) bs) \<Longrightarrow> keeps I (or_chain a (b # bs))"
  by simp_all

section \<open>The parts of an invariant\<close>

definition parts_inv ::
    "(trx_state list \<Rightarrow> trx_state \<Rightarrow> bool) \<Rightarrow> (streaming_context \<Rightarrow> bool) \<Rightarrow> (sr_key_set \<Rightarrow> bool) \<Rightarrow>
     (client_session_state list \<Rightarrow> client_session_state \<Rightarrow> bool) \<Rightarrow> ((client_id \<times> client_ref) list \<Rightarrow> bool) \<Rightarrow>
     (((id \<times> transaction_id) \<times> hps_ref) list \<Rightarrow> bool) \<Rightarrow> (srv_state list \<Rightarrow> srv_state \<Rightarrow> bool) \<Rightarrow>
     'e world \<Rightarrow> bool" where
  "parts_inv Jt Jc Jk Js Jr Ja Jv w \<longleftrightarrow>
     Jt (trx_state_hist (trx w)) (trx_state (trx w)) \<and> Jc (trx_streaming_context (trx w)) \<and>
     Jk (sr_keys (trx w)) \<and> Js (cs_state_hist (w_cs w)) (cs_state (w_cs w)) \<and>
     Jr (streaming_clients (w_ss w)) \<and> Ja (streaming_appliers (w_ss w)) \<and>
     Jv (sv_state_hist (w_ss w)) (sv_state (w_ss w))"

locale library_invariant =
  fixes svc :: "'e services"
    and Jt :: "trx_state list \<Rightarrow> trx_state \<Rightarrow> bool"
    and Jc :: "streaming_context \<Rightarrow> bool"
    and Jk :: "sr_key_set \<Rightarrow> bool"
    and Js :: "client_session_state list \<Rightarrow> client_session_state \<Rightarrow> bool"
    and Jr :: "(client_id \<times> client_ref) list \<Rightarrow> bool"
    and Ja :: "((id \<times> transaction_id) \<times> hps_ref) list \<Rightarrow> bool"
    and Jv :: "srv_state list \<Rightarrow> srv_state \<Rightarrow> bool"
  assumes start: "Jt [] s_executing"
    and push: "Jt h s \<Longrightarrow> (debug_build svc \<Longrightarrow> trx_allowed s n) \<Longrightarrow>
       Jt (push_history (\<lambda>n. n = 12) s h) n"
    and ctx_certified: "Jc c \<Longrightarrow> Jc (sc_certified c)"
    and ctx_stored: "Jc c \<Longrightarrow> sc_stored (debug_build svc) q (sc_certified c) = Inr c' \<Longrightarrow> Jc c'"
    and ctx_applied: "Jc c \<Longrightarrow> sc_applied (debug_build svc) q c = Inr c' \<Longrightarrow> Jc c'"
    and ctx_rolled_back: "Jc c \<Longrightarrow> sc_rolled_back (debug_build svc) i c = Inr c' \<Longrightarrow> Jc c'"
    and ctx_enable: "Jc c \<Longrightarrow> sc_enable (debug_build svc) u z c = Inr c' \<Longrightarrow> Jc c'"
    and ctx_counters: "Jc c \<Longrightarrow> Jc (sc_reset_unit_counter c)" "Jc c \<Longrightarrow> Jc (sc_set_unit_counter z c)"
      "Jc c \<Longrightarrow> Jc (sc_increment_unit_counter z c)" "Jc c \<Longrightarrow> Jc (sc_set_log_position z c)"
      "Jc c \<Longrightarrow> Jc (sc_params u z c)" "Jc c \<Longrightarrow> Jc (sc_disable c)" "Jc c \<Longrightarrow> Jc (sc_cleanup c)"
    and keys_empty: "Jk []"
    and keys_insert: "Jk ks \<Longrightarrow> sr_key_set_insert (debug_build svc) k ks = Inr ks' \<Longrightarrow> Jk ks'"
    and session_push: "Js h' s' \<Longrightarrow> (debug_build svc \<Longrightarrow> session_allowed s' n') \<Longrightarrow>
       Js (push_history (\<lambda>n. n > 10) s' h') n'"
    and server_push: "Jv vh vs \<Longrightarrow> (debug_build svc \<Longrightarrow> srv_allowed vs vn) \<Longrightarrow> Jv (vh @ [vs]) vn"
    and clients: "Jr m \<Longrightarrow> Jr (fst (om_insert ci cr m))" "Jr m \<Longrightarrow> Jr (om_erase ci m)"
    and appliers: "Ja m' \<Longrightarrow> Ja (fst (om_insert ak sa m'))" "Ja m' \<Longrightarrow> Ja (om_erase ak m')"
    and callbacks:
      "keeps (parts_inv Jt Jc Jk Js Jr Ja Jv) (cl_remove_fragments (client_ops svc))"
      "keeps (parts_inv Jt Jc Jk Js Jr Ja Jv) (cl_bf_rollback (client_ops svc))"
      "keeps (parts_inv Jt Jc Jk Js Jr Ja Jv) (cl_replay (client_ops svc))"
      "keeps (parts_inv Jt Jc Jk Js Jr Ja Jv) (cl_replay_unordered (client_ops svc))"
      "keeps (parts_inv Jt Jc Jk Js Jr Ja Jv) (cl_commit_by_xid (client_ops svc))"
      "keeps (parts_inv Jt Jc Jk Js Jr Ja Jv) (sv_background_rollback (server_ops svc))"
      "keeps (parts_inv Jt Jc Jk Js Jr Ja Jv) (sv_recover_streaming_appliers (server_ops svc))"
      "keeps (parts_inv Jt Jc Jk Js Jr Ja Jv) (peer_total_order_bf_abort svc p q')"
begin

abbreviation inv :: "'e world \<Rightarrow> bool" where
  "inv \<equiv> parts_inv Jt Jc Jk Js Jr Ja Jv"

lemmas frame = parts_inv_def

subsection \<open>Calls and assignments\<close>

lemma k_env_call: "keeps inv (env_call f)"
  by (rule keepsI) (simp add: wp_simps frame split: prod.split)

lemma k_env_do: "keeps inv (env_do f)"
  by (rule keepsI) (simp add: wp_simps frame)

lemma k_provider_call: "keeps inv (provider_call f)"
  by (rule keepsI) (simp add: wp_simps frame split: prod.split)

lemma k_client_event: "keeps inv (client_event svc e)"
  by (rule keepsI) (simp add: wp_simps frame)

lemma k_set_flags: "keeps inv (set_flags f)"
  by (rule keepsI) (simp add: wp_simps frame)

lemma k_set_handle: "keeps inv (set_handle f)"
  by (rule keepsI) (simp add: wp_simps frame)

lemma k_pa_unsafe_on: "keeps inv pa_unsafe_on"
  by (rule keepsI) (simp add: pa_unsafe_on_def set_pa_unsafe_def wp_simps frame)

lemma k_unlock: "keeps inv unlock"
  by (rule keepsI) (simp add: unlock_def wp_simps frame)

lemma k_take_lock: "keeps inv take_lock"
  by (rule keepsI) (simp add: take_lock_def wp_simps frame)

lemma k_unreachable: "keeps inv (unreachable svc)"
  by (rule keepsI) (simp add: wp_simps)

lemma k_override_error: "keeps inv (override_error svc e st)"
  by (rule keepsI) (simp add: override_error_def wp_simps frame)

lemma k_update_last_written: "keeps inv (update_last_written_gtid svc g)"
  by (rule keepsI) (simp add: update_last_written_gtid_def wp_simps frame)

lemma k_set_context:
  "keeps inv (set_context sc_reset_unit_counter)" "keeps inv (set_context (sc_set_unit_counter n))"
  "keeps inv (set_context (sc_increment_unit_counter n))"
  "keeps inv (set_context (sc_set_log_position n))" "keeps inv (set_context (sc_params u n))"
  "keeps inv (set_context sc_disable)" "keeps inv (set_context sc_cleanup)"
  "keeps inv (set_context sc_certified)"
  by (rule keepsI; simp add: wp_simps frame ctx_counters ctx_certified)+

lemma k_on_context:
  "keeps inv (on_context (sc_applied (debug_build svc) q))"
  "keeps inv (on_context (sc_rolled_back (debug_build svc) i))"
  "keeps inv (on_context (sc_enable (debug_build svc) u n))"
  by (rule keepsI; auto simp: wp_simps frame
      intro: ctx_applied ctx_rolled_back ctx_enable split: sum.split)+

lemma k_set_state: "keeps inv (set_state svc n)"
  by (rule keepsI) (auto simp: set_state_def wp_simps frame trx_push_state_def intro: push)

lemma k_set_session_state: "keeps inv (set_session_state svc s)"
  by (rule keepsI)
     (auto simp: set_session_state_def wp_simps frame session_push_state_def intro: session_push)

lemma k_set_mode: "keeps inv (set_mode svc m)"
  by (rule keepsI) (auto simp: set_mode_def wp_simps frame)

lemma k_sv_set_state: "keeps inv (sv_set_state svc s)"
  by (rule keepsI) (auto simp: sv_set_state_def wp_simps frame intro: server_push)

lemmas calls = k_env_call k_env_do k_provider_call k_client_event k_set_flags k_set_handle
  k_pa_unsafe_on k_unlock k_take_lock k_unreachable k_override_error k_update_last_written
  k_set_context k_on_context k_set_state k_set_session_state k_set_mode k_sv_set_state callbacks

subsection \<open>Registers\<close>

lemma client_inserted: "Jr m \<Longrightarrow> om_insert i c m = (m', b) \<Longrightarrow> Jr m'"
  by (metis clients(1) fst_conv)

lemma k_start_streaming_client: "keeps inv (start_streaming_client svc)"
  by (rule keepsI) (auto simp: start_streaming_client_def wp_simps frame
      intro: client_inserted split: prod.split)

lemma k_erase_client: "inv w \<Longrightarrow>
    inv (upd_ss (\<lambda>s. s\<lparr>streaming_clients := om_erase i (streaming_clients s)\<rparr>) w)"
  by (simp add: frame clients)

lemma k_erase_applier: "inv w \<Longrightarrow>
    inv (upd_ss (\<lambda>s. s\<lparr>streaming_appliers := om_erase k (streaming_appliers s)\<rparr>) w)"
  by (simp add: frame appliers)

lemma k_insert_applier:
  "keeps inv (inspect (\<lambda>w. case om_insert (f w) sa (streaming_appliers (w_ss w)) of
     (m, inserted) \<Rightarrow> seq (modify (upd_ss (streaming_appliers_update (\<lambda>_. m)))) (k inserted)))"
  if "\<And>b. keeps inv (k b)"
proof (rule keepsI)
  fix w assume "inv w"
  obtain m b where m: "om_insert (f w) sa (streaming_appliers (w_ss w)) = (m, b)"
    by (cases "om_insert (f w) sa (streaming_appliers (w_ss w))")
  then have "inv (upd_ss (streaming_appliers_update (\<lambda>_. m)) w)"
    using \<open>inv w\<close> appliers(1) [where ak = "f w" and sa = sa and m' = "streaming_appliers (w_ss w)"]
    by (simp add: frame)
  then show "wp (inspect (\<lambda>w. case om_insert (f w) sa (streaming_appliers (w_ss w)) of
     (m, inserted) \<Rightarrow> seq (modify (upd_ss (streaming_appliers_update (\<lambda>_. m)))) (k inserted)))
     (\<lambda>_. inv) (\<lambda>_. inv) w"
    using m that [of b] by (simp add: wp_simps keeps_def)
qed

lemma k_stop_streaming_client: "keeps inv (stop_streaming_client svc)"
  unfolding stop_streaming_client_def
  by (intro keeps_intro calls keeps_modify) (simp add: k_erase_client)

lemma k_start_streaming_applier: "keeps inv (start_streaming_applier i t sa)"
  unfolding start_streaming_applier_def by (intro k_insert_applier keeps_intro calls)

lemma k_stop_streaming_applier: "keeps inv (stop_streaming_applier svc i t)"
  unfolding stop_streaming_applier_def
  by (intro keeps_intro calls keeps_modify) (simp add: k_erase_applier)

lemma k_convert: "keeps inv (convert_streaming_client_to_applier svc)"
  unfolding convert_streaming_client_to_applier_def
  by (intro k_insert_applier keeps_intro calls keeps_modify) (simp add: k_erase_client)

lemma k_queue_rollback_event: "keeps inv (queue_rollback_event svc i)"
  unfolding queue_rollback_event_def by (intro keeps_intro calls keeps_modify) (simp add: frame)

lemma k_send_events: "keeps inv (send_events svc is)"
proof (induction "is")
  case (Cons i "is")
  then show ?case
    unfolding send_events.simps by (intro keeps_intro calls keeps_modify; simp add: frame)
qed (simp add: keeps_return)

lemma k_send_pending: "keeps inv (send_pending_rollback_events svc)"
  unfolding send_pending_rollback_events_def by (intro keeps_intro k_send_events)

lemmas registers = k_start_streaming_client k_stop_streaming_client k_start_streaming_applier
  k_stop_streaming_applier k_convert k_queue_rollback_event k_send_pending

subsection \<open>BF abort and locking\<close>

lemma k_bf_abort_enter: "keeps inv (bf_abort_enter svc q)"
  unfolding bf_abort_enter_def by (intro keeps_intro calls keeps_modify; simp add: frame)

lemma k_in_total_order: "keeps inv m \<Longrightarrow> keeps inv (in_total_order m)"
  unfolding in_total_order_def by (intro keeps_intro calls keeps_modify; simp add: frame)

lemma k_bf_arrival: "(\<And>q. keeps inv (m q)) \<Longrightarrow> keeps inv (bf_arrival svc m a)"
  unfolding bf_arrival_def as_bf_thread_def
  by (intro keeps_intro calls keeps_modify k_in_total_order; simp add: frame)

lemma k_lock_with: "(\<And>q. keeps inv (m q)) \<Longrightarrow> keeps inv (lock_with svc m)"
  unfolding lock_with_def by (intro keeps_intro calls k_bf_arrival; simp)

lemma k_streaming_rollback: "keeps inv (streaming_rollback svc)"
  unfolding streaming_rollback_def replicate_rollback_def
  by (intro keeps_intro calls registers k_lock_with k_bf_abort_enter keeps_modify; simp add: frame)

lemma k_bf_abort: "keeps inv (trx_bf_abort svc q)"
  unfolding trx_bf_abort_def hand_to_rollbacker_def
  by (intro keeps_intro calls registers k_streaming_rollback k_bf_abort_enter keeps_modify;
      simp add: frame)

lemma k_total_order_bf_abort: "keeps inv (trx_total_order_bf_abort svc q)"
  unfolding trx_total_order_bf_abort_def by (intro k_in_total_order k_bf_abort)

lemma k_lock: "keeps inv (lock svc)"
  unfolding lock_def by (intro k_lock_with k_bf_abort)

lemma k_with_lock: "keeps inv m \<Longrightarrow> keeps inv (with_lock svc m)"
  unfolding with_lock_def by (intro keeps_intro k_lock k_unlock)

lemmas locking = k_lock k_with_lock k_streaming_rollback k_bf_abort k_total_order_bf_abort

subsection \<open>Certification\<close>

lemma k_with_storage: "keeps inv m \<Longrightarrow> keeps inv (with_storage svc m)"
  unfolding with_storage_def by (intro keeps_intro calls)

lemma k_helpers:
  "keeps inv (storage_rollback svc)" "keeps inv (wait_for_replayers svc)"
  "keeps inv (abort_or_interrupt svc)" "keeps inv (append_key_call svc k)"
  "keeps inv (certify_call svc m b)" "keeps inv (release_call svc)" "keeps inv (append_data_call svc d)"
  "keeps inv (commit_order_enter_call svc)" "keeps inv (commit_order_leave_call svc)"
  "keeps inv (must_abort_unless_aborted svc)" "keeps inv (fail_must_abort svc err)"
  unfolding storage_rollback_def wait_for_replayers_def abort_or_interrupt_def append_key_call_def
    certify_call_def release_call_def append_data_call_def commit_order_enter_call_def
    commit_order_leave_call_def must_abort_unless_aborted_def fail_must_abort_def
  by (intro keeps_intro calls locking)+

lemma k_append_sr_keys: "keeps inv (append_sr_keys_for_commit svc)"
  unfolding append_sr_keys_for_commit_def by (intro keeps_intro k_helpers)

lemma k_certify_fragment_success: "keeps inv (certify_fragment_result svc success m)"
proof (rule keepsI)
  fix w assume w: "inv w"
  have stored: "inv (upd_trx (\<lambda>t. t\<lparr>trx_streaming_context := c\<rparr>) w)"
    if "sc_stored (debug_build svc) q (sc_certified (trx_streaming_context (trx w))) = Inr c" for q c
    using w ctx_stored [OF _ that] by (simp add: frame)
  show "wp (certify_fragment_result svc success m) (\<lambda>_. inv) (\<lambda>_. inv) w"
    using w by (auto simp: certify_fragment_result_def storage_rollback_def wp_simps frame ctx_certified
        intro: ctx_stored split: prod.split sum.split)
qed

lemma k_certify_fragment_result: "keeps inv (certify_fragment_result svc st m)"
proof (cases "st = success")
  case True
  then show ?thesis by (simp add: k_certify_fragment_success)
next
  case False
  have "keeps inv (seq (storage_rollback svc) (return r))" for r :: "int \<times> client_error"
    by (intro keeps_intro k_helpers)
  moreover have "keeps inv (seq (storage_rollback svc) (seq (set_context sc_certified) (return r)))"
    for r :: "int \<times> client_error"
    by (intro keeps_intro k_helpers calls)
  ultimately show ?thesis
    using False unfolding certify_fragment_result_def by (cases st) simp_all
qed

lemma k_certify_fragment: "keeps inv (certify_fragment svc)"
  unfolding certify_fragment_def replicate_fragment_def store_and_certify_fragment_def
    conclude_fragment_def
  by (intro keeps_intro calls registers locking k_helpers k_with_storage k_certify_fragment_result)

lemma k_streaming_step: "keeps inv (streaming_step svc b)"
  unfolding streaming_step_def by (intro keeps_intro calls k_certify_fragment)

lemma k_certify_commit_result: "keeps inv (certify_commit_result svc st)"
  unfolding certify_commit_result_def
  by (intro keeps_intro calls k_helpers keeps_modify; simp add: frame)

lemma k_certify_commit: "keeps inv (certify_commit svc b)"
  unfolding certify_commit_def certify_unless_aborted_def start_certifying_def replicate_commit_def
  by (intro keeps_intro calls registers locking k_helpers k_append_sr_keys k_certify_commit_result
      keeps_modify; simp add: frame)

lemmas certification = k_helpers k_append_sr_keys k_with_storage k_streaming_step k_certify_commit

subsection \<open>Transaction hooks\<close>

lemma k_start_transaction: "keeps inv (trx_start_transaction svc i)"
  unfolding trx_start_transaction_def
  by (intro keeps_intro calls keeps_modify; simp add: frame start)

lemma k_start_transaction_applying: "keeps inv (trx_start_transaction_applying svc h m)"
proof (rule keepsI)
  fix w assume "inv w"
  then show "wp (trx_start_transaction_applying svc h m) (\<lambda>_. inv) (\<lambda>_. inv) w"
    by (auto simp: trx_start_transaction_applying_def wp_simps frame start)
qed

lemma k_adopt: "Jc (trx_streaming_context t) \<Longrightarrow> keeps inv (trx_adopt svc t)"
  unfolding trx_adopt_def by (intro keeps_intro calls k_start_transaction keeps_modify; simp add: frame)

lemma k_append_key: "keeps inv (trx_append_key svc k)"
proof -
  have insert: "keeps inv (inspect (\<lambda>w. case sr_key_set_insert (debug_build svc) k (sr_keys (trx w)) of
      Inl e \<Rightarrow> throw e | Inr ks \<Rightarrow> modify (upd_trx (\<lambda>t. t\<lparr>sr_keys := ks\<rparr>))))"
    by (rule keepsI) (auto simp: wp_simps frame intro: keys_insert split: sum.split)
  show ?thesis
    unfolding trx_append_key_def
    by (intro keeps_seq keeps_catch_all keeps_assert keeps_return k_helpers insert)
qed

lemma k_starting:
  "keeps inv (trx_next_fragment m)" "keeps inv (trx_fragment_applied svc q)"
  "keeps inv (trx_prepare_for_ordering svc h m b)" "keeps inv (trx_assign_read_view svc g)"
  "keeps inv (trx_append_data svc d)" "keeps inv (trx_after_row svc)"
  unfolding trx_next_fragment_def trx_fragment_applied_def trx_prepare_for_ordering_def
    trx_assign_read_view_def trx_append_data_def trx_after_row_def
  by (intro keeps_intro calls locking certification keeps_modify; simp add: frame)+

lemma k_before_prepare: "keeps inv (trx_before_prepare svc b)"
  unfolding trx_before_prepare_def before_prepare_local_def remove_fragments_before_prepare_def
  by (intro keeps_intro calls locking certification)

lemma k_after_prepare: "keeps inv (trx_after_prepare svc)"
  unfolding trx_after_prepare_def by (intro keeps_intro calls)

lemma k_before_commit: "keeps inv (trx_before_commit svc b)"
  unfolding trx_before_commit_def before_commit_local_def before_commit_high_priority_def
    before_commit_prepare_def enter_commit_order_def
  by (intro keeps_intro calls locking certification k_before_prepare k_after_prepare keeps_modify;
      simp add: frame)

lemma k_ordered_commit: "keeps inv (trx_ordered_commit svc)"
  unfolding trx_ordered_commit_def by (intro keeps_intro calls locking certification)

lemma k_remove_fragments: "keeps inv (remove_fragments_in_storage_service_scope svc)"
  unfolding remove_fragments_in_storage_service_scope_def
  by (intro keeps_intro calls locking certification)

lemma k_after_commit: "keeps inv (trx_after_commit svc)"
  unfolding trx_after_commit_def
  by (intro keeps_intro calls locking certification registers k_remove_fragments)

lemma k_before_rollback: "keeps inv (trx_before_rollback svc)"
  unfolding trx_before_rollback_def before_rollback_local_def rollback_streaming_def
  by (intro keeps_intro calls locking)

lemma k_after_rollback: "keeps inv (trx_after_rollback svc)"
  unfolding trx_after_rollback_def by (intro keeps_intro calls locking k_remove_fragments)

lemma k_release_commit_order: "keeps inv (release_commit_order svc)"
  unfolding release_commit_order_def by (intro keeps_intro calls locking certification)

lemma k_cleanup: "keeps inv (trx_cleanup svc)"
  unfolding trx_cleanup_def
  by (intro keeps_intro calls keeps_modify;
      simp add: frame reset_transaction_def keys_empty ctx_counters)

lemma k_replay: "keeps inv (replay svc)"
  unfolding replay_def replay_result_def by (intro keeps_intro calls locking certification registers)

lemma k_xa_replay: "keeps inv (xa_replay svc)" "keeps inv (xa_replay_commit svc)"
  unfolding xa_replay_def xa_replay_commit_def xa_replay_common_def
  by (intro keeps_intro calls locking certification registers k_cleanup)+

lemma k_after_statement: "keeps inv (after_statement_locked svc)"
  unfolding after_statement_locked_def after_statement_switch_def after_statement_rollback_def
    after_statement_replay_def release_aborted_def conclude_statement_def
  by (intro keeps_intro calls locking certification k_replay k_xa_replay k_release_commit_order
      k_cleanup keeps_modify; simp add: frame)

lemma k_ending:
  "keeps inv (trx_after_statement svc)" "keeps inv (trx_after_command_must_abort svc)"
  "keeps inv (trx_after_applying svc)"
  unfolding trx_after_statement_def trx_after_command_must_abort_def trx_after_applying_def
  by (intro keeps_intro calls locking k_after_statement k_xa_replay k_cleanup keeps_modify;
      simp add: frame)+

lemma k_xa:
  "keeps inv (trx_assign_xid svc x)" "keeps inv (trx_restore_to_prepared_state svc x)"
  "keeps inv (trx_commit_or_rollback_by_xid svc x b)" "keeps inv (trx_xa_detach svc)"
  unfolding trx_assign_xid_def trx_restore_to_prepared_state_def trx_commit_or_rollback_by_xid_def
    trx_xa_detach_def
  by (intro keeps_intro calls locking certification registers k_cleanup keeps_modify; simp add: frame)+

lemmas hooks = k_start_transaction k_start_transaction_applying k_append_key k_starting
  k_before_prepare k_after_prepare k_before_commit k_ordered_commit k_after_commit
  k_before_rollback k_after_rollback k_after_statement k_ending k_xa k_xa_replay

subsection \<open>Client session\<close>

lemma k_ownership:
  "keeps inv (do_acquire_ownership svc)" "keeps inv wait_rollbacker"
  "keeps inv (do_wait_rollback_complete_and_acquire_ownership svc)"
  "keeps inv (sync_rollback_complete svc)"
  "keeps inv (wait_rollback_complete_and_acquire_ownership svc)"
  unfolding do_wait_rollback_complete_and_acquire_ownership_def do_acquire_ownership_def
    wait_rollbacker_def sync_rollback_complete_def wait_rollback_complete_and_acquire_ownership_def
  by (intro keeps_intro calls locking keeps_modify; simp add: frame)+

lemma k_session:
  "keeps inv (client_open svc i)" "keeps inv (client_close svc)" "keeps inv (client_cleanup svc)"
  "keeps inv (disable_streaming svc)"
  unfolding client_open_def client_close_def client_cleanup_def disable_streaming_def
  by (intro keeps_intro calls locking k_ownership hooks keeps_modify; simp add: frame)+

lemma k_commands:
  "keeps inv (before_command svc b)" "keeps inv (after_command_before_result svc)"
  "keeps inv (after_command_after_result svc)" "keeps inv (before_statement svc)"
  "keeps inv (after_statement svc)"
  unfolding before_command_def before_command_aborted_def after_command_before_result_def
    after_command_after_result_def before_statement_def after_statement_def
  by (intro keeps_intro calls locking k_ownership hooks keeps_modify; simp add: frame)+

lemma k_client_hooks:
  "keeps inv (client_after_applying svc)" "keeps inv (client_start_transaction svc i)"
  "keeps inv (client_assign_read_view svc g)" "keeps inv (client_append_key svc k)"
  "keeps inv (client_append_keys svc ks)" "keeps inv (client_append_data svc d)"
  "keeps inv (client_after_row svc)" "keeps inv (client_fragment_applied svc q)"
  "keeps inv (client_prepare_for_ordering svc h m b)"
  "keeps inv (client_start_transaction_applying svc h m)" "keeps inv (client_next_fragment svc m)"
  "keeps inv (client_before_prepare svc b)" "keeps inv (client_after_prepare svc)"
  "keeps inv (client_before_commit svc b)" "keeps inv (client_ordered_commit svc)"
  "keeps inv (client_after_commit svc)" "keeps inv (client_before_rollback svc)"
  "keeps inv (client_after_rollback svc)"
  unfolding client_after_applying_def client_start_transaction_def client_assign_read_view_def
    client_append_key_def client_append_keys_def client_append_data_def client_after_row_def
    client_fragment_applied_def client_prepare_for_ordering_def
    client_start_transaction_applying_def client_next_fragment_def client_before_prepare_def
    client_after_prepare_def client_before_commit_def client_ordered_commit_def
    client_after_commit_def client_before_rollback_def client_after_rollback_def
  by (intro keeps_intro locking hooks)+

lemma k_client_special:
  "keeps inv (streaming_params svc u n)" "keeps inv (enable_streaming svc u n)"
  "keeps inv (client_xa_detach svc)" "keeps inv (client_xa_replay svc)"
  "keeps inv (client_bf_abort svc q)" "keeps inv (client_total_order_bf_abort svc q)"
  "keeps inv (client_adopt_apply_error svc err)" "keeps inv mark_transaction_pa_unsafe"
  "keeps inv (sync_wait svc t)"
  unfolding streaming_params_def enable_streaming_def client_xa_detach_def client_xa_replay_def
    client_bf_abort_def client_total_order_bf_abort_def client_adopt_apply_error_def
    mark_transaction_pa_unsafe_def sync_wait_def causal_read_def
  by (intro keeps_intro calls locking hooks keeps_modify; simp add: frame)+

lemma k_poll_loop: "keeps inv (poll_enter_toi_loop svc n ks b m f t)"
proof (induction n)
  case (Suc n)
  then show ?case
    unfolding poll_enter_toi_loop.simps enter_toi_attempt_def
    by (intro keeps_intro calls locking)
qed (simp add: keeps_throw)

lemma k_toi:
  "keeps inv (poll_enter_toi svc ks b m f t)" "keeps inv (enter_toi_common svc)"
  "keeps inv (toi_error svc st timed_out)" "keeps inv (leave_toi_common svc)"
  "keeps inv (leave_toi_call svc err)" "keeps inv (leave_status svc st)"
  unfolding poll_enter_toi_def enter_toi_common_def toi_error_def leave_toi_common_def
    leave_toi_call_def leave_status_def
  by (intro keeps_intro calls locking k_poll_loop keeps_modify; simp add: frame)+

lemma k_server_pause:
  "keeps inv (sv_desync svc)" "keeps inv (sv_resync svc)" "keeps inv (sv_pause svc)"
  "keeps inv (sv_resume svc)" "keeps inv (desync_and_pause svc)" "keeps inv (resume_and_resync svc)"
  unfolding desync_and_pause_def resume_and_resync_def sv_desync_def sv_resync_def sv_pause_def
    sv_resume_def
  by (intro keeps_intro calls keeps_modify; simp add: frame)+

lemma k_client_modes:
  "keeps inv (enter_toi_local svc ks b t)" "keeps inv (enter_toi_mode svc m)"
  "keeps inv (leave_toi_local svc err)" "keeps inv (leave_toi_mode svc)"
  "keeps inv (begin_rsu svc n)" "keeps inv (end_rsu svc)"
  "keeps inv (begin_nbo_phase_one svc ks b t)" "keeps inv (end_nbo_phase_one svc err)"
  "keeps inv (enter_nbo_mode svc m)" "keeps inv (begin_nbo_phase_two svc ks t)"
  "keeps inv (end_nbo_phase_two svc err)"
  unfolding enter_toi_local_def enter_toi_mode_def leave_toi_local_def leave_toi_mode_def
    begin_rsu_def end_rsu_def begin_nbo_phase_one_def end_nbo_phase_one_def enter_nbo_mode_def
    begin_nbo_phase_two_def end_nbo_phase_two_def
  by (intro keeps_intro calls locking k_toi k_server_pause keeps_modify; simp add: frame)+

lemma k_high_priority_context: "keeps inv m \<Longrightarrow> keeps inv (high_priority_context svc m)"
  unfolding high_priority_context_def by (intro keeps_intro calls locking)

subsection \<open>Server\<close>

lemma k_wait_loop: "keeps inv (wait_loop svc s evs)"
proof (induction evs)
  case (Cons ev evs)
  then show ?case
    unfolding wait_loop.simps run_server_event_def sv_initialized_def sv_disconnect_def
    by (intro keeps_intro calls keeps_modify; simp add: frame)
qed (simp add: keeps_intro)

lemma k_server_control:
  "keeps inv (sv_connect svc a b c d)" "keeps inv (sv_disconnect svc)" "keeps inv (sv_initialized svc)"
  "keeps inv (wait_until_state_ret svc s)" "keeps inv (prepare_for_sst svc)"
  "keeps inv (start_sst svc r g e)" "keeps inv (sst_sent svc g n)" "keeps inv (sst_received svc n)"
  "keeps inv (recover_streaming_appliers_if_not_recovered svc)"
  unfolding sv_connect_def sv_disconnect_def sv_initialized_def wait_until_state_ret_def
    wait_until_state_def prepare_for_sst_def start_sst_def sst_sent_def sst_received_def
    sst_received_ok_def adopt_recovered_view_def recover_streaming_appliers_if_not_recovered_def
    return_from_donor_state_def
  by (intro keeps_intro calls k_wait_loop keeps_modify; simp add: frame)+

lemma k_abort_streaming_clients: "keeps inv (abort_streaming_clients svc n q)"
proof (induction n)
  case (Suc n)
  then show ?case
    unfolding abort_streaming_clients.simps abort_streaming_client_def
    by (intro keeps_intro calls locking k_client_special)
qed (simp add: keeps_throw)

lemma k_close_orphaned: "keeps inv (close_orphaned_sr_transactions svc h)"
  unfolding close_orphaned_sr_transactions_def close_applier_def roll_back_applier_def
    erase_applier_def
  by (intro keeps_intro calls k_abort_streaming_clients keeps_modify; simp add: k_erase_applier)

lemma k_close_at_disconnect: "keeps inv (close_transactions_at_disconnect svc h)"
  unfolding close_transactions_at_disconnect_def roll_back_applier_def erase_applier_def
  by (intro keeps_intro calls keeps_modify; simp add: frame appliers)

lemma k_views:
  "keeps inv (on_connect svc v)" "keeps inv (on_view svc v ho)" "keeps inv (on_sync svc)"
  unfolding on_connect_def on_view_def on_primary_view_def on_non_primary_view_def go_final_def
    walk_to_joiner_def wait_until_state_def on_sync_def on_initial_sync_def
  by (intro keeps_intro calls registers k_wait_loop k_server_control k_close_orphaned
      k_close_at_disconnect keeps_modify; simp add: frame)+

subsection \<open>Applying\<close>

lemma k_apply_parts:
  "keeps inv m \<Longrightarrow> keeps inv (high_priority_switch svc h sa m)" "keeps inv (after_apply svc h)"
  "keeps inv (log_dummy svc h wsh md e)" "keeps inv (log_dummy_no_error svc h wsh md)"
  "keeps inv (discard_streaming_applier svc h sa md)" "keeps inv (next_fragment svc sa md)"
  unfolding high_priority_switch_def after_apply_def log_dummy_no_error_def log_dummy_def
    discard_streaming_applier_def next_fragment_def
  by (intro keeps_intro calls registers; assumption?)+

lemma k_fragments:
  "keeps inv (apply_fragment svc h sa wsh md d)" "keeps inv (commit_fragment svc h sa wsh md d)"
  "keeps inv (rollback_fragment svc h sa wsh md)"
  unfolding apply_fragment_def fragment_apply_failed_def commit_fragment_def rollback_fragment_def
  by (intro keeps_intro calls k_apply_parts)+

lemma k_on_apply: "keeps inv (on_apply svc h wsh md d)"
  unfolding on_apply_def apply_write_set_def apply_toi_def with_streaming_applier_def
    ordered_section_def apply_one_shot_def
  by (intro keeps_intro calls registers k_apply_parts k_fragments)

end

end
