(* ===== verification/Session.thy ===== *)
theory Session
  imports Invariants
begin

text \<open>
  Runs of the library: sequences of the operations that the DBMS and the provider call, in any
  order and with any arguments, with the BF aborts of other threads inside them. The invariant
  of the library's data holds after every such run.
\<close>

section \<open>Operations\<close>

datatype session_op =
    Open client_id | Close | Cleanup | Before_command bool | After_command_before_result
  | After_command_after_result | Before_statement | After_statement
  | Sync_rollback_complete | Wait_rollback_complete
  | Bf_abort seqno | Total_order_bf_abort seqno | Mark_pa_unsafe | Sync_wait int

datatype trx_op =
    Start_transaction transaction_id | Start_transaction_applying ws_handle ws_meta
  | Assign_read_view "gtid option" | Append_keys "key list" | Append_data string | After_row
  | Prepare_for_ordering ws_handle ws_meta bool | Next_fragment ws_meta | Fragment_applied seqno
  | Before_prepare bool | After_prepare | Before_commit bool | Ordered_commit | After_commit
  | Before_rollback | After_rollback | After_applying

datatype xa_op =
    Streaming_params fragment_unit u64 | Enable_streaming fragment_unit u64 | Disable_streaming
  | Assign_xid xid | Restore_xid xid | Commit_by_xid xid | Rollback_by_xid xid | Xa_detach | Xa_replay

datatype mode_op =
    Enter_toi_local "key list" string int | Enter_toi_mode ws_meta | Leave_toi_local string
  | Leave_toi_mode | Begin_rsu int | End_rsu
  | Begin_nbo_phase_one "key list" string int | End_nbo_phase_one string | Enter_nbo_mode ws_meta
  | Begin_nbo_phase_two "key list" int | End_nbo_phase_two string

datatype server_op =
    Connect string string string bool | Disconnect | Initialized | Pause | Resume | Desync | Resync
  | Desync_and_pause | Resume_and_resync | Prepare_for_sst | Start_sst string gtid bool
  | Sst_sent gtid int | Sst_received int | On_connect view | On_view view "hps_ref option" | On_sync
  | On_apply hps_ref ws_handle ws_meta string

datatype operation =
  Session_op session_op | Trx_op trx_op | Xa_op xa_op | Mode_op mode_op | Server_op server_op

abbreviation ignore :: "('w, 'a) cmd \<Rightarrow> ('w, unit) cmd" where
  "ignore m \<equiv> seq m skip"

text \<open>A BF abort called from outside takes the client lock around the abort.\<close>

fun run_session_op :: "'e services \<Rightarrow> session_op \<Rightarrow> ('e world, unit) cmd" where
  "run_session_op svc (Open i) = client_open svc i"
| "run_session_op svc Close = client_close svc"
| "run_session_op svc Cleanup = client_cleanup svc"
| "run_session_op svc (Before_command b) = ignore (before_command svc b)"
| "run_session_op svc After_command_before_result = after_command_before_result svc"
| "run_session_op svc After_command_after_result = after_command_after_result svc"
| "run_session_op svc Before_statement = ignore (before_statement svc)"
| "run_session_op svc After_statement = ignore (after_statement svc)"
| "run_session_op svc Sync_rollback_complete = sync_rollback_complete svc"
| "run_session_op svc Wait_rollback_complete = wait_rollback_complete_and_acquire_ownership svc"
| "run_session_op svc (Bf_abort s) = with_lock svc (ignore (client_bf_abort svc s))"
| "run_session_op svc (Total_order_bf_abort s) = with_lock svc (ignore (client_total_order_bf_abort svc s))"
| "run_session_op svc Mark_pa_unsafe = ignore mark_transaction_pa_unsafe"
| "run_session_op svc (Sync_wait t) = ignore (sync_wait svc t)"

fun run_trx_op :: "'e services \<Rightarrow> trx_op \<Rightarrow> ('e world, unit) cmd" where
  "run_trx_op svc (Start_transaction i) = ignore (client_start_transaction svc i)"
| "run_trx_op svc (Start_transaction_applying h m) = ignore (client_start_transaction_applying svc h m)"
| "run_trx_op svc (Assign_read_view g) = ignore (client_assign_read_view svc g)"
| "run_trx_op svc (Append_keys ks) = ignore (client_append_keys svc ks)"
| "run_trx_op svc (Append_data d) = ignore (client_append_data svc d)"
| "run_trx_op svc After_row = ignore (client_after_row svc)"
| "run_trx_op svc (Prepare_for_ordering h m b) = ignore (client_prepare_for_ordering svc h m b)"
| "run_trx_op svc (Next_fragment m) = ignore (client_next_fragment svc m)"
| "run_trx_op svc (Fragment_applied s) = client_fragment_applied svc s"
| "run_trx_op svc (Before_prepare b) = ignore (client_before_prepare svc b)"
| "run_trx_op svc After_prepare = ignore (client_after_prepare svc)"
| "run_trx_op svc (Before_commit b) = ignore (client_before_commit svc b)"
| "run_trx_op svc Ordered_commit = ignore (client_ordered_commit svc)"
| "run_trx_op svc After_commit = ignore (client_after_commit svc)"
| "run_trx_op svc Before_rollback = ignore (client_before_rollback svc)"
| "run_trx_op svc After_rollback = ignore (client_after_rollback svc)"
| "run_trx_op svc After_applying = client_after_applying svc"

fun run_xa_op :: "'e services \<Rightarrow> xa_op \<Rightarrow> ('e world, unit) cmd" where
  "run_xa_op svc (Streaming_params u n) = streaming_params svc u n"
| "run_xa_op svc (Enable_streaming u n) = ignore (enable_streaming svc u n)"
| "run_xa_op svc Disable_streaming = disable_streaming svc"
| "run_xa_op svc (Assign_xid x) = trx_assign_xid svc x"
| "run_xa_op svc (Restore_xid x) = ignore (trx_restore_to_prepared_state svc x)"
| "run_xa_op svc (Commit_by_xid x) = ignore (trx_commit_or_rollback_by_xid svc x True)"
| "run_xa_op svc (Rollback_by_xid x) = ignore (trx_commit_or_rollback_by_xid svc x False)"
| "run_xa_op svc Xa_detach = client_xa_detach svc"
| "run_xa_op svc Xa_replay = client_xa_replay svc"

fun run_mode_op :: "'e services \<Rightarrow> mode_op \<Rightarrow> ('e world, unit) cmd" where
  "run_mode_op svc (Enter_toi_local ks b t) = ignore (enter_toi_local svc ks b t)"
| "run_mode_op svc (Enter_toi_mode m) = enter_toi_mode svc m"
| "run_mode_op svc (Leave_toi_local e) = ignore (leave_toi_local svc e)"
| "run_mode_op svc Leave_toi_mode = leave_toi_mode svc"
| "run_mode_op svc (Begin_rsu t) = ignore (begin_rsu svc t)"
| "run_mode_op svc End_rsu = ignore (end_rsu svc)"
| "run_mode_op svc (Begin_nbo_phase_one ks b t) = ignore (begin_nbo_phase_one svc ks b t)"
| "run_mode_op svc (End_nbo_phase_one e) = ignore (end_nbo_phase_one svc e)"
| "run_mode_op svc (Enter_nbo_mode m) = ignore (enter_nbo_mode svc m)"
| "run_mode_op svc (Begin_nbo_phase_two ks t) = ignore (begin_nbo_phase_two svc ks t)"
| "run_mode_op svc (End_nbo_phase_two e) = ignore (end_nbo_phase_two svc e)"

fun run_server_op :: "'e services \<Rightarrow> server_op \<Rightarrow> ('e world, unit) cmd" where
  "run_server_op svc (Connect a b c d) = ignore (sv_connect svc a b c d)"
| "run_server_op svc Disconnect = ignore (sv_disconnect svc)"
| "run_server_op svc Initialized = sv_initialized svc"
| "run_server_op svc Pause = ignore (sv_pause svc)"
| "run_server_op svc Resume = sv_resume svc"
| "run_server_op svc Desync = ignore (sv_desync svc)"
| "run_server_op svc Resync = sv_resync svc"
| "run_server_op svc Desync_and_pause = ignore (desync_and_pause svc)"
| "run_server_op svc Resume_and_resync = resume_and_resync svc"
| "run_server_op svc Prepare_for_sst = ignore (prepare_for_sst svc)"
| "run_server_op svc (Start_sst r g b) = ignore (start_sst svc r g b)"
| "run_server_op svc (Sst_sent g e) = sst_sent svc g e"
| "run_server_op svc (Sst_received e) = ignore (sst_received svc e)"
| "run_server_op svc (On_connect v) = on_connect svc v"
| "run_server_op svc (On_view v h) = on_view svc v h"
| "run_server_op svc On_sync = on_sync svc"
| "run_server_op svc (On_apply h wsh m d) = ignore (on_apply svc h wsh m d)"

fun run_operation :: "'e services \<Rightarrow> operation \<Rightarrow> ('e world, unit) cmd" where
  "run_operation svc (Session_op x) = run_session_op svc x"
| "run_operation svc (Trx_op x) = run_trx_op svc x"
| "run_operation svc (Xa_op x) = run_xa_op svc x"
| "run_operation svc (Mode_op x) = run_mode_op svc x"
| "run_operation svc (Server_op x) = run_server_op svc x"

text \<open>
  One step: an operation runs to its end or stops with an exception; a thread may enter or
  leave the session between operations.
\<close>

inductive lib_step :: "'e services \<Rightarrow> 'e world \<Rightarrow> 'e world \<Rightarrow> bool" for svc where
  operation: "run_operation svc op w = (r, w') \<Longrightarrow> lib_step svc w w'"
| thread: "lib_step svc w (w\<lparr>w_thread := t\<rparr>)"

inductive lib_reaches :: "'e services \<Rightarrow> 'e world \<Rightarrow> 'e world \<Rightarrow> bool" for svc w where
  here: "lib_reaches svc w w"
| more: "lib_reaches svc w v \<Longrightarrow> lib_step svc v v' \<Longrightarrow> lib_reaches svc w v'"

inductive_cases lib_stepE: "lib_step svc w w'"

text \<open>The execution of a list of operations, for concrete runs: it stops at the first exception.\<close>

fun run_operations :: "'e services \<Rightarrow> operation list \<Rightarrow> ('e world, unit) cmd" where
  "run_operations svc [] = skip"
| "run_operations svc (op # ops) = seq (run_operation svc op) (run_operations svc ops)"

lemma run_operations_reaches:
  "run_operations svc ops w = (r, w') \<Longrightarrow> lib_reaches svc w w'"
proof -
  have "run_operations svc ops v = (r, w') \<Longrightarrow> lib_reaches svc w v \<Longrightarrow> lib_reaches svc w w'" for v
  proof (induction ops arbitrary: v)
    case Nil
    then show ?case by (simp add: skip_def return_def)
  next
    case (Cons op ops)
    obtain x u where u: "run_operation svc op v = (x, u)" by (cases "run_operation svc op v")
    have "lib_reaches svc w u"
      using Cons.prems(2) lib_step.operation [OF u] by (rule lib_reaches.more)
    then show ?case
      using Cons.prems(1) Cons.IH u by (cases x) (auto simp: seq_def bind_def)
  qed
  then show "run_operations svc ops w = (r, w') \<Longrightarrow> lib_reaches svc w w'"
    by (simp add: lib_reaches.here)
qed

section \<open>The invariant of a run\<close>

context library_invariant
begin

lemma k_session_op: "keeps inv (run_session_op svc x)"
  by (cases x; simp only: run_session_op.simps)
     (intro keeps_intro locking k_ownership k_session k_commands k_client_special)+

lemma k_trx_op: "keeps inv (run_trx_op svc x)"
  by (cases x; simp only: run_trx_op.simps) (intro keeps_intro k_client_hooks)+

lemma k_xa_op: "keeps inv (run_xa_op svc x)"
  by (cases x; simp only: run_xa_op.simps) (intro keeps_intro hooks k_session k_client_special)+

lemma k_mode_op: "keeps inv (run_mode_op svc x)"
  by (cases x; simp only: run_mode_op.simps) (intro keeps_intro k_client_modes)+

lemma k_server_op: "keeps inv (run_server_op svc x)"
  by (cases x; simp only: run_server_op.simps)
     (intro keeps_intro k_server_pause k_server_control k_views k_on_apply)+

lemma rollback_hooks:
  "keeps inv (client_before_rollback svc) \<and> keeps inv (client_after_rollback svc) \<and>
   keeps inv (lock svc) \<and> keeps inv unlock"
  by (intro conjI k_client_hooks k_lock k_unlock)

lemma k_operation: "keeps inv (run_operation svc op)"
  by (cases op; simp only: run_operation.simps k_session_op k_trx_op k_xa_op k_mode_op k_server_op)

lemma step_keeps: "lib_step svc w w' \<Longrightarrow> inv w \<Longrightarrow> inv w'"
proof (erule lib_stepE)
  show "run_operation svc op w = (r, w') \<Longrightarrow> inv w \<Longrightarrow> inv w'" for op r
    by (rule keeps_run [OF k_operation])
  show "w' = w\<lparr>w_thread := t\<rparr> \<Longrightarrow> inv w \<Longrightarrow> inv w'" for t
    by (simp add: frame)
qed

lemma reaches_keeps: "lib_reaches svc w w' \<Longrightarrow> inv w \<Longrightarrow> inv w'"
  by (induction rule: lib_reaches.induct) (auto intro: step_keeps)

end

text \<open>
  What holds of the data in a debug build: the recorded transaction states are a path of the
  transaction state machine that ends in the current state, the histories are bounded, stored
  fragments are certified and increasing, and the key set and both registers are proper ordered
  maps.
\<close>

definition trx_history_ok :: "trx_state list \<Rightarrow> trx_state \<Rightarrow> bool" where
  "trx_history_ok h s \<longleftrightarrow> length h \<le> 11 \<and> successively trx_allowed (h @ [s])"

definition session_history_ok :: "client_session_state list \<Rightarrow> client_session_state \<Rightarrow> bool" where
  "session_history_ok h s \<longleftrightarrow> length h \<le> 10 \<and> successively session_allowed (h @ [s])"

definition server_history_ok :: "srv_state list \<Rightarrow> srv_state \<Rightarrow> bool" where
  "server_history_ok h s \<longleftrightarrow> successively srv_allowed (h @ [s])"

definition world_inv :: "'e world \<Rightarrow> bool" where
  "world_inv = parts_inv trx_history_ok sc_inv sr_key_set_inv session_history_ok om_inv om_inv
     server_history_ok"

text \<open>What holds in every build, whatever the provider returns.\<close>

definition bounds_inv :: "'e world \<Rightarrow> bool" where
  "bounds_inv = parts_inv (\<lambda>h _. length h \<le> 11) (\<lambda>_. True) (\<lambda>_. True)
     (\<lambda>h _. length h \<le> 10) om_inv om_inv (\<lambda>_ _. True)"

text \<open>What the DBMS has to promise: its callbacks use the library only through its operations.\<close>

definition callbacks_keep :: "'e services \<Rightarrow> ('e world \<Rightarrow> bool) \<Rightarrow> bool" where
  "callbacks_keep svc I \<longleftrightarrow>
     keeps I (cl_remove_fragments (client_ops svc)) \<and> keeps I (cl_bf_rollback (client_ops svc)) \<and>
     keeps I (cl_replay (client_ops svc)) \<and> keeps I (cl_replay_unordered (client_ops svc)) \<and>
     keeps I (cl_commit_by_xid (client_ops svc)) \<and> keeps I (sv_background_rollback (server_ops svc)) \<and>
     keeps I (sv_recover_streaming_appliers (server_ops svc)) \<and>
     (\<forall>p q. keeps I (peer_total_order_bf_abort svc p q))"

lemma trx_history_push:
  assumes "trx_history_ok h s" and "trx_allowed s n"
  shows "trx_history_ok (push_history (\<lambda>n. n = 12) s h) n"
  using assms trx_log.path_extended [of trx_allowed] trx_log.length_logged by (auto simp: trx_history_ok_def)

lemma session_history_push:
  assumes "session_history_ok h s" and "session_allowed s n"
  shows "session_history_ok (push_history (\<lambda>n. n > 10) s h) n"
  using assms session_log.path_extended [of session_allowed] session_log.length_logged
  by (auto simp: session_history_ok_def)

lemma server_history_push:
  "server_history_ok h s \<Longrightarrow> srv_allowed s n \<Longrightarrow> server_history_ok (h @ [s]) n"
  unfolding server_history_ok_def by (rule server_log.path_extended)

lemma sc_inv_stored_certified:
  "sc_inv c \<Longrightarrow> sc_stored True q (sc_certified c) = Inr c' \<Longrightarrow> sc_inv c'"
  by (rule sc_inv_stored [of "sc_certified c"])
     (auto simp: sc_inv_certified, simp add: sc_inv_def sc_certified_def fragments_stored_def)

lemma sc_inv_rolled_back: "sc_inv c \<Longrightarrow> sc_rolled_back d i c = Inr c' \<Longrightarrow> sc_inv c'"
  by (auto simp: sc_rolled_back_def sc_inv_def fragments_stored_def split: if_splits)

lemma sc_inv_enable: "sc_inv c \<Longrightarrow> sc_enable d u n c = Inr c' \<Longrightarrow> sc_inv c'"
  by (auto simp: sc_enable_def sc_inv_def fragments_stored_def split: if_splits)

lemma library_invariant_debug:
  assumes "debug_build svc" and "callbacks_keep svc world_inv"
  shows "library_invariant svc trx_history_ok sc_inv sr_key_set_inv session_history_ok om_inv om_inv
    server_history_ok"
proof
  show "trx_history_ok [] s_executing" by (simp add: trx_history_ok_def)
  show "trx_history_ok (push_history (\<lambda>n. n = 12) s h) n"
    if "trx_history_ok h s" and "debug_build svc \<Longrightarrow> trx_allowed s n" for h s n
    using that assms(1) by (auto intro: trx_history_push)
  show "session_history_ok (push_history (\<lambda>n. n > 10) s h) n"
    if "session_history_ok h s" and "debug_build svc \<Longrightarrow> session_allowed s n" for h s n
    using that assms(1) by (auto intro: session_history_push)
  show "server_history_ok (h @ [s]) n"
    if "server_history_ok h s" and "debug_build svc \<Longrightarrow> srv_allowed s n" for h s n
    using that assms(1) by (auto intro: server_history_push)
  show "sr_key_set_inv []" by (simp add: sr_key_set_inv_def om_inv_def)
qed (use assms in \<open>auto simp: callbacks_keep_def world_inv_def sc_inv_certified sc_inv_cleanup
      om.invar_insert om.invar_erase
      intro: sc_inv_stored_certified sc_inv_applied sc_inv_rolled_back sc_inv_enable
        sr_key_set_insert_inv\<close>)

lemma library_invariant_bounds:
  assumes "callbacks_keep svc bounds_inv"
  shows "library_invariant svc (\<lambda>h _. length h \<le> 11) (\<lambda>_. True) (\<lambda>_. True) (\<lambda>h _. length h \<le> 10)
    om_inv om_inv (\<lambda>_ _. True)"
proof
  show "length (push_history (\<lambda>n. n = 12) s h) \<le> 11" if "length h \<le> 11" for s h
    using that by (rule trx_log.length_logged)
  show "length (push_history (\<lambda>n. n > 10) s h) \<le> 10" if "length h \<le> 10" for s h
    using that by (rule session_log.length_logged)
qed (use assms in \<open>auto simp: callbacks_keep_def bounds_inv_def
      om.invar_insert om.invar_erase\<close>)

end
