(* ===== verification/Mock.thy ===== *)
theory Mock
  imports Session
begin

text \<open>
  A concrete environment to run the library in: the provider and the services that the unit
  tests use (\<^verbatim>\<open>test/mock_provider.hpp\<close>, \<^verbatim>\<open>test/mock_client_state.hpp\<close>,
  \<^verbatim>\<open>test/mock_server_state.hpp\<close>), with the fragment storage and the appliers reduced to
  memory cells. \<open>arrivals\<close> and \<open>events\<close> script the BF aborts and the calls of other threads.
\<close>

section \<open>Provider\<close>

record mock =
  certify_result :: status
  commit_order_enter_result :: status
  commit_order_leave_result :: status
  release_result :: status
  replay_result :: status
  group_seqno :: int
  bf_abort_map :: "(transaction_id \<times> seqno) list"
  start_fragments :: nat
  all_fragments :: nat
  commit_fragments :: nat
  rollback_fragments :: nat
  toi_write_sets :: nat
  toi_start_transaction :: nat
  toi_commit :: nat
  bf_abort_during_fragment_removal :: bool
  error_during_prepare_data :: bool
  error_during_fragment_removal :: bool
  killed_before_certify :: bool
  bytes_generated :: u64
  will_replay_called :: bool
  replays :: nat
  unordered_replays :: nat
  aborts :: nat
  sst_before_init :: bool
  logged_view :: view
  position :: gtid
  stored_data :: "string list"
  applier_trx :: "(hps_ref \<times> transaction) list"
  next_applier :: hps_ref
  arrivals :: "(seqno \<times> bool) list list"
  events :: "server_event list"
  now :: int

definition mock_init :: mock where
  "mock_init = \<lparr>certify_result = success, commit_order_enter_result = success,
     commit_order_leave_result = success, release_result = success, replay_result = success,
     group_seqno = 0, bf_abort_map = [], start_fragments = 0, all_fragments = 0,
     commit_fragments = 0, rollback_fragments = 0, toi_write_sets = 0, toi_start_transaction = 0,
     toi_commit = 0, bf_abort_during_fragment_removal = False, error_during_prepare_data = False,
     error_during_fragment_removal = False, killed_before_certify = False, bytes_generated = 0,
     will_replay_called = False, replays = 0, unordered_replays = 0, aborts = 0,
     sst_before_init = False, logged_view = view_default, position = gtid_undefined,
     stored_data = [], applier_trx = [], next_applier = 0, arrivals = [], events = [], now = 0\<rparr>"

definition group_id :: id where
  "group_id = pad16 ''1''"

definition provider_server_id :: id where
  "provider_server_id = pad16 ''1''"

text \<open>\<^verbatim>\<open>++group_seqno_\<close> and the meta data of a write set that was ordered there.\<close>

definition order_write_set :: "client_id \<Rightarrow> transaction_id \<Rightarrow> u32 \<Rightarrow> mock \<Rightarrow> ws_meta \<times> mock" where
  "order_write_set c t flags e =
     (let n = group_seqno e + 1 in
      (\<lparr>wsm_gtid = \<lparr>gtid_id = group_id, gtid_seqno = n\<rparr>,
        wsm_stid = \<lparr>stid_server_id = provider_server_id, stid_transaction_id = t,
                   stid_client_id = c\<rparr>,
        wsm_depends_on = n - 1, wsm_flags = flags\<rparr>, e\<lparr>group_seqno := n\<rparr>))"

definition count_fragment :: "u32 \<Rightarrow> mock \<Rightarrow> mock" where
  "count_fragment flags e = e\<lparr>all_fragments := Suc (all_fragments e),
     start_fragments := start_fragments e + (if starts_transaction flags then 1 else 0),
     commit_fragments := commit_fragments e + (if commits_transaction flags then 1 else 0),
     rollback_fragments := rollback_fragments e + (if rolls_back_transaction flags then 1 else 0)\<rparr>"

definition mock_certify ::
    "client_id \<Rightarrow> ws_handle \<Rightarrow> u32 \<Rightarrow> ws_meta \<Rightarrow> bool \<Rightarrow> mock \<Rightarrow> (status \<times> ws_handle \<times> ws_meta) \<times> mock" where
  "mock_certify c h flags m seq_cb e =
     (let h' = h\<lparr>wsh_opaque := 1\<rparr>; t = wsh_transaction_id h in
      if certify_result e \<noteq> success then ((certify_result e, h', m), e)
      else
        let e1 = count_fragment flags e in
        case om_find t (bf_abort_map e1) of
          None \<Rightarrow> let (m', e2) = order_write_set c t flags e1 in ((success, h', m'), e2)
        | Some s \<Rightarrow>
            if seqno_is_undefined s then
              ((error_certification_failed, h', ws_meta_default),
               e1\<lparr>bf_abort_map := om_erase t (bf_abort_map e1)\<rparr>)
            else
              let (m', e2) = order_write_set c t flags e1 in
              ((error_bf_abort, h', m'), e2\<lparr>bf_abort_map := om_erase t (bf_abort_map e2)\<rparr>))"

definition mock_rollback :: "transaction_id \<Rightarrow> mock \<Rightarrow> status \<times> mock" where
  "mock_rollback t e = (success, e\<lparr>all_fragments := Suc (all_fragments e),
     rollback_fragments := Suc (rollback_fragments e)\<rparr>)"

definition mock_commit_order_leave :: "ws_handle \<Rightarrow> ws_meta \<Rightarrow> string \<Rightarrow> mock \<Rightarrow> int \<times> mock" where
  "mock_commit_order_leave h m err e =
     (status_int (if err \<noteq> [] then error_fatal else commit_order_leave_result e), e)"

definition mock_enter_toi ::
    "client_id \<Rightarrow> key list \<Rightarrow> string \<Rightarrow> ws_meta \<Rightarrow> u32 \<Rightarrow> mock \<Rightarrow> (status \<times> ws_meta) \<times> mock" where
  "mock_enter_toi c keys buf m flags e =
     (let (m', e1) = order_write_set c transaction_id_undefined flags e in
      ((certify_result e, m'),
       e1\<lparr>toi_write_sets := Suc (toi_write_sets e1),
          toi_start_transaction := toi_start_transaction e1 + (if starts_transaction flags then 1 else 0),
          toi_commit := toi_commit e1 + (if commits_transaction flags then 1 else 0)\<rparr>))"

definition mock_bf_abort :: "seqno \<Rightarrow> transaction_id \<Rightarrow> mock \<Rightarrow> status \<times> mock" where
  "mock_bf_abort s t e =
     (success, e\<lparr>bf_abort_map := fst (om_insert t s (bf_abort_map e)),
        group_seqno := (if seqno_is_undefined s then group_seqno e else s)\<rparr>)"

definition mock_provider :: "mock provider_ops" where
  "mock_provider = \<lparr>
     prov_start_transaction = \<lambda>h e. ((0, h), e),
     prov_assign_read_view = \<lambda>h g e. ((Inr success, h), e),
     prov_append_key = \<lambda>h k e. ((Inr 0, h), e),
     prov_append_data = \<lambda>h d e. ((success, h), e),
     prov_certify = mock_certify,
     prov_bf_abort = mock_bf_abort,
     prov_rollback = mock_rollback,
     prov_commit_order_enter = \<lambda>h m e. (commit_order_enter_result e, e),
     prov_commit_order_leave = mock_commit_order_leave,
     prov_release = \<lambda>h e. ((status_int (release_result e), h), e),
     prov_enter_toi = mock_enter_toi,
     prov_leave_toi = \<lambda>c m err e. (success, e),
     prov_causal_read = \<lambda>t e. ((gtid_undefined, error_not_implemented), e),
     prov_connect = \<lambda>a b c d e. (success, e),
     prov_disconnect = \<lambda>e. (0, e),
     prov_desync = \<lambda>e. (0, e),
     prov_resync = \<lambda>e. (0, e),
     prov_pause = \<lambda>e. (0, e),
     prov_resume = \<lambda>e. (0, e),
     prov_sst_sent = \<lambda>g n e. (success, e),
     prov_sst_received = \<lambda>g n e. (success, e)\<rparr>"

section \<open>Services\<close>

definition mock_event :: "client_callback \<Rightarrow> mock \<Rightarrow> mock" where
  "mock_event ev e = (case ev of
      Will_replay \<Rightarrow> e\<lparr>will_replay_called := True\<rparr>
    | Emergency_shutdown \<Rightarrow> e\<lparr>aborts := Suc (aborts e)\<rparr>
    | _ \<Rightarrow> e)"

definition mock_bf_rollback :: "mock services \<Rightarrow> (mock world, int) cmd" where
  "mock_bf_rollback svc =
     bind (client_before_rollback svc) (\<lambda>r.
       if r \<noteq> 0 then return 1
       else bind (client_after_rollback svc) (\<lambda>r. return (bool_int (r \<noteq> 0))))"

definition mock_remove_fragments :: "mock services \<Rightarrow> (mock world, int) cmd" where
  "mock_remove_fragments svc =
     fetch w_env (\<lambda>e.
       if bf_abort_during_fragment_removal e then
         seq (client_before_rollback svc) (seq (client_after_rollback svc) (return 1))
       else return (bool_int (error_during_fragment_removal e)))"

definition mock_background_rollback :: "mock services \<Rightarrow> (mock world, unit) cmd" where
  "mock_background_rollback svc = block
     [unlock, ignore (client_before_rollback svc), ignore (client_after_rollback svc), lock svc]"

definition mock_get_view :: "id \<Rightarrow> mock \<Rightarrow> view \<times> mock" where
  "mock_get_view own_id e =
     ((logged_view e)\<lparr>view_own_index := member_index (logged_view e) own_id\<rparr>, e)"

text \<open>
  The client service; the callbacks that call the library are parameters, and the replay
  itself, which the tests run in a second client, only counts.
\<close>

definition mock_client_service ::
    "(mock world, int) cmd \<Rightarrow> (mock world, int) cmd \<Rightarrow> mock client_ops" where
  "mock_client_service rollback removal = \<lparr>
     cl_event = mock_event,
     cl_interrupted = \<lambda>e. (killed_before_certify e, e),
     cl_statement_allowed_for_streaming = \<lambda>e. True,
     cl_bytes_generated = bytes_generated,
     cl_prepare_data_for_replication =
       \<lambda>h e. ((bool_int (error_during_prepare_data e), h), e),
     cl_prepare_fragment_for_replication =
       \<lambda>h e. (if error_during_prepare_data e then (1, [], 0, h) else (0, [CHR 0x01], 1, h), e),
     cl_remove_fragments = removal,
     cl_bf_rollback = rollback,
     cl_replay = env_call (\<lambda>e. (replay_result e, e\<lparr>replays := Suc (replays e)\<rparr>)),
     cl_replay_unordered = env_call (\<lambda>e. (success, e\<lparr>unordered_replays := Suc (unordered_replays e)\<rparr>)),
     cl_commit_by_xid = return success,
     cl_is_explicit_xa = \<lambda>e. False,
     cl_is_prepared_xa = \<lambda>e. False,
     cl_is_xa_rollback = \<lambda>e. False\<rparr>"

definition mock_storage :: "mock storage_ops" where
  "mock_storage = \<lparr>
     st_acquire = \<lambda>e. (True, e),
     st_release = \<lambda>e. e,
     st_requires_globals = \<lambda>e. True,
     st_store_globals = \<lambda>e. e,
     st_start_transaction = \<lambda>h e. (0, e),
     st_adopt_transaction = \<lambda>t e. e,
     st_append_fragment = \<lambda>i t f d x e. (0, e\<lparr>stored_data := stored_data e @ [d]\<rparr>),
     st_update_fragment_meta = \<lambda>m e. (0, e),
     st_remove_fragments = \<lambda>e. (0, e\<lparr>stored_data := []\<rparr>),
     st_commit = \<lambda>h m e. (0, e),
     st_rollback = \<lambda>h m e. (0, e)\<rparr>"

definition mock_server_service :: "(mock world, unit) cmd \<Rightarrow> mock server_ops" where
  "mock_server_service background = \<lparr>
     sv_set_position = \<lambda>g e. e\<lparr>position := g\<rparr>,
     sv_background_rollback = background,
     sv_streaming_applier_service = \<lambda>e. (next_applier e, e\<lparr>next_applier := Suc (next_applier e)\<rparr>),
     sv_release_high_priority_service = \<lambda>h e. e,
     sv_bootstrap = \<lambda>e. e,
     sv_log_view = \<lambda>h v e. e\<lparr>logged_view := v\<rparr>,
     sv_recover_streaming_appliers = skip,
     sv_get_view = mock_get_view,
     sv_get_position = \<lambda>e. (position e, e),
     sv_log_state_change = \<lambda>s t e. e,
     sv_sst_before_init = sst_before_init,
     sv_sst_request = \<lambda>e. ([], e),
     sv_start_sst = \<lambda>r g b e. (0, e),
     sv_wait_committing_transactions = \<lambda>t e. (0, e)\<rparr>"

definition mock_hps :: "mock hps_ops" where
  "mock_hps = \<lparr>
     hps_transaction = \<lambda>h e. (case om_find h (applier_trx e) of None \<Rightarrow> transaction_init | Some t \<Rightarrow> t),
     hps_is_replaying = \<lambda>h e. False,
     hps_start_transaction = \<lambda>h wsh m e. (0, e),
     hps_next_fragment = \<lambda>h m e. (0, e),
     hps_adopt_transaction = \<lambda>h t e. (0, e\<lparr>applier_trx := om_put h t (applier_trx e)\<rparr>),
     hps_apply_write_set = \<lambda>h m d e. ((0, []), e),
     hps_append_fragment_and_commit = \<lambda>h wsh m d x e. (0, e\<lparr>stored_data := stored_data e @ [d]\<rparr>),
     hps_remove_fragments = \<lambda>h m e. (0, e),
     hps_commit = \<lambda>h wsh m e. (0, e),
     hps_rollback = \<lambda>h wsh m e. (0, e),
     hps_apply_toi = \<lambda>h m d e. ((0, []), e),
     hps_apply_nbo_begin = \<lambda>h m d e. ((0, []), e),
     hps_after_apply = \<lambda>h e. e,
     hps_store_globals = \<lambda>h e. e,
     hps_reset_globals = \<lambda>h e. e,
     hps_switch_execution_context = \<lambda>h orig e. e,
     hps_log_dummy_write_set = \<lambda>h wsh m err e. ((0, err), e),
     hps_adopt_apply_error = \<lambda>h err e. ([], e)\<rparr>"

definition mock_with ::
    "bool \<Rightarrow> (mock world, int) cmd \<Rightarrow> (mock world, int) cmd \<Rightarrow> (mock world, unit) cmd \<Rightarrow>
     mock services" where
  "mock_with debug rollback removal background = \<lparr>
     debug_build = debug,
     prov = mock_provider,
     client_ops = mock_client_service rollback removal,
     storage = mock_storage,
     server_ops = mock_server_service background,
     hps = mock_hps,
     bf_arrivals = \<lambda>e. (case arrivals e of [] \<Rightarrow> ([], e) | a # as \<Rightarrow> (a, e\<lparr>arrivals := as\<rparr>)),
     bf_thread = 0,
     server_events = \<lambda>e. (events e, e\<lparr>events := []\<rparr>),
     peer_transaction = \<lambda>c e. transaction_init,
     peer_total_order_bf_abort = \<lambda>c s. skip,
     clock = now,
     usleep = \<lambda>e. e\<lparr>now := now e + 300000\<rparr>\<rparr>"

text \<open>
  The callbacks call the library, which calls the callbacks: the services are nested to a
  depth \<open>n\<close>, below which a callback blocks.
\<close>

fun mock_services :: "bool \<Rightarrow> nat \<Rightarrow> mock services" where
  "mock_services debug 0 =
     mock_with debug (throw (Blocked ''depth'')) (throw (Blocked ''depth'')) (throw (Blocked ''depth''))"
| "mock_services debug (Suc n) =
     (let svc = mock_services debug n in
      mock_with debug (mock_bf_rollback svc) (mock_remove_fragments svc) (mock_background_rollback svc))"

lemma mock_debug [simp]: "debug_build (mock_services d n) = d"
  by (cases n) (simp_all add: mock_with_def Let_def)

section \<open>The invariants hold in the mock environment\<close>

lemma callbacks_keep_mock_with:
  assumes "keeps I a" "keeps I b" "keeps I c" and "\<And>w e. I w \<Longrightarrow> I (w\<lparr>w_env := e\<rparr>)"
  shows "callbacks_keep (mock_with d a b c) I"
proof -
  have "keeps I (env_call f)" for f :: "mock \<Rightarrow> status \<times> mock"
    using assms(4) by (auto simp: keeps_def wp_simps split: prod.split)
  then show ?thesis
    using assms by (simp add: callbacks_keep_def mock_with_def mock_client_service_def
        mock_server_service_def keeps_intro)
qed

lemma mock_callbacks:
  assumes env: "\<And>w e. I w \<Longrightarrow> I (w\<lparr>w_env := e\<rparr>)"
    and hooks: "\<And>svc :: mock services. debug_build svc = d \<Longrightarrow> callbacks_keep svc I \<Longrightarrow>
      keeps I (client_before_rollback svc) \<and> keeps I (client_after_rollback svc) \<and>
      keeps I (lock svc) \<and> keeps I unlock"
  shows "callbacks_keep (mock_services d n) I"
proof (induction n)
  case 0
  then show ?case by (simp add: callbacks_keep_mock_with keeps_intro env)
next
  case (Suc n)
  let ?s = "mock_services d n"
  have h: "keeps I (client_before_rollback ?s)" "keeps I (client_after_rollback ?s)"
    "keeps I (lock ?s)" "keeps I (unlock :: (mock world, unit) cmd)"
    using hooks [of ?s] Suc.IH by simp_all
  have "keeps I (mock_bf_rollback ?s)" "keeps I (mock_remove_fragments ?s)"
    "keeps I (mock_background_rollback ?s)"
    unfolding mock_bf_rollback_def mock_remove_fragments_def mock_background_rollback_def
    by (intro keeps_intro h)+
  then show ?case by (simp add: Let_def callbacks_keep_mock_with env)
qed

lemma mock_callbacks_debug: "callbacks_keep (mock_services True n) world_inv"
proof (rule mock_callbacks)
  show "world_inv (w\<lparr>w_env := e\<rparr>)" if "world_inv w" for w :: "mock world" and e
    using that by (simp add: world_inv_def parts_inv_def)
  show "keeps world_inv (client_before_rollback svc) \<and> keeps world_inv (client_after_rollback svc) \<and>
      keeps world_inv (lock svc) \<and> keeps world_inv (unlock :: (mock world, unit) cmd)"
    if "debug_build svc = True" and "callbacks_keep svc world_inv" for svc :: "mock services"
    using library_invariant.rollback_hooks [OF library_invariant_debug [of svc]] that
    by (simp add: world_inv_def)
qed

lemma mock_callbacks_bounds: "callbacks_keep (mock_services d n) bounds_inv"
proof (rule mock_callbacks)
  show "bounds_inv (w\<lparr>w_env := e\<rparr>)" if "bounds_inv w" for w :: "mock world" and e
    using that by (simp add: bounds_inv_def parts_inv_def)
  show "keeps bounds_inv (client_before_rollback svc) \<and> keeps bounds_inv (client_after_rollback svc) \<and>
      keeps bounds_inv (lock svc) \<and> keeps bounds_inv (unlock :: (mock world, unit) cmd)"
    if "callbacks_keep svc bounds_inv" for svc :: "mock services"
    using library_invariant.rollback_hooks [OF library_invariant_bounds [OF that]]
    by (simp add: bounds_inv_def)
qed

interpretation debug_inv: library_invariant "mock_services True n" trx_history_ok sc_inv
  sr_key_set_inv session_history_ok om_inv om_inv server_history_ok for n
  by (rule library_invariant_debug) (simp_all add: mock_callbacks_debug)

interpretation any_inv: library_invariant "mock_services d n" "\<lambda>h _. length h \<le> 11" "\<lambda>_. True"
  "\<lambda>_. True" "\<lambda>h _. length h \<le> 10" om_inv om_inv "\<lambda>_ _. True" for d n
  by (rule library_invariant_bounds) (rule mock_callbacks_bounds)

section \<open>A session to start from\<close>

definition mock_server :: server_state where
  "mock_server = (server_state_init ''server1'' gtid_undefined rm_sync)
     \<lparr>provider_loaded := True, sv_id := pad16 ''server1'', sv_state := s_synced,
      init_initialized := True\<rparr>"

definition mock_world :: "mock \<Rightarrow> mock world" where
  "mock_world e = \<lparr>w_cs = client_state_init 0 1 m_local, w_ss = mock_server, w_self = 0, w_thread = 0,
     w_locked = False, w_env = e\<rparr>"

lemma mock_world_inv: "world_inv (mock_world e)" "bounds_inv (mock_world e)"
  by (simp_all add: world_inv_def bounds_inv_def parts_inv_def mock_world_def mock_server_def
      client_state_init_def server_state_init_def transaction_init_def trx_history_ok_def
      sc_inv_default sr_key_set_inv_def om_inv_def session_history_ok_def
      server_history_ok_def)

text \<open>
  The session of the unit tests: open, one transaction with a key and data, commit; and the same
  with a BF abort before the commit. The world at the end of a run.
\<close>

definition test_key :: key where
  "test_key = \<lparr>key_type = exclusive, key_parts = [''k1'', ''k2'']\<rparr>"

definition begin_ops :: "operation list" where
  "begin_ops = [Session_op (Open 1), Session_op (Before_command False), Session_op Before_statement,
     Trx_op (Start_transaction 1), Trx_op (Append_keys [test_key]), Trx_op (Append_data ''data'')]"

definition commit_ops :: "operation list" where
  "commit_ops = [Trx_op (Before_commit False), Trx_op Ordered_commit, Trx_op After_commit,
     Session_op After_statement, Session_op After_command_before_result,
     Session_op After_command_after_result]"

definition mock_run :: "bool \<Rightarrow> operation list \<Rightarrow> mock world" where
  "mock_run debug ops = snd (run_operations (mock_services debug 3) ops (mock_world mock_init))"

lemma mock_run_reaches: "lib_reaches (mock_services d 3) (mock_world mock_init) (mock_run d ops)"
proof -
  obtain r v where "run_operations (mock_services d 3) ops (mock_world mock_init) = (r, v)"
    by fastforce
  then show ?thesis unfolding mock_run_def by (simp add: run_operations_reaches)
qed

end
