(* ===== verification/Bf_Window.thy ===== *)
theory Bf_Window
  imports Keeps Transaction
begin

text \<open>
  What a BF abort does, and what the owner of a session can rely on when it takes the client
  lock again: other threads may have marked the transaction for abort, from a state in which
  that is allowed, and have changed nothing else that the owner reads.
\<close>

section \<open>The state machine\<close>

lemma trx_allowed_iff [simp]:
  "trx_allowed s_executing t \<longleftrightarrow> t \<in> {s_preparing, s_certifying, s_must_abort, s_aborting}"
  "trx_allowed s_preparing t \<longleftrightarrow> t \<in> {s_prepared, s_committing, s_must_abort}"
  "trx_allowed s_prepared t \<longleftrightarrow> t \<in> {s_certifying, s_committing, s_must_abort, s_aborting}"
  "trx_allowed s_certifying t \<longleftrightarrow>
     t \<in> {s_executing, s_preparing, s_prepared, s_committing, s_cert_failed, s_must_abort}"
  "trx_allowed s_committing t \<longleftrightarrow> t \<in> {s_ordered_commit, s_committed, s_must_abort}"
  "trx_allowed s_ordered_commit t \<longleftrightarrow> t = s_committed"
  "\<not> trx_allowed s_committed t"
  "trx_allowed s_cert_failed t \<longleftrightarrow> t = s_aborting"
  "trx_allowed s_must_abort t \<longleftrightarrow> t \<in> {s_cert_failed, s_aborting, s_must_replay}"
  "trx_allowed s_aborting t \<longleftrightarrow> t = s_aborted"
  "\<not> trx_allowed s_aborted t"
  "trx_allowed s_must_replay t \<longleftrightarrow> t = s_replaying"
  "trx_allowed s_replaying t \<longleftrightarrow> t \<in> {s_preparing, s_committing, s_committed, s_aborted}"
  by (cases t; simp add: trx_allowed_def trx_allowed_table_def)+

lemma trx_allowed_must_abort [simp]:
  "trx_allowed s s_must_abort \<longleftrightarrow> bf_abort_allowed_state s"
  by (cases s) (simp_all add: bf_abort_allowed_state_def)

lemma bf_abort_allowed_cases [simp]:
  "\<not> bf_abort_allowed_state s_must_abort" "\<not> bf_abort_allowed_state s_aborting"
  "\<not> bf_abort_allowed_state s_aborted" "\<not> bf_abort_allowed_state s_must_replay"
  "\<not> bf_abort_allowed_state s_replaying" "\<not> bf_abort_allowed_state s_ordered_commit"
  "\<not> bf_abort_allowed_state s_committed" "\<not> bf_abort_allowed_state s_cert_failed"
  "bf_abort_allowed_state s_executing" "bf_abort_allowed_state s_preparing"
  "bf_abort_allowed_state s_prepared" "bf_abort_allowed_state s_certifying"
  "bf_abort_allowed_state s_committing"
  by (simp_all add: bf_abort_allowed_state_def)

text \<open>The effect of an allowed state change.\<close>

definition after_event :: "'e services \<Rightarrow> client_callback \<Rightarrow> 'e world \<Rightarrow> 'e world" where
  "after_event svc ev w = w\<lparr>w_env := cl_event (client_ops svc) ev (w_env w)\<rparr>"

definition in_state :: "'e services \<Rightarrow> trx_state \<Rightarrow> 'e world \<Rightarrow> 'e world" where
  "in_state svc s w =
     (let v = after_event svc Notify_state_change (upd_trx (trx_push_state s) w) in
      if s = s_must_replay then after_event svc Will_replay v else v)"

definition may_set_state :: "'e services \<Rightarrow> 'e world \<Rightarrow> trx_state \<Rightarrow> bool" where
  "may_set_state svc w s \<longleftrightarrow> (debug_build svc \<longrightarrow> w_locked w \<and> trx_allowed (tstate w) s \<and>
     (owning_thread (w_cs w) = w_thread w \<or> s \<in> {s_must_abort, s_must_replay, s_aborting}))"

lemma wp_set_state: "may_set_state svc w s \<Longrightarrow> wp (set_state svc s) Q E w = Q () (in_state svc s w)"
  by (auto simp: set_state_def wp_simps may_set_state_def in_state_def after_event_def)

lemma in_state_simps [simp]:
  "w_locked (in_state svc s w) = w_locked w" "w_thread (in_state svc s w) = w_thread w"
  "w_self (in_state svc s w) = w_self w" "w_ss (in_state svc s w) = w_ss w"
  "tstate (in_state svc s w) = s"
  "trx_state_hist (trx (in_state svc s w)) =
     push_history (\<lambda>n. n = 12) (tstate w) (trx_state_hist (trx w))"
  "trx (in_state svc s w) = trx_push_state s (trx w)"
  "w_cs (in_state svc s w) = (w_cs w)\<lparr>cs_transaction := trx_push_state s (trx w)\<rparr>"
  by (simp_all add: in_state_def after_event_def trx_push_state_def Let_def)

lemma trx_push_state_simps [simp]:
  "trx_state (trx_push_state s t) = s" "trx_server_id (trx_push_state s t) = trx_server_id t"
  "trx_id (trx_push_state s t) = trx_id t" "bf_abort_state (trx_push_state s t) = bf_abort_state t"
  "bf_abort_client_state (trx_push_state s t) = bf_abort_client_state t"
  "bf_aborted_in_total_order (trx_push_state s t) = bf_aborted_in_total_order t"
  "trx_ws_handle (trx_push_state s t) = trx_ws_handle t"
  "trx_ws_meta (trx_push_state s t) = trx_ws_meta t" "trx_flags (trx_push_state s t) = trx_flags t"
  "implicit_deps (trx_push_state s t) = implicit_deps t" "certified (trx_push_state s t) = certified t"
  "trx_streaming_context (trx_push_state s t) = trx_streaming_context t"
  "sr_keys (trx_push_state s t) = sr_keys t" "apply_error_buf (trx_push_state s t) = apply_error_buf t"
  "trx_xid (trx_push_state s t) = trx_xid t" "is_bf_immutable (trx_push_state s t) = is_bf_immutable t"
  "active (trx_push_state s t) = active t" "ordered (trx_push_state s t) = ordered t"
  "is_streaming (trx_push_state s t) = is_streaming t" "is_xa (trx_push_state s t) = is_xa t"
  by (simp_all add: trx_push_state_def active_def ordered_def is_streaming_def is_xa_def)

section \<open>Entering a BF abort\<close>

definition bf_abort_possible :: "'e world \<Rightarrow> bool" where
  "bf_abort_possible w \<longleftrightarrow>
     active (trx w) \<and> \<not> is_bf_immutable (trx w) \<and> bf_abort_allowed_state (tstate w)"

definition bf_marked :: "'e services \<Rightarrow> 'e world \<Rightarrow> 'e world" where
  "bf_marked svc w =
     upd_trx (\<lambda>t. t\<lparr>bf_abort_client_state := session_state_int (cs_state (w_cs w))\<rparr>)
       (in_state svc s_must_abort (upd_trx (\<lambda>t. t\<lparr>bf_abort_state := trx_state t\<rparr>) w))"

lemma wp_bf_abort_enter:
  assumes "debug_build svc \<Longrightarrow> w_locked w"
  shows "wp (bf_abort_enter svc q) Q E w =
    (if bf_abort_possible w then
       if provider_loaded (w_ss w) then
         (case prov_bf_abort (prov svc) q (trx_id (trx w)) (w_env w) of (st, e) \<Rightarrow>
            if st = success then Q True (bf_marked svc (w\<lparr>w_env := e\<rparr>))
            else Q False (w\<lparr>w_env := e\<rparr>))
       else E (Runtime_error ''provider not loaded'') w
     else Q False w)"
proof (cases "bf_abort_possible w")
  case True
  have may: "may_set_state svc (upd_trx (\<lambda>t. t\<lparr>bf_abort_state := trx_state t\<rparr>) (w\<lparr>w_env := e\<rparr>)) s_must_abort"
    for e
    using True assms by (simp add: may_set_state_def bf_abort_possible_def)
  have upd: "upd_trx (\<lambda>t. t\<lparr>bf_abort_state := trx_state (trx w)\<rparr>) (w\<lparr>w_env := e\<rparr>) =
      upd_trx (\<lambda>t. t\<lparr>bf_abort_state := trx_state t\<rparr>) (w\<lparr>w_env := e\<rparr>)" for e
    by simp
  show ?thesis
    using True assms wp_set_state [OF may]
    by (auto simp: bf_abort_enter_def wp_simps bf_abort_possible_def bf_marked_def upd
        split: prod.splits)
next
  case False
  then show ?thesis
    using assms by (auto simp: bf_abort_enter_def wp_simps bf_abort_possible_def)
qed

section \<open>What a window can change\<close>

text \<open>The parts of the transaction that a BF abort writes.\<close>

definition set_bf_parts :: "transaction \<Rightarrow> transaction \<Rightarrow> transaction" where
  "set_bf_parts u t = t\<lparr>trx_state := trx_state u, trx_state_hist := trx_state_hist u,
     bf_abort_state := bf_abort_state u, bf_abort_client_state := bf_abort_client_state u,
     bf_aborted_in_total_order := bf_aborted_in_total_order u,
     trx_streaming_context := (trx_streaming_context t)
       \<lparr>rollback_replicated_for := rollback_replicated_for (trx_streaming_context u)\<rparr>,
     streaming_rollback_in_progress := streaming_rollback_in_progress u\<rparr>"

lemma set_bf_parts_simps [simp]:
  "trx_server_id (set_bf_parts u t) = trx_server_id t" "trx_id (set_bf_parts u t) = trx_id t"
  "trx_state (set_bf_parts u t) = trx_state u"
  "trx_ws_handle (set_bf_parts u t) = trx_ws_handle t" "trx_ws_meta (set_bf_parts u t) = trx_ws_meta t"
  "trx_flags (set_bf_parts u t) = trx_flags t" "implicit_deps (set_bf_parts u t) = implicit_deps t"
  "certified (set_bf_parts u t) = certified t" "sr_keys (set_bf_parts u t) = sr_keys t"
  "apply_error_buf (set_bf_parts u t) = apply_error_buf t" "trx_xid (set_bf_parts u t) = trx_xid t"
  "is_bf_immutable (set_bf_parts u t) = is_bf_immutable t"
  "fragments_certified_for_statement (set_bf_parts u t) = fragments_certified_for_statement t"
  "active (set_bf_parts u t) = active t" "ordered (set_bf_parts u t) = ordered t"
  "is_streaming (set_bf_parts u t) = is_streaming t" "is_xa (set_bf_parts u t) = is_xa t"
  "is_empty (set_bf_parts u t) = is_empty t"
  by (simp_all add: set_bf_parts_def active_def ordered_def is_streaming_def is_xa_def is_empty_def)

text \<open>
  From \<open>w\<close> to \<open>v\<close>, with the client lock released in between: the session is the same, the
  transaction is the same but for the parts above, and its state changed at most once, from a
  state that allows it to \<^verbatim>\<open>s_must_abort\<close>.
\<close>

definition bf_change :: "'e world \<Rightarrow> transaction \<Rightarrow> bool" where
  "bf_change w t \<longleftrightarrow>
     trx_state t = tstate w \<and> bf_abort_state t = bf_abort_state (trx w) \<and>
       bf_abort_client_state t = bf_abort_client_state (trx w) \<or>
     bf_abort_possible w \<and> trx_state t = s_must_abort \<and> bf_abort_state t = tstate w \<and>
       bf_abort_client_state t = session_state_int (cs_state (w_cs w))"

definition same_server :: "'e world \<Rightarrow> 'e world \<Rightarrow> bool" where
  "same_server w v \<longleftrightarrow> w_self v = w_self w \<and> provider_loaded (w_ss v) = provider_loaded (w_ss w) \<and>
     sv_id (w_ss v) = sv_id (w_ss w) \<and> rollback_mode (w_ss v) = rollback_mode (w_ss w) \<and>
     sv_state (w_ss v) = sv_state (w_ss w)"

definition window :: "'e world \<Rightarrow> 'e world \<Rightarrow> bool" where
  "window w v \<longleftrightarrow>
     (\<exists>t. w_cs v = (w_cs w)\<lparr>cs_transaction := set_bf_parts t (trx w)\<rparr> \<and> bf_change w t) \<and>
     same_server w v"

lemma windowI:
  "w_cs v = (w_cs w)\<lparr>cs_transaction := set_bf_parts t (trx w)\<rparr> \<Longrightarrow> bf_change w t \<Longrightarrow>
   same_server w v \<Longrightarrow> window w v"
  by (auto simp: window_def)

lemma windowE:
  assumes "window w v"
  obtains t where "w_cs v = (w_cs w)\<lparr>cs_transaction := set_bf_parts t (trx w)\<rparr>"
    and "bf_change w t" and "same_server w v"
  using assms by (auto simp: window_def)

lemma set_bf_parts_self [simp]: "set_bf_parts t t = t"
  by (simp add: set_bf_parts_def)

lemma window_refl [simp]: "window w w"
  by (rule windowI [where t = "trx w"]) (simp_all add: bf_change_def same_server_def)

lemma windowD:
  assumes "window w v"
  shows "cs_mode (w_cs v) = cs_mode (w_cs w)" "cs_state (w_cs v) = cs_state (w_cs w)"
    "owning_thread (w_cs v) = owning_thread (w_cs w)" "cs_id (w_cs v) = cs_id (w_cs w)"
    "current_error (w_cs v) = current_error (w_cs w)"
    "last_written_gtid (w_cs v) = last_written_gtid (w_cs w)"
    "rollbacker_active (w_cs v) = rollbacker_active (w_cs w)"
    "toi_mode (w_cs v) = toi_mode (w_cs w)" "toi_meta (w_cs v) = toi_meta (w_cs w)"
    "nbo_meta (w_cs v) = nbo_meta (w_cs w)" "keep_command_error (w_cs v) = keep_command_error (w_cs w)"
    "trx_id (trx v) = trx_id (trx w)" "trx_ws_handle (trx v) = trx_ws_handle (trx w)"
    "trx_ws_meta (trx v) = trx_ws_meta (trx w)" "trx_flags (trx v) = trx_flags (trx w)"
    "certified (trx v) = certified (trx w)" "implicit_deps (trx v) = implicit_deps (trx w)"
    "sr_keys (trx v) = sr_keys (trx w)" "trx_xid (trx v) = trx_xid (trx w)"
    "trx_server_id (trx v) = trx_server_id (trx w)" "apply_error_buf (trx v) = apply_error_buf (trx w)"
    "is_bf_immutable (trx v) = is_bf_immutable (trx w)"
    "active (trx v) = active (trx w)" "ordered (trx v) = ordered (trx w)"
    "is_streaming (trx v) = is_streaming (trx w)" "is_xa (trx v) = is_xa (trx w)"
    "provider_loaded (w_ss v) = provider_loaded (w_ss w)"
    "fragments_certified_for_statement (trx v) = fragments_certified_for_statement (trx w)"
    "sv_id (w_ss v) = sv_id (w_ss w)" "rollback_mode (w_ss v) = rollback_mode (w_ss w)"
  using assms by (auto elim!: windowE simp: same_server_def)

lemma window_state:
  "window w v \<Longrightarrow> tstate v = tstate w \<or> bf_abort_possible w \<and> tstate v = s_must_abort"
  by (auto elim!: windowE simp: bf_change_def)

text \<open>Changes outside what the window is about.\<close>

lemma window_env [simp]: "window w (v\<lparr>w_env := e\<rparr>) = window w v"
  by (simp add: window_def same_server_def)

lemma window_lock [simp]: "window w (v\<lparr>w_locked := b\<rparr>) = window w v"
  by (simp add: window_def same_server_def)

lemma window_thread [simp]: "window w (v\<lparr>w_thread := t\<rparr>) = window w v"
  by (simp add: window_def same_server_def)

lemma window_from_env [simp]: "window (w\<lparr>w_env := e\<rparr>) v = window w v"
  by (simp add: window_def bf_change_def same_server_def bf_abort_possible_def)

lemma window_from_lock [simp]: "window (w\<lparr>w_locked := b\<rparr>) v = window w v"
  by (simp add: window_def bf_change_def same_server_def bf_abort_possible_def)

lemma window_same_client: "same_client v v' \<Longrightarrow> window w v \<Longrightarrow> window w v'"
  by (simp add: window_def same_client_def same_server_def)

lemma window_possible: "window w v \<Longrightarrow> bf_abort_possible v \<Longrightarrow> bf_abort_possible w \<and> tstate v = tstate w"
  by (auto elim!: windowE simp: bf_abort_possible_def bf_change_def)

lemma window_upd:
  assumes "window w v"
    and "\<And>t. trx v = set_bf_parts t (trx w) \<Longrightarrow>
      \<exists>u. f (trx v) = set_bf_parts u (trx w) \<and> trx_state u = trx_state t \<and>
        bf_abort_state u = bf_abort_state t \<and> bf_abort_client_state u = bf_abort_client_state t"
  shows "window w (upd_trx f v)"
proof (rule windowE [OF assms(1)])
  fix t assume t: "w_cs v = (w_cs w)\<lparr>cs_transaction := set_bf_parts t (trx w)\<rparr>"
    and c: "bf_change w t" and srv: "same_server w v"
  obtain u where u: "f (trx v) = set_bf_parts u (trx w)" "trx_state u = trx_state t"
    "bf_abort_state u = bf_abort_state t" "bf_abort_client_state u = bf_abort_client_state t"
    using assms(2) [of t] t by auto
  show ?thesis
  proof (rule windowI [where t = u])
    show "w_cs (upd_trx f v) = (w_cs w)\<lparr>cs_transaction := set_bf_parts u (trx w)\<rparr>"
      using t u(1) by simp
    show "bf_change w u" using c u(2-4) by (simp add: bf_change_def)
    show "same_server w (upd_trx f v)" using srv by (simp add: same_server_def)
  qed
qed

lemma window_bf_parts:
  assumes "window w v"
  shows "window w (upd_trx (\<lambda>t. t\<lparr>bf_aborted_in_total_order := b\<rparr>) v)"
    and "window w (upd_trx (\<lambda>t. t\<lparr>streaming_rollback_in_progress := b\<rparr>) v)"
    and "sc_rolled_back d i (trx_streaming_context (trx v)) = Inr c \<Longrightarrow>
      window w (upd_trx (trx_streaming_context_update (\<lambda>_. c)) v)"
proof -
  show "window w (upd_trx (\<lambda>t. t\<lparr>bf_aborted_in_total_order := b\<rparr>) v)"
  proof (rule window_upd [OF assms])
    show "\<exists>u. (trx v)\<lparr>bf_aborted_in_total_order := b\<rparr> = set_bf_parts u (trx w) \<and>
        trx_state u = trx_state t \<and> bf_abort_state u = bf_abort_state t \<and>
        bf_abort_client_state u = bf_abort_client_state t"
      if "trx v = set_bf_parts t (trx w)" for t
      using that by (intro exI [of _ "t\<lparr>bf_aborted_in_total_order := b\<rparr>"])
        (simp add: set_bf_parts_def)
  qed
  show "window w (upd_trx (\<lambda>t. t\<lparr>streaming_rollback_in_progress := b\<rparr>) v)"
  proof (rule window_upd [OF assms])
    show "\<exists>u. (trx v)\<lparr>streaming_rollback_in_progress := b\<rparr> = set_bf_parts u (trx w) \<and>
        trx_state u = trx_state t \<and> bf_abort_state u = bf_abort_state t \<and>
        bf_abort_client_state u = bf_abort_client_state t"
      if "trx v = set_bf_parts t (trx w)" for t
      using that by (intro exI [of _ "t\<lparr>streaming_rollback_in_progress := b\<rparr>"])
        (simp add: set_bf_parts_def)
  qed
  show "window w (upd_trx (trx_streaming_context_update (\<lambda>_. c)) v)"
    if c: "sc_rolled_back d i (trx_streaming_context (trx v)) = Inr c"
  proof (rule window_upd [OF assms])
    show "\<exists>u. (trx v)\<lparr>trx_streaming_context := c\<rparr> = set_bf_parts u (trx w) \<and>
        trx_state u = trx_state t \<and> bf_abort_state u = bf_abort_state t \<and>
        bf_abort_client_state u = bf_abort_client_state t"
      if "trx v = set_bf_parts t (trx w)" for t
      using that c by (intro exI [of _ "t\<lparr>trx_streaming_context := c\<rparr>"])
        (auto simp: set_bf_parts_def sc_rolled_back_def split: if_splits)
  qed
qed

lemma window_marked:
  assumes w: "window w v" and p: "bf_abort_possible v"
  shows "window w (bf_marked svc v)"
proof (rule windowE [OF w])
  fix t assume t: "w_cs v = (w_cs w)\<lparr>cs_transaction := set_bf_parts t (trx w)\<rparr>"
    and srv: "same_server w v"
  show ?thesis
  proof (rule windowI [where t = "trx (bf_marked svc v)"])
    show "w_cs (bf_marked svc v) =
        (w_cs w)\<lparr>cs_transaction := set_bf_parts (trx (bf_marked svc v)) (trx w)\<rparr>"
      by (simp add: bf_marked_def t set_bf_parts_def trx_push_state_def)
    show "bf_change w (trx (bf_marked svc v))"
      using window_possible [OF w p] t by (simp add: bf_change_def bf_marked_def trx_push_state_def)
    show "same_server w (bf_marked svc v)" using srv by (simp add: same_server_def bf_marked_def)
  qed
qed

section \<open>Taking the lock\<close>

text \<open>
  The session of a client that is executing: nobody hands it to the background rollbacker.
\<close>

definition busy_local :: "'e world \<Rightarrow> bool" where
  "busy_local w \<longleftrightarrow> cs_mode (w_cs w) = m_local \<and> cs_state (w_cs w) \<noteq> s_idle"

lemma window_busy: "window w v \<Longrightarrow> busy_local v = busy_local w"
  by (simp add: busy_local_def windowD)

lemma keeps_when_never: "(\<And>v. I v \<Longrightarrow> \<not> P v) \<Longrightarrow> keeps I (when_st P m)"
  by (simp add: keeps_def wp_simps)

lemma keeps_window_same:
  assumes "\<And>v. keeps_client m v"
  shows "keeps (window w) m"
  by (rule keepsI, rule wp_mono [OF assms]) (auto intro: window_same_client)

lemma keeps_window_calls:
  "keeps (window w) (env_call f)" "keeps (window w) (provider_call f)" "keeps (window w) unlock"
  "keeps (window w) take_lock"
  by (auto simp: keeps_def wp_simps unlock_def take_lock_def split: prod.splits)

lemma keeps_window_enter: "keeps (window w) (bf_abort_enter svc q)"
proof (rule keepsI)
  fix v assume v: "window w v"
  have possible: "bf_abort_possible (v\<lparr>w_env := e\<rparr>) = bf_abort_possible v" for e
    by (simp add: bf_abort_possible_def)
  show "wp (bf_abort_enter svc q) (\<lambda>_. window w) (\<lambda>_. window w) v"
  proof (cases "debug_build svc \<and> \<not> w_locked v")
    case True
    then show ?thesis using v by (simp add: bf_abort_enter_def wp_simps)
  next
    case False
    then show ?thesis
      using v possible by (auto simp: wp_bf_abort_enter window_marked split: prod.split)
  qed
qed

lemma keeps_window_total_order:
  "keeps (window w) m \<Longrightarrow> keeps (window w) (in_total_order m)"
  unfolding in_total_order_def by (intro keeps_intro keeps_modify window_bf_parts)

lemma keeps_window_arrival:
  "(\<And>q. keeps (window w) (m q)) \<Longrightarrow> keeps (window w) (bf_arrival svc m a)"
  unfolding bf_arrival_def as_bf_thread_def
  by (intro keeps_intro keeps_modify keeps_window_total_order; simp)

lemma keeps_window_lock_with:
  "(\<And>q. keeps (window w) (m q)) \<Longrightarrow> keeps (window w) (lock_with svc m)"
  unfolding lock_with_def by (intro keeps_intro keeps_window_calls keeps_window_arrival; simp)

lemma keeps_window_streaming_rollback: "keeps (window w) (streaming_rollback svc)"
proof -
  have "keeps (window w) (on_context (sc_rolled_back (debug_build svc) i))" for i
    by (rule keepsI) (auto simp: wp_simps intro: window_bf_parts split: sum.split)
  moreover have "keeps (window w) (stop_streaming_client svc)"
    "keeps (window w) (convert_streaming_client_to_applier svc)"
    "keeps (window w) (queue_rollback_event svc i)" for i
    by (rule keeps_window_same, rule stop_streaming_client_keeps convert_streaming_client_keeps
        queue_rollback_event_keeps)+
  ultimately show ?thesis
    unfolding streaming_rollback_def replicate_rollback_def
    by (intro keeps_intro keeps_modify keeps_window_calls keeps_window_lock_with keeps_window_enter
        window_bf_parts)
qed

lemma keeps_window_bf_abort:
  assumes "busy_local w"
  shows "keeps (window w) (trx_bf_abort svc q)"
proof -
  have "\<not> (cs_state (w_cs v) = s_idle \<and> rollback_mode (w_ss v) = rm_sync \<or>
      cs_mode (w_cs v) = m_high_priority \<and> is_streaming (trx v))" if "window w v" for v
    using assms that by (auto simp: busy_local_def windowD)
  then show ?thesis
    unfolding trx_bf_abort_def
    by (intro keeps_fetch keeps_bind keeps_seq keeps_only_if keeps_block_Cons keeps_block_Nil
        keeps_return keeps_window_enter keeps_when_st [OF keeps_window_streaming_rollback]
        keeps_when_never)
qed

text \<open>Whatever aborts arrive, the owner of a busy local session finds a window.\<close>

lemma keeps_window_lock: "busy_local w \<Longrightarrow> keeps (window w) (lock svc)"
  unfolding lock_def by (intro keeps_window_lock_with keeps_window_bf_abort)

lemma wp_trivial: "(\<And>a v. Q a v) \<Longrightarrow> (\<And>e v. E e v) \<Longrightarrow> wp m Q E w"
  by (simp add: wp_def split: prod.split sum.split)

lemma wp_as_bf_thread_thread:
  "w_thread w = t \<Longrightarrow> wp (as_bf_thread svc m) (\<lambda>_ v. w_thread v = t \<and> \<not> w_locked v) (\<lambda>_ _. True) w"
  unfolding as_bf_thread_def by (simp add: wp_simps) (rule wp_trivial; simp add: wp_simps)

lemma wp_take_lock [wp_simps]:
  "wp take_lock Q E w =
     (if w_locked w then E (Blocked ''client mutex'') w else Q () (w\<lparr>w_locked := True\<rparr>))"
  by (simp add: take_lock_def wp_simps)

lemma wp_lock_with:
  "wp (lock_with svc m) Q E w =
     (if w_locked w then E (Blocked ''client mutex'') w
      else case bf_arrivals svc (w_env w) of (as, e) \<Rightarrow>
        wp (for_each (bf_arrival svc m) as) (\<lambda>_. wp take_lock Q E) E (w\<lparr>w_env := e\<rparr>))"
  by (simp add: lock_with_def wp_simps)

lemma lock_holds: "wp (lock svc) (\<lambda>_ v. w_thread v = w_thread w \<and> w_locked v) (\<lambda>_ _. True) w"
proof -
  have arrival: "wp (bf_arrival svc m a) (\<lambda>_ v. w_thread v = w_thread w) (\<lambda>_ _. True) v"
    if "w_thread v = w_thread w" for m a and v :: "'a world"
    unfolding bf_arrival_def wp_when_st
    using that by (auto intro!: wp_mono [OF wp_as_bf_thread_thread [OF that]])
  have "wp (for_each (bf_arrival svc m) as) (\<lambda>_ v. w_thread v = w_thread w) (\<lambda>_ _. True)
      (w\<lparr>w_env := e\<rparr>)" for m as e
    using arrival by (intro wp_for_each_inv) auto
  then have "wp (for_each (bf_arrival svc m) as)
      (\<lambda>_. wp take_lock (\<lambda>_ v. w_thread v = w_thread w \<and> w_locked v) (\<lambda>_ _. True)) (\<lambda>_ _. True)
      (w\<lparr>w_env := e\<rparr>)" for m as e
    by (rule wp_mono) (simp_all add: wp_take_lock)
  then show ?thesis
    unfolding lock_def by (simp add: wp_lock_with split: prod.split)
qed

text \<open>
  Partial correctness of a command that starts with taking the lock, for a busy local session.
\<close>

lemma wp_lock_busy:
  assumes "busy_local w" and "window u w"
    and "\<And>v. window u v \<Longrightarrow> w_locked v \<Longrightarrow> w_thread v = w_thread w \<Longrightarrow> Q () v"
    and "\<And>e v. E e v"
  shows "wp (lock svc) Q E w"
proof -
  have "busy_local u" using assms(1,2) window_busy by auto
  then have "wp (lock svc) (\<lambda>_. window u) (\<lambda>_. window u) w"
    using keeps_window_lock assms(2) by (auto simp: keeps_def)
  from wp_conj [OF this lock_holds] show ?thesis
    by (rule wp_mono) (use assms(3,4) in auto)
qed

text \<open>
  For a transaction that is not streaming the lock is always obtained: an abort then only marks
  the transaction.
\<close>

lemma bf_abort_total:
  assumes "busy_local v" "\<not> is_streaming (trx v)" "provider_loaded (w_ss v)" "w_locked v"
    and "window u v"
  shows "wp (trx_bf_abort svc q)
    (\<lambda>_ x. window u x \<and> w_locked x \<and> w_thread x = w_thread v) never v"
proof -
  have p: "bf_abort_possible (v\<lparr>w_env := e\<rparr>) = bf_abort_possible v" for e
    by (simp add: bf_abort_possible_def)
  have "window u (bf_marked svc (v\<lparr>w_env := e\<rparr>))" if "bf_abort_possible v" for e
    using assms(5) that by (intro window_marked) (simp_all add: p)
  then show ?thesis
    using assms by (auto simp: trx_bf_abort_def wp_simps wp_bf_abort_enter bf_marked_def
        busy_local_def is_streaming_def trx_push_state_def split: prod.split)
qed

lemma in_total_order_total:
  assumes abort: "\<And>v. busy_local v \<Longrightarrow> \<not> is_streaming (trx v) \<Longrightarrow> provider_loaded (w_ss v) \<Longrightarrow>
      w_locked v \<Longrightarrow> window u v \<Longrightarrow> w_thread v = t \<Longrightarrow>
      wp m (\<lambda>_ x. window u x \<and> w_locked x \<and> w_thread x = t) never v"
    and v: "busy_local v" "\<not> is_streaming (trx v)" "provider_loaded (w_ss v)" "w_locked v" "window u v"
      "w_thread v = t"
  shows "wp (in_total_order m) (\<lambda>_ x. window u x \<and> w_locked x \<and> w_thread x = t) never v"
proof -
  let ?v = "upd_trx (\<lambda>t. t\<lparr>bf_aborted_in_total_order := True\<rparr>) v"
  have "wp m (\<lambda>_ x. window u x \<and> w_locked x \<and> w_thread x = t) never ?v"
    by (rule abort) (use v in \<open>simp_all add: busy_local_def is_streaming_def window_bf_parts\<close>)
  then show ?thesis
    unfolding in_total_order_def wp_seq wp_modify wp_bind
    by (rule wp_mono) (auto simp: wp_simps window_bf_parts)
qed

lemma bf_arrival_total:
  assumes "busy_local v" "\<not> is_streaming (trx v)" "provider_loaded (w_ss v)" "window u v"
    and "\<not> w_locked v" "w_thread v = t"
  shows "wp (bf_arrival svc (trx_bf_abort svc) a)
    (\<lambda>_ x. window u x \<and> \<not> w_locked x \<and> w_thread x = t) never v"
proof -
  let ?m = "if snd a then in_total_order (trx_bf_abort svc (fst a)) else trx_bf_abort svc (fst a)"
  let ?b = "bf_thread svc"
  have abort: "wp (trx_bf_abort svc (fst a))
      (\<lambda>_ x. window u x \<and> w_locked x \<and> w_thread x = ?b) never x"
    if "busy_local x" "\<not> is_streaming (trx x)" "provider_loaded (w_ss x)" "w_locked x" "window u x"
      "w_thread x = ?b" for x
    using bf_abort_total [OF that(1-5), of svc "fst a"] that(6) by simp
  have "wp ?m (\<lambda>_ x. window u x \<and> w_locked x \<and> w_thread x = ?b) never
      (v\<lparr>w_thread := ?b, w_locked := True\<rparr>)"
  proof (cases "snd a")
    case True
    have "wp (in_total_order (trx_bf_abort svc (fst a)))
        (\<lambda>_ x. window u x \<and> w_locked x \<and> w_thread x = ?b) never
        (v\<lparr>w_thread := ?b, w_locked := True\<rparr>)"
      by (rule in_total_order_total [OF abort]) (use assms in \<open>simp_all add: busy_local_def\<close>)
    then show ?thesis using True by simp
  next
    case False
    have "wp (trx_bf_abort svc (fst a)) (\<lambda>_ x. window u x \<and> w_locked x \<and> w_thread x = ?b) never
        (v\<lparr>w_thread := ?b, w_locked := True\<rparr>)"
      by (rule abort) (use assms in \<open>simp_all add: busy_local_def\<close>)
    then show ?thesis using False by simp
  qed
  then have "wp ?m (\<lambda>_. wp (modify (\<lambda>v. v\<lparr>w_thread := t, w_locked := False\<rparr>))
      (\<lambda>_ x. window u x \<and> \<not> w_locked x \<and> w_thread x = t) never) never
      (v\<lparr>w_thread := ?b, w_locked := True\<rparr>)"
    by (rule wp_mono) (simp_all add: wp_simps)
  then show ?thesis
    using assms by (simp add: bf_arrival_def as_bf_thread_def wp_seq wp_when_st wp_fetch wp_modify)
qed

lemma wp_lock_total:
  assumes w: "busy_local w" "\<not> is_streaming (trx w)" "provider_loaded (w_ss w)" "\<not> w_locked w"
    and u: "window u w"
    and Q: "\<And>v. window u v \<Longrightarrow> w_locked v \<Longrightarrow> w_thread v = w_thread w \<Longrightarrow> Q () v"
  shows "wp (lock svc) Q E w"
proof -
  let ?I = "\<lambda>x. window u x \<and> \<not> w_locked x \<and> w_thread x = w_thread w"
  have still: "busy_local x \<and> \<not> is_streaming (trx x) \<and> provider_loaded (w_ss x)" if "window u x" for x
    using w(1-3) window_busy [OF u] window_busy [OF that] windowD(25,27) [OF u] windowD(25,27) [OF that]
    by simp
  have "wp (for_each (bf_arrival svc (trx_bf_abort svc)) as) (\<lambda>_. ?I) never (w\<lparr>w_env := e\<rparr>)" for as e
  proof (rule wp_for_each_inv)
    show "wp (bf_arrival svc (trx_bf_abort svc) x) (\<lambda>_. ?I) never v" if "?I v" for x v
      using still that by (intro bf_arrival_total) auto
    show "?I (w\<lparr>w_env := e\<rparr>)" using w(4) u by simp
  qed
  then have "wp (for_each (bf_arrival svc (trx_bf_abort svc)) as) (\<lambda>_. wp take_lock Q E) E
      (w\<lparr>w_env := e\<rparr>)" for as e
    by (rule wp_mono) (auto simp: wp_take_lock intro: Q)
  then show ?thesis
    using w(4) unfolding lock_def by (simp add: wp_lock_with split: prod.split)
qed

end
