(* ===== verification/Commit_Props.thy ===== *)
theory Commit_Props
  imports Bf_Window Transaction_Hooks
begin

text \<open>
  What the commit of a local transaction promises, with BF aborts arriving at every point where
  the client lock is free.
\<close>

section \<open>The outcome of certification\<close>

text \<open>
  The documented outcome per provider status: return code, next state and client error, from
  the state in which the thread finds the transaction after certification.
\<close>

definition cert_outcome :: "status \<Rightarrow> bool \<Rightarrow> bool \<Rightarrow> int \<times> trx_state" where
  "cert_outcome st xa aborted = (case st of
      success \<Rightarrow> if aborted then (1, s_must_replay) else (0, if xa then s_committing else s_preparing)
    | error_bf_abort \<Rightarrow> (1, s_must_replay)
    | error_certification_failed \<Rightarrow> (1, s_cert_failed)
    | error_connection_failed \<Rightarrow>
        (1, if xa then (if aborted then s_must_replay else s_prepared) else s_must_abort)
    | _ \<Rightarrow> (1, s_must_abort))"

definition cert_error :: "status \<Rightarrow> bool \<Rightarrow> client_error option" where
  "cert_error st aborted = (case st of
      success \<Rightarrow> None
    | error_bf_abort \<Rightarrow> None
    | error_certification_failed \<Rightarrow> Some e_deadlock_error
    | error_connection_failed \<Rightarrow> Some (if aborted then e_deadlock_error else e_error_during_commit)
    | _ \<Rightarrow> Some e_error_during_commit)"

text \<open>The statuses that the code handles when the transaction was BF aborted meanwhile.\<close>

definition bf_abort_status :: "status \<Rightarrow> bool" where
  "bf_abort_status st \<longleftrightarrow> st \<in> {success, error_bf_abort, error_certification_failed,
     error_connection_failed, error_provider_failed}"

text \<open>
  What the assertions of a debug build expect of the provider: a certified transaction has a
  seqno, one that was only warned about has none, and a BF aborted transaction is not reported
  with a status that is unrelated to the abort.
\<close>

definition cert_status_ok :: "'e services \<Rightarrow> status \<Rightarrow> 'e world \<Rightarrow> bool" where
  "cert_status_ok svc st w \<longleftrightarrow> (debug_build svc \<longrightarrow>
     (st = success \<longrightarrow> ordered (trx w)) \<and> (st = error_warning \<longrightarrow> \<not> ordered (trx w)) \<and>
     (tstate w = s_must_abort \<longrightarrow> bf_abort_status st))"

definition owner_locked :: "'e world \<Rightarrow> bool" where
  "owner_locked w \<longleftrightarrow> w_locked w \<and> w_thread w = owning_thread (w_cs w)"

lemma wp_override_error:
  "w_thread w = owning_thread (w_cs w) \<Longrightarrow> err \<noteq> e_success \<Longrightarrow>
   wp (override_error svc err st) Q E w =
     Q () (w_cs_update (\<lambda>c. c\<lparr>current_error := err, current_error_status := st\<rparr>) w)"
  by (simp add: override_error_def wp_simps)

lemma wp_set_state_owner:
  "owner_locked w \<Longrightarrow> (debug_build svc \<Longrightarrow> trx_allowed (tstate w) s) \<Longrightarrow>
   wp (set_state svc s) Q E w = Q () (in_state svc s w)"
  by (rule wp_set_state) (simp add: may_set_state_def owner_locked_def)

lemma certify_commit_result_spec:
  assumes "owner_locked w" and "tstate w = s_certifying \<or> tstate w = s_must_abort"
    and "cert_status_ok svc st w"
  shows "wp (certify_commit_result svc st)
    (\<lambda>ret v. (ret, tstate v) = cert_outcome st (is_xa (trx w)) (tstate w = s_must_abort) \<and>
       (case cert_error st (tstate w = s_must_abort) of None \<Rightarrow> current_error (w_cs v) = current_error (w_cs w)
        | Some e \<Rightarrow> current_error (w_cs v) = e) \<and>
       certified (trx v) = (st = success \<or> certified (trx w)) \<and> owner_locked v \<and>
       is_bf_immutable (trx v) = is_bf_immutable (trx w) \<and> trx_ws_meta (trx v) = trx_ws_meta (trx w) \<and>
       cs_mode (w_cs v) = cs_mode (w_cs w) \<and> cs_state (w_cs v) = cs_state (w_cs w) \<and>
       is_streaming (trx v) = is_streaming (trx w) \<and> is_xa (trx v) = is_xa (trx w) \<and>
       active (trx v) = active (trx w) \<and> provider_loaded (w_ss v) = provider_loaded (w_ss w))
    never w"
  using assms
  by (cases st) (auto simp: certify_commit_result_def cert_outcome_def cert_error_def
      cert_status_ok_def bf_abort_status_def must_abort_unless_aborted_def owner_locked_def
      wp_simps wp_set_state may_set_state_def wp_override_error is_xa_def is_streaming_def ordered_def
      active_def)

section \<open>A local transaction that is not streaming\<close>

definition plain_local :: "'e world \<Rightarrow> bool" where
  "plain_local w \<longleftrightarrow> busy_local w \<and> \<not> is_streaming (trx w) \<and> provider_loaded (w_ss w) \<and>
     active (trx w) \<and> \<not> is_bf_immutable (trx w) \<and> w_thread w = owning_thread (w_cs w)"

lemma plain_local_window:
  "window w v \<Longrightarrow> w_thread v = w_thread w \<Longrightarrow> plain_local w \<Longrightarrow> plain_local v"
  by (simp add: plain_local_def busy_local_def windowD)

lemma plain_local_simps [simp]:
  "plain_local (w\<lparr>w_locked := b\<rparr>) = plain_local w" "plain_local (w\<lparr>w_env := e\<rparr>) = plain_local w"
  "plain_local (in_state svc s w) = plain_local w"
  by (simp_all add: plain_local_def busy_local_def is_streaming_def active_def)

lemma owner_locked_simps [simp]:
  "owner_locked (w\<lparr>w_env := e\<rparr>) = owner_locked w" "owner_locked (in_state svc s w) = owner_locked w"
  by (simp_all add: owner_locked_def)

text \<open>Taking the lock again, for such a transaction.\<close>

lemma wp_lock_plain:
  assumes "plain_local w" and "\<not> w_locked w"
    and "\<And>v. window w v \<Longrightarrow> owner_locked v \<Longrightarrow> plain_local v \<Longrightarrow> Q () v"
  shows "wp (lock svc) Q E w"
proof (rule wp_lock_total [where u = w])
  show "Q () v" if "window w v" "w_locked v" "w_thread v = w_thread w" for v
    using that assms(1,3) plain_local_window [OF that(1,3)]
    by (auto simp: owner_locked_def plain_local_def windowD)
qed (use assms in \<open>simp_all add: plain_local_def\<close>)

lemma wp_wait_for_replayers:
  assumes "plain_local w"
    and "\<And>v. window w v \<Longrightarrow> owner_locked v \<Longrightarrow> plain_local v \<Longrightarrow> Q () v"
  shows "wp (wait_for_replayers svc) Q E w"
  unfolding wait_for_replayers_def unlock_def
  using assms by (auto simp: wp_simps intro!: wp_lock_plain)

lemma wp_abort_or_interrupt:
  assumes "owner_locked w" and "tstate w = s_executing \<or> tstate w = s_prepared \<or> tstate w = s_must_abort"
    and "\<And>e. tstate w \<noteq> s_must_abort \<Longrightarrow> Q False (w\<lparr>w_env := e\<rparr>)"
    and "\<And>v. tstate v = s_must_abort \<or> tstate w = s_prepared \<and> tstate v = s_prepared \<Longrightarrow>
      current_error (w_cs v) \<noteq> e_success \<Longrightarrow> owner_locked v \<Longrightarrow> trx_ws_meta (trx v) = trx_ws_meta (trx w) \<Longrightarrow>
      is_bf_immutable (trx v) = is_bf_immutable (trx w) \<Longrightarrow> certified (trx v) = certified (trx w) \<Longrightarrow>
      is_xa (trx v) = is_xa (trx w) \<Longrightarrow> plain_local v = plain_local w \<Longrightarrow> Q True v"
  shows "wp (abort_or_interrupt svc) Q E w"
  using assms
  by (auto simp: abort_or_interrupt_def wp_simps owner_locked_def wp_override_error wp_set_state
      may_set_state_def is_xa_def plain_local_def busy_local_def is_streaming_def active_def
      split: prod.split)

text \<open>
  What a debug build asserts of the provider, beyond the status of certification: rollback
  fragments can be replicated, and entering the commit order succeeds or reports a BF abort.
  A release build needs none of it.
\<close>

definition provider_contract :: "'e services \<Rightarrow> bool" where
  "provider_contract svc \<longleftrightarrow> (debug_build svc \<longrightarrow>
     (\<forall>c h f m b e. case prov_certify (prov svc) c h f m b e of ((st, _, m'), _) \<Rightarrow>
        bf_abort_status st \<and> (st = success \<longrightarrow> \<not> seqno_is_undefined (wsm_seqno m'))) \<and>
     (\<forall>i e. fst (prov_rollback (prov svc) i e) = success) \<and>
     (\<forall>h m e. fst (prov_commit_order_enter (prov svc) h m e) \<in> {success, error_bf_abort}))"

definition same_session :: "'e world \<Rightarrow> 'e world \<Rightarrow> bool" where
  "same_session w v \<longleftrightarrow> w_cs v = w_cs w \<and> w_locked v = w_locked w \<and> w_thread v = w_thread w \<and>
     provider_loaded (w_ss v) = provider_loaded (w_ss w)"

lemma plain_local_same: "same_session w v \<Longrightarrow> plain_local v = plain_local w"
  by (simp add: same_session_def plain_local_def busy_local_def)

lemma send_events_total:
  assumes "provider_loaded (w_ss w)"
  shows "wp (send_events svc is) (\<lambda>st v. same_session w v \<and>
    ((\<forall>i e. fst (prov_rollback (prov svc) i e) = success) \<longrightarrow> st = success)) never w"
  using assms
proof (induction "is" arbitrary: w)
  case Nil
  then show ?case by (simp add: wp_simps same_session_def)
next
  case (Cons i "is")
  obtain st e where r: "prov_rollback (prov svc) i (w_env w) = (st, e)"
    by (cases "prov_rollback (prov svc) i (w_env w)")
  let ?w = "upd_ss (\<lambda>s. s\<lparr>rollback_event_queue := tl (rollback_event_queue s)\<rparr>) (w\<lparr>w_env := e\<rparr>)"
  have "wp (send_events svc is) (\<lambda>st v. same_session ?w v \<and>
    ((\<forall>i e. fst (prov_rollback (prov svc) i e) = success) \<longrightarrow> st = success)) never ?w"
    using Cons by simp
  then have "wp (send_events svc is) (\<lambda>st v. same_session w v \<and>
    ((\<forall>i e. fst (prov_rollback (prov svc) i e) = success) \<longrightarrow> st = success)) never ?w"
    by (rule wp_mono) (simp_all add: same_session_def)
  then show ?case
    using Cons.prems r by (auto simp: wp_simps same_session_def) (metis fst_conv)+
qed

lemma wp_send_pending:
  assumes "provider_loaded (w_ss w)" and "provider_contract svc"
    and "\<And>st v. same_session w v \<Longrightarrow> (debug_build svc \<Longrightarrow> st = success) \<Longrightarrow> Q st v"
  shows "wp (send_pending_rollback_events svc) Q E w"
  unfolding send_pending_rollback_events_def wp_inspect
  by (rule wp_mono [OF send_events_total [OF assms(1)]])
     (use assms(2,3) in \<open>auto simp: provider_contract_def\<close>)

text \<open>How certification leaves the transaction.\<close>

definition certified_or_failed :: "'e services \<Rightarrow> int \<Rightarrow> 'e world \<Rightarrow> bool" where
  "certified_or_failed svc ret v \<longleftrightarrow> owner_locked v \<and> plain_local v \<and> \<not> is_xa (trx v) \<and>
     (ret = 0 \<and> tstate v = s_preparing \<and> certified (trx v) \<and> (debug_build svc \<longrightarrow> ordered (trx v)) \<or>
      ret = 1 \<and> prepare_failed_state (tstate v) \<and>
      (debug_build svc \<longrightarrow> tstate v = s_must_replay \<or> current_error (w_cs v) \<noteq> e_success))"

lemma certify_result_certified:
  assumes "owner_locked w" "plain_local w" "\<not> is_xa (trx w)"
    and "tstate w = s_certifying \<or> tstate w = s_must_abort"
    and "debug_build svc \<Longrightarrow> bf_abort_status st \<and> (st = success \<longrightarrow> ordered (trx w))"
  shows "wp (certify_commit_result svc st) (certified_or_failed svc) never w"
proof (rule wp_mono [OF certify_commit_result_spec])
  show "cert_status_ok svc st w"
    using assms(5) by (auto simp: cert_status_ok_def bf_abort_status_def)
  show "certified_or_failed svc ret v"
    if "(ret, tstate v) = cert_outcome st (is_xa (trx w)) (tstate w = s_must_abort) \<and>
       (case cert_error st (tstate w = s_must_abort) of None \<Rightarrow> current_error (w_cs v) = current_error (w_cs w)
        | Some e \<Rightarrow> current_error (w_cs v) = e) \<and>
       certified (trx v) = (st = success \<or> certified (trx w)) \<and> owner_locked v \<and>
       is_bf_immutable (trx v) = is_bf_immutable (trx w) \<and> trx_ws_meta (trx v) = trx_ws_meta (trx w) \<and>
       cs_mode (w_cs v) = cs_mode (w_cs w) \<and> cs_state (w_cs v) = cs_state (w_cs w) \<and>
       is_streaming (trx v) = is_streaming (trx w) \<and> is_xa (trx v) = is_xa (trx w) \<and>
       active (trx v) = active (trx w) \<and> provider_loaded (w_ss v) = provider_loaded (w_ss w)" for ret v
    using that assms
    by (cases st) (auto simp: certified_or_failed_def cert_outcome_def cert_error_def
        prepare_failed_state_def plain_local_def busy_local_def owner_locked_def ordered_def
        split: if_splits)
qed (use assms in auto)

lemma plain_local_upd:
  assumes "\<And>t. is_streaming (f t) = is_streaming t" "\<And>t. active (f t) = active t"
    "\<And>t. is_bf_immutable (f t) = is_bf_immutable t"
  shows "plain_local (upd_trx f w) = plain_local w"
  using assms by (simp add: plain_local_def busy_local_def)

lemma wp_must_abort_unless:
  assumes "owner_locked w" and "tstate w = s_must_abort \<or> bf_abort_allowed_state (tstate w)"
    and "tstate w = s_must_abort \<Longrightarrow> Q () w" and "tstate w \<noteq> s_must_abort \<Longrightarrow> Q () (in_state svc s_must_abort w)"
  shows "wp (must_abort_unless_aborted svc) Q E w"
  using assms by (auto simp: must_abort_unless_aborted_def wp_simps wp_set_state_owner)

lemma wp_lock_certifying:
  assumes "plain_local w" "\<not> w_locked w" "\<not> is_xa (trx w)" "tstate w = s_certifying"
    and "\<And>v. owner_locked v \<Longrightarrow> plain_local v \<Longrightarrow> \<not> is_xa (trx v) \<Longrightarrow>
      tstate v = s_certifying \<or> tstate v = s_must_abort \<Longrightarrow> ordered (trx v) = ordered (trx w) \<Longrightarrow> Q () v"
  shows "wp (lock svc) Q E w"
proof (rule wp_lock_plain [OF assms(1,2)])
  fix v assume v: "window w v" "owner_locked v" "plain_local v"
  show "Q () v"
    using window_state [OF v(1)] windowD(24,26) [OF v(1)] assms(3-5) v by auto
qed

lemma after_failed_data:
  assumes "owner_locked v" "plain_local v" "\<not> is_xa (trx v)" "tstate v = s_certifying \<or> tstate v = s_must_abort"
  shows "wp (seq (override_error svc e_size_exceeded_error error_size_exceeded)
    (seq (must_abort_unless_aborted svc) skip)) (\<lambda>_. wp (return 1) (certified_or_failed svc) never) never v"
  using assms
  by (auto simp: wp_override_error owner_locked_def must_abort_unless_aborted_def wp_simps
      wp_set_state may_set_state_def certified_or_failed_def plain_local_def busy_local_def
      prepare_failed_state_def)

lemma after_certify:
  assumes "owner_locked v" "plain_local v" "\<not> is_xa (trx v)" "tstate v = s_certifying \<or> tstate v = s_must_abort"
    and "debug_build svc \<Longrightarrow> bf_abort_status st \<and> (st = success \<longrightarrow> ordered (trx v))"
  shows "wp (seq (assert_svc svc ''state() == s_certifying || state() == s_must_abort''
      (\<lambda>w. tstate w = s_certifying \<or> tstate w = s_must_abort)) skip)
    (\<lambda>_. wp (certify_commit_result svc st) (certified_or_failed svc) never) never v"
  using assms certify_result_certified [OF assms(1-4), of svc st] by (simp add: wp_simps)

lemma provider_contract_certify:
  "provider_contract svc \<Longrightarrow> debug_build svc \<Longrightarrow>
   prov_certify (prov svc) c h f m b e = ((st, h', m'), e') \<Longrightarrow>
   bf_abort_status st \<and> (st = success \<longrightarrow> \<not> seqno_is_undefined (wsm_seqno m'))"
  unfolding provider_contract_def by (metis (mono_tags, lifting) case_prod_conv)

lemma replicate_commit_spec:
  assumes w: "plain_local w" "\<not> w_locked w" "\<not> is_xa (trx w)" "tstate w = s_certifying"
    and c: "provider_contract svc"
  shows "wp (replicate_commit svc cb) (certified_or_failed svc) never w"
proof -
  note failed = wp_lock_certifying [OF _ _ _ _ after_failed_data]
  note finish = wp_lock_certifying [OF _ _ _ _ after_certify]
  note status = provider_contract_certify [OF c]
  show ?thesis
    using w
    by (cases "implicit_deps (trx w)";
        auto simp: replicate_commit_def certify_call_def wp_simps plain_local_def [of w]
        split: prod.split intro!: failed finish dest!: status)
       (auto simp: plain_local_def busy_local_def is_streaming_def active_def is_xa_def ordered_def)
qed

lemma start_certifying_spec:
  assumes w: "owner_locked w" "plain_local w" "\<not> is_xa (trx w)" "tstate w = s_executing"
    and c: "provider_contract svc"
  shows "wp (start_certifying svc cb) (certified_or_failed svc) never w"
proof -
  let ?v = "(in_state svc s_certifying w)\<lparr>w_locked := False\<rparr>"
  have "wp (bind (send_pending_rollback_events svc) (\<lambda>st.
      branch (\<lambda>w. st \<noteq> success \<and> \<not> is_xa (trx w)) (fail_must_abort svc None)
        (replicate_commit svc cb))) (certified_or_failed svc) never ?v"
    unfolding wp_bind
  proof (rule wp_send_pending)
    fix st x assume x: "same_session ?v x" and st: "debug_build svc \<Longrightarrow> st = success"
    have facts: "plain_local x" "\<not> w_locked x" "\<not> is_xa (trx x)" "tstate x = s_certifying"
      using w x plain_local_same [OF x] by (auto simp: same_session_def)
    have failed: "wp (fail_must_abort svc None) (certified_or_failed svc) never x" if "\<not> debug_build svc"
      using that unfolding fail_must_abort_def
      by (simp add: wp_simps, intro wp_lock_certifying [OF facts])
         (simp add: wp_simps wp_set_state may_set_state_def certified_or_failed_def
           prepare_failed_state_def)
    show "wp (branch (\<lambda>w. st \<noteq> success \<and> \<not> is_xa (trx w)) (fail_must_abort svc None)
          (replicate_commit svc cb)) (certified_or_failed svc) never x"
      using failed st replicate_commit_spec [OF facts c] by (auto simp: wp_simps)
  qed (use w c in \<open>simp_all add: plain_local_def\<close>)
  then show ?thesis
    using w
    by (simp add: start_certifying_def wp_seq wp_block wp_set_state_owner unlock_def wp_modify wp_skip)
qed

lemma certify_unless_aborted_spec:
  assumes w: "owner_locked w" "plain_local w" "\<not> is_xa (trx w)"
      "tstate w = s_executing \<or> tstate w = s_must_abort"
    and c: "provider_contract svc"
  shows "wp (certify_unless_aborted svc cb) (certified_or_failed svc) never w"
  unfolding certify_unless_aborted_def wp_bind
proof (rule wp_abort_or_interrupt [OF w(1)])
  show "tstate w \<noteq> s_must_abort \<Longrightarrow> wp (if False then
      seq (when_st (\<lambda>w. is_xa (trx w) \<and> tstate w = s_must_abort) (set_state svc s_must_replay)) (return 1)
      else start_certifying svc cb) (certified_or_failed svc) never (w\<lparr>w_env := e\<rparr>)" for e
    using start_certifying_spec [OF _ _ _ _ c, of "w\<lparr>w_env := e\<rparr>"] w by auto
qed (use w in \<open>auto simp: wp_simps certified_or_failed_def prepare_failed_state_def\<close>)

lemma certify_commit_spec:
  assumes w: "plain_local w" "owner_locked w" "\<not> is_xa (trx w)" "tstate w = s_executing"
    and c: "provider_contract svc"
  shows "wp (certify_commit svc cb) (certified_or_failed svc) never w"
proof -
  have "wp (wait_for_replayers svc) (\<lambda>_. wp (block [assert_svc svc ''lock.owns_lock()'' w_locked])
      (\<lambda>_. wp (certify_unless_aborted svc cb) (certified_or_failed svc) never) never) never w"
  proof (rule wp_wait_for_replayers [OF w(1)])
    fix v assume v: "window w v" "owner_locked v" "plain_local v"
    have "wp (certify_unless_aborted svc cb) (certified_or_failed svc) never v"
      by (rule certify_unless_aborted_spec)
         (use v w(3,4) c windowD(26) [OF v(1)] window_state [OF v(1)] in auto)
    then show "wp (block [assert_svc svc ''lock.owns_lock()'' w_locked])
      (\<lambda>_. wp (certify_unless_aborted svc cb) (certified_or_failed svc) never) never v"
      using v(2) by (simp add: wp_simps owner_locked_def)
  qed
  then show ?thesis
    using w(1,2) unfolding certify_commit_def wp_seq wp_block(2) wp_assert
    by (simp add: owner_locked_def plain_local_def)
qed

section \<open>The hooks up to the commit order\<close>

lemma before_prepare_spec:
  assumes "plain_local w" "owner_locked w" "\<not> is_xa (trx w)" "tstate w = s_executing"
    and "provider_contract svc"
  shows "wp (trx_before_prepare svc cb) (certified_or_failed svc) never w"
proof -
  have final: "wp (certify_commit svc cb) (\<lambda>ret. wp (seq (assert_svc svc ''prepared or failed''
              (\<lambda>w. ret = 0 \<and> tstate w = s_preparing \<or> prepare_failed_state (tstate w)))
       (if ret \<noteq> 0 then
          seq (assert_svc svc ''state() == s_must_replay || current_error()''
                 (\<lambda>w. tstate w = s_must_replay \<or> current_error (w_cs w) \<noteq> e_success))
              (return 1)
        else return ret)) (\<lambda>ret. wp (seq (assert_svc svc ''preparing or failed''
               (\<lambda>w. tstate w = s_preparing \<or> is_xa (trx w) \<and> tstate w = s_replaying \<or>
                    ret \<noteq> 0 \<and> (prepare_failed_state (tstate w) \<or> tstate w = s_aborted)))
            (return ret)) (certified_or_failed svc) never) never) never w"
    by (rule wp_mono [OF certify_commit_spec [OF assms]])
       (auto simp: certified_or_failed_def wp_simps)
  have "cs_mode (w_cs w) = m_local" "w_locked w" "\<not> is_streaming (trx w)"
    using assms(1,2) by (simp_all add: plain_local_def busy_local_def owner_locked_def)
  with final show ?thesis
    unfolding trx_before_prepare_def before_prepare_local_def
    using assms by (simp add: wp_seq wp_block wp_skip wp_assert wp_branch wp_bind wp_fetch wp_return)
qed

definition ready_or_failed :: "'e services \<Rightarrow> int \<Rightarrow> 'e world \<Rightarrow> bool" where
  "ready_or_failed svc ret v \<longleftrightarrow> owner_locked v \<and> plain_local v \<and> \<not> is_xa (trx v) \<and>
     (ret = 0 \<and> tstate v = s_committing \<and> certified (trx v) \<and> (debug_build svc \<longrightarrow> ordered (trx v)) \<or>
      ret = 1 \<and> prepare_failed_state (tstate v) \<and>
      (debug_build svc \<longrightarrow> tstate v = s_must_replay \<or> current_error (w_cs v) \<noteq> e_success))"

lemma after_prepare_spec:
  assumes "certified_or_failed svc 0 w"
  shows "wp (trx_after_prepare svc) (ready_or_failed svc) never w"
  using assms
  by (auto simp: certified_or_failed_def ready_or_failed_def trx_after_prepare_def wp_simps
      owner_locked_def wp_set_state may_set_state_def)

lemma before_commit_prepare_spec:
  assumes "plain_local w" "owner_locked w" "\<not> is_xa (trx w)"
    and "tstate w = s_executing \<or> tstate w = s_must_abort \<or>
      tstate w = s_committing \<and> certified (trx w) \<and> (debug_build svc \<longrightarrow> ordered (trx w))"
    and "provider_contract svc"
  shows "wp (before_commit_prepare svc cb) (ready_or_failed svc) never w"
proof (cases "tstate w = s_executing")
  case True
  have "wp (or_else (trx_before_prepare svc cb) (trx_after_prepare svc)) (ready_or_failed svc) never w"
    unfolding wp_or_else
  proof (rule wp_mono [OF before_prepare_spec [OF assms(1-3) True assms(5)]])
    fix ret v assume v: "certified_or_failed svc ret v"
    show "(if ret \<noteq> 0 then ready_or_failed svc 1
        else wp (trx_after_prepare svc) (\<lambda>s. ready_or_failed svc (bool_int (s \<noteq> 0))) never) v"
    proof (cases "ret = 0")
      case True
      have "wp (trx_after_prepare svc) (\<lambda>s. ready_or_failed svc (bool_int (s \<noteq> 0))) never v"
        by (rule wp_mono [OF after_prepare_spec]) (use v True in \<open>auto simp: ready_or_failed_def\<close>)
      then show ?thesis using True by simp
    qed (use v in \<open>auto simp: certified_or_failed_def ready_or_failed_def\<close>)
  qed simp
  then have "wp (or_else (trx_before_prepare svc cb) (trx_after_prepare svc)) (\<lambda>ret.
      wp (seq (assert_svc svc ''committing or failed''
              (\<lambda>w. ret = 0 \<and> (tstate w = s_committing \<or> tstate w = s_prepared) \<or>
                   prepare_failed_state (tstate w) \<or> tstate w = s_aborted))
           (return ret)) (ready_or_failed svc) never) never w"
    by (rule wp_mono) (auto simp: wp_simps ready_or_failed_def)
  then show ?thesis
    using True unfolding before_commit_prepare_def wp_fetch by (simp add: wp_bind)
next
  case False
  then show ?thesis
    using assms
    by (auto simp: before_commit_prepare_def wp_simps ready_or_failed_def prepare_failed_state_def
        owner_locked_def wp_override_error wp_set_state may_set_state_def plain_local_def
        busy_local_def is_streaming_def)
qed

text \<open>
  After the commit order was entered. The provider reports success, so the transaction commits,
  unless a BF abort marked it before the thread took the lock.
\<close>

definition entered_or_failed :: "'e services \<Rightarrow> int \<Rightarrow> 'e world \<Rightarrow> bool" where
  "entered_or_failed svc ret v \<longleftrightarrow> owner_locked v \<and> plain_local v \<and> \<not> is_xa (trx v) \<and>
     (ret = 0 \<and> certified (trx v) \<and> (debug_build svc \<longrightarrow> ordered (trx v)) \<and>
        (tstate v = s_committing \<or> tstate v = s_must_abort \<and> bf_abort_state (trx v) = s_committing) \<or>
      ret = 1 \<and> (debug_build svc \<longrightarrow> prepare_failed_state (tstate v) \<and>
        (tstate v = s_must_replay \<or> current_error (w_cs v) \<noteq> e_success)))"

lemma window_bf_state:
  "window w v \<Longrightarrow> tstate v = tstate w \<or> tstate v = s_must_abort \<and> bf_abort_state (trx v) = tstate w"
  by (auto elim!: windowE simp: bf_change_def set_bf_parts_def)

lemma enter_commit_order_spec:
  assumes w: "ready_or_failed svc 0 w" and c: "provider_contract svc"
  shows "wp (enter_commit_order svc) (entered_or_failed svc) never w"
proof -
  have facts: "plain_local w" "owner_locked w" "\<not> is_xa (trx w)" "tstate w = s_committing"
    "certified (trx w)" "debug_build svc \<longrightarrow> ordered (trx w)"
    using w by (auto simp: ready_or_failed_def)
  obtain st e where st: "prov_commit_order_enter (prov svc) (trx_ws_handle (trx w))
      (trx_ws_meta (trx w)) (w_env w) = (st, e)"
    by fastforce
  have ok: "debug_build svc \<Longrightarrow> st \<in> {success, error_bf_abort}"
    using c st unfolding provider_contract_def by (metis fst_conv)
  let ?w = "w\<lparr>w_locked := False, w_env := e\<rparr>"
  have "wp (lock svc) (\<lambda>_. wp (if st = success then return 0
       else if st = error_bf_abort then
         seq (block [must_abort_unless_aborted svc, set_state svc s_must_replay]) (return 1)
       else seq (unreachable svc) (return 1)) (entered_or_failed svc) never) never ?w"
  proof (rule wp_lock_plain)
    fix v assume v: "window ?w v" "owner_locked v" "plain_local v"
    have "certified (trx v)" "debug_build svc \<longrightarrow> ordered (trx v)" "\<not> is_xa (trx v)"
      "tstate v = s_committing \<or> tstate v = s_must_abort \<and> bf_abort_state (trx v) = s_committing"
      using facts windowD(16,24,26) [OF v(1)] window_bf_state [OF v(1)] by auto
    then show "wp (if st = success then return 0
       else if st = error_bf_abort then
         seq (block [must_abort_unless_aborted svc, set_state svc s_must_replay]) (return 1)
       else seq (unreachable svc) (return 1)) (entered_or_failed svc) never v"
      using v(2,3) ok
      by (auto simp: wp_simps entered_or_failed_def must_abort_unless_aborted_def wp_set_state_owner
          prepare_failed_state_def)
  qed (use facts in auto)
  then show ?thesis
    using facts st unfolding enter_commit_order_def commit_order_enter_call_def unlock_def
    by (simp add: wp_seq wp_block wp_skip wp_assert wp_modify wp_bind wp_fetch wp_provider_call
        plain_local_def)
qed

lemma before_commit_local_spec:
  assumes "plain_local w" "owner_locked w" "\<not> is_xa (trx w)"
    and "tstate w = s_executing \<or> tstate w = s_must_abort \<or>
      tstate w = s_committing \<and> certified (trx w) \<and> (debug_build svc \<longrightarrow> ordered (trx w))"
    and c: "provider_contract svc"
  shows "wp (before_commit_local svc cb) (entered_or_failed svc) never w"
  unfolding before_commit_local_def wp_bind
proof (rule wp_mono [OF before_commit_prepare_spec [OF assms]])
  fix ret v assume v: "ready_or_failed svc ret v"
  have enter: "ret = 0 \<Longrightarrow> wp (enter_commit_order svc) (entered_or_failed svc) never v"
    using v enter_commit_order_spec [OF _ c] by blast
  have "tstate v \<noteq> s_prepared" "ret \<noteq> 0 \<Longrightarrow> entered_or_failed svc ret v"
    using v by (auto simp: ready_or_failed_def entered_or_failed_def prepare_failed_state_def)
  then show "wp (branch (\<lambda>w. ret = 0 \<and> tstate w = s_prepared)
       (bind (certify_commit svc False) (\<lambda>ret.
         seq (assert_svc svc ''committing or failed''
                (\<lambda>w. ret = 0 \<and> tstate w = s_committing \<or> prepare_failed_state (tstate w) \<or>
                     tstate w = s_prepared))
             (return ret)))
       (return ret)) (\<lambda>ret. wp (if ret = 0 then enter_commit_order svc else return ret)
         (entered_or_failed svc) never) never v"
    using enter by (simp add: wp_branch wp_return)
qed simp

text \<open>The result of \<^verbatim>\<open>before_commit\<close>, with the lock released again.\<close>

definition commit_ready_or_failed :: "'e services \<Rightarrow> int \<Rightarrow> 'e world \<Rightarrow> bool" where
  "commit_ready_or_failed svc ret v \<longleftrightarrow> \<not> w_locked v \<and> w_thread v = owning_thread (w_cs v) \<and>
     cs_mode (w_cs v) = m_local \<and> \<not> is_streaming (trx v) \<and> provider_loaded (w_ss v) \<and>
     (ret = 0 \<and> certified (trx v) \<and> (debug_build svc \<longrightarrow> ordered (trx v)) \<and>
        (tstate v = s_committing \<and> is_bf_immutable (trx v) \<or>
         tstate v = s_must_abort \<and> bf_abort_state (trx v) = s_committing) \<or>
      ret = 1 \<and> \<not> is_bf_immutable (trx v) \<and> (debug_build svc \<longrightarrow> prepare_failed_state (tstate v) \<and>
        (tstate v = s_must_replay \<or> current_error (w_cs v) \<noteq> e_success)))"

lemma before_commit_spec:
  assumes w: "plain_local w" "\<not> w_locked w" "\<not> is_xa (trx w)"
      "tstate w = s_executing \<or> tstate w = s_must_abort \<or>
       tstate w = s_committing \<and> certified (trx w) \<and> (debug_build svc \<longrightarrow> ordered (trx w))"
    and c: "provider_contract svc"
  shows "wp (trx_before_commit svc cb) (commit_ready_or_failed svc) never w"
  unfolding trx_before_commit_def with_lock_def wp_seq
proof (rule wp_lock_plain [OF w(1,2)])
  fix v assume v: "window w v" "owner_locked v" "plain_local v"
  have st: "tstate v = s_executing \<or> tstate v = s_must_abort \<or>
      tstate v = s_committing \<and> certified (trx v) \<and> (debug_build svc \<longrightarrow> ordered (trx v))"
    and xa: "\<not> is_xa (trx v)"
    using w(3,4) windowD(16,24,26) [OF v(1)] window_state [OF v(1)] by auto
  have mode: "cs_mode (w_cs v) = m_local" using v(3) by (simp add: plain_local_def busy_local_def)
  have result: "entered_or_failed svc ret u \<Longrightarrow>
      wp (seq (when_st (\<lambda>w. ret = 0 \<and> tstate w = s_committing)
             (modify (upd_trx (\<lambda>t. t\<lparr>is_bf_immutable := True\<rparr>)))) (return ret))
        (\<lambda>a. wp unlock (\<lambda>_. commit_ready_or_failed svc a) never) never u" for ret u
    by (auto simp: wp_simps entered_or_failed_def commit_ready_or_failed_def unlock_def
         owner_locked_def ordered_def plain_local_def busy_local_def is_streaming_def)
  have body: "wp (before_commit_local svc cb) (\<lambda>ret. wp (seq
        (when_st (\<lambda>w. ret = 0 \<and> tstate w = s_committing)
             (modify (upd_trx (\<lambda>t. t\<lparr>is_bf_immutable := True\<rparr>)))) (return ret))
        (\<lambda>a. wp unlock (\<lambda>_. commit_ready_or_failed svc a) never) never) never v"
    by (rule wp_mono [OF before_commit_local_spec [OF v(3,2) xa st c]]) (erule result, simp)
  show "wp (finally_do (seq (block
       [assert_svc svc ''mode() != m_toi'' (\<lambda>w. cs_mode (w_cs w) \<noteq> m_toi),
        assert_svc svc ''state before commit''
          (\<lambda>w. tstate w \<in> {s_executing, s_prepared, s_committing, s_must_abort, s_replaying}),
        assert_svc svc ''certified()''
          (\<lambda>w. tstate w \<noteq> s_committing \<and> tstate w \<noteq> s_replaying \<or> certified (trx w))])
     (bind (fetch (\<lambda>w. cs_mode (w_cs w)) (\<lambda>m. case m of
          m_local \<Rightarrow> before_commit_local svc cb
        | m_high_priority \<Rightarrow> before_commit_high_priority svc
        | _ \<Rightarrow> seq (unreachable svc) (return 1))) (\<lambda>ret.
      seq (when_st (\<lambda>w. ret = 0 \<and> tstate w = s_committing)
             (modify (upd_trx (\<lambda>t. t\<lparr>is_bf_immutable := True\<rparr>))))
          (return ret)))) unlock) (commit_ready_or_failed svc) never v"
    by (rule wp_finally_total)
       (use st mode body in \<open>auto simp: wp_seq wp_skip wp_assert wp_bind wp_fetch\<close>)
qed

end
