(* ===== verification/Transaction_Props.thy ===== *)
theory Transaction_Props
  imports Commit_Props Client_State
begin

text \<open>
  Further facts on transactions: paths of the state machine, and what the hooks after
  certification do: ordered commit, the end of a commit, rollback, replay and clean-up.
\<close>

section \<open>Paths of the state machine\<close>

text \<open>A path of the state machine does not pass through a final state.\<close>

lemma path_not_final:
  "successively trx_allowed (h @ [s]) \<Longrightarrow> s_committed \<notin> set h \<and> s_aborted \<notin> set h"
  by (induction h) (auto simp: successively_Cons hd_append split: if_splits)

text \<open>The only way from \<open>s_must_abort\<close> to \<open>s_committed\<close> leads through \<open>s_replaying\<close>.\<close>

definition doomed :: "trx_state \<Rightarrow> bool" where
  "doomed s \<longleftrightarrow> s \<in> {s_must_abort, s_cert_failed, s_aborting, s_aborted, s_must_replay}"

lemma doomed_step: "trx_allowed s t \<Longrightarrow> doomed s \<Longrightarrow> doomed t \<or> t = s_replaying"
  by (cases s) (auto simp: doomed_def)

lemma doomed_path:
  "successively trx_allowed (s # h) \<Longrightarrow> doomed s \<Longrightarrow> s_replaying \<notin> set h \<Longrightarrow> \<forall>t\<in>set h. doomed t"
proof (induction h arbitrary: s)
  case (Cons t h)
  then have "doomed t" using doomed_step [of s t] by auto
  then show ?case using Cons by auto
qed simp

lemma path_replayed:
  assumes "successively trx_allowed (h @ [s])" "s_must_abort \<in> set h" "s = s_committed"
  shows "s_replaying \<in> set h"
proof (rule ccontr)
  assume no: "s_replaying \<notin> set h"
  obtain a b where h: "h = a @ s_must_abort # b" using assms(2) by (auto dest: split_list)
  have "successively trx_allowed (s_must_abort # b @ [s])"
    using assms(1) h by (simp add: successively_append_iff)
  then have "\<forall>t\<in>set (b @ [s]). doomed t"
    by (rule doomed_path) (use no h assms(3) in \<open>auto simp: doomed_def\<close>)
  then show False using assms(3) by (simp add: doomed_def)
qed

section \<open>Transactions that cannot be BF aborted\<close>

text \<open>
  Once the transaction is immutable, inactive or in a state in which aborts are refused, the
  aborts of other threads leave it alone, apart from the flag that a refused total order abort
  clears.
\<close>

definition undisturbed :: "'e world \<Rightarrow> 'e world \<Rightarrow> bool" where
  "undisturbed w v \<longleftrightarrow>
     (\<exists>b. w_cs v = (w_cs w)\<lparr>cs_transaction := (trx w)\<lparr>bf_aborted_in_total_order := b\<rparr>\<rparr>) \<and>
     w_ss v = w_ss w \<and> w_self v = w_self w \<and> w_thread v = w_thread w"

lemma undisturbed_refl: "undisturbed w w"
  by (auto simp: undisturbed_def intro: exI [of _ "bf_aborted_in_total_order (trx w)"])

lemma undisturbed_simps [simp]:
  "undisturbed w (v\<lparr>w_env := e\<rparr>) = undisturbed w v" "undisturbed w (v\<lparr>w_locked := b\<rparr>) = undisturbed w v"
  "undisturbed (w\<lparr>w_env := e\<rparr>) v = undisturbed w v" "undisturbed (w\<lparr>w_locked := b\<rparr>) v = undisturbed w v"
  by (simp_all add: undisturbed_def)

lemma undisturbedD:
  assumes "undisturbed w v"
  shows "tstate v = tstate w" "certified (trx v) = certified (trx w)" "is_xa (trx v) = is_xa (trx w)"
    "is_streaming (trx v) = is_streaming (trx w)" "is_bf_immutable (trx v) = is_bf_immutable (trx w)"
    "active (trx v) = active (trx w)" "trx_ws_meta (trx v) = trx_ws_meta (trx w)"
    "trx_ws_handle (trx v) = trx_ws_handle (trx w)" "ordered (trx v) = ordered (trx w)"
    "trx_state_hist (trx v) = trx_state_hist (trx w)" "bf_abort_client_state (trx v) = bf_abort_client_state (trx w)"
    "apply_error_buf (trx v) = apply_error_buf (trx w)"
    "trx_streaming_context (trx v) = trx_streaming_context (trx w)"
    "bf_abort_possible v = bf_abort_possible w"
    "cs_mode (w_cs v) = cs_mode (w_cs w)" "cs_state (w_cs v) = cs_state (w_cs w)"
    "current_error (w_cs v) = current_error (w_cs w)"
    "last_written_gtid (w_cs v) = last_written_gtid (w_cs w)"
    "owning_thread (w_cs v) = owning_thread (w_cs w)" "w_ss v = w_ss w" "w_thread v = w_thread w"
    "keep_command_error (w_cs v) = keep_command_error (w_cs w)"
    "toi_meta (w_cs v) = toi_meta (w_cs w)" "toi_mode (w_cs v) = toi_mode (w_cs w)"
    "nbo_meta (w_cs v) = nbo_meta (w_cs w)" "cs_id (w_cs v) = cs_id (w_cs w)"
  using assms by (auto simp: undisturbed_def is_xa_def is_streaming_def active_def ordered_def bf_abort_possible_def)

lemma undisturbed_flag:
  "undisturbed w v \<Longrightarrow> undisturbed w (upd_trx (\<lambda>t. t\<lparr>bf_aborted_in_total_order := b\<rparr>) v)"
  by (auto simp: undisturbed_def comp_def intro: exI [of _ b])

lemma bf_abort_possible_frame:
  "bf_abort_possible (w\<lparr>w_env := e\<rparr>) = bf_abort_possible w"
  "bf_abort_possible (w\<lparr>w_locked := b\<rparr>) = bf_abort_possible w"
  "bf_abort_possible (w\<lparr>w_thread := t\<rparr>) = bf_abort_possible w"
  "bf_abort_possible (upd_trx (\<lambda>t. t\<lparr>bf_aborted_in_total_order := b\<rparr>) w) = bf_abort_possible w"
  by (simp_all add: bf_abort_possible_def active_def)

lemma bf_abort_refused:
  "\<not> bf_abort_possible w \<Longrightarrow> w_locked w \<Longrightarrow> trx_bf_abort svc q w = (Inr False, w)"
proof -
  assume a: "\<not> bf_abort_possible w" "w_locked w"
  have "wp (trx_bf_abort svc q) (\<lambda>r v. r = False \<and> v = w) never w"
    using a by (simp add: trx_bf_abort_def wp_simps wp_bf_abort_enter)
  then show ?thesis by (auto simp: wp_returns_iff)
qed

lemma refused_arrival:
  assumes "\<not> bf_abort_possible v" "undisturbed w v" "\<not> w_locked v"
  shows "wp (bf_arrival svc (trx_bf_abort svc) a)
    (\<lambda>_ x. \<not> bf_abort_possible x \<and> undisturbed w x \<and> \<not> w_locked x \<and> w_env x = w_env v) never v"
proof -
  have wp_abort: "wp (trx_bf_abort svc q) Q E x = Q False x" if "\<not> bf_abort_possible x" "w_locked x" for q Q E x
    using bf_abort_refused [OF that, of svc q] by (simp add: wp_def)
  have p: "\<not> bf_abort_possible (upd_trx (\<lambda>t. t\<lparr>bf_aborted_in_total_order := b\<rparr>) v)" for b
    using assms(1) by (simp add: bf_abort_possible_def active_def)
  show ?thesis
  proof (cases "snd a")
    case True
    then show ?thesis
      using assms p undisturbed_flag [OF assms(2), of False]
      by (simp add: bf_arrival_def as_bf_thread_def in_total_order_def wp_simps wp_abort
          bf_abort_possible_frame comp_def)
  next
    case False
    then show ?thesis
      using assms by (simp add: bf_arrival_def as_bf_thread_def wp_simps wp_abort
          bf_abort_possible_frame)
  qed
qed

lemma wp_lock_quiet_env:
  assumes "\<not> w_locked w" "\<not> bf_abort_possible w"
    and Q: "\<And>v. undisturbed w v \<Longrightarrow> w_locked v \<Longrightarrow> w_env v = snd (bf_arrivals svc (w_env w)) \<Longrightarrow> Q () v"
  shows "wp (lock svc) Q E w"
proof -
  let ?I = "\<lambda>e x. \<not> bf_abort_possible x \<and> undisturbed w x \<and> \<not> w_locked x \<and> w_env x = e"
  have "wp (for_each (bf_arrival svc (trx_bf_abort svc)) as) (\<lambda>_. ?I e) never (w\<lparr>w_env := e\<rparr>)" for as e
  proof (rule wp_for_each_inv)
    show "wp (bf_arrival svc (trx_bf_abort svc) x) (\<lambda>_. ?I e) never v" if "?I e v" for x v
      by (rule wp_mono [OF refused_arrival]) (use that in auto)
    show "?I e (w\<lparr>w_env := e\<rparr>)" using assms(1,2) by (simp add: undisturbed_refl bf_abort_possible_def)
  qed
  then have "wp (for_each (bf_arrival svc (trx_bf_abort svc)) as) (\<lambda>_. wp take_lock Q E) E
      (w\<lparr>w_env := e\<rparr>)" if "snd (bf_arrivals svc (w_env w)) = e" for as e
    by (rule wp_mono) (use that in \<open>auto simp: wp_take_lock intro: Q\<close>)
  then show ?thesis
    using assms(1) unfolding lock_def by (simp add: wp_lock_with split: prod.split)
qed

lemma wp_lock_quiet:
  assumes "\<not> w_locked w" "\<not> bf_abort_possible w"
    and "\<And>v. undisturbed w v \<Longrightarrow> w_locked v \<Longrightarrow> Q () v"
  shows "wp (lock svc) Q E w"
  by (rule wp_lock_quiet_env) (use assms in auto)

lemma wp_with_lock_quiet:
  assumes "\<not> w_locked w" "\<not> bf_abort_possible w"
    and "\<And>v. undisturbed w v \<Longrightarrow> w_locked v \<Longrightarrow> wp m (\<lambda>a x. Q a (x\<lparr>w_locked := False\<rparr>)) never v"
  shows "wp (with_lock svc m) Q never w"
  unfolding with_lock_def wp_seq
proof (rule wp_lock_quiet [OF assms(1,2)])
  fix v assume "undisturbed w v" "w_locked v"
  then have "wp m (\<lambda>a. wp unlock (\<lambda>_. Q a) never) never v"
    using assms(3) by (simp add: unlock_def wp_modify [abs_def])
  then show "wp (finally_do m unlock) Q never v" by (rule wp_finally_total)
qed

section \<open>Commit\<close>

text \<open>A local transaction that is in the commit order and immutable, seen from its owner.\<close>

definition committing :: "trx_state \<Rightarrow> gtid \<Rightarrow> 'e world \<Rightarrow> bool" where
  "committing s g w \<longleftrightarrow> \<not> w_locked w \<and> w_thread w = owning_thread (w_cs w) \<and>
     cs_mode (w_cs w) = m_local \<and> tstate w = s \<and> is_bf_immutable (trx w) \<and>
     \<not> is_streaming (trx w) \<and> provider_loaded (w_ss w) \<and> wsm_gtid (trx_ws_meta (trx w)) = g \<and>
     \<not> seqno_is_undefined (gtid_seqno g)"

lemma committing_quiet: "committing s g w \<Longrightarrow> \<not> bf_abort_possible w \<and> \<not> w_locked w"
  by (simp add: committing_def bf_abort_possible_def)

lemma ordered_iff: "ordered t \<longleftrightarrow> \<not> seqno_is_undefined (gtid_seqno (wsm_gtid (trx_ws_meta t)))"
  by (simp add: ordered_def wsm_seqno_def)

text \<open>What the commit hooks leave alone of the session.\<close>

definition same_client_data :: "'e world \<Rightarrow> 'e world \<Rightarrow> bool" where
  "same_client_data w v \<longleftrightarrow> current_error (w_cs v) = current_error (w_cs w) \<and>
     last_written_gtid (w_cs v) = last_written_gtid (w_cs w) \<and> cs_state (w_cs v) = cs_state (w_cs w) \<and>
     w_ss v = w_ss w"

text \<open>A provider that lets an ordered transaction finish.\<close>

definition finishes_commits :: "'e services \<Rightarrow> bool" where
  "finishes_commits svc \<longleftrightarrow>
     (\<forall>h m b e. fst (prov_commit_order_leave (prov svc) h m b e) = 0) \<and>
     (\<forall>h e. fst (fst (prov_release (prov svc) h e)) = 0)"

lemma finishes_commitsE:
  assumes "finishes_commits svc"
  obtains e where "prov_commit_order_leave (prov svc) h m b x = (0, e)"
  using assms unfolding finishes_commits_def by (metis eq_fst_iff)

lemma finishes_releaseE:
  assumes "finishes_commits svc"
  obtains h' e where "prov_release (prov svc) h x = ((0, h'), e)"
  using assms unfolding finishes_commits_def by (metis eq_fst_iff)

lemma ordered_commit_spec:
  assumes "committing s_committing g w" and "finishes_commits svc"
  shows "wp (trx_ordered_commit svc)
    (\<lambda>ret v. ret = 0 \<and> committing s_ordered_commit g v \<and> same_client_data w v) never w"
  unfolding trx_ordered_commit_def
proof (rule wp_with_lock_quiet, goal_cases)
  case (3 v)
  obtain e where "prov_commit_order_leave (prov svc) (trx_ws_handle (trx v)) (trx_ws_meta (trx v))
      (apply_error_buf (trx v)) (w_env v) = (0, e)"
    using finishes_commitsE [OF assms(2)] .
  then show ?case
    using assms(1) undisturbedD [OF 3(1)] 3(2)
    by (simp add: wp_simps commit_order_leave_call_def committing_def ordered_iff wp_set_state
        may_set_state_def same_client_data_def)
qed (use committing_quiet [OF assms(1)] in simp_all)

lemma after_commit_spec:
  assumes "committing s_ordered_commit g w" and "finishes_commits svc"
  shows "wp (trx_after_commit svc)
    (\<lambda>ret v. ret = 0 \<and> committing s_committed g v \<and> same_client_data w v) never w"
  unfolding trx_after_commit_def
proof (rule wp_with_lock_quiet, goal_cases)
  case (3 v)
  obtain h e where "prov_release (prov svc) (trx_ws_handle (trx v)) (w_env v) = ((0, h), e)"
    using finishes_releaseE [OF assms(2)] .
  then show ?case
    using assms(1) undisturbedD [OF 3(1)] 3(2)
    by (simp add: wp_simps release_call_def committing_def wp_set_state is_streaming_def
        may_set_state_def same_client_data_def)
qed (use committing_quiet [OF assms(1)] in simp_all)

text \<open>The state of a transaction after clean-up.\<close>

definition cleaned :: "transaction \<Rightarrow> bool" where
  "cleaned t \<longleftrightarrow> \<not> active t \<and> trx_flags t = 0 \<and> \<not> certified t \<and> \<not> ordered t \<and> \<not> is_streaming t \<and>
     \<not> is_xa t \<and> \<not> bf_aborted t \<and> \<not> bf_aborted_in_total_order t \<and> \<not> is_bf_immutable t \<and>
     sr_keys t = [] \<and> trx_ws_handle t = ws_handle_default \<and> apply_error_buf t = []"

lemma cleaned_frame:
  "cleaned (t\<lparr>fragments_certified_for_statement := n\<rparr>) = cleaned t"
  by (simp add: cleaned_def active_def ordered_def is_streaming_def is_xa_def bf_aborted_def)

definition written :: "gtid \<Rightarrow> client_state \<Rightarrow> gtid" where
  "written g c = (if seqno_is_undefined (gtid_seqno g) then last_written_gtid c else g)"

definition gtid_grows :: "gtid \<Rightarrow> gtid \<Rightarrow> bool" where
  "gtid_grows l g \<longleftrightarrow> gtid_is_undefined l \<or> gtid_id l = gtid_id g \<and> gtid_seqno l \<le> gtid_seqno g"

lemma cleanup_spec:
  assumes "debug_build svc \<longrightarrow> tstate w = s_committed \<or> tstate w = s_aborted"
    and "debug_build svc \<and> ordered (trx w) \<longrightarrow>
      gtid_grows (last_written_gtid (w_cs w)) (wsm_gtid (trx_ws_meta (trx w)))"
  shows "wp (trx_cleanup svc)
    (\<lambda>_ v. cleaned (trx v) \<and> tstate v = tstate w \<and> trx_state_hist (trx v) = trx_state_hist (trx w) \<and>
       fragment_size (trx_streaming_context (trx v)) = fragment_size (trx_streaming_context (trx w)) \<and>
       last_written_gtid (w_cs v) = written (wsm_gtid (trx_ws_meta (trx w))) (w_cs w) \<and>
       current_error (w_cs v) = current_error (w_cs w) \<and> cs_state (w_cs v) = cs_state (w_cs w) \<and>
       cs_mode (w_cs v) = cs_mode (w_cs w) \<and> owning_thread (w_cs v) = owning_thread (w_cs w) \<and>
       keep_command_error (w_cs v) = keep_command_error (w_cs w) \<and>
       w_ss v = w_ss w \<and> w_locked v = w_locked w \<and> w_thread v = w_thread w) never w"
  using assms
  by (auto simp: trx_cleanup_def wp_simps update_last_written_gtid_def Let_def cleaned_def written_def
      gtid_grows_def reset_transaction_def active_def ordered_def wsm_seqno_def ws_meta_default_def
      is_streaming_def sc_cleanup_def is_xa_def xid_null_def xid_is_null_def bf_aborted_def
      gtid_undefined_def seqno_undefined_def seqno_is_undefined_def)

text \<open>
  The end of the statement: from \<open>s_committed\<close> there is nothing to do but to clean up. The
  aborts of other threads are refused throughout.
\<close>

lemma after_statement_committed_spec:
  assumes "committing s_committed g w"
    and "debug_build svc \<longrightarrow> gtid_grows (last_written_gtid (w_cs w)) g"
    and "\<And>e. \<not> cl_is_explicit_xa (client_ops svc) e"
  shows "wp (trx_after_statement svc) (\<lambda>ret v. ret = 0 \<and> tstate v = s_committed \<and> cleaned (trx v) \<and>
    last_written_gtid (w_cs v) = g \<and> current_error (w_cs v) = current_error (w_cs w) \<and>
    cs_state (w_cs v) = cs_state (w_cs w) \<and> \<not> w_locked v) never w"
  unfolding trx_after_statement_def
proof (rule wp_with_lock_quiet, goal_cases)
  case (3 v)
  note facts = undisturbedD [OF 3(1)]
  have cleanup: "wp (trx_cleanup svc) (\<lambda>_ x. cleaned (trx x) \<and> tstate x = s_committed \<and>
      last_written_gtid (w_cs x) = g \<and> current_error (w_cs x) = current_error (w_cs w) \<and>
      cs_state (w_cs x) = cs_state (w_cs w)) never v"
    by (rule wp_mono [OF cleanup_spec])
       (use assms(1,2) facts in \<open>auto simp: committing_def ordered_iff written_def\<close>)
  show ?case
    using assms(1,3) facts 3(2)
    by (simp add: wp_simps after_statement_locked_def after_statement_switch_def committing_def
        release_aborted_def conclude_statement_def)
       (rule wp_mono [OF cleanup], auto simp: wp_simps cleaned_frame)
qed (use committing_quiet [OF assms(1)] in simp_all)

end
