(* ===== verification/Rollback_Props.thy ===== *)
theory Rollback_Props
  imports Transaction_Props
begin

text \<open>
  Rollback of a local transaction that is not streaming, from the hooks up to the end of the
  statement, and replay; with BF aborts arriving at every point where the client lock is free.
\<close>

section \<open>Rollback\<close>

text \<open>
  Where the rollback of a local transaction that is not streaming leads: a certified transaction
  that was told to abort has to be replayed, every other one is aborted.
\<close>

definition rollback_target :: "transaction \<Rightarrow> trx_state \<Rightarrow> trx_state" where
  "rollback_target t s = (if s = s_must_replay \<or> s = s_must_abort \<and> certified t then s_must_replay
     else s_aborting)"

text \<open>The same when an abort may arrive before the rollback takes the lock.\<close>

definition rollback_targets :: "transaction \<Rightarrow> trx_state set" where
  "rollback_targets t = insert (rollback_target t (trx_state t))
     (if bf_abort_allowed_state (trx_state t) then {rollback_target t s_must_abort} else {})"

definition rollback_allowed :: "trx_state \<Rightarrow> bool" where
  "rollback_allowed s \<longleftrightarrow> s \<in> {s_executing, s_preparing, s_prepared, s_must_abort, s_aborting,
     s_cert_failed, s_must_replay}"

lemma before_rollback_local_spec:
  assumes "owner_locked v" "\<not> is_streaming (trx v)" "rollback_allowed (tstate v)"
  shows "wp (before_rollback_local svc) (\<lambda>_ x. tstate x = rollback_target (trx v) (tstate v) \<and>
    owner_locked x \<and> (w_cs x)\<lparr>cs_transaction := trx v\<rparr> = w_cs v \<and> w_ss x = w_ss v \<and>
    (trx x)\<lparr>trx_state := trx_state (trx v), trx_state_hist := trx_state_hist (trx v)\<rparr> = trx v) never v"
  using assms
  by (cases "tstate v")
     (simp_all add: before_rollback_local_def wp_simps rollback_streaming_def wp_set_state_owner
       rollback_target_def rollback_allowed_def owner_locked_def is_streaming_def wp_set_state may_set_state_def
       trx_push_state_def)

lemma rolled_back_frame:
  assumes "(w_cs x)\<lparr>cs_transaction := trx v\<rparr> = w_cs v"
    and "(trx x)\<lparr>trx_state := trx_state (trx v), trx_state_hist := trx_state_hist (trx v)\<rparr> = trx v"
  shows "cs_mode (w_cs x) = cs_mode (w_cs v) \<and> current_error (w_cs x) = current_error (w_cs v) \<and>
    is_streaming (trx x) = is_streaming (trx v) \<and> certified (trx x) = certified (trx v) \<and>
    trx_ws_meta (trx x) = trx_ws_meta (trx v) \<and> cs_state (w_cs x) = cs_state (w_cs v)"
  using arg_cong [OF assms(1), of cs_state] arg_cong [OF assms(1), of cs_mode] arg_cong [OF assms(1), of current_error]
    arg_cong [OF assms(2), of is_streaming] arg_cong [OF assms(2), of certified]
    arg_cong [OF assms(2), of trx_ws_meta]
  by (simp add: is_streaming_def)

lemma before_rollback_spec:
  assumes w: "plain_local w" "\<not> w_locked w" "rollback_allowed (tstate w)"
  shows "wp (trx_before_rollback svc) (\<lambda>ret v. ret = 0 \<and> \<not> w_locked v \<and>
    tstate v \<in> rollback_targets (trx w) \<and>
    cs_mode (w_cs v) = m_local \<and> cs_state (w_cs v) = cs_state (w_cs w) \<and>
    w_thread v = owning_thread (w_cs v) \<and> \<not> is_streaming (trx v) \<and>
    certified (trx v) = certified (trx w) \<and> current_error (w_cs v) = current_error (w_cs w) \<and>
    trx_ws_meta (trx v) = trx_ws_meta (trx w) \<and> provider_loaded (w_ss v)) never w"
  unfolding trx_before_rollback_def with_lock_def wp_seq
proof (rule wp_lock_plain [OF w(1,2)], rule wp_finally_total, goal_cases)
  case (1 v)
  have st: "tstate v = tstate w \<or> tstate v = s_must_abort \<and> bf_abort_allowed_state (tstate w)"
    using window_state [OF 1(1)] by (auto simp: bf_abort_possible_def)
  have allowed: "rollback_allowed (tstate v)" "\<not> is_streaming (trx v)" "cs_mode (w_cs v) = m_local"
    "provider_loaded (w_ss v)"
    using st w(3) 1(3) by (auto simp: rollback_allowed_def plain_local_def busy_local_def)
  have same: "certified (trx v) = certified (trx w)" "current_error (w_cs v) = current_error (w_cs w)"
    "trx_ws_meta (trx v) = trx_ws_meta (trx w)" "cs_state (w_cs v) = cs_state (w_cs w)"
    using windowD [OF 1(1)] by auto
  have target: "rollback_target (trx v) (tstate v) \<in> rollback_targets (trx w)"
    using st same(1) by (auto simp: rollback_target_def rollback_targets_def)
  show ?case
    using allowed
    by (simp add: wp_seq wp_block wp_skip wp_assert wp_fetch rollback_allowed_def)
       (rule wp_mono [OF before_rollback_local_spec [OF 1(2) allowed(2,1)]],
        use allowed same target in \<open>auto simp: wp_simps unlock_def owner_locked_def dest: rolled_back_frame\<close>)
qed

lemma after_rollback_spec:
  assumes "\<not> w_locked w" "w_thread w = owning_thread (w_cs w)" "\<not> is_streaming (trx w)"
    and "tstate w = s_aborting \<or> tstate w = s_must_replay"
  shows "wp (trx_after_rollback svc) (\<lambda>ret v. ret = 0 \<and> \<not> w_locked v \<and>
    tstate v = (if tstate w = s_aborting then s_aborted else s_must_replay) \<and>
    cs_mode (w_cs v) = cs_mode (w_cs w) \<and> cs_state (w_cs v) = cs_state (w_cs w) \<and>
    w_thread v = owning_thread (w_cs v) \<and> \<not> is_streaming (trx v) \<and>
    certified (trx v) = certified (trx w) \<and> current_error (w_cs v) = current_error (w_cs w) \<and>
    trx_ws_meta (trx v) = trx_ws_meta (trx w) \<and> provider_loaded (w_ss v) = provider_loaded (w_ss w)) never w"
  unfolding trx_after_rollback_def
proof (rule wp_with_lock_quiet, goal_cases)
  case (3 v)
  then show ?case
    using assms undisturbedD [OF 3(1)]
    by (auto simp: wp_simps wp_set_state may_set_state_def is_streaming_def)
qed (use assms in \<open>auto simp: bf_abort_possible_def\<close>)


text \<open>
  What \<^verbatim>\<open>client_service::bf_rollback\<close> promises: the DBMS rolls the transaction back through the
  rollback hooks. \<open>rolled_back\<close> is how the hooks leave a transaction that was not certified.
\<close>

definition rolled_back :: "'e world \<Rightarrow> 'e world \<Rightarrow> bool" where
  "rolled_back w v \<longleftrightarrow> \<not> w_locked v \<and> tstate v = s_aborted \<and> cs_mode (w_cs v) = m_local \<and>
     cs_state (w_cs v) = cs_state (w_cs w) \<and> w_thread v = owning_thread (w_cs v) \<and>
     \<not> is_streaming (trx v) \<and> current_error (w_cs v) = current_error (w_cs w) \<and>
     trx_ws_meta (trx v) = trx_ws_meta (trx w) \<and> provider_loaded (w_ss v)"

definition rollback_contract :: "'e services \<Rightarrow> bool" where
  "rollback_contract svc \<longleftrightarrow>
     (\<forall>u. plain_local u \<and> \<not> w_locked u \<and> \<not> certified (trx u) \<and> cs_state (w_cs u) = s_exec \<and>
        rollback_allowed (tstate u) \<and> tstate u \<noteq> s_must_replay \<longrightarrow>
        wp (cl_bf_rollback (client_ops svc)) (\<lambda>ret v. ret = 0 \<and> rolled_back u v) never u)"

lemma rollback_hooks_total:
  assumes "plain_local u" "\<not> w_locked u" "\<not> certified (trx u)" "cs_state (w_cs u) = s_exec"
    "rollback_allowed (tstate u)" "tstate u \<noteq> s_must_replay"
  shows "wp (bind (client_before_rollback svc) (\<lambda>r. if r \<noteq> 0 then return 1
       else bind (client_after_rollback svc) (\<lambda>r. return (bool_int (r \<noteq> 0)))))
     (\<lambda>ret v. ret = 0 \<and> rolled_back u v) never u"
proof -
  have target: "s \<in> rollback_targets (trx u) \<Longrightarrow> s = s_aborting" for s
    using assms(3,6) by (auto simp: rollback_targets_def rollback_target_def split: if_splits)
  have after: "wp (client_after_rollback svc)
      (\<lambda>r v. r = 0 \<and> rolled_back u v) never v"
    if v: "\<not> w_locked v \<and> tstate v \<in> rollback_targets (trx u) \<and>
      cs_mode (w_cs v) = m_local \<and> cs_state (w_cs v) = cs_state (w_cs u) \<and>
      w_thread v = owning_thread (w_cs v) \<and> \<not> is_streaming (trx v) \<and>
      certified (trx v) = certified (trx u) \<and> current_error (w_cs v) = current_error (w_cs u) \<and>
      trx_ws_meta (trx v) = trx_ws_meta (trx u) \<and> provider_loaded (w_ss v)" for v
  proof -
    have "tstate v = s_aborting" using v target by blast
    then have "wp (trx_after_rollback svc) (\<lambda>r v. r = 0 \<and> rolled_back u v) never v"
      by (intro wp_mono [OF after_rollback_spec]) (use v in \<open>auto simp: rolled_back_def\<close>)
    then show ?thesis
      using v assms(4) by (simp add: client_after_rollback_def wp_simps)
  qed
  have before: "wp (client_before_rollback svc) (\<lambda>ret v. ret = 0 \<and> \<not> w_locked v \<and>
      tstate v \<in> rollback_targets (trx u) \<and> cs_mode (w_cs v) = m_local \<and>
      cs_state (w_cs v) = cs_state (w_cs u) \<and> w_thread v = owning_thread (w_cs v) \<and>
      \<not> is_streaming (trx v) \<and> certified (trx v) = certified (trx u) \<and>
      current_error (w_cs v) = current_error (w_cs u) \<and>
      trx_ws_meta (trx v) = trx_ws_meta (trx u) \<and> provider_loaded (w_ss v)) never u"
    using before_rollback_spec [OF assms(1,2,5), of svc] assms(1,4)
    by (simp add: client_before_rollback_def wp_seq wp_block wp_skip wp_assert plain_local_def)
  show ?thesis
    unfolding wp_bind
  proof (rule wp_mono [OF before], goal_cases)
    case (1 r v)
    then have "wp (client_after_rollback svc) (\<lambda>r v. r = 0 \<and> rolled_back u v) never v"
      using after by blast
    then have "wp (client_after_rollback svc)
        (\<lambda>r. wp (return (bool_int (r \<noteq> 0))) (\<lambda>ret v. ret = 0 \<and> rolled_back u v) never) never v"
      by (rule wp_mono) (simp_all add: wp_return)
    then show ?case using 1 by (simp add: wp_bind)
  qed simp
qed

section \<open>The end of a statement whose transaction was told to abort\<close>

lemma plain_local_error:
  "plain_local (w_cs_update (\<lambda>c. c\<lparr>current_error := x, current_error_status := y\<rparr>) w) = plain_local w"
  by (simp add: plain_local_def busy_local_def)

text \<open>The transaction is aborted, the lock is held, and the client has an error to report.\<close>

definition abort_reported :: "'e world \<Rightarrow> 'e world \<Rightarrow> bool" where
  "abort_reported w v \<longleftrightarrow> tstate v = s_aborted \<and> owner_locked v \<and>
     current_error (w_cs v) = (if current_error (w_cs w) = e_success then e_deadlock_error
       else current_error (w_cs w)) \<and>
     cs_state (w_cs v) = cs_state (w_cs w) \<and> cs_mode (w_cs v) = m_local \<and> \<not> is_streaming (trx v) \<and>
     trx_ws_meta (trx v) = trx_ws_meta (trx w) \<and> provider_loaded (w_ss v)"

lemma after_statement_rollback_spec:
  assumes "plain_local w" "owner_locked w" "cs_state (w_cs w) = s_exec" "\<not> certified (trx w)"
    and "tstate w = s_must_abort \<or> tstate w = s_cert_failed" and c: "rollback_contract svc"
  shows "wp (after_statement_rollback svc) (\<lambda>ret v. ret = 0 \<and> abort_reported w v) never w"
proof -
  let ?u = "if current_error (w_cs w) = e_success
    then w_cs_update (\<lambda>c. c\<lparr>current_error := e_deadlock_error, current_error_status := success\<rparr>) w else w"
  let ?v = "?u\<lparr>w_locked := False\<rparr>"
  have roll: "wp (cl_bf_rollback (client_ops svc)) (\<lambda>ret v. ret = 0 \<and> rolled_back ?v v) never ?v"
    using c assms(1,3-5) unfolding rollback_contract_def
    by (elim allE impE) (auto simp: plain_local_error rollback_allowed_def)
  have rest: "wp (lock svc) (\<lambda>_. wp (branch (\<lambda>w. tstate w \<noteq> s_must_replay) (return 0)
      (after_statement_replay svc)) (\<lambda>ret v. ret = 0 \<and> abort_reported w v) never) never x"
    if x: "rolled_back ?v x" for x
  proof (rule wp_lock_quiet, goal_cases)
    case (3 y)
    then show ?case
      using undisturbedD [OF 3(1)] x
      by (auto simp: wp_simps rolled_back_def abort_reported_def owner_locked_def split: if_splits)
  qed (use x in \<open>auto simp: rolled_back_def bf_abort_possible_def\<close>)
  have "wp (cl_bf_rollback (client_ops svc)) (\<lambda>ret. wp (seq (lock svc)
      (branch (\<lambda>w. tstate w \<noteq> s_must_replay) (return ret) (after_statement_replay svc)))
      (\<lambda>ret v. ret = 0 \<and> abort_reported w v) never) never ?v"
    by (rule wp_mono [OF roll]) (use rest in \<open>simp_all add: wp_seq\<close>)
  then show ?thesis
    using assms(2) unfolding after_statement_rollback_def
    by (auto simp: wp_simps wp_override_error owner_locked_def unlock_def split: if_splits)
qed

text \<open>After that the write set handle is released and the transaction cleaned up.\<close>

lemma release_aborted_spec:
  assumes w: "abort_reported u w" "\<not> ordered (trx w)" "finishes_commits svc"
  shows "wp (release_aborted svc 0) (\<lambda>ret v. ret = 0 \<and> abort_reported u v \<and> \<not> ordered (trx v)) never w"
proof -
  obtain h e where r: "prov_release (prov svc) (trx_ws_handle (trx w)) (w_env w) = ((0, h), e)"
    using finishes_releaseE [OF w(3)] .
  let ?w = "upd_trx (\<lambda>t. t\<lparr>trx_ws_handle := h\<rparr>) (w\<lparr>w_locked := False, w_env := e\<rparr>)"
  have "wp (lock svc) (\<lambda>_ v. abort_reported u v \<and> \<not> ordered (trx v)) never ?w"
  proof (rule wp_lock_quiet, goal_cases)
    case (3 y)
    then show ?case
      using undisturbedD [OF 3(1)] w(1,2) by (auto simp: abort_reported_def owner_locked_def ordered_def
          is_streaming_def)
  qed (use w(1) in \<open>auto simp: abort_reported_def bf_abort_possible_def\<close>)
  then have "wp (lock svc) (\<lambda>_. wp skip (\<lambda>_. wp (return 0)
      (\<lambda>ret v. ret = 0 \<and> abort_reported u v \<and> \<not> ordered (trx v)) never) never) never ?w"
    by (rule wp_mono) (simp_all add: wp_skip wp_return)
  then show ?thesis
    using w(1,2) r
    by (simp add: release_aborted_def wp_branch wp_bind wp_seq wp_return wp_block unlock_def wp_modify
        release_call_def wp_fetch wp_provider_call wp_set_handle wp_skip abort_reported_def)
qed

lemma conclude_aborted_spec:
  assumes "abort_reported u w" "\<not> ordered (trx w)" and "\<And>e. \<not> cl_is_explicit_xa (client_ops svc) e"
  shows "wp (conclude_statement svc 0) (\<lambda>ret v. ret = 0 \<and> tstate v = s_aborted \<and> cleaned (trx v) \<and>
    w_locked v \<and> current_error (w_cs v) \<noteq> e_success \<and>
    (current_error (w_cs u) \<noteq> e_success \<longrightarrow> current_error (w_cs v) = current_error (w_cs u)) \<and>
    cs_state (w_cs v) = cs_state (w_cs u)) never w"
  using assms
  by (simp add: conclude_statement_def wp_simps abort_reported_def)
     (rule wp_mono [OF cleanup_spec], auto simp: wp_simps cleaned_frame owner_locked_def)

lemma after_statement_abort_spec:
  assumes w: "plain_local w" "\<not> w_locked w" "cs_state (w_cs w) = s_exec" "\<not> certified (trx w)"
      "\<not> ordered (trx w)" "tstate w = s_must_abort \<or> tstate w = s_cert_failed"
    and c: "rollback_contract svc" "finishes_commits svc" "\<And>e. \<not> cl_is_explicit_xa (client_ops svc) e"
  shows "wp (trx_after_statement svc) (\<lambda>ret v. ret = 0 \<and> tstate v = s_aborted \<and> cleaned (trx v) \<and>
    \<not> w_locked v \<and> current_error (w_cs v) \<noteq> e_success \<and>
    (current_error (w_cs w) \<noteq> e_success \<longrightarrow> current_error (w_cs v) = current_error (w_cs w)) \<and>
    cs_state (w_cs v) = s_exec) never w"
  unfolding trx_after_statement_def
proof (rule wp_with_lock_quiet, goal_cases)
  case (3 v)
  note facts = undisturbedD [OF 3(1)]
  have v: "plain_local v" "owner_locked v" "cs_state (w_cs v) = s_exec" "\<not> certified (trx v)"
    "tstate v = s_must_abort \<or> tstate v = s_cert_failed" "\<not> ordered (trx v)"
    using w facts 3(2) by (auto simp: plain_local_def busy_local_def owner_locked_def)
  let ?post = "\<lambda>ret x. ret = 0 \<and> tstate x = s_aborted \<and> cleaned (trx x) \<and>
    \<not> w_locked (x\<lparr>w_locked := False\<rparr>) \<and> current_error (w_cs x) \<noteq> e_success \<and>
    (current_error (w_cs w) \<noteq> e_success \<longrightarrow> current_error (w_cs x) = current_error (w_cs w)) \<and>
    cs_state (w_cs x) = s_exec"
  have end_ok: "wp (conclude_statement svc 0) ?post never x" if "abort_reported v x" "\<not> ordered (trx x)" for x
    by (rule wp_mono [OF conclude_aborted_spec [OF that c(3)]]) (use facts v in auto)
  have rel_ok: "wp (release_aborted svc 0) (\<lambda>ret. wp (conclude_statement svc ret) ?post never) never x"
    if "abort_reported v x" for x
  proof (rule wp_mono [OF release_aborted_spec [OF that _ c(2)]], goal_cases)
    case 1
    then show ?case using that v(6) by (simp add: abort_reported_def ordered_def)
  next
    case (2 ret y)
    then show ?case using end_ok by blast
  qed simp
  have "wp (after_statement_rollback svc) (\<lambda>ret. wp (seq (assert_svc svc ''state after the switch''
             (\<lambda>w. tstate w \<in> {s_executing, s_prepared, s_committed, s_aborted, s_must_replay}))
      (bind (release_aborted svc ret) (conclude_statement svc))) ?post never) never v"
  proof (rule wp_mono [OF after_statement_rollback_spec [OF v(1-5) c(1)]], goal_cases)
    case (1 ret y)
    then have "tstate y = s_aborted" by (simp add: abort_reported_def)
    then show ?case using 1 rel_ok by (simp add: wp_seq wp_assert wp_bind)
  qed simp
  moreover have "cs_mode (w_cs v) = m_local" using v(1) by (simp add: plain_local_def busy_local_def)
  ultimately show ?case
    using v(5) 3(2)
    by (elim disjE) (simp_all add: after_statement_locked_def after_statement_switch_def wp_seq wp_skip
        wp_assert wp_bind wp_branch wp_return wp_fetch)
qed (use w in \<open>auto simp: bf_abort_possible_def\<close>)

section \<open>Replay\<close>

text \<open>
  What \<^verbatim>\<open>client_service::replay\<close> promises: the replaying of the transaction happens in another
  context and reports how it ended; this session is left as it was.
\<close>

definition replay_contract :: "'e services \<Rightarrow> bool" where
  "replay_contract svc \<longleftrightarrow> (\<forall>u. tstate u = s_replaying \<and> \<not> w_locked u \<longrightarrow>
     wp (cl_replay (client_ops svc)) (\<lambda>_ v. undisturbed u v \<and> \<not> w_locked v) never u)"

text \<open>The possible ends of a replay: return code, transaction state and client error.\<close>

definition replay_outcomes :: "client_error \<Rightarrow> (int \<times> trx_state \<times> client_error) set" where
  "replay_outcomes err = {(0, s_committed, err), (1, s_aborted, e_deadlock_error), (0, s_replaying, err)}"

lemma replay_result_spec:
  assumes "owner_locked v" "tstate v = s_replaying" "\<not> is_streaming (trx v)" "provider_loaded (w_ss v)"
  shows "wp (replay_result svc st)
    (\<lambda>ret x. (ret, tstate x, current_error (w_cs x)) =
         (if st = success then (0, s_committed, current_error (w_cs v))
          else if st = error_certification_failed then (1, s_aborted, e_deadlock_error)
          else (0, s_replaying, current_error (w_cs v))) \<and>
       owner_locked x \<and> trx_ws_meta (trx x) = trx_ws_meta (trx v)) never v"
  using assms
  by (cases st) (simp_all add: replay_result_def wp_simps owner_locked_def wp_set_state
      may_set_state_def wp_override_error release_call_def is_streaming_def split: prod.splits)

lemma replay_spec:
  assumes w: "owner_locked w" "tstate w = s_must_replay" "\<not> is_streaming (trx w)" "provider_loaded (w_ss w)"
    and c: "replay_contract svc"
  shows "wp (replay svc) (\<lambda>ret x. (ret, tstate x, current_error (w_cs x)) \<in> replay_outcomes (current_error (w_cs w)) \<and>
     owner_locked x \<and> trx_ws_meta (trx x) = trx_ws_meta (trx w)) never w"
proof -
  let ?u = "(in_state svc s_replaying w)\<lparr>w_locked := False\<rparr>"
  let ?post = "\<lambda>ret x. (ret, tstate x, current_error (w_cs x)) \<in> replay_outcomes (current_error (w_cs w)) \<and>
     owner_locked x \<and> trx_ws_meta (trx x) = trx_ws_meta (trx w)"
  have replay: "wp (cl_replay (client_ops svc)) (\<lambda>_ v. undisturbed ?u v \<and> \<not> w_locked v) never ?u"
    using c [unfolded replay_contract_def, rule_format, of ?u] by simp
  have rest: "wp (lock svc) (\<lambda>_. wp (replay_result svc st) ?post never) never
      (v\<lparr>w_env := e\<rparr>)" if v: "undisturbed ?u v" "\<not> w_locked v" for st v e
  proof (rule wp_lock_quiet, goal_cases)
    case (3 y)
    have "owner_locked y" "tstate y = s_replaying" "\<not> is_streaming (trx y)" "provider_loaded (w_ss y)"
      "current_error (w_cs y) = current_error (w_cs w)" "trx_ws_meta (trx y) = trx_ws_meta (trx w)"
      using undisturbedD [OF 3(1)] undisturbedD [OF v(1)] w 3(2) by (auto simp: owner_locked_def)
    then show ?case
      by (intro wp_mono [OF replay_result_spec]) (auto simp: replay_outcomes_def)
  qed (use v undisturbedD [OF v(1)] in \<open>auto simp: bf_abort_possible_def\<close>)
  have "wp (cl_replay (client_ops svc)) (\<lambda>st. wp (seq (block
         [client_event svc Signal_replayed, only_if False (stop_streaming_client svc), lock svc])
       (replay_result svc st)) ?post never) never ?u"
  proof (rule wp_mono [OF replay], goal_cases)
    case (1 st v)
    have "wp (lock svc) (\<lambda>_. wp skip (\<lambda>_. wp (replay_result svc st) ?post never) never) never
        (v\<lparr>w_env := cl_event (client_ops svc) Signal_replayed (w_env v)\<rparr>)"
      by (rule wp_mono [OF rest]) (use 1 in \<open>auto simp: wp_skip\<close>)
    then show ?case by (simp add: wp_seq wp_client_event only_if_def wp_skip)
  qed simp
  then show ?thesis
    using w by (simp add: replay_def wp_seq wp_set_state_owner wp_fetch unlock_def wp_modify wp_bind)
qed

end
