(* ===== verification/Instances.thy ===== *)
theory Instances
  imports Mock Rollback_Props
begin

text \<open>
  A quiet environment in which the contracts of the provider and of the DBMS hold: the mock
  services with a provider that certifies and orders everything at seqno 1. It shows that the
  hypotheses of the theorems can be met together, and serves their concrete instances.
\<close>

definition ordered_meta :: ws_meta where
  "ordered_meta = ws_meta_default\<lparr>wsm_gtid := \<lparr>gtid_id = group_id, gtid_seqno = 1\<rparr>\<rparr>"

definition calm_services :: "bool \<Rightarrow> mock services" where
  "calm_services debug = (mock_services debug 1)\<lparr>prov := mock_provider
     \<lparr>prov_certify := \<lambda>c h f m b e. ((success, h, ordered_meta), e),
      prov_commit_order_enter := \<lambda>h m e. (success, e),
      prov_commit_order_leave := \<lambda>h m err e. (0, e),
      prov_release := \<lambda>h e. ((0, h), e)\<rparr>\<rparr>"

lemma calm_simps [simp]:
  "debug_build (calm_services d) = d"
  "cl_is_explicit_xa (client_ops (calm_services d)) e = False"
  "cl_bf_rollback (client_ops (calm_services d)) = mock_bf_rollback (mock_services d 0)"
  "cl_replay (client_ops (calm_services d)) =
     env_call (\<lambda>e. (Mock.replay_result e, e\<lparr>replays := Suc (replays e)\<rparr>))"
  by (simp_all add: calm_services_def mock_with_def mock_client_service_def Let_def)

lemma calm_xa: "\<not> cl_is_explicit_xa (client_ops (calm_services d)) e"
  by simp

lemma calm_provider: "provider_contract (calm_services d)"
  by (simp add: provider_contract_def calm_services_def ordered_meta_def wsm_seqno_def
      bf_abort_status_def mock_provider_def mock_rollback_def seqno_is_undefined_def seqno_undefined_def)

lemma calm_finishes: "finishes_commits (calm_services d)"
  by (simp add: finishes_commits_def calm_services_def)

lemma calm_rollback: "rollback_contract (calm_services d)"
  unfolding rollback_contract_def calm_simps mock_bf_rollback_def
  by (intro allI impI rollback_hooks_total) auto

lemma calm_replay: "replay_contract (calm_services d)"
  by (simp add: replay_contract_def wp_simps undisturbed_refl)

lemmas calm = calm_provider calm_finishes calm_rollback calm_replay calm_xa

text \<open>A session in the middle of a command, with a transaction in a given state.\<close>

definition trx_world :: "trx_state \<Rightarrow> mock world" where
  "trx_world s = w_cs_update (\<lambda>c. c\<lparr>cs_state := s_exec,
     cs_transaction := transaction_init\<lparr>trx_id := 1, trx_state := s, trx_ws_handle := ws_handle_of 1\<rparr>\<rparr>)
     (mock_world mock_init)"

definition locked_world :: "trx_state \<Rightarrow> mock world" where
  "locked_world s = (trx_world s)\<lparr>w_locked := True\<rparr>"

text \<open>The same with a certified transaction that is in the commit order.\<close>

definition committing_world :: "trx_state \<Rightarrow> mock world" where
  "committing_world s = upd_trx (\<lambda>t. t\<lparr>certified := True, trx_ws_meta := ordered_meta,
     is_bf_immutable := True\<rparr>) (trx_world s)"

lemmas world_defs = trx_world_def locked_world_def committing_world_def mock_world_def mock_server_def
  client_state_init_def server_state_init_def transaction_init_def

lemma trx_world_simps [simp]:
  "plain_local (trx_world s)" "\<not> w_locked (trx_world s)" "\<not> is_xa (trx (trx_world s))"
  "tstate (trx_world s) = s" "cs_state (w_cs (trx_world s)) = s_exec" "\<not> certified (trx (trx_world s))"
  "\<not> ordered (trx (trx_world s))" "current_error (w_cs (trx_world s)) = e_success"
  "owner_locked (locked_world s)" "tstate (locked_world s) = s" "\<not> is_streaming (trx (locked_world s))"
  "provider_loaded (w_ss (locked_world s))" "current_error (w_cs (locked_world s)) = e_success"
  "committing s \<lparr>gtid_id = group_id, gtid_seqno = 1\<rparr> (committing_world s)"
  "last_written_gtid (w_cs (committing_world s)) = gtid_undefined"
  "current_error (w_cs (committing_world s)) = e_success"
  by (simp_all add: world_defs plain_local_def busy_local_def is_streaming_def active_def is_xa_def
      streaming_context_default_def xid_null_def xid_is_null_def ordered_def wsm_seqno_def ordered_meta_def
      ws_meta_default_def gtid_undefined_def seqno_undefined_def seqno_is_undefined_def owner_locked_def
      transaction_id_undefined_def committing_def)

lemma calm_bf_abort: "prov_bf_abort (prov (calm_services d)) = mock_bf_abort"
  by (simp add: calm_services_def mock_provider_def)

end
