(* ===== verification/Transaction_Theorems.thy ===== *)
theory Transaction_Theorems
  imports Instances
begin

text \<open>
  The properties of a transaction: certification, commit, BF abort, rollback and replay. BF aborts
  by other threads may arrive at every point where the client lock is free. A statement
  \<open>m w = (Inr r, v)\<close> says that the operation \<open>m\<close>, called in the world \<open>w\<close>, returns \<open>r\<close> and
  leaves the world \<open>v\<close>: it neither throws nor fails an assertion nor waits forever.
\<close>

section \<open>Commit\<close>







section \<open>BF abort\<close>



text \<open>
  C8. A BF abort of a transaction that is not active, that entered the commit order, or that is in
  a state in which aborts are refused returns false and changes nothing; the provider is not
  asked. This holds for local and for high priority transactions, streaming or not.
\<close>

theorem bf_abort_no_effect:
  assumes "w_locked w"
    and "\<not> active (trx w) \<or> is_bf_immutable (trx w) \<or>
      tstate w \<notin> {s_executing, s_preparing, s_prepared, s_certifying, s_committing}"
  shows "trx_bf_abort svc q w = (Inr False, w)"
  using assms bf_abort_refused [of w svc q] by (auto simp: bf_abort_possible_def bf_abort_allowed_state_def)

theorem bf_abort_no_effect_witness:
  "trx_bf_abort (calm_services True) 7 (locked_world s_must_replay) = (Inr False, locked_world s_must_replay)"
  by (rule bf_abort_no_effect) (simp_all add: world_defs)

text \<open>
  A total order BF abort that is refused clears the flag that an earlier, successful total
  order abort has set: after the second call the transaction is no longer known as aborted in
  total order, although it is still in \<open>s_must_abort\<close>.
\<close>

lemma refused_abort_clears_total_order:
  assumes "w_locked w" and "tstate w = s_must_abort" and "bf_aborted_in_total_order (trx w)"
  shows "\<exists>v. trx_total_order_bf_abort svc q w = (Inr False, v) \<and> tstate v = s_must_abort \<and>
    \<not> bf_aborted_in_total_order (trx v)"
proof -
  let ?w = "upd_trx (\<lambda>t. t\<lparr>bf_aborted_in_total_order := True\<rparr>) w"
  have "trx_bf_abort svc q ?w = (Inr False, ?w)"
    using assms(1,2) by (intro bf_abort_refused) (simp_all add: bf_abort_possible_def)
  then show ?thesis
    using assms(2) by (simp add: trx_total_order_bf_abort_def in_total_order_def seq_def bind_def
        modify_def only_if_def return_def)
qed

lemma refused_abort_clears_total_order_witness:
  "\<exists>v. trx_total_order_bf_abort (calm_services True) 7
      (upd_trx (\<lambda>t. t\<lparr>bf_aborted_in_total_order := True\<rparr>) (locked_world s_must_abort)) = (Inr False, v) \<and>
    tstate v = s_must_abort \<and> \<not> bf_aborted_in_total_order (trx v)"
  by (rule refused_abort_clears_total_order) (simp_all add: locked_world_def)

text \<open>
  C9. Taking the client lock in a busy local session whose transaction is not streaming succeeds
  whatever BF aborts come in. Afterwards the transaction is in the same state, or it was in a
  state in which aborts are allowed and is now in \<open>s_must_abort\<close> with that state recorded; and the
  write set, its meta data, the keys, flags, identifiers and the session's mode, state, owner
  and error are as before.
\<close>

theorem lock_window:
  assumes "busy_local w" and "\<not> is_streaming (trx w)" and "provider_loaded (w_ss w)"
    and "\<not> w_locked w"
  shows "\<exists>v. lock svc w = (Inr (), v) \<and> w_locked v \<and> w_thread v = w_thread w \<and>
    (tstate v = tstate w \<or> bf_abort_possible w \<and> tstate v = s_must_abort \<and>
      bf_abort_state (trx v) = tstate w) \<and>
    trx_id (trx v) = trx_id (trx w) \<and> trx_ws_handle (trx v) = trx_ws_handle (trx w) \<and>
    trx_ws_meta (trx v) = trx_ws_meta (trx w) \<and> trx_flags (trx v) = trx_flags (trx w) \<and>
    sr_keys (trx v) = sr_keys (trx w) \<and> certified (trx v) = certified (trx w) \<and>
    is_bf_immutable (trx v) = is_bf_immutable (trx w) \<and> \<not> is_streaming (trx v) \<and>
    (w_cs v)\<lparr>cs_transaction := trx w\<rparr> = w_cs w"
proof -
  have "wp (lock svc) (\<lambda>_ v. w_locked v \<and> w_thread v = w_thread w \<and> window w v) never w"
    by (rule wp_lock_total [OF assms window_refl]) simp
  then obtain v where v: "lock svc w = (Inr (), v)" "w_locked v" "w_thread v = w_thread w" "window w v"
    by (auto simp: wp_returns_iff)
  from v(4) show ?thesis
  proof (rule windowE)
    fix t assume "w_cs v = (w_cs w)\<lparr>cs_transaction := set_bf_parts t (trx w)\<rparr>" "bf_change w t"
    then show ?thesis
      using v(1-3) assms(2) by (auto simp: bf_change_def is_streaming_def set_bf_parts_def)
  qed
qed

theorem lock_window_witness:
  "\<exists>v. lock (calm_services True) (trx_world s_executing) = (Inr (), v) \<and> w_locked v \<and>
    (tstate v = s_executing \<or> tstate v = s_must_abort)"
proof -
  have "busy_local (trx_world s_executing)" "\<not> is_streaming (trx (trx_world s_executing))"
    "provider_loaded (w_ss (trx_world s_executing))"
    using trx_world_simps(1) [of s_executing] by (simp_all add: plain_local_def)
  then show ?thesis
    using lock_window [of "trx_world s_executing" "calm_services True"] by fastforce
qed

text \<open>
  C10. Once a transaction is immune to BF aborts, taking the client lock leaves the session and
  the server alone, whatever BF aborts come in and whatever the mode of the session, streaming or
  not; only the total order flag may be cleared.
\<close>

theorem immutable_undisturbed:
  assumes "\<not> w_locked w" and "is_bf_immutable (trx w)"
  shows "\<exists>v b. lock svc w = (Inr (), v) \<and> w_locked v \<and> w_ss v = w_ss w \<and>
    w_cs v = (w_cs w)\<lparr>cs_transaction := (trx w)\<lparr>bf_aborted_in_total_order := b\<rparr>\<rparr>"
proof -
  have "wp (lock svc) (\<lambda>_ v. undisturbed w v \<and> w_locked v) never w"
    by (rule wp_lock_quiet) (use assms in \<open>auto simp: bf_abort_possible_def\<close>)
  then show ?thesis by (auto simp: wp_returns_iff undisturbed_def)
qed

theorem immutable_undisturbed_witness:
  "\<exists>v b. lock (calm_services True) (committing_world s_committing) = (Inr (), v) \<and> w_locked v \<and>
    trx v = (trx (committing_world s_committing))\<lparr>bf_aborted_in_total_order := b\<rparr>"
  using immutable_undisturbed [of "committing_world s_committing" "calm_services True"]
    trx_world_simps(14) [of s_committing] by (fastforce simp: committing_def)

section \<open>Rollback and replay\<close>

text \<open>
  C11. The rollback hooks of a local transaction that is not streaming return zero from every
  state in which a rollback may start. A transaction that was certified and told to abort, or has
  to be replayed, ends in \<open>s_must_replay\<close>; every other one in \<open>s_aborted\<close>. (A BF abort that
  arrives before the first hook takes the lock counts as told to abort.) The client error
  and the meta data of the write set are kept.
\<close>

theorem rollback_outcome:
  assumes "plain_local w" and "\<not> w_locked w"
    and "tstate w \<in> {s_executing, s_preparing, s_prepared, s_must_abort, s_aborting, s_cert_failed,
      s_must_replay}"
  shows "\<exists>u v s. trx_before_rollback svc w = (Inr 0, u) \<and> trx_after_rollback svc u = (Inr 0, v) \<and>
    (s = tstate w \<or> s = s_must_abort \<and> bf_abort_allowed_state (tstate w)) \<and>
    tstate v = (if s = s_must_replay \<or> s = s_must_abort \<and> certified (trx w) then s_must_replay
      else s_aborted) \<and>
    \<not> w_locked v \<and> current_error (w_cs v) = current_error (w_cs w) \<and>
    trx_ws_meta (trx v) = trx_ws_meta (trx w)"
proof -
  have "rollback_allowed (tstate w)" using assms(3) by (simp add: rollback_allowed_def)
  from wp_never_returns [OF before_rollback_spec [OF assms(1,2) this]]
  obtain u where u: "trx_before_rollback svc w = (Inr 0, u)" "\<not> w_locked u"
      "tstate u \<in> rollback_targets (trx w)" "w_thread u = owning_thread (w_cs u)"
      "\<not> is_streaming (trx u)" "current_error (w_cs u) = current_error (w_cs w)"
      "trx_ws_meta (trx u) = trx_ws_meta (trx w)"
    by auto
  have "tstate u = s_aborting \<or> tstate u = s_must_replay"
    using u(3) by (auto simp: rollback_targets_def rollback_target_def split: if_splits)
  from wp_never_returns [OF after_rollback_spec [OF u(2,4,5) this]]
  obtain v where v: "trx_after_rollback svc u = (Inr 0, v)" "\<not> w_locked v"
      "tstate v = (if tstate u = s_aborting then s_aborted else s_must_replay)"
      "current_error (w_cs v) = current_error (w_cs u)" "trx_ws_meta (trx v) = trx_ws_meta (trx u)"
    by auto
  obtain s where s: "s = tstate w \<or> s = s_must_abort \<and> bf_abort_allowed_state (tstate w)"
      "tstate u = rollback_target (trx w) s"
    using u(3) by (auto simp: rollback_targets_def split: if_splits)
  have "tstate v = (if s = s_must_replay \<or> s = s_must_abort \<and> certified (trx w)
      then s_must_replay else s_aborted)"
    by (simp add: v(3) s(2) rollback_target_def)
  then show ?thesis
    using u(1,6,7) v(1,2,4,5) s(1) by (intro exI [of _ u] exI [of _ v] exI [of _ s]) simp
qed

theorem rollback_outcome_witness:
  "\<exists>u v. trx_before_rollback (calm_services True) (trx_world s_cert_failed) = (Inr 0, u) \<and>
    trx_after_rollback (calm_services True) u = (Inr 0, v) \<and> tstate v = s_aborted"
  using rollback_outcome [of "trx_world s_cert_failed" "calm_services True"] by fastforce





text \<open>
  C14. Clean-up after the transaction has ended: the identifier, flags, keys, fragments, XID,
  abort marks and buffers are reset, the position written last moves to the transaction's if it
  was ordered; the state of the transaction, its history and the fragment size setting stay.
\<close>

theorem cleanup_resets:
  assumes "tstate w = s_committed \<or> tstate w = s_aborted"
    and "ordered (trx w) \<longrightarrow> gtid_grows (last_written_gtid (w_cs w)) (wsm_gtid (trx_ws_meta (trx w)))"
  shows "\<exists>v. trx_cleanup svc w = (Inr (), v) \<and> \<not> active (trx v) \<and> trx_flags (trx v) = 0 \<and>
    \<not> certified (trx v) \<and> \<not> ordered (trx v) \<and> \<not> is_streaming (trx v) \<and> \<not> is_xa (trx v) \<and>
    \<not> bf_aborted (trx v) \<and> \<not> is_bf_immutable (trx v) \<and> sr_keys (trx v) = [] \<and>
    apply_error_buf (trx v) = [] \<and> tstate v = tstate w \<and>
    trx_state_hist (trx v) = trx_state_hist (trx w) \<and>
    fragment_size (trx_streaming_context (trx v)) = fragment_size (trx_streaming_context (trx w)) \<and>
    last_written_gtid (w_cs v) = (if ordered (trx w) then wsm_gtid (trx_ws_meta (trx w))
      else last_written_gtid (w_cs w))"
  using wp_never_returns [OF cleanup_spec [of svc w]] assms
  by (fastforce simp: cleaned_def written_def ordered_iff)

theorem cleanup_resets_witness:
  "\<exists>v. trx_cleanup (calm_services True) (trx_world s_aborted) = (Inr (), v) \<and> \<not> active (trx v)"
  using cleanup_resets [of "trx_world s_aborted" "calm_services True"] by fastforce

end
