(* ===== verification/Data_Theorems.thy ===== *)
theory Data_Theorems
  imports Instances
begin

text \<open>
  The properties of the plain data: text forms of identifiers, the key set of a streaming
  transaction against a finite set of pairs, and membership of views.
\<close>

section \<open>Identifiers\<close>

text \<open>Every result of the UUID scanner, with \<open>offt\<close> bytes read so far.\<close>

lemma offt_step:
  assumes "unat (offt :: u32) < 16"
  shows "unat (offt + 1) = Suc (unat offt)" and "offt + 1 = 16 \<longleftrightarrow> unat offt = 15"
proof -
  show s: "unat (offt + 1) = Suc (unat offt)"
    using assms by (simp add: unat_word_ariths)
  have "offt + 1 = 16 \<longleftrightarrow> unat (offt + 1) = 16" by (simp add: word_unat_eq_iff)
  then show "offt + 1 = 16 \<longleftrightarrow> unat offt = 15" using s by simp
qed

lemma uuid_scan_loop_result:
  assumes "uuid_scan_loop str len offt acc = (n, u)" and "length acc = unat offt" and "unat offt < 16"
  shows "n = - EINVAL \<and> u = uuid_initializer \<or>
    length u = 16 \<and> int len + 2 * (16 - int (length acc)) \<le> n \<and> n \<le> int len + int (length str)"
  using assms
proof (induction str len offt acc rule: uuid_scan_loop.induct)
  case (1 c d cs len offt acc)
  note step = offt_step [OF 1(5)]
  show ?case
  proof (cases "drop_bit 1 offt - 2 \<le> 3 \<and> c = CHR ''-''")
    case True
    then show ?thesis using 1(1) [OF True] 1(3-5) by fastforce
  next
    case False
    show ?thesis
    proof (cases "isxdigit c \<and> isxdigit d \<and> unat offt \<noteq> 15")
      case True
      then show ?thesis using 1(2) [OF False _ refl] 1(3-5) False step by (fastforce simp: Let_def)
    next
      case end_loop: False
      then show ?thesis using 1(3-5) False step by (auto simp: Let_def split: if_splits)
    qed
  qed
qed auto

text \<open>
  The UUID scanner accepts or rejects every string: it returns minus \<open>EINVAL\<close> and the nil
  UUID, or the number of characters it read, at least 32 and at most the length of the string,
  and 16 bytes.
\<close>

lemma uuid_scan_result:
  "uuid_scan str = (- EINVAL, uuid_initializer) \<or>
   32 \<le> fst (uuid_scan str) \<and> fst (uuid_scan str) \<le> int (length str) \<and>
   length (snd (uuid_scan str)) = 16"
  using uuid_scan_loop_result [of str 0 0 "[]" "fst (uuid_scan str)" "snd (uuid_scan str)"]
  by (cases "uuid_scan str") (auto simp: uuid_scan_def)

text \<open>
  Text form of an identifier: the 16 bytes print as the text that is read back as the same
  identifier, in at most 36 characters; what prints as a UUID is read as all of its 36
  characters.
\<close>

lemma id_text_roundtrip:
  assumes "length i = 16"
  shows "id_of_string (id_to_string i) = Inr i \<and> length (id_to_string i) \<le> 36 \<and>
    uuid_print i 37 = (36, uuid_text i) \<and> uuid_scan (uuid_text i) = (36, i)"
  using assms id_string_roundtrip [of i] id_to_string_length [of i] uuid_scan_text [of i]
    uuid_text_length [of i]
  by (simp add: id_wf_def uuid_print_def UUID_STR_LEN_def)

lemma id_of_string_typed: "id_of_string str = Inr i \<Longrightarrow> length i = 16"
  using uuid_scan_result [of str]
  by (auto simp: id_of_string_def UUID_STR_LEN_def EINVAL_def pad16_def split: if_splits)

lemma id_of_string_refused: "id_of_string str = Inl e \<Longrightarrow> length str > 16"
  by (simp add: id_of_string_def split: if_splits)

lemma stream_read_ll_typed: "stream_read_ll str = Some (n, left) \<Longrightarrow> ll_range n \<and> length left < length str"
proof -
  assume read: "stream_read_ll str = Some (n, left)"
  let ?s = "dropWhile isspace str"
  let ?t = "if ?s \<noteq> [] \<and> (hd ?s = CHR ''-'' \<or> hd ?s = CHR ''+'') then tl ?s else ?s"
  have n: "ll_range n" "left = dropWhile isdigit ?t" "takeWhile isdigit ?t \<noteq> []"
    using read by (auto simp: stream_read_ll_def Let_def split: if_splits)
  have "length ?t = length (takeWhile isdigit ?t) + length left"
    unfolding n(2) by (metis length_append takeWhile_dropWhile_id)
  moreover have "length (takeWhile isdigit ?t) \<noteq> 0" using n(3) by simp
  ultimately have "length left < length ?t" by linarith
  also have "length ?t \<le> length ?s" by simp
  also have "\<dots> \<le> length str" by (rule length_dropWhile_le)
  finally show ?thesis using n(1) by simp
qed

lemma gtid_read_typed:
  assumes "gtid_read str = Some (g, left)"
  shows "length (gtid_id g) = 16 \<and> ll_range (gtid_seqno g) \<and> length left < length str"
proof -
  let ?rest = "dropWhile (\<lambda>c. c \<noteq> CHR '':'') str"
  obtain n i where n: "stream_read_ll (tl ?rest) = Some (n, left)"
      "id_of_string (takeWhile (\<lambda>c. c \<noteq> CHR '':'') str) = Inr i" "g = \<lparr>gtid_id = i, gtid_seqno = n\<rparr>"
    using assms by (auto simp: gtid_read_def Let_def split: if_splits option.splits sum.splits)
  have "length left < length (tl ?rest)" using stream_read_ll_typed [OF n(1)] by simp
  also have "\<dots> \<le> length str" using length_dropWhile_le [of "\<lambda>c. c \<noteq> CHR '':''" str] by simp
  finally show ?thesis using n stream_read_ll_typed [OF n(1)] id_of_string_typed [OF n(2)] by simp
qed

text \<open>
  C16. What the parsers accept is well typed, for every text. An identifier has 16 bytes, and only a text
  of more than 16 characters is refused. A scanned GTID has an identifier of 16 bytes and a seqno that fits
  a \<^verbatim>\<open>long long\<close>, the return value counts the characters that were read, and the GTID prints into a
  buffer of \<open>GTID_C_STR_LEN\<close> bytes as a text that is scanned as the same GTID; otherwise the return value
  is minus \<open>EINVAL\<close>. An XA identifier holds at most 128 bytes.
\<close>

theorem parsed_identifiers_typed:
  "(case id_of_string str of Inl e \<Rightarrow> length str > 16 | Inr i \<Rightarrow> length i = 16) \<and>
   (case gtid_scan_from_c_str str of
      (n, None) \<Rightarrow> n = - EINVAL
    | (n, Some g) \<Rightarrow> length (gtid_id g) = 16 \<and> - (2 ^ 63) \<le> gtid_seqno g \<and> gtid_seqno g < 2 ^ 63 \<and>
        0 < n \<and> n \<le> int (length str) \<and>
        (\<exists>s. gtid_print_to_c_str g GTID_C_STR_LEN = (int (length s), s) \<and>
           gtid_scan_from_c_str s = (int (length s), Some g))) \<and>
   (case xid_make f gl bl str of Inl e \<Rightarrow> gl > 64 \<or> bl > 64 | Inr x \<Rightarrow> length (xid_data x) \<le> 128)"
proof (intro conjI)
  show "case id_of_string str of Inl e \<Rightarrow> length str > 16 | Inr i \<Rightarrow> length i = 16"
    by (cases "id_of_string str") (simp_all add: id_of_string_typed id_of_string_refused)
  show "case gtid_scan_from_c_str str of
      (n, None) \<Rightarrow> n = - EINVAL
    | (n, Some g) \<Rightarrow> length (gtid_id g) = 16 \<and> - (2 ^ 63) \<le> gtid_seqno g \<and> gtid_seqno g < 2 ^ 63 \<and>
        0 < n \<and> n \<le> int (length str) \<and>
        (\<exists>s. gtid_print_to_c_str g GTID_C_STR_LEN = (int (length s), s) \<and>
           gtid_scan_from_c_str s = (int (length s), Some g))"
  proof (cases "gtid_read str")
    case (Some p)
    then obtain g left where read: "gtid_read str = Some (g, left)" by (cases p) auto
    note typed = gtid_read_typed [OF this]
    then have "id_wf (gtid_id g)" "ll_range (gtid_seqno g)" by (simp_all add: id_wf_def)
    from gtid_read_to_string [OF this] gtid_to_string_length [OF this]
    have "\<exists>s. gtid_print_to_c_str g GTID_C_STR_LEN = (int (length s), s) \<and>
        gtid_scan_from_c_str s = (int (length s), Some g)"
      by (auto simp: gtid_print_to_c_str_def gtid_scan_from_c_str_def Let_def GTID_C_STR_LEN_def)
    moreover have "\<exists>n. gtid_scan_from_c_str str = (n, Some g) \<and> 0 < n \<and> n \<le> int (length str)"
      using typed by (auto simp: gtid_scan_from_c_str_def read)
    ultimately show ?thesis using typed unfolding ll_range_def by force
  qed (simp add: gtid_scan_from_c_str_def)
  show "case xid_make f gl bl str of Inl e \<Rightarrow> gl > 64 \<or> bl > 64 | Inr x \<Rightarrow> length (xid_data x) \<le> 128"
    by (auto simp: xid_make_def)
qed

text \<open>
  C17. A GTID whose seqno fits a \<^verbatim>\<open>long long\<close> prints into a buffer of \<open>GTID_C_STR_LEN\<close> bytes, and
  scanning the text consumes all of it and gives the same GTID.
\<close>

theorem gtid_text_roundtrip:
  assumes "length (gtid_id g) = 16" and "- (2 ^ 63) \<le> gtid_seqno g" and "gtid_seqno g < 2 ^ 63"
  shows "\<exists>s. gtid_print_to_c_str g GTID_C_STR_LEN = (int (length s), s) \<and> length s \<le> 57 \<and>
    gtid_scan_from_c_str s = (int (length s), Some g)"
proof -
  have wf: "id_wf (gtid_id g)" "ll_range (gtid_seqno g)"
    using assms by (simp_all add: id_wf_def ll_range_def)
  show ?thesis
    using gtid_read_to_string [OF wf] gtid_to_string_length [OF wf]
    by (auto simp: gtid_print_to_c_str_def gtid_scan_from_c_str_def Let_def GTID_C_STR_LEN_def)
qed

theorem gtid_text_roundtrip_witness:
  "\<exists>s. gtid_print_to_c_str \<lparr>gtid_id = group_id, gtid_seqno = -1\<rparr> GTID_C_STR_LEN = (int (length s), s) \<and>
    gtid_scan_from_c_str s = (int (length s), Some \<lparr>gtid_id = group_id, gtid_seqno = -1\<rparr>)"
proof -
  have "length group_id = 16" by (simp add: group_id_def pad16_def)
  then show ?thesis
    using gtid_text_roundtrip [of "\<lparr>gtid_id = group_id, gtid_seqno = -1\<rparr>"] by auto
qed

section \<open>Keys of a streaming transaction\<close>

text \<open>
  The abstract specification of the key set is a finite set of pairs of key parts. The list of
  pairs that the code iterates over lists this set in increasing order.
\<close>

lemma pairs_mem: "sr_key_set_inv root \<Longrightarrow> (b, l) \<in> set (sr_key_set_pairs root) \<longleftrightarrow> sr_key_set_mem b l root"
proof -
  assume inv: "sr_key_set_inv root"
  have leaf: "om_inv leaf" if "om_find b root = Some leaf" for leaf
    using inv that om_find_Some_in by (fastforce simp: sr_key_set_inv_def)
  have "(b, l) \<in> set (sr_key_set_pairs root) \<longleftrightarrow> (\<exists>leaf. (b, leaf) \<in> set root \<and> (l, ()) \<in> set leaf)"
    by (auto simp: sr_key_set_pairs_def image_def) fastforce+
  also have "\<dots> \<longleftrightarrow> (\<exists>leaf. om_find b root = Some leaf \<and> om_find l leaf = Some ())"
    using inv leaf om_find_iff [of root b] om_find_iff [of _ l "()"]
    unfolding sr_key_set_inv_def by blast
  finally show ?thesis by (auto simp: sr_key_set_mem_def split: option.splits)
qed

lemma pairs_sorted: "sr_key_set_inv root \<Longrightarrow> sorted_wrt (<) (sr_key_set_pairs root)"
proof (induction root)
  case Nil
  then show ?case by (simp add: sr_key_set_pairs_def)
next
  case (Cons p root)
  obtain b leaf where p: "p = (b, leaf)" by (cases p)
  have leaf: "sorted_wrt (<) (map fst leaf)" and keys: "\<And>q. q \<in> set root \<Longrightarrow> b < fst q"
    and rest: "sr_key_set_inv root"
    using Cons.prems by (auto simp: sr_key_set_inv_def om_inv_def p)
  have "sorted_wrt (<) (map (\<lambda>(l, _). (b, l)) leaf)"
    using leaf by (simp add: sorted_wrt_map case_prod_unfold less_prod_def)
  moreover have "sorted_wrt (<) (sr_key_set_pairs root)" using Cons.IH rest by simp
  moreover have "x < y" if x: "x \<in> set (map (\<lambda>(l, _). (b, l)) leaf)" and y: "y \<in> set (sr_key_set_pairs root)" for x y
  proof -
    have "fst x = b" using x by auto
    moreover obtain q where "q \<in> set root" "fst y = fst q" using y by (auto simp: sr_key_set_pairs_def)
    ultimately show ?thesis using keys [of q] by (cases x; cases y) auto
  qed
  ultimately show ?case by (simp add: p sr_key_set_pairs_def sorted_wrt_append)
qed

text \<open>
  C18. The key set refines a finite set of pairs: recording a key with at least two parts adds
  the pair of its first two parts, keeps the nested maps in order, and the pairs that
  \<^verbatim>\<open>append_sr_keys_for_commit\<close> iterates over are the elements of the set in increasing order, each
  once. A key with fewer parts is refused, by an assertion or an exception.
\<close>

theorem sr_key_set_refines:
  assumes "sr_key_set_inv root" and "set (sr_key_set_pairs root) = A"
  shows "if length (key_parts k) < 2 then
      sr_key_set_insert d k root = Inl (if d then Assertion ''key.size() >= 2''
        else Runtime_error ''Invalid key size'')
    else \<exists>root'. sr_key_set_insert d k root = Inr root' \<and> sr_key_set_inv root' \<and>
      sr_key_set_pairs root' = sorted_list_of_set (insert (key_parts k ! 0, key_parts k ! 1) A)"
proof (cases "length (key_parts k) < 2")
  case True
  then show ?thesis by (simp add: sr_key_set_insert_def)
next
  case False
  then obtain root' where r: "sr_key_set_insert d k root = Inr root'"
    by (simp add: sr_key_set_insert_def Let_def)
  note inv = sr_key_set_insert_inv [OF r assms(1)]
  have "set (sr_key_set_pairs root') = insert (key_parts k ! 0, key_parts k ! 1) A"
    using pairs_mem [OF inv] pairs_mem [OF assms(1)] sr_key_set_insert_mem [OF r] assms(2)
    by (auto simp: set_eq_iff)
  then have "sr_key_set_pairs root' = sorted_list_of_set (insert (key_parts k ! 0, key_parts k ! 1) A)"
    using pairs_sorted [OF inv] by (metis List.finite_set sorted_list_of_set.idem_if_sorted_distinct strict_sorted_iff
        sorted_list_of_set_sort_remdups sorted_sort_id distinct_remdups_id)
  with r inv False show ?thesis by auto
qed

theorem sr_key_set_refines_witness:
  "\<exists>root'. sr_key_set_insert True test_key [] = Inr root' \<and>
     sr_key_set_pairs root' = sorted_list_of_set {(''k1'', ''k2'')}"
  using sr_key_set_refines [of "[]" "{}" test_key True]
  by (auto simp: sr_key_set_inv_def om_inv_def sr_key_set_pairs_def test_key_def)

section \<open>Views\<close>

text \<open>
  C19. Two views without duplicate members have equal membership, as the code decides it by
  counting and looking up members one by one, exactly if they have the same set of members.
\<close>

theorem equal_membership_iff:
  assumes "distinct (map member_id (view_members v))" and "distinct (map member_id (view_members u))"
  shows "equal_membership v u \<longleftrightarrow>
    member_id ` set (view_members v) = member_id ` set (view_members u)"
  by (rule equal_membership_sets [OF assms])

theorem equal_membership_iff_witness:
  "equal_membership
     (view_default\<lparr>view_members := [\<lparr>member_id = pad16 ''a'', member_name = [], member_incoming = []\<rparr>]\<rparr>)
     (view_default\<lparr>view_members := [\<lparr>member_id = pad16 ''a'', member_name = ''n'', member_incoming = []\<rparr>]\<rparr>)"
  by (subst equal_membership_iff) simp_all

end
