(* ===== verification/Server_Props.thy ===== *)
theory Server_Props
  imports Server_Control Bf_Window
begin

text \<open>
  What the server operations do when the provider is loaded: the state machine, the counters of
  desync and pause, and the registers.
\<close>

section \<open>State machine\<close>

lemma srv_allowed_iff [simp]:
  "srv_allowed s_disconnected t \<longleftrightarrow> t \<in> {s_initializing, s_connected}"
  "srv_allowed s_initializing t \<longleftrightarrow> t \<in> {s_disconnected, s_initialized, s_disconnecting}"
  "srv_allowed s_initialized t \<longleftrightarrow> t \<in> {s_disconnected, s_connected, s_joined, s_disconnecting}"
  "srv_allowed s_connected t \<longleftrightarrow> t \<in> {s_disconnected, s_connected, s_joiner, s_synced, s_disconnecting}"
  "srv_allowed s_joiner t \<longleftrightarrow> t \<in> {s_disconnected, s_initializing, s_joined, s_disconnecting}"
  "srv_allowed s_joined t \<longleftrightarrow> t \<in> {s_disconnected, s_connected, s_donor, s_synced, s_disconnecting}"
  "srv_allowed s_donor t \<longleftrightarrow> t \<in> {s_disconnected, s_connected, s_joined, s_disconnecting}"
  "srv_allowed s_synced t \<longleftrightarrow> t \<in> {s_disconnected, s_connected, s_joined, s_donor, s_disconnecting}"
  "srv_allowed s_disconnecting t \<longleftrightarrow> t = s_disconnected"
  by (cases t; simp add: srv_allowed_def srv_allowed_table_def)+

text \<open>The world after an update of the server and of the environment.\<close>

definition with_server :: "server_state \<Rightarrow> 'e \<Rightarrow> 'e world \<Rightarrow> 'e world" where
  "with_server ss e w = w\<lparr>w_ss := ss, w_env := e\<rparr>"

lemma with_server_simps [simp]:
  "w_cs (with_server ss e w) = w_cs w" "w_locked (with_server ss e w) = w_locked w"
  "w_thread (with_server ss e w) = w_thread w" "w_self (with_server ss e w) = w_self w"
  "w_ss (with_server ss e w) = ss" "w_env (with_server ss e w) = e"
  "with_server ss' e' (with_server ss e w) = with_server ss' e' w"
  "(with_server ss e w)\<lparr>w_env := e'\<rparr> = with_server ss e' w"
  "upd_ss f (with_server ss e w) = with_server (f ss) e w"
  "bf_abort_possible (with_server ss e w) = bf_abort_possible w"
  by (simp_all add: with_server_def bf_abort_possible_def)

lemma upd_ss_env: "(upd_ss f w)\<lparr>w_env := e\<rparr> = with_server (f (w_ss w)) e w"
  "upd_ss f (w\<lparr>w_env := e\<rparr>) = with_server (f (w_ss w)) e w"
  by (simp_all add: with_server_def)

definition srv_in_state :: "'e services \<Rightarrow> srv_state \<Rightarrow> 'e world \<Rightarrow> 'e world" where
  "srv_in_state svc s w = with_server
     ((w_ss w)\<lparr>sv_state_hist := sv_state_hist (w_ss w) @ [srv w], sv_state := s\<rparr>)
     (sv_log_state_change (server_ops svc) (srv w) s (w_env w)) w"

lemma wp_sv_set_state:
  "wp (sv_set_state svc s) Q E w =
     (if srv_allowed (srv w) s then Q () (srv_in_state svc s w)
      else if srv w = s_disconnecting then Q () w
      else if debug_build svc then E (Assertion ''0'') w
      else Q () (srv_in_state svc s w))"
  by (simp add: sv_set_state_def wp_simps srv_in_state_def upd_ss_env)

lemma srv_in_state_simps [simp]:
  "w_cs (srv_in_state svc s w) = w_cs w" "w_locked (srv_in_state svc s w) = w_locked w"
  "w_thread (srv_in_state svc s w) = w_thread w" "w_self (srv_in_state svc s w) = w_self w"
  "w_ss (srv_in_state svc s w) =
     (w_ss w)\<lparr>sv_state_hist := sv_state_hist (w_ss w) @ [srv w], sv_state := s\<rparr>"
  by (simp_all add: srv_in_state_def)

section \<open>Desync and pause\<close>

lemma wp_sv_desync:
  assumes "provider_loaded (w_ss w)"
  shows "wp (sv_desync svc) Q E w = (case prov_desync (prov svc) (w_env w) of (r, e) \<Rightarrow>
    Q r (with_server (if r = 0 then (w_ss w)\<lparr>desync_count := Suc (desync_count (w_ss w))\<rparr> else w_ss w) e w))"
  using assms by (auto simp: sv_desync_def wp_simps upd_ss_env split: prod.splits)

lemma wp_sv_resync:
  assumes "provider_loaded (w_ss w)" and "desync_count (w_ss w) > 0"
  shows "wp (sv_resync svc) Q E w = (case prov_resync (prov svc) (w_env w) of (r, e) \<Rightarrow>
    let v = with_server ((w_ss w)\<lparr>desync_count := desync_count (w_ss w) - 1\<rparr>) e w in
    if r = 0 then Q () v else E (Runtime_error ''Failed to resync'') v)"
  using assms by (auto simp: sv_resync_def wp_simps Let_def upd_ss_env split: prod.splits)

lemma wp_sv_pause:
  assumes "provider_loaded (w_ss w)" and "pause_count (w_ss w) = 0"
    and "seqno_is_undefined (pause_seqno (w_ss w))"
  shows "wp (sv_pause svc) Q E w = (case prov_pause (prov svc) (w_env w) of (s, e) \<Rightarrow>
    Q s (with_server ((w_ss w)\<lparr>pause_count := (if seqno_is_undefined s then 0 else 1),
      pause_seqno := s\<rparr>) e w))"
  using assms by (cases "w_ss w") (auto simp: sv_pause_def wp_simps upd_ss_env split: prod.splits)

lemma wp_sv_resume:
  assumes "provider_loaded (w_ss w)" and "pause_count (w_ss w) = 1"
    and "\<not> seqno_is_undefined (pause_seqno (w_ss w))"
  shows "wp (sv_resume svc) Q E w = (case prov_resume (prov svc) (w_env w) of (r, e) \<Rightarrow>
    if r = 0 then Q () (with_server ((w_ss w)\<lparr>pause_seqno := seqno_undefined, pause_count := 0\<rparr>) e w)
    else E (Runtime_error ''Failed to resume provider'') (w\<lparr>w_env := e\<rparr>))"
  using assms by (auto simp: sv_resume_def wp_simps upd_ss_env split: prod.splits)

end
