(* ===== verification/Session_Theorems.thy ===== *)
theory Session_Theorems
  imports Instances Server_Props
begin

text \<open>
  The properties of a client session outside transactions: total order isolation, rolling schema
  upgrade, non-blocking operations, and the life of a command.
\<close>

section \<open>Sessions without a transaction that can be aborted\<close>

lemma undisturbed_trans: "undisturbed u v \<Longrightarrow> undisturbed v w \<Longrightarrow> undisturbed u w"
  by (fastforce simp: undisturbed_def)

definition quiet :: "'e world \<Rightarrow> bool" where
  "quiet w \<longleftrightarrow> \<not> bf_abort_possible w \<and> provider_loaded (w_ss w) \<and> w_thread w = owning_thread (w_cs w)"

lemma quiet_undisturbed: "undisturbed w v \<Longrightarrow> quiet w \<Longrightarrow> quiet v"
  by (simp add: quiet_def undisturbedD)

lemma quiet_simps [simp]:
  "quiet (w\<lparr>w_env := e\<rparr>) = quiet w" "quiet (w\<lparr>w_locked := b\<rparr>) = quiet w"
  by (simp_all add: quiet_def bf_abort_possible_def)

section \<open>Total order isolation\<close>

text \<open>
  What the retry loop relies on: the clock does not go back, and it has advanced when a sleep
  ends.
\<close>

definition ticking :: "'e services \<Rightarrow> bool" where
  "ticking svc \<longleftrightarrow>
     (\<forall>e. clock svc e < clock svc (usleep svc e)) \<and>
     (\<forall>e. clock svc e \<le> clock svc (snd (bf_arrivals svc e))) \<and>
     (\<forall>e. clock svc e \<le> clock svc (snd (cl_interrupted (client_ops svc) e))) \<and>
     (\<forall>i k b m f e. clock svc e \<le> clock svc (snd (prov_enter_toi (prov svc) i k b m f e))) \<and>
     (\<forall>i m b e. clock svc e \<le> clock svc (snd (prov_leave_toi (prov svc) i m b e)))"

abbreviation now_at :: "'e services \<Rightarrow> 'e world \<Rightarrow> int" where
  "now_at svc w \<equiv> clock svc (w_env w)"

text \<open>One attempt: the lock is held again, the session is as before, a failure is not in TOI.\<close>

definition attempt_ok ::
    "'e services \<Rightarrow> 'e world \<Rightarrow> status \<Rightarrow> ws_meta \<Rightarrow> 'e world \<Rightarrow> bool" where
  "attempt_ok svc w st m v \<longleftrightarrow> undisturbed w v \<and> w_locked v \<and> now_at svc w \<le> now_at svc v \<and>
     (toi_retry st \<longrightarrow> now_at svc w < now_at svc v) \<and>
     (st \<noteq> success \<longrightarrow> gtid_is_undefined (wsm_gtid m))"

lemma lock_ticking:
  assumes "ticking svc" "quiet w" "\<not> w_locked w"
  shows "wp (lock svc) (\<lambda>_ v. undisturbed w v \<and> w_locked v \<and> now_at svc w \<le> now_at svc v) never w"
  by (rule wp_lock_quiet_env) (use assms in \<open>auto simp: quiet_def ticking_def\<close>)

lemma enter_toi_attempt_result:
  assumes "ticking svc" "quiet w" "w_locked w"
  shows "wp (enter_toi_attempt svc keys buf meta flags) (\<lambda>(st, m) v. attempt_ok svc w st m v \<and>
    st = fst (fst (prov_enter_toi (prov svc) (cs_id (w_cs w)) keys buf meta flags (w_env w)))) never w"
proof -
  obtain st m e where st: "prov_enter_toi (prov svc) (cs_id (w_cs w)) keys buf meta flags (w_env w) =
      ((st, m), e)"
    by (metis prod.collapse)
  obtain st' e' where leave: "prov_leave_toi (prov svc) (cs_id (w_cs w)) m [] e = (st', e')"
    by fastforce
  let ?fail = "st \<noteq> success \<and> \<not> gtid_is_undefined (wsm_gtid m)"
  let ?m = "if ?fail then ws_meta_default else m"
  let ?e = "if ?fail then e' else e"
  let ?e2 = "if toi_retry st then usleep svc ?e else ?e"
  have "clock svc (w_env w) \<le> clock svc e"
    using assms(1) st unfolding ticking_def by (metis snd_conv)
  moreover have "clock svc e \<le> clock svc e'"
    using assms(1) leave unfolding ticking_def by (metis snd_conv)
  moreover have "clock svc ?e < clock svc (usleep svc ?e)"
    using assms(1) unfolding ticking_def by blast
  ultimately have tick: "clock svc (w_env w) \<le> clock svc ?e2"
      "toi_retry st \<Longrightarrow> clock svc (w_env w) < clock svc ?e2"
    by (auto split: if_splits)
  have "gtid_is_undefined (wsm_gtid ws_meta_default)"
    by (simp add: gtid_is_undefined_def ws_meta_default_def gtid_undefined_def seqno_is_undefined_def
        seqno_undefined_def id_is_undefined_def)
  then have fail: "st \<noteq> success \<Longrightarrow> gtid_is_undefined (wsm_gtid ?m)" by auto
  have "wp (lock svc) (\<lambda>_. attempt_ok svc w st ?m) never (w\<lparr>w_locked := False, w_env := ?e2\<rparr>)"
    by (rule wp_mono [OF lock_ticking [OF assms(1)]])
       (use assms(2) tick fail in \<open>auto simp: attempt_ok_def\<close>)
  then show ?thesis
    using assms(2) st leave
    by (auto simp: enter_toi_attempt_def wp_simps wp_fun unlock_def quiet_def split: if_splits)
qed

lemma enter_toi_attempt_spec:
  assumes "ticking svc" "quiet w" "w_locked w"
  shows "wp (enter_toi_attempt svc keys buf meta flags) (\<lambda>(st, m). attempt_ok svc w st m) never w"
  by (rule wp_mono [OF enter_toi_attempt_result [OF assms]]) auto

text \<open>
  The loop ends: every attempt that is tried again has cost time, and there is none after
  \<open>wait_until\<close>. It gives up on a status that is worth another attempt only when the time is
  over or the client is interrupted.
\<close>

definition polled ::
    "'e services \<Rightarrow> 'e world \<Rightarrow> status \<times> ws_meta \<times> bool \<Rightarrow> 'e world \<Rightarrow> bool" where
  "polled svc w r v \<longleftrightarrow> (case r of (st, m, timed_out) \<Rightarrow>
     undisturbed w v \<and> w_locked v \<and> (st \<noteq> success \<longrightarrow> gtid_is_undefined (wsm_gtid m)) \<and>
     (toi_retry st \<and> \<not> timed_out \<longrightarrow> (\<exists>e. fst (cl_interrupted (client_ops svc) e))))"

lemma polled_trans: "undisturbed u w \<Longrightarrow> polled svc w r v \<Longrightarrow> polled svc u r v"
  by (auto simp: polled_def intro: undisturbed_trans split: prod.splits)

lemma poll_enter_toi_loop_spec:
  assumes "ticking svc" "quiet w" "w_locked w" "nat (wait_until - now_at svc w) < n"
  shows "wp (poll_enter_toi_loop svc n keys buf meta flags wait_until) (polled svc w) never w"
  using assms(2-4)
proof (induction n arbitrary: w)
  case (Suc n)
  let ?again = "\<lambda>st v. toi_retry st \<and> wait_until \<noteq> 0 \<and> now_at svc v < wait_until"
  have more: "wp (poll_enter_toi_loop svc n keys buf meta flags wait_until) (polled svc w) never
      (v\<lparr>w_env := e\<rparr>)"
    if v: "attempt_ok svc w st m v" "?again st v" and e: "clock svc (w_env v) \<le> clock svc e" for st m v e
  proof (rule wp_mono [OF Suc.IH])
    show "quiet (v\<lparr>w_env := e\<rparr>)"
      using v(1) Suc.prems(1) quiet_undisturbed by (auto simp: attempt_ok_def)
    show "nat (wait_until - now_at svc (v\<lparr>w_env := e\<rparr>)) < n"
      using v Suc.prems(3) e by (auto simp: attempt_ok_def)
    show "polled svc w r x" if "polled svc (v\<lparr>w_env := e\<rparr>) r x" for r x
      by (rule polled_trans [OF _ that]) (use v(1) in \<open>simp add: attempt_ok_def\<close>)
  qed (use v in \<open>auto simp: attempt_ok_def\<close>)
  show ?case
    unfolding poll_enter_toi_loop.simps wp_bind
  proof (rule wp_mono [OF enter_toi_attempt_spec [OF assms(1) Suc.prems(1,2)]], goal_cases)
    case (1 r v)
    obtain st m where r: "r = (st, m)" by (cases r)
    with 1 have ok: "attempt_ok svc w st m v" by simp
    obtain i e where ie: "cl_interrupted (client_ops svc) (w_env v) = (i, e)" by fastforce
    have e: "clock svc (w_env v) \<le> clock svc e"
      using assms(1) ie unfolding ticking_def by (metis snd_conv)
    have int: "i \<Longrightarrow> \<exists>e. fst (cl_interrupted (client_ops svc) e)" using ie by (metis fst_conv)
    show ?case
      using more [OF ok _ e] ok ie int
      by (auto simp: r wp_simps polled_def attempt_ok_def)
  qed simp
qed simp

lemma poll_enter_toi_spec:
  assumes "ticking svc" "quiet w" "w_locked w"
  shows "wp (poll_enter_toi svc keys buf meta flags wait_until) (polled svc w) never w"
  unfolding poll_enter_toi_def wp_fetch by (rule poll_enter_toi_loop_spec [OF assms]) simp


lemma calm_ticking: "ticking (calm_services d)"
  by (simp add: ticking_def calm_services_def mock_with_def mock_provider_def mock_enter_toi_def
      order_write_set_def mock_client_service_def Let_def split: list.split)


section \<open>Entering and leaving\<close>

lemma mode_allowed_iff [simp]:
  "\<not> mode_allowed m_undefined m"
  "mode_allowed m_local m \<longleftrightarrow> m \<in> {m_high_priority, m_toi, m_rsu, m_nbo}"
  "mode_allowed m_high_priority m \<longleftrightarrow> m \<in> {m_local, m_toi, m_nbo}"
  "mode_allowed m_toi m \<longleftrightarrow> m \<in> {m_local, m_high_priority}"
  "mode_allowed m_rsu m \<longleftrightarrow> m = m_local"
  "mode_allowed m_nbo m \<longleftrightarrow> m \<in> {m_local, m_high_priority}"
  by (cases m; simp add: mode_allowed_def mode_allowed_table_def)+

lemma wp_set_mode:
  "w_locked w \<Longrightarrow> mode_allowed (cs_mode (w_cs w)) m \<Longrightarrow>
   wp (set_mode svc m) Q E w = Q () ((w_cs_update (\<lambda>c. c\<lparr>cs_mode := m\<rparr>) w)
     \<lparr>w_env := cl_event (client_ops svc) Notify_state_change (w_env w)\<rparr>)"
  by (simp add: set_mode_def wp_simps)

text \<open>The results of an operation that takes the session into TOI or NBO.\<close>

definition entered :: "client_mode \<Rightarrow> 'e world \<Rightarrow> int \<Rightarrow> 'e world \<Rightarrow> bool" where
  "entered m w ret v \<longleftrightarrow>
     (ret = 0 \<and> cs_mode (w_cs v) = m \<and> toi_mode (w_cs v) = m_local \<and>
        current_error (w_cs v) = current_error (w_cs w) \<or>
      ret = 1 \<and> cs_mode (w_cs v) = m_local \<and> toi_mode (w_cs v) = toi_mode (w_cs w) \<and>
        gtid_is_undefined (wsm_gtid (toi_meta (w_cs v))) \<and>
        current_error (w_cs v) \<in> {e_deadlock_error, e_timeout_error, e_error_during_commit})"

lemma toi_error_spec:
  assumes "undisturbed w v" "quiet w" "cs_mode (w_cs w) = m_local" "gtid_is_undefined (wsm_gtid m)"
  shows "wp (toi_error svc st timed_out) (\<lambda>ret x. entered n w ret (x\<lparr>w_locked := False\<rparr>)) never
    (w_cs_update (\<lambda>c. c\<lparr>toi_meta := m\<rparr>) v)"
  using assms undisturbedD [OF assms(1)]
  by (simp add: toi_error_def wp_simps wp_override_error quiet_def entered_def)

lemma enter_toi_local_spec:
  assumes "ticking svc" "quiet w" "\<not> w_locked w" "cs_state (w_cs w) = s_exec" "cs_mode (w_cs w) = m_local"
  shows "wp (enter_toi_local svc keys buf wait_until) (\<lambda>ret v. \<not> w_locked v \<and> entered m_toi w ret v) never w"
proof -
  have "wp (with_lock svc (fetch (\<lambda>w. toi_meta (w_cs w)) (\<lambda>meta.
        bind (poll_enter_toi svc keys buf meta (flag_start_transaction OR flag_commit) wait_until)
          (\<lambda>(st, meta', timed_out).
        seq (upd_cs (\<lambda>c. c\<lparr>toi_meta := meta'\<rparr>))
        (if st = success then seq (enter_toi_common svc) (return 0)
         else toi_error svc st timed_out)))))
      (\<lambda>ret v. \<not> w_locked v \<and> entered m_toi w ret v) never w"
  proof (rule wp_with_lock_quiet, goal_cases)
    case (3 v)
    note D = undisturbedD [OF 3(1)]
    have v: "quiet v" "cs_mode (w_cs v) = m_local"
      using quiet_undisturbed [OF 3(1) assms(2)] D assms(5) by auto
    show ?case
      unfolding wp_fetch wp_bind
    proof (rule wp_mono [OF poll_enter_toi_spec [OF assms(1) v(1) 3(2)]], goal_cases)
      case (1 r x)
      obtain st m t where r: "r = (st, m, t)" by (cases r)
      have x: "undisturbed v x" "w_locked x" "st \<noteq> success \<longrightarrow> gtid_is_undefined (wsm_gtid m)"
        using 1 by (simp_all add: r polled_def)
      have u: "undisturbed w x" using undisturbed_trans [OF 3(1) x(1)] .
      show ?case
      proof (cases "st = success")
        case True
        then show ?thesis
          using x(2) assms(5) undisturbedD [OF u]
          by (simp add: r wp_simps enter_toi_common_def wp_set_mode entered_def)
      next
        case False
        then show ?thesis
          using wp_mono [OF toi_error_spec [OF u assms(2,5)]] x(3) by (simp add: r wp_simps)
      qed
    qed simp
  qed (use assms(2,3) in \<open>simp_all add: quiet_def\<close>)
  then show ?thesis using assms(4,5) by (simp add: enter_toi_local_def wp_simps)
qed

text \<open>
  C21. \<^verbatim>\<open>enter_toi_local\<close> of an executing local session without an abortable transaction returns:
  zero with the session in TOI mode, its local mode remembered and no new error, or one with the
  session still in local mode, no TOI in progress, and a deadlock, timeout or commit error.
\<close>

theorem enter_toi_outcome:
  assumes "ticking svc" and "\<not> bf_abort_possible w" and "provider_loaded (w_ss w)"
    and "w_thread w = owning_thread (w_cs w)" and "\<not> w_locked w"
    and "cs_state (w_cs w) = s_exec" and "cs_mode (w_cs w) = m_local"
  shows "\<exists>ret v. enter_toi_local svc keys buf wait_until w = (Inr ret, v) \<and> \<not> w_locked v \<and>
    (ret = 0 \<and> cs_mode (w_cs v) = m_toi \<and> toi_mode (w_cs v) = m_local \<and>
       current_error (w_cs v) = current_error (w_cs w) \<or>
     ret = 1 \<and> cs_mode (w_cs v) = m_local \<and> toi_mode (w_cs v) = toi_mode (w_cs w) \<and>
       gtid_is_undefined (wsm_gtid (toi_meta (w_cs v))) \<and>
       current_error (w_cs v) \<in> {e_deadlock_error, e_timeout_error, e_error_during_commit})"
proof -
  have "quiet w" using assms(2-4) by (simp add: quiet_def)
  from wp_never_returns [OF enter_toi_local_spec [OF assms(1) this assms(5-7)]]
  show ?thesis by (simp add: entered_def)
qed

lemma trx_world_quiet:
  "\<not> bf_abort_possible (trx_world s_aborted)" "provider_loaded (w_ss (trx_world s))"
  "w_thread (trx_world s) = owning_thread (w_cs (trx_world s))"
  "cs_mode (w_cs (trx_world s)) = m_local" "w_locked (trx_world s) = False"
  by (simp_all add: bf_abort_possible_def world_defs)

theorem enter_toi_outcome_witness:
  "\<exists>ret v. enter_toi_local (calm_services True) [test_key] ''toi'' 0 (trx_world s_aborted) = (Inr ret, v) \<and>
    \<not> w_locked v \<and> (ret = 0 \<longrightarrow> cs_mode (w_cs v) = m_toi)"
  using enter_toi_outcome [OF calm_ticking trx_world_quiet(1-3), of True "[test_key]" "''toi''" 0]
    trx_world_quiet by fastforce

lemma wp_update_last_written:
  assumes "debug_build svc \<longrightarrow> gtid_grows (last_written_gtid (w_cs w)) g"
  shows "wp (update_last_written_gtid svc g) Q E w = Q () (w_cs_update (\<lambda>c. c\<lparr>last_written_gtid := g\<rparr>) w)"
  using assms by (auto simp: update_last_written_gtid_def wp_simps Let_def gtid_grows_def)

text \<open>
  C22. \<^verbatim>\<open>leave_toi_local\<close> undoes it: the mode from before, no TOI in progress, and the position of
  the TOI operation, if it was ordered, becomes the session's last written position. It returns
  zero exactly if the provider reports success.
\<close>

theorem leave_toi_restores:
  assumes "\<not> bf_abort_possible w" and "\<not> w_locked w" and "provider_loaded (w_ss w)"
    and "cs_mode (w_cs w) = m_toi" and "toi_mode (w_cs w) = m_local"
    and "debug_build svc \<and> \<not> gtid_is_undefined (wsm_gtid (toi_meta (w_cs w))) \<longrightarrow>
      gtid_grows (last_written_gtid (w_cs w)) (wsm_gtid (toi_meta (w_cs w)))"
  shows "\<exists>v. leave_toi_local svc err w = (Inr (bool_int
      (fst (prov_leave_toi (prov svc) (cs_id (w_cs w)) (toi_meta (w_cs w)) err (w_env w)) \<noteq> success)), v) \<and>
    \<not> w_locked v \<and> cs_mode (w_cs v) = m_local \<and> toi_mode (w_cs v) = m_undefined \<and>
    toi_meta (w_cs v) = ws_meta_default \<and> current_error (w_cs v) = current_error (w_cs w) \<and>
    last_written_gtid (w_cs v) = (if gtid_is_undefined (wsm_gtid (toi_meta (w_cs w)))
      then last_written_gtid (w_cs w) else wsm_gtid (toi_meta (w_cs w)))"
proof -
  obtain st e where st: "prov_leave_toi (prov svc) (cs_id (w_cs w)) (toi_meta (w_cs w)) err (w_env w) = (st, e)"
    by fastforce
  let ?post = "\<lambda>v. \<not> w_locked v \<and> cs_mode (w_cs v) = m_local \<and> toi_mode (w_cs v) = m_undefined \<and>
    toi_meta (w_cs v) = ws_meta_default \<and> current_error (w_cs v) = current_error (w_cs w) \<and>
    last_written_gtid (w_cs v) = (if gtid_is_undefined (wsm_gtid (toi_meta (w_cs w)))
      then last_written_gtid (w_cs w) else wsm_gtid (toi_meta (w_cs w)))"
  have "wp (leave_toi_common svc) (\<lambda>_. ?post) never (w\<lparr>w_env := e\<rparr>)"
    unfolding leave_toi_common_def
  proof (rule wp_with_lock_quiet, goal_cases)
    case (3 v)
    note D = undisturbedD [OF 3(1)]
    have "debug_build svc \<longrightarrow> \<not> gtid_is_undefined (wsm_gtid (toi_meta (w_cs v))) \<longrightarrow>
        gtid_grows (last_written_gtid (w_cs v)) (wsm_gtid (toi_meta (w_cs v)))"
      using assms(6) D by simp
    then show ?case
      using assms(4,5) D 3(2)
      by (cases "gtid_is_undefined (wsm_gtid (toi_meta (w_cs w)))")
         (simp_all add: wp_simps wp_set_mode wp_update_last_written)
  qed (use assms in \<open>simp_all add: bf_abort_possible_frame\<close>)
  then have "wp (leave_toi_local svc err) (\<lambda>ret v. ret = bool_int (st \<noteq> success) \<and> ?post v) never w"
    using assms(3,5) st by (simp add: leave_toi_local_def leave_toi_call_def wp_simps wp_fun
        split del: if_split)
  from wp_never_returns [OF this] show ?thesis by (simp add: st)
qed

definition toi_world :: "mock world" where
  "toi_world = w_cs_update (\<lambda>c. c\<lparr>cs_mode := m_toi, toi_mode := m_local, toi_meta := ordered_meta\<rparr>)
     (trx_world s_aborted)"

lemma toi_world_simps [simp]:
  "\<not> bf_abort_possible toi_world" "\<not> w_locked toi_world" "provider_loaded (w_ss toi_world)"
  "cs_mode (w_cs toi_world) = m_toi" "toi_mode (w_cs toi_world) = m_local"
  "toi_meta (w_cs toi_world) = ordered_meta" "last_written_gtid (w_cs toi_world) = gtid_undefined"
  using trx_world_quiet by (simp_all add: bf_abort_possible_def toi_world_def world_defs)

lemma ordered_meta_gtid [simp]:
  "\<not> gtid_is_undefined (wsm_gtid ordered_meta)" "gtid_grows gtid_undefined g"
  by (simp_all add: ordered_meta_def gtid_is_undefined_def gtid_grows_def gtid_undefined_def
      seqno_undefined_def seqno_is_undefined_def id_is_undefined_def)

theorem leave_toi_restores_witness:
  "\<exists>ret v. leave_toi_local (calm_services True) [] toi_world = (Inr ret, v) \<and>
    cs_mode (w_cs v) = m_local \<and> last_written_gtid (w_cs v) = wsm_gtid ordered_meta"
  using leave_toi_restores [OF toi_world_simps(1-5), of "calm_services True" "[]"]
  by (simp del: split_paired_Ex) blast

section \<open>Non-blocking operations\<close>

text \<open>Without a deadline there is one attempt, and it counts as timed out.\<close>

lemma poll_without_deadline:
  assumes "ticking svc" "quiet w" "w_locked w"
    and "\<And>e. fst (fst (prov_enter_toi (prov svc) (cs_id (w_cs w)) keys buf meta flags e)) = st"
  shows "wp (poll_enter_toi svc keys buf meta flags 0) (\<lambda>(st', m, timed_out) v.
    st' = st \<and> timed_out \<and> undisturbed w v \<and> w_locked v \<and>
    (st \<noteq> success \<longrightarrow> gtid_is_undefined (wsm_gtid m))) never w"
  unfolding poll_enter_toi_def wp_fetch poll_enter_toi_loop.simps wp_bind
  by (rule wp_mono [OF enter_toi_attempt_result [OF assms(1-3)]])
     (auto simp: assms(4) wp_simps attempt_ok_def)

text \<open>
  C23. \<^verbatim>\<open>begin_nbo_phase_one\<close> without a deadline, when the provider fails with anything but a
  certification failure: the client gets a timeout error, and the status kept with it is
  \<open>success\<close> instead of the provider's.
\<close>

theorem nbo_status_lost:
  assumes "ticking svc" and "\<not> bf_abort_possible w" and "provider_loaded (w_ss w)"
    and "w_thread w = owning_thread (w_cs w)" and "\<not> w_locked w"
    and "cs_state (w_cs w) = s_exec" and "cs_mode (w_cs w) = m_local" and "toi_mode (w_cs w) = m_undefined"
    and "\<And>e. fst (fst (prov_enter_toi (prov svc) (cs_id (w_cs w)) keys buf (toi_meta (w_cs w))
      flag_start_transaction e)) = st"
    and "st \<notin> {success, error_certification_failed}"
  shows "\<exists>v. begin_nbo_phase_one svc keys buf 0 w = (Inr 1, v) \<and> cs_mode (w_cs v) = m_local \<and>
    current_error (w_cs v) = e_timeout_error \<and> current_error_status (w_cs v) = success"
proof -
  have q: "quiet w" using assms(2-4) by (simp add: quiet_def)
  have "wp (begin_nbo_phase_one svc keys buf 0) (\<lambda>ret v. ret = 1 \<and> cs_mode (w_cs v) = m_local \<and>
    current_error (w_cs v) = e_timeout_error \<and> current_error_status (w_cs v) = success) never w"
    unfolding begin_nbo_phase_one_def
  proof (rule wp_with_lock_quiet, goal_cases)
    case (3 v)
    note D = undisturbedD [OF 3(1)]
    have e: "fst (fst (prov_enter_toi (prov svc) (cs_id (w_cs v)) keys buf (toi_meta (w_cs w))
        flag_start_transaction e)) = st" for e
      using assms(9) D by simp
    have "wp (toi_error svc st True) (\<lambda>ret x. ret = 1 \<and> cs_mode (w_cs x) = m_local \<and>
        current_error (w_cs x) = e_timeout_error \<and> current_error_status (w_cs x) = success) never
      (w_cs_update (\<lambda>c. c\<lparr>toi_meta := m\<rparr>) x)" if x: "undisturbed v x" for m x
      using assms(4,7,10) D undisturbedD [OF x] by (simp add: toi_error_def wp_simps wp_override_error)
    then have "wp (poll_enter_toi svc keys buf (toi_meta (w_cs w)) flag_start_transaction 0)
        (\<lambda>r. wp (case r of (st, meta', timed_out) \<Rightarrow>
          seq (upd_cs (\<lambda>c. c\<lparr>toi_meta := meta'\<rparr>))
          (if st = success then
             seq (block [upd_cs (\<lambda>c. c\<lparr>toi_mode := cs_mode c\<rparr>), set_mode svc m_nbo]) (return 0)
           else toi_error svc st timed_out)) (\<lambda>ret x. ret = 1 \<and> cs_mode (w_cs x) = m_local \<and>
        current_error (w_cs x) = e_timeout_error \<and> current_error_status (w_cs x) = success) never) never v"
      by (intro wp_mono [OF poll_without_deadline [OF assms(1) quiet_undisturbed [OF 3(1) q] 3(2) e]])
         (use assms(10) in \<open>auto simp: wp_simps\<close>)
    then show ?case
      using assms(6-8) D by (simp add: wp_simps)
  qed (use assms(2,5) in simp_all)
  from wp_never_returns [OF this] show ?thesis by auto
qed

text \<open>A provider that refuses TOI.\<close>

definition refusing_services :: "status \<Rightarrow> mock services" where
  "refusing_services st = (calm_services True)\<lparr>prov := (prov (calm_services True))
     \<lparr>prov_enter_toi := \<lambda>c k b m f e. ((st, ws_meta_default), e)\<rparr>\<rparr>"

lemma refusing_ticking: "ticking (refusing_services st)"
  using calm_ticking [of True] by (simp add: ticking_def refusing_services_def)

theorem nbo_status_lost_witness:
  "\<exists>v. begin_nbo_phase_one (refusing_services error_fatal) [test_key] ''nbo'' 0 (trx_world s_aborted) =
      (Inr 1, v) \<and> current_error (w_cs v) = e_timeout_error \<and> current_error_status (w_cs v) = success"
proof -
  have "toi_mode (w_cs (trx_world s_aborted)) = m_undefined" by (simp add: world_defs)
  moreover have "fst (fst (prov_enter_toi (prov (refusing_services error_fatal)) i k b m f e)) = error_fatal"
    for i k b m f e by (simp add: refusing_services_def)
  ultimately show ?thesis
    using nbo_status_lost [OF refusing_ticking trx_world_quiet(1-3), of error_fatal "[test_key]" "''nbo''" error_fatal]
      trx_world_quiet by auto
qed

section \<open>Rolling schema upgrade\<close>

text \<open>How \<^verbatim>\<open>begin_rsu\<close> leaves the session and the server.\<close>

definition rsu_begun :: "'e world \<Rightarrow> int \<Rightarrow> 'e world \<Rightarrow> bool" where
  "rsu_begun w ret v \<longleftrightarrow> \<not> w_locked v \<and> \<not> bf_abort_possible v \<and> provider_loaded (w_ss v) \<and>
     (ret = 1 \<and> cs_mode (w_cs v) = m_local \<and> desync_count (w_ss v) = desync_count (w_ss w) \<and>
        pause_count (w_ss v) = 0 \<or>
      ret = 0 \<and> cs_mode (w_cs v) = m_rsu \<and> toi_mode (w_cs v) = m_local \<and>
        desync_count (w_ss v) = Suc (desync_count (w_ss w)) \<and> pause_count (w_ss v) = 1 \<and>
        \<not> seqno_is_undefined (pause_seqno (w_ss v)))"

lemma enter_rsu_mode:
  assumes u: "\<not> w_locked u" "\<not> bf_abort_possible u" "cs_mode (w_cs u) = m_local" "provider_loaded (w_ss u)"
    and "pause_count (w_ss u) = 1" "desync_count (w_ss u) = Suc (desync_count (w_ss w))"
      "\<not> seqno_is_undefined (pause_seqno (w_ss u))"
  shows "wp (with_lock svc (seq (block
     [upd_cs (\<lambda>c. c\<lparr>toi_mode := cs_mode c\<rparr>), set_mode svc m_rsu]) (return 0))) (rsu_begun w) never u"
proof (rule wp_with_lock_quiet [OF u(1,2)])
  fix v assume v: "undisturbed u v" "w_locked v"
  then show "wp (seq (block [upd_cs (\<lambda>c. c\<lparr>toi_mode := cs_mode c\<rparr>), set_mode svc m_rsu]) (return 0))
      (\<lambda>ret x. rsu_begun w ret (x\<lparr>w_locked := False\<rparr>)) never v"
    using assms undisturbedD [OF v(1)]
    by (simp add: wp_simps wp_set_mode rsu_begun_def bf_abort_possible_def)
qed

lemma begin_rsu_spec:
  assumes "\<not> bf_abort_possible w" "\<not> w_locked w" "provider_loaded (w_ss w)" "cs_mode (w_cs w) = m_local"
    and "pause_count (w_ss w) = 0" "seqno_is_undefined (pause_seqno (w_ss w))"
    and "\<And>e. fst (prov_resync (prov svc) e) = 0"
  shows "wp (begin_rsu svc timeout) (rsu_begun w) never w"
proof -
  obtain st e1 where 1: "prov_desync (prov svc) (w_env w) = (st, e1)" by fastforce
  obtain r e2 where 2: "sv_wait_committing_transactions (server_ops svc) timeout e1 = (r, e2)" by fastforce
  obtain s e3 where 3: "prov_pause (prov svc) e2 = (s, e3)" by fastforce
  have resync: "\<exists>e'. prov_resync (prov svc) e = (0, e')" for e
    using assms(7) by (metis prod.collapse)
  show ?thesis
  proof (cases "st = 0 \<and> r = 0 \<and> \<not> seqno_is_undefined s")
    case True
    then show ?thesis
      using assms(1-6)
      by (simp add: begin_rsu_def wp_bind wp_sv_desync wp_sv_pause 1 2 3 wp_env_call
          enter_rsu_mode [simplified])
  next
    case False
    then show ?thesis
      using assms(1-6) resync
      by (auto simp: begin_rsu_def wp_simps wp_sv_desync wp_sv_pause wp_sv_resync 1 2 3 rsu_begun_def
          split: prod.split) (metis Pair_inject)+
  qed
qed

lemma end_rsu_spec:
  assumes w: "rsu_begun u 0 w" and "\<And>e. fst (prov_resync (prov svc) e) = 0" "\<And>e. fst (prov_resume (prov svc) e) = 0"
  shows "wp (end_rsu svc) (\<lambda>ret v. ret = 0 \<and> \<not> w_locked v \<and> cs_mode (w_cs v) = m_local \<and>
    toi_mode (w_cs v) = m_undefined \<and> desync_count (w_ss v) = desync_count (w_ss u) \<and>
    pause_count (w_ss v) = 0 \<and> seqno_is_undefined (pause_seqno (w_ss v))) never w"
proof -
  obtain e1 where 1: "prov_resume (prov svc) (w_env w) = (0, e1)" using assms(3) by (metis prod.collapse)
  obtain e2 where 2: "prov_resync (prov svc) e1 = (0, e2)" using assms(2) by (metis prod.collapse)
  let ?v = "with_server ((w_ss w)\<lparr>pause_seqno := seqno_undefined, pause_count := 0,
    desync_count := desync_count (w_ss u)\<rparr>) e2 w"
  have "wp (with_lock svc (seq (block
       [fetch (\<lambda>w. toi_mode (w_cs w)) (\<lambda>m. set_mode svc m),
        upd_cs (\<lambda>c. c\<lparr>toi_mode := m_undefined\<rparr>)]) (return 0)))
    (\<lambda>ret v. ret = 0 \<and> \<not> w_locked v \<and> cs_mode (w_cs v) = m_local \<and>
      toi_mode (w_cs v) = m_undefined \<and> desync_count (w_ss v) = desync_count (w_ss u) \<and>
      pause_count (w_ss v) = 0 \<and> seqno_is_undefined (pause_seqno (w_ss v))) never ?v"
  proof (rule wp_with_lock_quiet, goal_cases)
    case (3 v)
    then show ?case
      using w undisturbedD [OF 3(1)]
      by (simp add: wp_simps wp_set_mode rsu_begun_def seqno_undefined_def seqno_is_undefined_def)
  qed (use w in \<open>auto simp: rsu_begun_def\<close>)
  then show ?thesis
    using w by (simp add: end_rsu_def wp_simps wp_sv_resume wp_sv_resync 1 2 rsu_begun_def Let_def)
qed



section \<open>Commands\<close>

lemma session_allowed_iff [simp]:
  "session_allowed s_none t \<longleftrightarrow> t = s_idle"
  "session_allowed s_idle t \<longleftrightarrow> t \<in> {s_exec, s_quitting}"
  "session_allowed s_exec t \<longleftrightarrow> t = s_result"
  "session_allowed s_result t \<longleftrightarrow> t = s_idle"
  "session_allowed s_quitting t \<longleftrightarrow> t = s_none"
  by (cases t; simp add: session_allowed_def session_allowed_table_def)+

lemma session_push_state_simps [simp]:
  "cs_state (session_push_state s c) = s" "cs_transaction (session_push_state s c) = cs_transaction c"
  "owning_thread (session_push_state s c) = owning_thread c"
  "rollbacker_active (session_push_state s c) = rollbacker_active c"
  "cs_mode (session_push_state s c) = cs_mode c" "current_error (session_push_state s c) = current_error c"
  "keep_command_error (session_push_state s c) = keep_command_error c"
  by (simp_all add: session_push_state_def)

lemma undisturbed_rollbacker: "undisturbed w v \<Longrightarrow> rollbacker_active (w_cs v) = rollbacker_active (w_cs w)"
  by (auto simp: undisturbed_def)

text \<open>
  A command of a local session without a transaction: the session goes from idle through
  executing and result back to idle, the thread that runs the command owns the session from its
  start, whoever owned it before, and the client's error is cleared at the end.
\<close>

lemma command_cycle:
  assumes "\<not> w_locked w" and "cs_state (w_cs w) = s_idle" and "\<not> rollbacker_active (w_cs w)"
    and "\<not> active (trx w)" and "tstate w \<noteq> s_aborting"
  shows "\<exists>u v x. before_command svc False w = (Inr 0, u) \<and> cs_state (w_cs u) = s_exec \<and>
    owning_thread (w_cs u) = w_thread w \<and>
    after_command_before_result svc u = (Inr (), v) \<and> cs_state (w_cs v) = s_result \<and>
    after_command_after_result svc v = (Inr (), x) \<and> cs_state (w_cs x) = s_idle \<and>
    current_error (w_cs x) = e_success \<and> \<not> w_locked x \<and> \<not> active (trx x)"
proof -
  let ?I = "\<lambda>s x. \<not> w_locked x \<and> cs_state (w_cs x) = s \<and> \<not> active (trx x) \<and> tstate x \<noteq> s_aborting \<and>
    owning_thread (w_cs x) = w_thread x \<and> w_thread x = w_thread w \<and> \<not> keep_command_error (w_cs x)"
  have "wp (before_command svc False) (\<lambda>r x. r = 0 \<and> ?I s_exec x) never w"
    unfolding before_command_def
  proof (rule wp_with_lock_quiet, goal_cases)
    case (3 v)
    then show ?case
      using assms undisturbedD [OF 3(1)] undisturbed_rollbacker [OF 3(1)]
      by (simp add: wp_simps do_wait_rollback_complete_and_acquire_ownership_def wait_rollbacker_def
          do_acquire_ownership_def set_session_state_def)
  qed (use assms in \<open>simp_all add: bf_abort_possible_def\<close>)
  then obtain u where u: "before_command svc False w = (Inr 0, u)" "?I s_exec u"
    by (auto dest: wp_never_returns)
  have "wp (after_command_before_result svc) (\<lambda>_. ?I s_result) never u"
    unfolding after_command_before_result_def
  proof (rule wp_with_lock_quiet, goal_cases)
    case (3 v)
    then show ?case
      using u(2) undisturbedD [OF 3(1)] by (simp add: wp_simps set_session_state_def)
  qed (use u(2) in \<open>simp_all add: bf_abort_possible_def\<close>)
  then obtain v where v: "after_command_before_result svc u = (Inr (), v)" "?I s_result v"
    by (auto dest: wp_never_returns)
  have "wp (after_command_after_result svc) (\<lambda>_ x. ?I s_idle x \<and> current_error (w_cs x) = e_success) never v"
    unfolding after_command_after_result_def
  proof (rule wp_with_lock_quiet, goal_cases)
    case (3 x)
    then show ?case
      using v(2) undisturbedD [OF 3(1)] by (simp add: wp_simps set_session_state_def)
  qed (use v(2) in \<open>simp_all add: bf_abort_possible_def\<close>)
  then show ?thesis using u v by (auto dest: wp_never_returns)
qed

definition idle_world :: "mock world" where
  "idle_world = w_cs_update (\<lambda>c. c\<lparr>cs_state := s_idle, owning_thread := 7\<rparr>) (mock_world mock_init)"

lemma command_cycle_witness:
  "\<exists>u v x. before_command (calm_services True) False idle_world = (Inr 0, u) \<and>
    after_command_before_result (calm_services True) u = (Inr (), v) \<and>
    after_command_after_result (calm_services True) v = (Inr (), x) \<and> cs_state (w_cs x) = s_idle"
  using command_cycle [of idle_world "calm_services True"]
  by (fastforce simp: idle_world_def world_defs active_def)

end
