(* ===== verification/Reporter.thy ===== *)
theory Reporter
  imports Server_Props
begin

text \<open>
  The status reporter (\<^verbatim>\<open>reporter.hpp\<close>, \<^verbatim>\<open>reporter.cpp\<close>): it keeps the
  state of the server as one of twelve substates, the progress of the current one and the latest
  errors, warnings and events, and writes them to a file as JSON text.

  What the code takes from the system is a parameter: the clock, the time zone, the file system,
  and the floating point numbers it uses for time stamps (\<open>os_ops\<close>).
\<close>

section \<open>Data\<close>

datatype substate = s_disconnected_disconnected | s_disconnected_initializing
  | s_disconnected_initialized | s_connected_waiting | s_joining_initialized | s_joining_sst
  | s_joining_initializing | s_joining_ist | s_joined_syncing | s_synced_running
  | s_donor_sending | s_disconnecting_disconnecting

fun substate_index :: "substate \<Rightarrow> nat" where
  "substate_index s_disconnected_disconnected = 0"
| "substate_index s_disconnected_initializing = 1"
| "substate_index s_disconnected_initialized = 2"
| "substate_index s_connected_waiting = 3"
| "substate_index s_joining_initialized = 4"
| "substate_index s_joining_sst = 5"
| "substate_index s_joining_initializing = 6"
| "substate_index s_joining_ist = 7"
| "substate_index s_joined_syncing = 8"
| "substate_index s_synced_running = 9"
| "substate_index s_donor_sending = 10"
| "substate_index s_disconnecting_disconnecting = 11"

datatype report_level = rl_error | rl_warning

record 'd log_msg =
  lm_tstamp :: 'd
  lm_msg :: string

record 'd reporter =
  rp_file_name :: string
  rp_progress :: string
  rp_state :: substate
  rp_initialized :: bool
  rp_err_msg :: "'d log_msg list"
  rp_warn_msg :: "'d log_msg list"
  rp_events :: "'d log_msg list"
  rp_max_msg :: nat

text \<open>The fields of \<^verbatim>\<open>struct tm\<close> that are printed.\<close>

record tm =
  tm_year :: int
  tm_mon :: int
  tm_mday :: int
  tm_hour :: int
  tm_min :: int
  tm_sec :: int

text \<open>
  The system. A time stamp is a \<^verbatim>\<open>double\<close>: \<open>d_floor\<close> is \<^verbatim>\<open>time_t(floor(t))\<close>, \<open>d_millis\<close>
  is \<^verbatim>\<open>(int)((t - floor(t)) * 1000)\<close>, \<open>d_show\<close> prints it with 18 digits and
  \<open>d_undefined\<close> is \<^verbatim>\<open>t <= 0.0\<close>. \<open>os_mkstemp\<close> gives the name of the file it created,
  \<open>os_write\<close> what \<^verbatim>\<open>write()\<close> returned.
\<close>

record ('d, 'e) os_ops =
  d_floor :: "'d \<Rightarrow> int"
  d_millis :: "'d \<Rightarrow> int"
  d_show :: "'d \<Rightarrow> string"
  d_undefined :: "'d \<Rightarrow> bool"
  os_localtime :: "int \<Rightarrow> tm"
  os_timestamp :: "'e \<Rightarrow> 'd \<times> 'e"
  os_mkstemp :: "string \<Rightarrow> 'e \<Rightarrow> string option \<times> 'e"
  os_write :: "string \<Rightarrow> string \<Rightarrow> 'e \<Rightarrow> int \<times> 'e"
  os_rename :: "string \<Rightarrow> string \<Rightarrow> 'e \<Rightarrow> 'e"

record ('d, 'e) reporter_world =
  rw_reporter :: "'d reporter"
  rw_os :: 'e

section \<open>The report\<close>

definition TEMP_EXTENSION :: string where
  "TEMP_EXTENSION = ''.XXXXXX''"

definition quoted :: "string \<Rightarrow> string" where
  "quoted s = CHR 0x22 # s @ [CHR 0x22]"

definition make_progress_string :: "int \<Rightarrow> int \<Rightarrow> int \<Rightarrow> int \<Rightarrow> int \<Rightarrow> string" where
  "make_progress_string from to total_work finished indefinite =
     ''{ '' @ quoted ''from'' @ '': '' @ seqno_to_string from @ '', '' @
     quoted ''to'' @ '': '' @ seqno_to_string to @ '', '' @
     quoted ''total'' @ '': '' @ seqno_to_string total_work @ '', '' @
     quoted ''done'' @ '': '' @ seqno_to_string finished @ '', '' @
     quoted ''indefinite'' @ '': '' @ seqno_to_string indefinite @ '' }''"

definition indefinite_progress :: string where
  "indefinite_progress = make_progress_string (-1) (-1) (-1) (-1) (-1)"

definition steady_state :: string where
  "steady_state = make_progress_string (-1) (-1) 0 0 (-1)"

text \<open>
  \<^verbatim>\<open>std::iscntrl\<close> in the C locale, and the escapes of RFC 4627. A control character is printed
  as four hexadecimal digits.
\<close>

definition iscntrl :: "char \<Rightarrow> bool" where
  "iscntrl c \<longleftrightarrow> code c < 32 \<or> code c = 127"

definition escape_char :: "char \<Rightarrow> string" where
  "escape_char c =
     (if c = CHR 0x22 then [CHR 0x5C, CHR 0x22]
      else if c = CHR 0x5C then [CHR 0x5C, CHR 0x5C]
      else if c = CHR ''/'' then [CHR 0x5C, CHR ''/'']
      else if c = CHR 0x08 then [CHR 0x5C, CHR ''b'']
      else if c = CHR 0x0C then [CHR 0x5C, CHR ''f'']
      else if c = CHR 0x0A then [CHR 0x5C, CHR ''n'']
      else if c = CHR 0x0D then [CHR 0x5C, CHR ''r'']
      else if c = CHR 0x09 then [CHR 0x5C, CHR ''t'']
      else if iscntrl c then [CHR 0x5C, CHR ''u'', CHR ''0'', CHR ''0''] @ hex_byte c
      else [c])"

definition escape_json :: "string \<Rightarrow> string" where
  "escape_json s = concat (map escape_char s)"

definition tabs :: "nat \<Rightarrow> string" where
  "tabs n = replicate n (CHR 0x09)"

definition newline :: string where
  "newline = [CHR 0x0A]"

definition write_log_msg :: "('d, 'e) os_ops \<Rightarrow> 'd log_msg \<Rightarrow> string" where
  "write_log_msg os m = tabs 2 @ ''{'' @ newline @
     tabs 3 @ quoted ''timestamp'' @ '': '' @ d_show os (lm_tstamp m) @ '','' @ newline @
     tabs 3 @ quoted ''msg'' @ '': '' @ quoted (lm_msg m) @ newline @
     tabs 2 @ ''}''"

definition write_event :: "('d, 'e) os_ops \<Rightarrow> 'd log_msg \<Rightarrow> string" where
  "write_event os m = tabs 2 @ ''{'' @ newline @
     tabs 3 @ quoted ''timestamp'' @ '': '' @ d_show os (lm_tstamp m) @ '','' @ newline @
     tabs 3 @ quoted ''event'' @ '': '' @ lm_msg m @ newline @
     tabs 2 @ ''}''"

fun write_elements :: "('d log_msg \<Rightarrow> string) \<Rightarrow> 'd log_msg list \<Rightarrow> string" where
  "write_elements f [] = []"
| "write_elements f (m # ms) = f m @ (if ms \<noteq> [] then '','' @ newline else newline) @ write_elements f ms"

definition write_array :: "string \<Rightarrow> 'd log_msg list \<Rightarrow> ('d log_msg \<Rightarrow> string) \<Rightarrow> string" where
  "write_array label msgs f =
     tabs 1 @ quoted label @ '': ['' @ newline @ write_elements f msgs @ tabs 1 @ ''],'' @ newline"

definition substate_strings :: "(string \<times> string) list" where
  "substate_strings =
    [(''DISCONNECTED'', ''Disconnected''), (''DISCONNECTED'', ''Initializing''),
     (''DISCONNECTED'', ''Connecting''), (''CONNECTED'', ''Waiting''),
     (''JOINING'', ''Receiving state''), (''JOINING'', ''Receiving SST''),
     (''JOINING'', ''Initializing''), (''JOINING'', ''Receiving IST''), (''JOINED'', ''Syncing''),
     (''SYNCED'', ''Operational''), (''DONOR'', ''Donating SST''),
     (''DISCONNECTING'', ''Disconnecting'')]"

text \<open>The conversion \<^verbatim>\<open>%0<w>d\<close>.\<close>

definition fmt_d :: "nat \<Rightarrow> int \<Rightarrow> string" where
  "fmt_d w n = (let s = seqno_to_string \<bar>n\<bar> in
     if n < 0 then ''-'' @ replicate (w - 1 - length s) (CHR ''0'') @ s
     else replicate (w - length s) (CHR ''0'') @ s)"

definition date_str :: "('d, 'e) os_ops \<Rightarrow> 'd \<Rightarrow> string" where
  "date_str os t = (let date = os_localtime os (d_floor os t) in
     take 83 (fmt_d 4 (tm_year date + 1900) @ ''-'' @ fmt_d 2 (tm_mon date + 1) @ ''-'' @
       fmt_d 2 (tm_mday date) @ '' '' @ fmt_d 2 (tm_hour date) @ '':'' @ fmt_d 2 (tm_min date) @
       '':'' @ fmt_d 2 (tm_sec date) @ ''.'' @ fmt_d 3 (d_millis os t)))"

definition report_text :: "('d, 'e) os_ops \<Rightarrow> 'd \<Rightarrow> 'd reporter \<Rightarrow> string" where
  "report_text os t r =
     ''{'' @ newline @
     tabs 1 @ quoted ''date'' @ '': '' @ quoted (date_str os t) @ '','' @ newline @
     tabs 1 @ quoted ''timestamp'' @ '': '' @ d_show os t @ '','' @ newline @
     write_array ''errors'' (rp_err_msg r) (write_log_msg os) @
     write_array ''warnings'' (rp_warn_msg r) (write_log_msg os) @
     write_array ''events'' (rp_events r) (write_event os) @
     tabs 1 @ quoted ''status'' @ '': {'' @ newline @
     tabs 2 @ quoted ''state'' @ '': '' @
       quoted (fst (substate_strings ! substate_index (rp_state r))) @ '','' @ newline @
     tabs 2 @ quoted ''comment'' @ '': '' @
       quoted (snd (substate_strings ! substate_index (rp_state r))) @ '','' @ newline @
     tabs 2 @ quoted ''progress'' @ '': '' @ rp_progress r @ newline @
     tabs 1 @ ''}'' @ newline @ ''}'' @ newline"

section \<open>Operations\<close>

abbreviation upd_reporter ::
    "('d reporter \<Rightarrow> 'd reporter) \<Rightarrow> ('d, 'e) reporter_world \<Rightarrow> ('d, 'e) reporter_world" where
  "upd_reporter f \<equiv> rw_reporter_update f"

definition os_call :: "('e \<Rightarrow> 'r \<times> 'e) \<Rightarrow> (('d, 'e) reporter_world, 'r) cmd" where
  "os_call f = (\<lambda>w. let (r, e) = f (rw_os w) in (Inr r, w\<lparr>rw_os := e\<rparr>))"

text \<open>
  \<^verbatim>\<open>write_file\<close>: the report goes to a temporary file, which then replaces the target. An error
  is only printed.
\<close>

definition write_file :: "('d, 'e) os_ops \<Rightarrow> 'd \<Rightarrow> (('d, 'e) reporter_world, unit) cmd" where
  "write_file os t =
     fetch (\<lambda>w. report_text os t (rw_reporter w)) (\<lambda>str.
     fetch (\<lambda>w. rp_file_name (rw_reporter w)) (\<lambda>file.
     bind (os_call (os_mkstemp os (file @ TEMP_EXTENSION))) (\<lambda>temp.
       case temp of None \<Rightarrow> skip
       | Some name \<Rightarrow>
           bind (os_call (os_write os name str)) (\<lambda>err.
             if err < 0 then skip
             else modify (\<lambda>w. w\<lparr>rw_os := os_rename os name file (rw_os w)\<rparr>)))))"

definition write_file_now :: "('d, 'e) os_ops \<Rightarrow> (('d, 'e) reporter_world, unit) cmd" where
  "write_file_now os = bind (os_call (os_timestamp os)) (write_file os)"

text \<open>The constructor.\<close>

definition reporter_init :: "string \<Rightarrow> nat \<Rightarrow> 'd reporter" where
  "reporter_init file_name max_msg = \<lparr>rp_file_name = file_name, rp_progress = indefinite_progress,
     rp_state = s_disconnected_disconnected, rp_initialized = False, rp_err_msg = [],
     rp_warn_msg = [], rp_events = [], rp_max_msg = max_msg\<rparr>"

definition make_reporter ::
    "('d, 'e) os_ops \<Rightarrow> string \<Rightarrow> nat \<Rightarrow> (('d, 'e) reporter_world, unit) cmd" where
  "make_reporter os file_name max_msg =
     seq (modify (upd_reporter (\<lambda>_. reporter_init file_name max_msg))) (write_file_now os)"

text \<open>
  \<^verbatim>\<open>substate_map\<close>: the substate for a server state, and the flag it keeps. Where a debug build
  asserts that the case does not occur, other builds keep the substate.
\<close>

definition no_substate :: "bool \<Rightarrow> (('d, 'e) reporter_world, substate) cmd" where
  "no_substate debug = seq (assert_that debug ''0'' (\<lambda>_. False))
     (fetch (\<lambda>w. rp_state (rw_reporter w)) return)"

definition substate_map :: "bool \<Rightarrow> srv_state \<Rightarrow> (('d, 'e) reporter_world, substate) cmd" where
  "substate_map debug s = (case s of
     s_disconnected \<Rightarrow> seq (modify (upd_reporter (rp_initialized_update (\<lambda>_. False))))
       (return s_disconnected_disconnected)
   | s_initializing \<Rightarrow> fetch (\<lambda>w. rp_state (rw_reporter w)) (\<lambda>st.
       if st = s_disconnected_disconnected then return s_disconnected_initializing
       else if st = s_joining_sst then return s_joining_initializing
       else if st = s_joining_initializing then return s_joining_initializing
       else no_substate debug)
   | s_initialized \<Rightarrow> seq (modify (upd_reporter (rp_initialized_update (\<lambda>_. True))))
       (fetch (\<lambda>w. rp_state (rw_reporter w)) (\<lambda>st.
         if substate_index s_disconnected_initializing \<ge> substate_index st
         then return s_disconnected_initialized
         else if st = s_joining_initializing then return s_joining_ist
         else if st = s_joining_ist then return s_joining_ist
         else no_substate debug))
   | s_connected \<Rightarrow> return s_connected_waiting
   | s_joiner \<Rightarrow> fetch (\<lambda>w. rp_initialized (rw_reporter w)) (\<lambda>init.
       return (if init then s_joining_initialized else s_joining_sst))
   | s_joined \<Rightarrow> return s_joined_syncing
   | s_donor \<Rightarrow> return s_donor_sending
   | s_synced \<Rightarrow> return s_synced_running
   | s_disconnecting \<Rightarrow> return s_disconnecting_disconnecting)"

definition report_state :: "('d, 'e) os_ops \<Rightarrow> bool \<Rightarrow> srv_state \<Rightarrow> (('d, 'e) reporter_world, unit) cmd" where
  "report_state os debug s =
     bind (substate_map debug s) (\<lambda>st.
       when_st (\<lambda>w. st \<noteq> rp_state (rw_reporter w))
        (block
          [modify (upd_reporter (\<lambda>r. r\<lparr>rp_state := st,
             rp_progress := if st = s_synced_running then steady_state else indefinite_progress\<rparr>)),
           write_file_now os]))"

definition report_progress :: "('d, 'e) os_ops \<Rightarrow> string \<Rightarrow> (('d, 'e) reporter_world, unit) cmd" where
  "report_progress os json =
     when_st (\<lambda>w. json \<noteq> rp_progress (rw_reporter w) \<and> rp_state (rw_reporter w) \<noteq> s_synced_running)
      (block [modify (upd_reporter (rp_progress_update (\<lambda>_. json))), write_file_now os])"

text \<open>
  A queue of \<open>limit\<close> entries makes room for a new one. \<^verbatim>\<open>pop_front()\<close> of an empty \<^verbatim>\<open>std::deque\<close>
  has no defined behaviour.
\<close>

definition make_room :: "nat \<Rightarrow> 'a list \<Rightarrow> exn + 'a list" where
  "make_room limit q =
     (if length q = limit then (if q = [] then Inl (Undefined ''pop_front'') else Inr (tl q)) else Inr q)"

definition report_event :: "('d, 'e) os_ops \<Rightarrow> string \<Rightarrow> (('d, 'e) reporter_world, unit) cmd" where
  "report_event os json = inspect (\<lambda>w.
     case make_room (rp_max_msg (rw_reporter w)) (rp_events (rw_reporter w)) of
       Inl e \<Rightarrow> throw e
     | Inr q \<Rightarrow>
         bind (os_call (os_timestamp os)) (\<lambda>t.
         seq (modify (upd_reporter (rp_events_update (\<lambda>_. q @ [\<lparr>lm_tstamp = t, lm_msg = json\<rparr>]))))
           (write_file_now os)))"

definition log_queue :: "report_level \<Rightarrow> 'd reporter \<Rightarrow> 'd log_msg list" where
  "log_queue lvl r = (if lvl = rl_error then rp_err_msg r else rp_warn_msg r)"

definition set_log_queue :: "report_level \<Rightarrow> 'd log_msg list \<Rightarrow> 'd reporter \<Rightarrow> 'd reporter" where
  "set_log_queue lvl q r = (if lvl = rl_error then r\<lparr>rp_err_msg := q\<rparr> else r\<lparr>rp_warn_msg := q\<rparr>)"

definition report_log_msg ::
    "('d, 'e) os_ops \<Rightarrow> report_level \<Rightarrow> string \<Rightarrow> 'd \<Rightarrow> (('d, 'e) reporter_world, unit) cmd" where
  "report_log_msg os lvl msg tstamp = fetch (\<lambda>w. log_queue lvl (rw_reporter w)) (\<lambda>q.
     if q = [] \<or> msg \<noteq> lm_msg (last q) then inspect (\<lambda>w.
       case make_room (rp_max_msg (rw_reporter w)) q of
         Inl e \<Rightarrow> throw e
       | Inr q' \<Rightarrow>
           bind (if d_undefined os tstamp then os_call (os_timestamp os) else return tstamp) (\<lambda>t.
           seq (modify (upd_reporter (set_log_queue lvl
                  (q' @ [\<lparr>lm_tstamp = t, lm_msg = escape_json msg\<rparr>]))))
             (write_file os t)))
     else skip)"

section \<open>The report follows the server\<close>

lemma wp_os_call [wp_simps]:
  "wp (os_call f) Q E w = (case f (rw_os w) of (r, e) \<Rightarrow> Q r (w\<lparr>rw_os := e\<rparr>))"
  by (simp add: wp_def os_call_def split: prod.splits)

text \<open>Writing the file returns and only concerns the system.\<close>

lemma wp_write_file:
  assumes "\<And>e. Q () (w\<lparr>rw_os := e\<rparr>)"
  shows "wp (write_file os t) Q E w"
  using assms by (simp add: write_file_def wp_simps split: prod.splits option.splits)

lemma wp_write_file_now:
  assumes "\<And>e. Q () (w\<lparr>rw_os := e\<rparr>)"
  shows "wp (write_file_now os) Q E w"
  using assms
  by (simp add: write_file_now_def wp_simps split: prod.splits) (auto intro!: wp_write_file)

text \<open>
  A history of server states, the latest first. A server that is initializing or initialized
  shows what it did before, joining or not.
\<close>

fun shown_state :: "srv_state list \<Rightarrow> string" where
  "shown_state [] = ''DISCONNECTED''"
| "shown_state (s # h) = (case s of
     s_disconnected \<Rightarrow> ''DISCONNECTED'' | s_initializing \<Rightarrow> shown_state h
   | s_initialized \<Rightarrow> shown_state h | s_connected \<Rightarrow> ''CONNECTED'' | s_joiner \<Rightarrow> ''JOINING''
   | s_joined \<Rightarrow> ''JOINED'' | s_donor \<Rightarrow> ''DONOR'' | s_synced \<Rightarrow> ''SYNCED''
   | s_disconnecting \<Rightarrow> ''DISCONNECTING'')"

fun initialized_since :: "srv_state list \<Rightarrow> bool" where
  "initialized_since [] = False"
| "initialized_since (s # h) = (s = s_initialized \<or> s \<noteq> s_disconnected \<and> initialized_since h)"

text \<open>A joining server is initialized only if it was not since it was last disconnected.\<close>

fun initialized_once :: "srv_state list \<Rightarrow> bool" where
  "initialized_once (t # s # h) =
     (initialized_once (s # h) \<and> (s = s_joiner \<and> t = s_initializing \<longrightarrow> \<not> initialized_since h))"
| "initialized_once h = True"

text \<open>The substate that belongs to a history.\<close>

fun substate_of :: "srv_state list \<Rightarrow> substate" where
  "substate_of [] = s_disconnected_disconnected"
| "substate_of (s # h) = (case s of
     s_disconnected \<Rightarrow> s_disconnected_disconnected
   | s_initializing \<Rightarrow> if hd h = s_joiner then s_joining_initializing else s_disconnected_initializing
   | s_initialized \<Rightarrow> if substate_of h = s_joining_initializing then s_joining_ist
       else s_disconnected_initialized
   | s_connected \<Rightarrow> s_connected_waiting
   | s_joiner \<Rightarrow> if initialized_since h then s_joining_initialized else s_joining_sst
   | s_joined \<Rightarrow> s_joined_syncing | s_donor \<Rightarrow> s_donor_sending | s_synced \<Rightarrow> s_synced_running
   | s_disconnecting \<Rightarrow> s_disconnecting_disconnecting)"

definition reports :: "srv_state list \<Rightarrow> 'd reporter \<Rightarrow> bool" where
  "reports h r \<longleftrightarrow> rp_state r = substate_of h \<and> rp_initialized r = initialized_since h"

lemma srv_predecessor:
  assumes "srv_allowed s t"
  shows "t = s_initializing \<Longrightarrow> s = s_disconnected \<or> s = s_joiner"
    and "t = s_initialized \<Longrightarrow> s = s_initializing"
  using assms by (cases s; simp add: srv_allowed_def srv_allowed_table_def)+

lemma wp_report_state:
  assumes "reports (s # h) (rw_reporter w)" and "srv_allowed s t" and "initialized_once (t # s # h)"
  shows "wp (report_state os d t) (\<lambda>_ v. reports (t # s # h) (rw_reporter v)) never w"
  using assms srv_predecessor [OF assms(2)]
  by (cases t)
    (auto simp: report_state_def substate_map_def no_substate_def reports_def wp_simps
      intro!: wp_write_file_now split: if_splits)

lemma wp_report_states:
  assumes "reports (s # h) (rw_reporter w)" and "successively srv_allowed (s # ss)"
    and "initialized_once (rev ss @ s # h)"
  shows "wp (for_each (report_state os d) ss) (\<lambda>_ v. reports (rev ss @ s # h) (rw_reporter v)) never w"
  using assms
proof (induction ss arbitrary: s h w)
  case Nil
  then show ?case by (simp add: wp_simps)
next
  case (Cons t ss)
  have once: "initialized_once (xs @ ys) \<Longrightarrow> initialized_once ys" for xs ys
    by (induction xs) (auto elim: initialized_once.elims)
  have "wp (report_state os d t) (\<lambda>_ v. reports (t # s # h) (rw_reporter v)) never w"
    using Cons.prems once [of "rev ss" "t # s # h"] by (intro wp_report_state) auto
  then show ?case
    using Cons.prems by (auto simp: wp_simps elim!: wp_mono intro!: Cons.IH)
qed

lemma substate_shown:
  assumes "successively srv_allowed (rev h)" and "last h = s_disconnected" and "h \<noteq> []"
  shows "fst (substate_strings ! substate_index (substate_of h)) = shown_state h"
  using assms
proof (induction h rule: induct_list012)
  case (3 t s h)
  then show ?case
    using srv_predecessor [of s t]
    by (cases t) (auto simp: substate_strings_def successively_append_iff split: if_splits)
qed (auto simp: substate_strings_def)

text \<open>
  C27. The status report follows the server: reporting the states of any path of the server state
  machine from the disconnected state runs into no assertion, and the report shows the name of the
  last one; while the server initializes it shows what it did before, joining or not. This
  needs that a joining server is not initialized twice.
\<close>

theorem report_follows_server:
  assumes "successively srv_allowed (s_disconnected # ss)"
    and "initialized_once (rev (s_disconnected # ss))"
    and "rw_reporter w = reporter_init file_name max_msg"
  shows "\<exists>v. for_each (report_state os debug) ss w = (Inr (), v) \<and>
    fst (substate_strings ! substate_index (rp_state (rw_reporter v))) =
      shown_state (rev (s_disconnected # ss))"
proof -
  have "reports [s_disconnected] (rw_reporter w)"
    using assms(3) by (simp add: reports_def reporter_init_def)
  then obtain v where "for_each (report_state os debug) ss w = (Inr (), v)"
      and "reports (rev ss @ [s_disconnected]) (rw_reporter v)"
    using wp_never_returns [OF wp_report_states [of s_disconnected "[]" w ss os debug]] assms(1,2) by auto
  then show ?thesis
    using substate_shown [of "rev (s_disconnected # ss)"] assms(1) by (auto simp: reports_def)
qed

text \<open>A system for the examples: whole seconds, and the files written so far.\<close>

definition test_os :: "(int, (string \<times> string) list) os_ops" where
  "test_os = \<lparr>d_floor = \<lambda>t. t, d_millis = \<lambda>_. 0, d_show = seqno_to_string, d_undefined = \<lambda>t. t \<le> 0,
     os_localtime = \<lambda>_. \<lparr>tm_year = 121, tm_mon = 0, tm_mday = 1, tm_hour = 0, tm_min = 0, tm_sec = 0\<rparr>,
     os_timestamp = \<lambda>e. (1, e), os_mkstemp = \<lambda>n e. (Some n, e),
     os_write = \<lambda>n s e. (int (length s), (n, s) # e),
     os_rename = \<lambda>n m e. map (\<lambda>(k, s). (if k = n then m else k, s)) e\<rparr>"

definition test_reporter :: "(int, (string \<times> string) list) reporter_world" where
  "test_reporter = \<lparr>rw_reporter = reporter_init ''status.json'' 4, rw_os = []\<rparr>"

theorem report_follows_server_witness:
  "\<exists>v. for_each (report_state test_os True)
      [s_connected, s_joiner, s_initializing, s_initialized] test_reporter = (Inr (), v) \<and>
    fst (substate_strings ! substate_index (rp_state (rw_reporter v))) = ''JOINING''"
  using report_follows_server [of "[s_connected, s_joiner, s_initializing, s_initialized]" test_reporter
      "''status.json''" 4 test_os True]
  by (simp add: test_reporter_def srv_allowed_def srv_allowed_table_def)

section \<open>The log queues\<close>

lemma make_room_ok:
  assumes "0 < n" and "length q \<le> n"
  shows "make_room n q = Inr (drop (Suc (length q) - n) q)"
  using assms by (cases q) (auto simp: make_room_def)

lemma wp_report_log_msg:
  assumes "0 < rp_max_msg (rw_reporter w)"
    and "length (log_queue lvl (rw_reporter w)) \<le> rp_max_msg (rw_reporter w)"
    and "q = log_queue lvl (rw_reporter w)"
    and "Q () w \<or> q = [] \<or> msg \<noteq> lm_msg (last q)"
    and "\<And>t e. q = [] \<or> msg \<noteq> lm_msg (last q) \<Longrightarrow>
      Q () ((upd_reporter (set_log_queue lvl
        (drop (Suc (length q) - rp_max_msg (rw_reporter w)) q @
          [\<lparr>lm_tstamp = t, lm_msg = escape_json msg\<rparr>])) w)\<lparr>rw_os := e\<rparr>)"
  shows "wp (report_log_msg os lvl msg t) Q never w"
  using assms
  by (auto simp: report_log_msg_def wp_simps make_room_ok intro!: wp_write_file split: prod.splits)

lemma log_queue_set [simp]:
  "log_queue lvl (set_log_queue lvl q r) = q" "rp_max_msg (set_log_queue lvl q r) = rp_max_msg r"
  by (simp_all add: log_queue_def set_log_queue_def)

text \<open>
  The queues of reported errors and warnings: a new message is appended, the oldest ones make
  room, and the queue stays within its limit. A message that repeats the last one is left out
  if it has no character to be escaped; otherwise the queue holds the escaped text, the
  comparison fails, and the message is reported again and again.
\<close>

lemma repeated_message:
  assumes "0 < rp_max_msg (rw_reporter w)" and "q = log_queue lvl (rw_reporter w)"
    and "length q \<le> rp_max_msg (rw_reporter w)" and "q = [] \<or> msg \<noteq> lm_msg (last q)"
  shows "\<exists>u v t1 t2 q1.
    report_log_msg os lvl msg t w = (Inr (), u) \<and> report_log_msg os lvl msg t u = (Inr (), v) \<and>
    q1 = drop (Suc (length q) - rp_max_msg (rw_reporter w)) q @
      [\<lparr>lm_tstamp = t1, lm_msg = escape_json msg\<rparr>] \<and>
    log_queue lvl (rw_reporter u) = q1 \<and> length q1 \<le> rp_max_msg (rw_reporter w) \<and>
    log_queue lvl (rw_reporter v) = (if escape_json msg = msg then q1
      else drop (Suc (length q1) - rp_max_msg (rw_reporter w)) q1 @
        [\<lparr>lm_tstamp = t2, lm_msg = escape_json msg\<rparr>])"
proof -
  let ?n = "rp_max_msg (rw_reporter w)"
  have "wp (report_log_msg os lvl msg t) (\<lambda>_ v. rp_max_msg (rw_reporter v) = ?n \<and> (\<exists>t1.
      log_queue lvl (rw_reporter v) = drop (Suc (length q) - ?n) q @
        [\<lparr>lm_tstamp = t1, lm_msg = escape_json msg\<rparr>])) never w"
    using assms by (intro wp_report_log_msg) auto
  then obtain u t1 where u: "report_log_msg os lvl msg t w = (Inr (), u)"
      "rp_max_msg (rw_reporter u) = ?n" "log_queue lvl (rw_reporter u) =
        drop (Suc (length q) - ?n) q @ [\<lparr>lm_tstamp = t1, lm_msg = escape_json msg\<rparr>]"
    by (auto simp: wp_returns_iff)
  define q1 where "q1 = log_queue lvl (rw_reporter u)"
  have q1: "length q1 \<le> ?n" "q1 \<noteq> []" "lm_msg (last q1) = escape_json msg"
    using u(3) assms(1,3) by (auto simp: q1_def)
  have "wp (report_log_msg os lvl msg t) (\<lambda>_ v. \<exists>t2. log_queue lvl (rw_reporter v) =
      (if escape_json msg = msg then q1 else drop (Suc (length q1) - ?n) q1 @
        [\<lparr>lm_tstamp = t2, lm_msg = escape_json msg\<rparr>])) never u"
    using assms(1) q1 u(2) by (intro wp_report_log_msg) (auto simp: q1_def)
  then obtain v t2 where "report_log_msg os lvl msg t u = (Inr (), v)"
      "log_queue lvl (rw_reporter v) = (if escape_json msg = msg then q1
        else drop (Suc (length q1) - ?n) q1 @ [\<lparr>lm_tstamp = t2, lm_msg = escape_json msg\<rparr>])"
    by (auto simp: wp_returns_iff)
  then show ?thesis
    using u q1 unfolding q1_def by (intro exI conjI) (assumption | rule refl)+
qed

lemma repeated_message_witness:
  "\<exists>u v t1 t2. report_log_msg test_os rl_error [CHR 0x09] 5 test_reporter = (Inr (), u) \<and>
    report_log_msg test_os rl_error [CHR 0x09] 5 u = (Inr (), v) \<and>
    rp_err_msg (rw_reporter v) = [\<lparr>lm_tstamp = t1, lm_msg = [CHR 0x5C, CHR ''t'']\<rparr>,
      \<lparr>lm_tstamp = t2, lm_msg = [CHR 0x5C, CHR ''t'']\<rparr>]"
  using repeated_message [of test_reporter "[]" rl_error "[CHR 0x09]" test_os 5]
  by (simp add: test_reporter_def reporter_init_def log_queue_def escape_json_def escape_char_def) blast

section \<open>Escaped text\<close>

text \<open>
  What a reader makes of the characters between two quotes, by RFC 4627: the reference that
  \<open>escape_json\<close> is compared with.
\<close>

fun json_unescape :: "string \<Rightarrow> string option" where
  "json_unescape [] = Some []"
| "json_unescape (c # s) =
     (if c = CHR 0x5C then
       (case s of
          [] \<Rightarrow> None
        | d # r \<Rightarrow>
            if d \<in> {CHR 0x22, CHR 0x5C, CHR ''/''} then map_option ((#) d) (json_unescape r)
            else if d = CHR ''b'' then map_option ((#) (CHR 0x08)) (json_unescape r)
            else if d = CHR ''f'' then map_option ((#) (CHR 0x0C)) (json_unescape r)
            else if d = CHR ''n'' then map_option ((#) (CHR 0x0A)) (json_unescape r)
            else if d = CHR ''r'' then map_option ((#) (CHR 0x0D)) (json_unescape r)
            else if d = CHR ''t'' then map_option ((#) (CHR 0x09)) (json_unescape r)
            else if d = CHR ''u'' then
              (case r of
                 z # y # h # l # r' \<Rightarrow>
                   if z = CHR ''0'' \<and> y = CHR ''0'' \<and> isxdigit h \<and> isxdigit l
                   then map_option ((#) (char_of (16 * hex_value h + hex_value l))) (json_unescape r')
                   else None
               | _ \<Rightarrow> None)
            else None)
      else if c = CHR 0x22 \<or> code c < 32 then None
      else map_option ((#) c) (json_unescape s))"

lemma unescape_escapes:
  "json_unescape (CHR 0x5C # CHR 0x22 # s) = map_option ((#) (CHR 0x22)) (json_unescape s)"
  "json_unescape (CHR 0x5C # CHR 0x5C # s) = map_option ((#) (CHR 0x5C)) (json_unescape s)"
  "json_unescape (CHR 0x5C # CHR ''/'' # s) = map_option ((#) (CHR ''/'')) (json_unescape s)"
  "json_unescape (CHR 0x5C # CHR ''b'' # s) = map_option ((#) (CHR 0x08)) (json_unescape s)"
  "json_unescape (CHR 0x5C # CHR ''f'' # s) = map_option ((#) (CHR 0x0C)) (json_unescape s)"
  "json_unescape (CHR 0x5C # CHR ''n'' # s) = map_option ((#) (CHR 0x0A)) (json_unescape s)"
  "json_unescape (CHR 0x5C # CHR ''r'' # s) = map_option ((#) (CHR 0x0D)) (json_unescape s)"
  "json_unescape (CHR 0x5C # CHR ''t'' # s) = map_option ((#) (CHR 0x09)) (json_unescape s)"
  by simp_all

lemma unescape_hex:
  "json_unescape (CHR 0x5C # CHR ''u'' # CHR ''0'' # CHR ''0'' # hex_byte c @ s) =
    map_option ((#) c) (json_unescape s)"
proof -
  have "code c div 16 < 16" "code c mod 16 < 16" using code_less [of c] by auto
  then show ?thesis by (simp add: hex_byte_def hex_digit_props(1) hex_value_bytes)
qed

lemma unescape_plain:
  "\<lbrakk>c \<noteq> CHR 0x22; c \<noteq> CHR 0x5C; \<not> iscntrl c\<rbrakk> \<Longrightarrow>
    json_unescape (c # s) = map_option ((#) c) (json_unescape s)"
  by (simp add: iscntrl_def)

lemmas json_unescape_simps = unescape_escapes unescape_hex unescape_plain

declare json_unescape.simps(2) [simp del]

lemma unescape_char: "json_unescape (escape_char c @ s) = map_option ((#) c) (json_unescape s)"
  unfolding escape_char_def
  by (simp only: if_distrib [of "\<lambda>x. json_unescape (x @ s)"])
    (simp add: json_unescape_simps split del: if_split cong: if_cong, simp)

text \<open>
  C28. Escaping loses nothing: a JSON reader gets back every message as it was reported, so that
  no message, whatever bytes it holds, ends the string or the file early.
\<close>

theorem escape_json_roundtrip: "json_unescape (escape_json s) = Some s"
  unfolding escape_json_def
proof (induction s)
  case (Cons c s)
  then show ?case by (simp add: unescape_char)
qed simp

end
