(* ===== verification/Server_Theorems.thy ===== *)
theory Server_Theorems
  imports Instances Reporter
begin

text \<open>
  The properties of the server: desync and pause, leaving the group, the queue of rollback
  events, the registers of streaming transactions, and waiting for a state.
\<close>

section \<open>Desync and pause\<close>

text \<open>
  \<^verbatim>\<open>desync_and_pause\<close> that pauses the provider, followed by \<^verbatim>\<open>resume_and_resync\<close>, returns the
  position and restores the desync and pause counters, whether or not the provider could be
  desynced. In between the pause counter is one, and the desync counter is one higher exactly
  if the desync succeeded.
\<close>

lemma pause_restores:
  assumes "provider_loaded (w_ss w)" and "pause_count (w_ss w) = 0"
    and "seqno_is_undefined (pause_seqno (w_ss w))"
    and "\<And>e. \<not> seqno_is_undefined (fst (prov_pause (prov svc) e))"
    and "\<And>e. fst (prov_resync (prov svc) e) = 0" and "\<And>e. fst (prov_resume (prov svc) e) = 0"
  shows "\<exists>s u v. desync_and_pause svc w = (Inr s, u) \<and> \<not> seqno_is_undefined s \<and>
    pause_seqno (w_ss u) = s \<and> pause_count (w_ss u) = 1 \<and>
    desync_count (w_ss u) = desync_count (w_ss w) + (if desynced_on_pause (w_ss u) then 1 else 0) \<and>
    desynced_on_pause (w_ss u) = (fst (prov_desync (prov svc) (w_env w)) = 0) \<and>
    resume_and_resync svc u = (Inr (), v) \<and> pause_count (w_ss v) = 0 \<and>
    seqno_is_undefined (pause_seqno (w_ss v)) \<and> \<not> desynced_on_pause (w_ss v) \<and>
    desync_count (w_ss v) = desync_count (w_ss w)"
proof -
  obtain r e1 where 1: "prov_desync (prov svc) (w_env w) = (r, e1)" by fastforce
  obtain s e2 where 2: "prov_pause (prov svc) e1 = (s, e2)" by fastforce
  obtain e3 where 3: "prov_resume (prov svc) e2 = (0, e3)" using assms(6) by (metis prod.collapse)
  obtain e4 where 4: "prov_resync (prov svc) e3 = (0, e4)" using assms(5) by (metis prod.collapse)
  have s: "\<not> seqno_is_undefined s" using assms(4) [of e1] 2 by simp
  let ?u = "with_server ((w_ss w)\<lparr>desync_count := desync_count (w_ss w) + (if r = 0 then 1 else 0),
    pause_count := 1, pause_seqno := s, desynced_on_pause := (r = 0)\<rparr>) e2 w"
  have "wp (desync_and_pause svc) (\<lambda>x u. x = s \<and> w_ss u = w_ss ?u \<and> w_env u = e2) never w"
    using assms(1-3) s by (simp add: desync_and_pause_def wp_simps wp_sv_desync wp_sv_pause 1 2 Let_def)
  then obtain u where u: "desync_and_pause svc w = (Inr s, u)" "w_ss u = w_ss ?u" "w_env u = e2"
    by (auto dest: wp_never_returns)
  have "wp (resume_and_resync svc) (\<lambda>_ v. pause_count (w_ss v) = 0 \<and>
    seqno_is_undefined (pause_seqno (w_ss v)) \<and> \<not> desynced_on_pause (w_ss v) \<and>
    desync_count (w_ss v) = desync_count (w_ss w)) never u"
    using assms(1) s u(2,3) 3 4
    by (simp add: resume_and_resync_def wp_simps wp_sv_resume wp_sv_resync upd_ss_env Let_def
        seqno_undefined_def seqno_is_undefined_def)
  then obtain v where "resume_and_resync svc u = (Inr (), v)" "pause_count (w_ss v) = 0"
    "seqno_is_undefined (pause_seqno (w_ss v))" "\<not> desynced_on_pause (w_ss v)"
    "desync_count (w_ss v) = desync_count (w_ss w)"
    by (auto dest: wp_never_returns)
  with u s 1 show ?thesis by auto
qed

lemma pause_restores_witness:
  "\<exists>s u v. desync_and_pause (calm_services True) (trx_world s_executing) = (Inr s, u) \<and>
    resume_and_resync (calm_services True) u = (Inr (), v) \<and> desync_count (w_ss v) = 0"
proof -
  have "provider_loaded (w_ss (trx_world s_executing))" "pause_count (w_ss (trx_world s_executing)) = 0"
    "seqno_is_undefined (pause_seqno (w_ss (trx_world s_executing)))"
    "desync_count (w_ss (trx_world s_executing)) = 0"
    by (simp_all add: world_defs seqno_undefined_def seqno_is_undefined_def)
  moreover have "\<not> seqno_is_undefined (fst (prov_pause (prov (calm_services True)) e))"
    "fst (prov_resync (prov (calm_services True)) e) = 0"
    "fst (prov_resume (prov (calm_services True)) e) = 0" for e
    by (simp_all add: calm_services_def mock_provider_def seqno_is_undefined_def)
  ultimately show ?thesis
    using pause_restores [of "trx_world s_executing" "calm_services True"] by fastforce
qed

text \<open>
  When neither the desync nor the pause succeeds, \<^verbatim>\<open>desync_and_pause\<close> still resyncs: a desync
  of another caller that is in effect is undone, and the counter is one lower than before.
\<close>

lemma failed_pause_resyncs:
  assumes "provider_loaded (w_ss w)" and "pause_count (w_ss w) = 0"
    and "seqno_is_undefined (pause_seqno (w_ss w))" and "desync_count (w_ss w) > 0"
    and "\<And>e. fst (prov_desync (prov svc) e) \<noteq> 0"
    and "\<And>e. seqno_is_undefined (fst (prov_pause (prov svc) e))"
    and "\<And>e. fst (prov_resync (prov svc) e) = 0"
  shows "\<exists>v. desync_and_pause svc w = (Inr seqno_undefined, v) \<and>
    desync_count (w_ss v) = desync_count (w_ss w) - 1"
proof -
  obtain r e1 where 1: "prov_desync (prov svc) (w_env w) = (r, e1)" by fastforce
  obtain s e2 where 2: "prov_pause (prov svc) e1 = (s, e2)" by fastforce
  obtain e3 where 3: "prov_resync (prov svc) e2 = (0, e3)" using assms(7) by (metis prod.collapse)
  have s: "r \<noteq> 0" "seqno_is_undefined s" using assms(5) [of "w_env w"] assms(6) [of e1] 1 2 by simp_all
  have "wp (desync_and_pause svc) (\<lambda>x v. x = seqno_undefined \<and>
      desync_count (w_ss v) = desync_count (w_ss w) - 1) never w"
    using assms(1-4) s by (simp add: desync_and_pause_def wp_simps wp_sv_desync wp_sv_pause wp_sv_resync
        1 2 3 Let_def)
  then show ?thesis by (auto dest: wp_never_returns)
qed

definition stuck_services :: "mock services" where
  "stuck_services = (calm_services True)\<lparr>prov := (prov (calm_services True))
     \<lparr>prov_desync := \<lambda>e. (1, e), prov_pause := \<lambda>e. (-1, e)\<rparr>\<rparr>"

lemma failed_pause_resyncs_witness:
  "\<exists>v. desync_and_pause stuck_services (upd_ss (\<lambda>s. s\<lparr>desync_count := 1\<rparr>) (trx_world s_executing)) =
      (Inr seqno_undefined, v) \<and> desync_count (w_ss v) = 0"
  using failed_pause_resyncs [of "upd_ss (\<lambda>s. s\<lparr>desync_count := 1\<rparr>) (trx_world s_executing)" stuck_services]
  by (simp add: stuck_services_def calm_services_def mock_provider_def seqno_is_undefined_def
      seqno_undefined_def world_defs)

section \<open>Leaving the group\<close>

text \<open>Closing an applier changes the register and the environment only.\<close>

lemma wp_close_entry:
  "wp (block [roll_back_applier svc h sa, erase_applier svc h k sa]) (\<lambda>_ v. \<exists>e. v = with_server
     ((w_ss w)\<lparr>streaming_appliers := om_erase k (streaming_appliers (w_ss w))\<rparr>) e w) never w"
  by (auto simp: roll_back_applier_def erase_applier_def wp_simps upd_ss_env split: prod.splits)

lemma wp_close_all:
  "wp (for_each (\<lambda>(k, sa). block [roll_back_applier svc h sa, erase_applier svc h k sa]) xs)
     (\<lambda>_ v. \<exists>e. v = with_server ((w_ss w)\<lparr>streaming_appliers :=
        filter (\<lambda>p. fst p \<notin> fst ` set xs) (streaming_appliers (w_ss w))\<rparr>) e w) never w"
proof (induction xs arbitrary: w)
  case Nil
  show ?case by (simp add: wp_simps with_server_def exI [of _ "w_env w"])
next
  case (Cons x xs)
  obtain k sa where x: "x = (k, sa)" by fastforce
  show ?case
    unfolding x for_each.simps prod.case wp_seq
  proof (rule wp_mono [OF wp_close_entry], goal_cases)
    case (1 _ v)
    then obtain e where v: "v = with_server
        ((w_ss w)\<lparr>streaming_appliers := om_erase k (streaming_appliers (w_ss w))\<rparr>) e w" by blast
    show ?case
      by (rule wp_mono [OF Cons.IH]) (auto simp: v om_erase_def intro!: arg_cong [where f = "\<lambda>ss. with_server ss _ _"]
          filter_cong)
  qed simp
qed

lemma wp_close_transactions:
  "wp (close_transactions_at_disconnect svc h) (\<lambda>_ v. \<exists>e. v = with_server
     ((w_ss w)\<lparr>streaming_appliers := [], streaming_appliers_recovered := False\<rparr>) e w) never w"
  unfolding close_transactions_at_disconnect_def wp_block wp_fetch
  by (rule wp_mono [OF wp_close_all]) (auto simp: wp_simps)



section \<open>Rollback events\<close>

definition send_rollbacks :: "'e services \<Rightarrow> transaction_id list \<Rightarrow> 'e \<Rightarrow> 'e" where
  "send_rollbacks svc is e = fold (\<lambda>i e. snd (prov_rollback (prov svc) i e)) is e"

lemma wp_send_events:
  assumes "provider_loaded (w_ss w)" and "rollback_event_queue (w_ss w) = is @ rest"
  shows "wp (send_events svc is) (\<lambda>st v. \<exists>sent left. is = sent @ left \<and> (st = success \<longleftrightarrow> left = []) \<and>
    v = with_server ((w_ss w)\<lparr>rollback_event_queue := left @ rest\<rparr>)
      (send_rollbacks svc (sent @ take 1 left) (w_env w)) w) never w"
  using assms
proof (induction "is" arbitrary: w)
  case Nil
  then show ?case by (simp add: wp_simps send_rollbacks_def with_server_def)
next
  case (Cons i "is")
  obtain st e where r: "prov_rollback (prov svc) i (w_env w) = (st, e)" by fastforce
  show ?case
  proof (cases "st = success")
    case False
    then show ?thesis
      using Cons.prems r
      by (simp add: wp_simps) (rule exI [of _ "[]"], rule exI [of _ "i # is"],
        simp add: send_rollbacks_def with_server_def)
  next
    case True
    let ?u = "with_server ((w_ss w)\<lparr>rollback_event_queue := is @ rest\<rparr>) e w"
    have "wp (send_events svc is) (\<lambda>st v. \<exists>sent left. is = sent @ left \<and> (st = success \<longleftrightarrow> left = []) \<and>
        v = with_server ((w_ss ?u)\<lparr>rollback_event_queue := left @ rest\<rparr>)
          (send_rollbacks svc (sent @ take 1 left) e) ?u) never ?u"
      using Cons.IH [of ?u] Cons.prems by simp
    then have "wp (send_events svc is) (\<lambda>st v. \<exists>sent left. i # is = sent @ left \<and> (st = success \<longleftrightarrow> left = []) \<and>
        v = with_server ((w_ss w)\<lparr>rollback_event_queue := left @ rest\<rparr>)
          (send_rollbacks svc (sent @ take 1 left) (w_env w)) w) never ?u"
    proof (rule wp_mono, goal_cases)
      case (1 st v)
      then obtain sent left where "is = sent @ left" "st = success \<longleftrightarrow> left = []"
        "v = with_server ((w_ss w)\<lparr>rollback_event_queue := left @ rest\<rparr>)
          (send_rollbacks svc (sent @ take 1 left) e) w" by auto
      then show ?case
        using r by (intro exI [of _ "i # sent"] exI [of _ left]) (simp add: send_rollbacks_def)
    qed simp
    then show ?thesis
      using Cons.prems True r by (simp add: wp_simps upd_ss_env)
  qed
qed



section \<open>Coming back from a partition\<close>

text \<open>
  A server that initializes after the state transfer and comes back from a partition goes
  through the joiner, initializing and initialized states once more. A status reporter that
  follows these states and has seen the server initialized since it connected does not
  expect this: a debug build fails an assertion, other builds go on showing the state of the
  joiner.
\<close>

lemma rejoin_not_reported:
  assumes "srv w = s_connected" and "init_initialized (w_ss w)"
    and "sv_sst_before_init (server_ops svc) (w_env w)"
    and "rp_state (rw_reporter r) = s_connected_waiting" and "rp_initialized (rw_reporter r)"
  shows "(\<exists>v. walk_to_joiner svc w = (Inr (), v) \<and> sv_state_hist (w_ss v) @ [srv v] =
      sv_state_hist (w_ss w) @ [s_connected, s_joiner, s_initializing, s_initialized]) \<and>
    fst (for_each (report_state os True) [s_joiner, s_initializing, s_initialized] r) = Inl (Assertion ''0'') \<and>
    (\<exists>u. for_each (report_state os False) [s_joiner, s_initializing, s_initialized] r = (Inr (), u) \<and>
      rp_state (rw_reporter u) = s_joining_initialized)"
proof -
  have "wp (walk_to_joiner svc) (\<lambda>_ v. sv_state_hist (w_ss v) @ [srv v] =
      sv_state_hist (w_ss w) @ [s_connected, s_joiner, s_initializing, s_initialized]) never w"
    using assms(1-3) by (simp add: walk_to_joiner_def wp_simps wp_sv_set_state)
  moreover have "wp (for_each (report_state os True) [s_joiner, s_initializing, s_initialized])
      (\<lambda>_ _. False) (\<lambda>x _. x = Assertion ''0'') r"
    using assms(4,5)
    by (auto simp: report_state_def substate_map_def no_substate_def wp_simps intro!: wp_write_file_now)
  moreover have "wp (for_each (report_state os False) [s_joiner, s_initializing, s_initialized])
      (\<lambda>_ u. rp_state (rw_reporter u) = s_joining_initialized) never r"
    using assms(4,5)
    by (auto simp: report_state_def substate_map_def no_substate_def wp_simps intro!: wp_write_file_now)
  ultimately show ?thesis
    by (auto simp: wp_returns_iff) (auto simp: wp_def split: prod.splits sum.splits)
qed

definition sst_first_services :: "mock services" where
  "sst_first_services = (calm_services True)\<lparr>server_ops := (server_ops (calm_services True))
     \<lparr>sv_sst_before_init := \<lambda>_. True\<rparr>\<rparr>"

lemma rejoin_not_reported_witness:
  "fst (for_each (report_state test_os True) [s_joiner, s_initializing, s_initialized]
     (upd_reporter (\<lambda>r. r\<lparr>rp_state := s_connected_waiting, rp_initialized := True\<rparr>) test_reporter)) =
     Inl (Assertion ''0'')"
  using rejoin_not_reported [of "upd_ss (\<lambda>s. s\<lparr>sv_state := s_connected, init_initialized := True\<rparr>)
      (trx_world s_executing)" sst_first_services
      "upd_reporter (\<lambda>r. r\<lparr>rp_state := s_connected_waiting, rp_initialized := True\<rparr>) test_reporter" test_os]
  by (simp add: sst_first_services_def)

end
