(* ===== verification/Provider_Services.thy ===== *)
theory Provider_Services
  imports Identifiers
begin

text \<open>
  The optional services that the application offers to the provider library: the helpers that
  look up functions in the library (\<^verbatim>\<open>service_helpers.hpp\<close>), the initialization and
  deinitialization of the thread, TLS, allowlist, event and connection monitor services
  (\<^verbatim>\<open>thread_service_v1.cpp\<close> and its siblings), and how \<^verbatim>\<open>wsrep_provider_v26.cpp\<close> enables and
  disables them all.

  The library is a parameter: which symbols it has and what its functions return. The
  state are the static variables of the adapters: the implementation in use and its count of
  users. The callbacks are in theory \<open>Service_Callbacks\<close>.
\<close>

section \<open>The library and the state of the adapters\<close>

definition ENOTSUP :: int where
  "ENOTSUP = 95"

definition EALREADY :: int where
  "EALREADY = 114"

text \<open>
  \<open>dl_handle\<close>: a library is loaded; \<open>dl_symbol\<close>: \<^verbatim>\<open>dlsym()\<close> finds the symbol; \<open>dl_call\<close>: the function
  of this name is called. The symbols are constants of the library's headers.
\<close>

record service_symbols =
  sym_init :: string
  sym_deinit :: string

record 'e dl_ops =
  dl_debug :: bool
  dl_handle :: bool
  dl_symbol :: "string \<Rightarrow> bool"
  dl_call :: "string \<Rightarrow> 'e \<Rightarrow> int \<times> 'e"
  thread_symbols :: service_symbols
  tls_symbols :: service_symbols
  allowlist_symbols :: service_symbols
  event_symbols :: service_symbols
  monitor_symbols :: service_symbols
  sym_node_isolation :: string
  sym_certify_v1 :: string
  thread_before_init :: "nat \<Rightarrow> 'e \<Rightarrow> int \<times> 'e"
  thread_after_init :: "nat \<Rightarrow> 'e \<Rightarrow> int \<times> 'e"

text \<open>Implementations are pointers; \<open>None\<close> is the null pointer. The count is a \<^verbatim>\<open>size_t\<close>.\<close>

record service_slot =
  sl_impl :: "nat option"
  sl_use_count :: u64

record service_globals =
  thread_slot :: service_slot
  tls_slot :: service_slot
  allowlist_slot :: service_slot
  monitor_slot :: service_slot
  event_initialized :: bool
  node_isolation_mode_set :: bool
  certify_v1_resolved :: bool

text \<open>The services offered, and those that the provider object has enabled.\<close>

record services_offer =
  so_thread :: "nat option"
  so_tls :: "nat option"
  so_allowlist :: "nat option"
  so_event :: "nat option"
  so_monitor :: "nat option"

definition no_services :: services_offer where
  "no_services = \<lparr>so_thread = None, so_tls = None, so_allowlist = None, so_event = None, so_monitor = None\<rparr>"

record 'e dl_world =
  dw_globals :: service_globals
  dw_enabled :: services_offer
  dw_env :: 'e

abbreviation upd_globals :: "(service_globals \<Rightarrow> service_globals) \<Rightarrow> 'e dl_world \<Rightarrow> 'e dl_world" where
  "upd_globals \<equiv> dw_globals_update"

definition dl_run :: "('e \<Rightarrow> 'r \<times> 'e) \<Rightarrow> ('e dl_world, 'r) cmd" where
  "dl_run f = (\<lambda>w. let (r, e) = f (dw_env w) in (Inr r, w\<lparr>dw_env := e\<rparr>))"

definition dl_do :: "('e \<Rightarrow> 'e) \<Rightarrow> ('e dl_world, unit) cmd" where
  "dl_do f = modify (\<lambda>w. w\<lparr>dw_env := f (dw_env w)\<rparr>)"

section \<open>Helpers\<close>

definition service_probe :: "'e dl_ops \<Rightarrow> string \<Rightarrow> int" where
  "service_probe dl symbol = (if dl_symbol dl symbol then 0 else ENOTSUP)"

definition service_init :: "'e dl_ops \<Rightarrow> string \<Rightarrow> 'e \<Rightarrow> int \<times> 'e" where
  "service_init dl symbol e = (if dl_symbol dl symbol then dl_call dl symbol e else (ENOTSUP, e))"

definition service_deinit :: "'e dl_ops \<Rightarrow> string \<Rightarrow> 'e \<Rightarrow> 'e" where
  "service_deinit dl symbol e = (if dl_symbol dl symbol then snd (dl_call dl symbol e) else e)"

definition resolve_function :: "'e dl_ops \<Rightarrow> string \<Rightarrow> bool" where
  "resolve_function dl symbol = dl_symbol dl symbol"

section \<open>The adapters\<close>

text \<open>
  The thread, TLS, allowlist and connection monitor services follow one pattern: both functions
  must be there; the implementation is recorded before the library is called and forgotten
  if that fails.
\<close>

definition service_v1_probe :: "'e dl_ops \<Rightarrow> service_symbols \<Rightarrow> int" where
  "service_v1_probe dl names =
     (if service_probe dl (sym_init names) \<noteq> 0 \<or> service_probe dl (sym_deinit names) \<noteq> 0 then 1 else 0)"

definition service_v1_init :: "'e dl_ops \<Rightarrow> service_symbols \<Rightarrow>
    ((service_slot \<Rightarrow> service_slot) \<Rightarrow> service_globals \<Rightarrow> service_globals) \<Rightarrow> nat option \<Rightarrow>
    ('e dl_world, int) cmd" where
  "service_v1_init dl names upd service =
     (if \<not> (dl_handle dl \<and> service \<noteq> None) then return EINVAL
      else seq (modify (upd_globals (upd (sl_impl_update (\<lambda>_. service)))))
        (bind (dl_run (service_init dl (sym_init names))) (\<lambda>ret.
          seq (modify (upd_globals (upd (if ret \<noteq> 0 then sl_impl_update (\<lambda>_. None)
                 else sl_use_count_update (\<lambda>n. n + 1)))))
            (return ret))))"

definition release_slot :: "service_slot \<Rightarrow> service_slot" where
  "release_slot s = (let n = sl_use_count s - 1 in
     s\<lparr>sl_use_count := n, sl_impl := if n = 0 then None else sl_impl s\<rparr>)"

definition service_v1_deinit :: "'e dl_ops \<Rightarrow> service_symbols \<Rightarrow>
    ((service_slot \<Rightarrow> service_slot) \<Rightarrow> service_globals \<Rightarrow> service_globals) \<Rightarrow> ('e dl_world, unit) cmd" where
  "service_v1_deinit dl names upd =
     seq (dl_do (service_deinit dl (sym_deinit names))) (modify (upd_globals (upd release_slot)))"

definition thread_service_v1_probe :: "'e dl_ops \<Rightarrow> int" where
  "thread_service_v1_probe dl = service_v1_probe dl (thread_symbols dl)"

definition thread_service_v1_init :: "'e dl_ops \<Rightarrow> nat option \<Rightarrow> ('e dl_world, int) cmd" where
  "thread_service_v1_init dl = service_v1_init dl (thread_symbols dl) thread_slot_update"

definition thread_service_v1_deinit :: "'e dl_ops \<Rightarrow> ('e dl_world, unit) cmd" where
  "thread_service_v1_deinit dl = service_v1_deinit dl (thread_symbols dl) thread_slot_update"

definition tls_service_v1_probe :: "'e dl_ops \<Rightarrow> int" where
  "tls_service_v1_probe dl = service_v1_probe dl (tls_symbols dl)"

definition tls_service_v1_init :: "'e dl_ops \<Rightarrow> nat option \<Rightarrow> ('e dl_world, int) cmd" where
  "tls_service_v1_init dl = service_v1_init dl (tls_symbols dl) tls_slot_update"

definition tls_service_v1_deinit :: "'e dl_ops \<Rightarrow> ('e dl_world, unit) cmd" where
  "tls_service_v1_deinit dl = service_v1_deinit dl (tls_symbols dl) tls_slot_update"

definition allowlist_service_v1_probe :: "'e dl_ops \<Rightarrow> int" where
  "allowlist_service_v1_probe dl = service_v1_probe dl (allowlist_symbols dl)"

definition allowlist_service_v1_init :: "'e dl_ops \<Rightarrow> nat option \<Rightarrow> ('e dl_world, int) cmd" where
  "allowlist_service_v1_init dl = service_v1_init dl (allowlist_symbols dl) allowlist_slot_update"

definition allowlist_service_v1_deinit :: "'e dl_ops \<Rightarrow> ('e dl_world, unit) cmd" where
  "allowlist_service_v1_deinit dl = service_v1_deinit dl (allowlist_symbols dl) allowlist_slot_update"

definition connection_monitor_service_v1_probe :: "'e dl_ops \<Rightarrow> int" where
  "connection_monitor_service_v1_probe dl = service_v1_probe dl (monitor_symbols dl)"

definition connection_monitor_service_v1_init :: "'e dl_ops \<Rightarrow> nat option \<Rightarrow> ('e dl_world, int) cmd" where
  "connection_monitor_service_v1_init dl = service_v1_init dl (monitor_symbols dl) monitor_slot_update"

definition connection_monitor_service_v1_deinit :: "'e dl_ops \<Rightarrow> ('e dl_world, unit) cmd" where
  "connection_monitor_service_v1_deinit dl =
     block [dl_do (service_deinit dl (sym_deinit (monitor_symbols dl))),
       assert_that (dl_debug dl) ''use_count > 0''
         (\<lambda>w. sl_use_count (monitor_slot (dw_globals w)) > 0),
       modify (upd_globals (monitor_slot_update release_slot))]"

text \<open>The event service allows one user at a time, held in an atomic flag.\<close>

definition event_service_v1_probe :: "'e dl_ops \<Rightarrow> int" where
  "event_service_v1_probe dl = service_v1_probe dl (event_symbols dl)"

definition event_service_v1_init :: "'e dl_ops \<Rightarrow> nat option \<Rightarrow> ('e dl_world, int) cmd" where
  "event_service_v1_init dl service =
     (if \<not> (dl_handle dl \<and> service \<noteq> None) then return EINVAL
      else branch (\<lambda>w. event_initialized (dw_globals w)) (return EALREADY)
        (seq (modify (upd_globals (event_initialized_update (\<lambda>_. True))))
          (bind (dl_run (service_init dl (sym_init (event_symbols dl)))) (\<lambda>ret.
            seq (only_if (ret \<noteq> 0) (modify (upd_globals (event_initialized_update (\<lambda>_. False)))))
              (return ret)))))"

definition event_service_v1_deinit :: "'e dl_ops \<Rightarrow> ('e dl_world, unit) cmd" where
  "event_service_v1_deinit dl =
     block [when_st (\<lambda>w. event_initialized (dw_globals w))
         (dl_do (service_deinit dl (sym_deinit (event_symbols dl)))),
       modify (upd_globals (event_initialized_update (\<lambda>_. False)))]"

section \<open>The services of a provider object\<close>

definition init_thread_service :: "'e dl_ops \<Rightarrow> nat \<Rightarrow> ('e dl_world, int) cmd" where
  "init_thread_service dl service =
     (if thread_service_v1_probe dl \<noteq> 0 then return 1
      else bind (dl_run (thread_before_init dl service)) (\<lambda>b.
        if b \<noteq> 0 then return 1
        else seq (thread_service_v1_init dl (Some service))
          (bind (dl_run (thread_after_init dl service)) (\<lambda>a.
            return (if a \<noteq> 0 then 1 else 0)))))"

definition init_tls_service :: "'e dl_ops \<Rightarrow> nat \<Rightarrow> ('e dl_world, int) cmd" where
  "init_tls_service dl service =
     (if tls_service_v1_probe dl = 0 then tls_service_v1_init dl (Some service) else return 1)"

definition init_allowlist_service :: "'e dl_ops \<Rightarrow> nat \<Rightarrow> ('e dl_world, int) cmd" where
  "init_allowlist_service dl service =
     (if allowlist_service_v1_probe dl = 0 then allowlist_service_v1_init dl (Some service) else return 1)"

definition init_event_service :: "'e dl_ops \<Rightarrow> nat \<Rightarrow> ('e dl_world, int) cmd" where
  "init_event_service dl service =
     (if event_service_v1_probe dl = 0 then event_service_v1_init dl (Some service) else return 1)"

definition init_connection_monitor_service :: "'e dl_ops \<Rightarrow> nat \<Rightarrow> ('e dl_world, int) cmd" where
  "init_connection_monitor_service dl service =
     (if connection_monitor_service_v1_probe dl = 0
      then connection_monitor_service_v1_init dl (Some service) else return 1)"

text \<open>A service that must be there: without it the constructor of the provider throws.\<close>

definition require_service :: "string \<Rightarrow> (nat \<Rightarrow> ('e dl_world, int) cmd) \<Rightarrow>
    (services_offer \<Rightarrow> services_offer) \<Rightarrow> nat option \<Rightarrow> ('e dl_world, unit) cmd" where
  "require_service msg init enable service = (case service of None \<Rightarrow> skip
     | Some s \<Rightarrow> bind (init s) (\<lambda>r. if r \<noteq> 0 then throw (Runtime_error msg)
         else modify (dw_enabled_update enable)))"

definition optional_service :: "(nat \<Rightarrow> ('e dl_world, int) cmd) \<Rightarrow>
    (services_offer \<Rightarrow> services_offer) \<Rightarrow> nat option \<Rightarrow> ('e dl_world, unit) cmd" where
  "optional_service init enable service = (case service of None \<Rightarrow> skip
     | Some s \<Rightarrow> bind (init s) (\<lambda>r. only_if (r = 0) (modify (dw_enabled_update enable))))"

definition init_services :: "'e dl_ops \<Rightarrow> services_offer \<Rightarrow> ('e dl_world, unit) cmd" where
  "init_services dl offer = block
     [require_service ''Failed to initialize thread service'' (init_thread_service dl)
        (so_thread_update (\<lambda>_. so_thread offer)) (so_thread offer),
      require_service ''Failed to initialize TLS service'' (init_tls_service dl)
        (so_tls_update (\<lambda>_. so_tls offer)) (so_tls offer),
      require_service ''Failed to initialize allowlist service'' (init_allowlist_service dl)
        (so_allowlist_update (\<lambda>_. so_allowlist offer)) (so_allowlist offer),
      optional_service (init_event_service dl) (so_event_update (\<lambda>_. so_event offer)) (so_event offer),
      modify (upd_globals (node_isolation_mode_set_update
        (\<lambda>_. resolve_function dl (sym_node_isolation dl)))),
      modify (upd_globals (certify_v1_resolved_update (\<lambda>_. resolve_function dl (sym_certify_v1 dl)))),
      optional_service (init_connection_monitor_service dl) (so_monitor_update (\<lambda>_. so_monitor offer))
        (so_monitor offer)]"

definition deinit_services :: "'e dl_ops \<Rightarrow> ('e dl_world, unit) cmd" where
  "deinit_services dl = block
     [when_st (\<lambda>w. so_event (dw_enabled w) \<noteq> None) (event_service_v1_deinit dl),
      when_st (\<lambda>w. so_tls (dw_enabled w) \<noteq> None) (tls_service_v1_deinit dl),
      when_st (\<lambda>w. so_thread (dw_enabled w) \<noteq> None) (thread_service_v1_deinit dl),
      when_st (\<lambda>w. so_allowlist (dw_enabled w) \<noteq> None) (allowlist_service_v1_deinit dl),
      modify (upd_globals (node_isolation_mode_set_update (\<lambda>_. False))),
      when_st (\<lambda>w. so_monitor (dw_enabled w) \<noteq> None) (connection_monitor_service_v1_deinit dl)]"

section \<open>Users are counted\<close>

lemma wp_dl_run [wp_simps]:
  "wp (dl_run f) Q E w = (case f (dw_env w) of (r, e) \<Rightarrow> Q r (w\<lparr>dw_env := e\<rparr>))"
  by (simp add: wp_def dl_run_def split: prod.splits)

abbreviation users :: "(service_globals \<Rightarrow> service_slot) \<Rightarrow> 'e dl_world \<Rightarrow> u64" where
  "users slot w \<equiv> sl_use_count (slot (dw_globals w))"

definition one_if :: "nat option \<Rightarrow> u64" where
  "one_if service = (if service = None then 0 else 1)"

text \<open>
  Every service that is enabled has one user more than before and its callbacks find the
  implementation, the others have as many users as before.
\<close>

definition installed :: "nat option \<Rightarrow> service_slot \<Rightarrow> bool" where
  "installed service s \<longleftrightarrow> service = None \<or> sl_impl s = service"

definition counted :: "'e dl_world \<Rightarrow> 'e dl_world \<Rightarrow> bool" where
  "counted w v \<longleftrightarrow>
     users thread_slot v = users thread_slot w + one_if (so_thread (dw_enabled v)) \<and>
     users tls_slot v = users tls_slot w + one_if (so_tls (dw_enabled v)) \<and>
     users allowlist_slot v = users allowlist_slot w + one_if (so_allowlist (dw_enabled v)) \<and>
     users monitor_slot v = users monitor_slot w + one_if (so_monitor (dw_enabled v)) \<and>
     installed (so_thread (dw_enabled v)) (thread_slot (dw_globals v)) \<and>
     installed (so_tls (dw_enabled v)) (tls_slot (dw_globals v)) \<and>
     installed (so_allowlist (dw_enabled v)) (allowlist_slot (dw_globals v)) \<and>
     installed (so_monitor (dw_enabled v)) (monitor_slot (dw_globals v)) \<and>
     event_initialized (dw_globals v) =
       (event_initialized (dw_globals w) \<or> so_event (dw_enabled v) \<noteq> None) \<and>
     (event_initialized (dw_globals w) \<longrightarrow> so_event (dw_enabled v) = None)"

text \<open>What an attempt to initialize a service does to its slot: nothing but the implementation
  pointer changes if it fails, and one user is added if it succeeds.\<close>

lemma wp_service_v1_init:
  assumes upd: "\<And>f g x. upd f (upd g x) = upd (f \<circ> g) x" "\<And>x. upd id x = x"
    and fail: "\<And>r f e. \<lbrakk>r \<noteq> 0; \<And>x. sl_use_count (f x) = sl_use_count x\<rbrakk> \<Longrightarrow>
      Q r (upd_globals (upd f) (w\<lparr>dw_env := e\<rparr>))"
    and ok: "\<And>f e. \<lbrakk>\<And>x. sl_use_count (f x) = sl_use_count x + 1; \<And>x. sl_impl (f x) = service\<rbrakk> \<Longrightarrow>
      Q 0 (upd_globals (upd f) (w\<lparr>dw_env := e\<rparr>))"
  shows "wp (service_v1_init dl names upd service) Q E w"
proof -
  have same: "Q r w" if "r \<noteq> 0" for r
  proof -
    have "upd_globals (upd id) w = w" using upd(2) by (cases w) simp
    then show ?thesis using fail [of r id "dw_env w"] that by simp
  qed
  have fail': "Q r (upd_globals (\<lambda>g. upd (sl_impl_update (\<lambda>_. None)) (upd (sl_impl_update (\<lambda>_. service)) g))
      (w\<lparr>dw_env := e\<rparr>))" if "r \<noteq> 0" for r e
    using fail [of r "sl_impl_update (\<lambda>_. None) \<circ> sl_impl_update (\<lambda>_. service)" e] that upd(1) by simp
  have ok': "Q 0 (upd_globals (\<lambda>g. upd (sl_use_count_update (\<lambda>n. n + 1)) (upd (sl_impl_update (\<lambda>_. service)) g))
      (w\<lparr>dw_env := e\<rparr>))" for e
    using ok [of "sl_use_count_update (\<lambda>n. n + 1) \<circ> sl_impl_update (\<lambda>_. service)" e] upd(1) by simp
  show ?thesis
    using same fail' fail' [of 95 "dw_env w"] ok'
    by (simp add: service_v1_init_def service_init_def wp_simps EINVAL_def ENOTSUP_def comp_def
        split: prod.splits)
qed

lemma slot_update_laws:
  "thread_slot_update f (thread_slot_update g x) = thread_slot_update (f \<circ> g) x"
  "tls_slot_update f (tls_slot_update g x) = tls_slot_update (f \<circ> g) x"
  "allowlist_slot_update f (allowlist_slot_update g x) = allowlist_slot_update (f \<circ> g) x"
  "monitor_slot_update f (monitor_slot_update g x) = monitor_slot_update (f \<circ> g) x"
  "thread_slot_update id x = x" "tls_slot_update id x = x" "allowlist_slot_update id x = x"
  "monitor_slot_update id x = x"
  by (simp_all add: comp_def)

lemma wp_require_tls:
  assumes "counted w v" and "so_tls (dw_enabled v) = None"
  shows "wp (require_service msg (init_tls_service dl) (so_tls_update (\<lambda>_. s)) s)
    (\<lambda>_ u. counted w u \<and> dw_enabled u = (dw_enabled v)\<lparr>so_tls := s\<rparr>) (\<lambda>_ _. True) v"
proof (cases s)
  case (Some x)
  have "wp (tls_service_v1_init dl (Some x)) (\<lambda>r u. r \<noteq> 0 \<or>
      counted w (dw_enabled_update (so_tls_update (\<lambda>_. s)) u) \<and> dw_enabled u = dw_enabled v) (\<lambda>_ _. True) v"
    unfolding tls_service_v1_init_def
    by (rule wp_service_v1_init) (use assms Some in \<open>auto simp: slot_update_laws counted_def one_if_def installed_def\<close>)
  then show ?thesis
    using Some by (auto simp: require_service_def init_tls_service_def wp_simps elim: wp_mono)
qed (use assms in \<open>auto simp: require_service_def wp_simps\<close>)

lemma wp_require_allowlist:
  assumes "counted w v" and "so_allowlist (dw_enabled v) = None"
  shows "wp (require_service msg (init_allowlist_service dl) (so_allowlist_update (\<lambda>_. s)) s)
    (\<lambda>_ u. counted w u \<and> dw_enabled u = (dw_enabled v)\<lparr>so_allowlist := s\<rparr>) (\<lambda>_ _. True) v"
proof (cases s)
  case (Some x)
  have "wp (allowlist_service_v1_init dl (Some x)) (\<lambda>r u. r \<noteq> 0 \<or>
      counted w (dw_enabled_update (so_allowlist_update (\<lambda>_. s)) u) \<and> dw_enabled u = dw_enabled v) (\<lambda>_ _. True) v"
    unfolding allowlist_service_v1_init_def
    by (rule wp_service_v1_init) (use assms Some in \<open>auto simp: slot_update_laws counted_def one_if_def installed_def\<close>)
  then show ?thesis
    using Some by (auto simp: require_service_def init_allowlist_service_def wp_simps elim: wp_mono)
qed (use assms in \<open>auto simp: require_service_def wp_simps\<close>)

definition same_required :: "services_offer \<Rightarrow> services_offer \<Rightarrow> bool" where
  "same_required x y \<longleftrightarrow> so_thread x = so_thread y \<and> so_tls x = so_tls y \<and> so_allowlist x = so_allowlist y"

lemma wp_optional_monitor:
  assumes "counted w v" and "so_monitor (dw_enabled v) = None"
  shows "wp (optional_service (init_connection_monitor_service dl) (so_monitor_update (\<lambda>_. s)) s)
    (\<lambda>_ u. counted w u \<and> same_required (dw_enabled u) (dw_enabled v)) (\<lambda>_ _. True) v"
proof (cases s)
  case (Some x)
  have "wp (connection_monitor_service_v1_init dl (Some x)) (\<lambda>r u. dw_enabled u = dw_enabled v \<and>
      (if r \<noteq> 0 then counted w u else counted w (dw_enabled_update (so_monitor_update (\<lambda>_. s)) u)))
      (\<lambda>_ _. True) v"
    unfolding connection_monitor_service_v1_init_def
    by (rule wp_service_v1_init) (use assms Some in \<open>auto simp: slot_update_laws counted_def one_if_def installed_def\<close>)
  then show ?thesis
    using Some assms
    by (auto simp: optional_service_def init_connection_monitor_service_def wp_simps same_required_def
        elim!: wp_mono split: if_splits)
qed (use assms in \<open>auto simp: optional_service_def wp_simps same_required_def\<close>)

lemma wp_optional_event:
  assumes "counted w v" and "so_event (dw_enabled v) = None"
  shows "wp (optional_service (init_event_service dl) (so_event_update (\<lambda>_. s)) s)
    (\<lambda>_ u. counted w u \<and> same_required (dw_enabled u) (dw_enabled v) \<and>
      so_monitor (dw_enabled u) = so_monitor (dw_enabled v)) (\<lambda>_ _. True) v"
  using assms
  by (cases s) (simp_all add: same_required_def optional_service_def init_event_service_def event_service_v1_init_def
      service_init_def wp_simps counted_def one_if_def installed_def EINVAL_def ENOTSUP_def EALREADY_def split: prod.splits)

lemma wp_require_thread:
  assumes "counted w v" and "so_thread (dw_enabled v) = None" and "dl_handle dl"
    and "\<And>e. fst (dl_call dl (sym_init (thread_symbols dl)) e) = 0"
  shows "wp (require_service msg (init_thread_service dl) (so_thread_update (\<lambda>_. s)) s)
    (\<lambda>_ u. counted w u \<and> dw_enabled u = (dw_enabled v)\<lparr>so_thread := s\<rparr>) (\<lambda>_ _. True) v"
proof (cases s)
  case (Some x)
  define f where "f e = snd (dl_call dl (sym_init (thread_symbols dl)) e)" for e
  have call: "dl_call dl (sym_init (thread_symbols dl)) e = (0, f e)" for e
    using assms(4) [of e] by (simp add: f_def prod_eq_iff)
  have step: "wp (thread_service_v1_init dl (Some x)) (\<lambda>_ u.
      \<forall>e. counted w (dw_enabled_update (so_thread_update (\<lambda>_. s)) (u\<lparr>dw_env := e\<rparr>)) \<and>
        dw_enabled u = dw_enabled v) (\<lambda>_ _. True)
      (v\<lparr>dw_env := e\<rparr>)" if "thread_service_v1_probe dl = 0" for e
    using assms(1-3) Some that
    by (subst thread_service_v1_init_def)
      (simp add: service_v1_init_def service_init_def wp_simps call counted_def one_if_def installed_def
        thread_service_v1_probe_def service_v1_probe_def service_probe_def ENOTSUP_def split: if_splits)
  have rest: "wp (seq (thread_service_v1_init dl (Some x)) (bind (dl_run (thread_after_init dl x)) (\<lambda>a.
        return (if a \<noteq> 0 then 1 else 0)))) (\<lambda>r u. r \<noteq> (0::int) \<or>
      counted w (dw_enabled_update (so_thread_update (\<lambda>_. s)) u) \<and> dw_enabled u = dw_enabled v) (\<lambda>_ _. True)
      (v\<lparr>dw_env := e\<rparr>)" if "thread_service_v1_probe dl = 0" for e
    using that by (simp add: wp_simps) (rule wp_mono [OF step], auto simp: wp_simps split: prod.splits)
  then show ?thesis
    using Some
    by (auto simp: require_service_def init_thread_service_def wp_bind wp_return wp_throw wp_modify
        wp_if wp_dl_run split: prod.splits) (rule wp_mono [OF rest], auto simp: wp_simps)
qed (use assms in \<open>auto simp: require_service_def wp_simps\<close>)

lemma release_slot_users [simp]: "sl_use_count (release_slot s) = sl_use_count s - 1"
  by (simp add: release_slot_def Let_def)

lemma wp_dl_do:
  assumes "\<And>e. Q () (w\<lparr>dw_env := e\<rparr>)"
  shows "wp (dl_do f) Q E w"
  using assms [of "f (dw_env w)"] by (simp add: dl_do_def wp_simps)

lemma wp_release:
  assumes "\<And>e. P w \<Longrightarrow> Q () (upd_globals (upd release_slot) (w\<lparr>dw_env := e\<rparr>))" and "\<not> P w \<Longrightarrow> Q () w"
  shows "wp (when_st P (service_v1_deinit dl names upd)) Q E w"
  using assms by (auto simp: service_v1_deinit_def wp_simps intro!: wp_dl_do)

lemma wp_release_monitor:
  assumes "\<And>e. P w \<Longrightarrow> Q () (upd_globals (monitor_slot_update release_slot) (w\<lparr>dw_env := e\<rparr>))"
    and "\<not> P w \<Longrightarrow> Q () w" and "P w \<Longrightarrow> users monitor_slot w > 0"
  shows "wp (when_st P (connection_monitor_service_v1_deinit dl)) Q E w"
  using assms by (auto simp: connection_monitor_service_v1_deinit_def wp_simps intro!: wp_dl_do)

lemma wp_release_event:
  assumes "\<And>e. P w \<Longrightarrow> Q () (upd_globals (event_initialized_update (\<lambda>_. False)) (w\<lparr>dw_env := e\<rparr>))"
    and "\<not> P w \<Longrightarrow> Q () w"
  shows "wp (when_st P (event_service_v1_deinit dl)) Q E w"
  using assms assms(1) [of "dw_env w"]
  by (auto simp: event_service_v1_deinit_def wp_simps intro!: wp_dl_do)

lemma wp_deinit_services:
  assumes "counted w v" and "users monitor_slot w + 1 \<noteq> 0"
  shows "wp (deinit_services dl) (\<lambda>_ u. users thread_slot u = users thread_slot w \<and>
    users tls_slot u = users tls_slot w \<and> users allowlist_slot u = users allowlist_slot w \<and>
    users monitor_slot u = users monitor_slot w \<and>
    event_initialized (dw_globals u) = event_initialized (dw_globals w)) never v"
  unfolding deinit_services_def wp_block thread_service_v1_deinit_def tls_service_v1_deinit_def
    allowlist_service_v1_deinit_def wp_modify
  by (intro wp_release_event wp_release wp_release_monitor)
    (use assms in \<open>auto simp: counted_def one_if_def installed_def word_neq_0_conv\<close>)

lemma counted_resolved:
  "counted w (upd_globals (certify_v1_resolved_update f \<circ> node_isolation_mode_set_update g) v) = counted w v"
  by (simp add: counted_def)

lemma wp_init_services:
  assumes "dw_enabled w = no_services" and "dl_handle dl"
    and "\<And>e. fst (dl_call dl (sym_init (thread_symbols dl)) e) = 0"
  shows "wp (init_services dl offer) (\<lambda>_ u. counted w u \<and> same_required (dw_enabled u) offer) (\<lambda>_ _. True) w"
proof -
  have "counted w w" using assms(1) by (simp add: counted_def one_if_def installed_def no_services_def)
  then show ?thesis
    unfolding init_services_def wp_block
    apply -
    apply (rule wp_mono [OF wp_require_thread [where w = w]])
    apply (simp_all add: assms no_services_def)
    apply (rule wp_mono [OF wp_require_tls [where w = w]])
    apply (simp_all add: assms no_services_def)
    apply (rule wp_mono [OF wp_require_allowlist [where w = w]])
    apply (simp_all add: assms no_services_def)
    apply (rule wp_mono [OF wp_optional_event [where w = w]])
    apply (simp_all add: assms no_services_def wp_modify)
    apply (rule wp_mono [OF wp_optional_monitor [where w = w]])
    apply (simp_all add: counted_resolved same_required_def)
    done
qed

text \<open>Names of functions, for the examples.\<close>

definition test_symbols :: "string \<Rightarrow> service_symbols" where
  "test_symbols s = \<lparr>sym_init = ''init_'' @ s, sym_deinit = ''deinit_'' @ s\<rparr>"

text \<open>
  If the library's initialization of the thread service fails, this goes
  unnoticed: the service counts as enabled although there is no implementation for the
  callbacks, and destroying the provider takes the number of users from zero to the largest
  \<^verbatim>\<open>size_t\<close>.
\<close>

lemma thread_init_failure_unnoticed:
  assumes "dl_handle dl" and "thread_service_v1_probe dl = 0" and "dw_enabled w = no_services"
    and "\<And>e. fst (thread_before_init dl s e) = 0" and "\<And>e. fst (thread_after_init dl s e) = 0"
    and "\<And>e. fst (dl_call dl (sym_init (thread_symbols dl)) e) \<noteq> 0"
    and "sl_use_count (thread_slot (dw_globals w)) = 0"
  shows "\<exists>v u. init_services dl (no_services\<lparr>so_thread := Some s\<rparr>) w = (Inr (), v) \<and>
    so_thread (dw_enabled v) = Some s \<and> sl_impl (thread_slot (dw_globals v)) = None \<and>
    deinit_services dl v = (Inr (), u) \<and> unat (sl_use_count (thread_slot (dw_globals u))) = 2 ^ 64 - 1"
proof -
  have sym: "dl_symbol dl (sym_init (thread_symbols dl))"
    using assms(2) by (auto simp: thread_service_v1_probe_def service_v1_probe_def service_probe_def
        ENOTSUP_def split: if_splits)
  have "wp (init_services dl (no_services\<lparr>so_thread := Some s\<rparr>)) (\<lambda>_ v.
      dw_enabled v = no_services\<lparr>so_thread := Some s\<rparr> \<and> sl_impl (thread_slot (dw_globals v)) = None \<and>
      users thread_slot v = 0) never w"
    using assms sym
    by (simp add: init_services_def require_service_def optional_service_def no_services_def
        init_thread_service_def thread_service_v1_init_def service_v1_init_def service_init_def
        wp_simps split: prod.splits) (metis fst_conv)
  then obtain v where v: "init_services dl (no_services\<lparr>so_thread := Some s\<rparr>) w = (Inr (), v)"
      "dw_enabled v = no_services\<lparr>so_thread := Some s\<rparr>" "sl_impl (thread_slot (dw_globals v)) = None"
      "users thread_slot v = 0"
    by (auto simp: wp_returns_iff)
  have "wp (deinit_services dl) (\<lambda>_ u. users thread_slot u = - 1) never v"
    unfolding deinit_services_def wp_block thread_service_v1_deinit_def tls_service_v1_deinit_def
      allowlist_service_v1_deinit_def wp_modify
    by (intro wp_release_event wp_release wp_release_monitor) (simp_all add: v no_services_def)
  then obtain u where "deinit_services dl v = (Inr (), u)" "users thread_slot u = - 1"
    by (auto simp: wp_returns_iff)
  moreover have "unat (- 1 :: u64) = 2 ^ 64 - 1" by (simp add: unsigned_minus_1_eq_mask mask_eq_exp_minus_1)
  ultimately show ?thesis using v by force
qed

text \<open>
  A failed initialization clears the implementation, also if the service is in use by another
  provider, which keeps its place in the count.
\<close>

lemma failed_init_clears_implementation:
  assumes "dl_handle dl" and "dl_symbol dl (sym_init (tls_symbols dl))"
    and "dl_call dl (sym_init (tls_symbols dl)) (dw_env w) = (r, e)" and "r \<noteq> 0"
  shows "\<exists>v. tls_service_v1_init dl (Some s) w = (Inr r, v) \<and>
    sl_impl (tls_slot (dw_globals v)) = None \<and> users tls_slot v = users tls_slot w"
proof -
  have "wp (tls_service_v1_init dl (Some s)) (\<lambda>a v. a = r \<and> sl_impl (tls_slot (dw_globals v)) = None \<and>
      users tls_slot v = users tls_slot w) never w"
    using assms by (simp add: tls_service_v1_init_def service_v1_init_def service_init_def wp_simps)
  then show ?thesis by (auto simp: wp_returns_iff)
qed

end
