(* ===== verification/Provider_Options.thy ===== *)
theory Provider_Options
  imports Provider_Types Provider_Services
begin

text \<open>
  The options of the provider (\<^verbatim>\<open>provider_options.hpp\<close>, \<^verbatim>\<open>provider_options.cpp\<close>)
  and the service that fetches them (\<^verbatim>\<open>config_service_v1.cpp\<close>): a map from the names of options,
  with dots replaced by underscores, to their values, defaults and flags.

  The provider library is a parameter (\<open>config_ops\<close>): what it answers to a change of options,
  whether it has the configuration service, and how it lists its parameters. So are the
  constants of its C interface, and the printing of a \<^verbatim>\<open>double\<close>.
\<close>

section \<open>Options\<close>

definition opt_deprecated :: u32 where "opt_deprecated = push_bit 0 1"
definition opt_readonly :: u32 where "opt_readonly = push_bit 1 1"
definition opt_type_bool :: u32 where "opt_type_bool = push_bit 2 1"
definition opt_type_integer :: u32 where "opt_type_integer = push_bit 3 1"
definition opt_type_double :: u32 where "opt_type_double = push_bit 4 1"

definition flag_type_mask :: u32 where
  "flag_type_mask = opt_type_bool OR opt_type_integer OR opt_type_double"

lemmas opt_flag_defs = opt_deprecated_def opt_readonly_def opt_type_bool_def opt_type_integer_def
  opt_type_double_def flag_type_mask_def

text \<open>The numbers keep the text that was made of them when they were constructed.\<close>

datatype 'd option_value = Ov_string string | Ov_bool bool | Ov_int int string | Ov_double 'd string

definition option_value_int :: "int \<Rightarrow> 'd option_value" where
  "option_value_int i = Ov_int i (seqno_to_string i)"

definition option_value_double :: "('d \<Rightarrow> string) \<Rightarrow> 'd \<Rightarrow> 'd option_value" where
  "option_value_double show_double d = Ov_double d (show_double d)"

text \<open>A C string ends before the first null byte.\<close>

definition c_str :: "string \<Rightarrow> string" where
  "c_str s = takeWhile (\<lambda>c. c \<noteq> CHR 0x00) s"

fun as_string :: "'d option_value \<Rightarrow> string" where
  "as_string (Ov_string s) = c_str s"
| "as_string (Ov_bool b) = (if b then ''yes'' else ''no'')"
| "as_string (Ov_int i s) = c_str s"
| "as_string (Ov_double d s) = c_str s"

record 'd provider_option =
  po_name :: string
  po_real_name :: string
  po_value :: "'d option_value"
  po_default_value :: "'d option_value"
  po_flags :: u32

definition sanitize_name :: "string \<Rightarrow> string" where
  "sanitize_name name = map (\<lambda>c. if c = CHR ''.'' then CHR ''_'' else c) name"

definition make_provider_option ::
    "string \<Rightarrow> 'd option_value \<Rightarrow> 'd option_value \<Rightarrow> u32 \<Rightarrow> 'd provider_option" where
  "make_provider_option name value default_value flags = \<lparr>po_name = sanitize_name name,
     po_real_name = name, po_value = value, po_default_value = default_value, po_flags = flags\<rparr>"

definition option_equal :: "'d provider_option \<Rightarrow> 'd provider_option \<Rightarrow> bool" where
  "option_equal l r \<longleftrightarrow> c_str (po_name l) = c_str (po_name r)"

definition update_value :: "'d option_value \<Rightarrow> 'd provider_option \<Rightarrow> 'd provider_option" where
  "update_value v opt = opt\<lparr>po_value := v\<rparr>"

type_synonym 'd options_map = "(string \<times> 'd provider_option) list"

section \<open>The provider\<close>

record ('d, 'e) options_world =
  ow_options :: "'d options_map"
  ow_env :: 'e

text \<open>A parameter of the provider; its value is a union, read by the type in the flags.\<close>

record 'd native_parameter =
  np_name :: string
  np_flags :: u32
  np_bool :: bool
  np_integer :: int
  np_double :: 'd
  np_string :: string

record param_consts =
  PARAM_DEPRECATED :: u32
  PARAM_READONLY :: u32
  PARAM_TYPE_BOOL :: u32
  PARAM_TYPE_INTEGER :: u32
  PARAM_TYPE_DOUBLE :: u32
  PARAM_TYPE_MASK :: u32

text \<open>
  \<open>cfg_options\<close> is the provider's \<^verbatim>\<open>options()\<close>; \<open>cfg_native\<close>: the provider was loaded through the C
  interface, as the library \<open>cfg_dl\<close>; \<open>cfg_get_parameters\<close> calls back for each parameter and
  tells if all went well.
\<close>

record ('d, 'e) config_ops =
  cfg_debug :: bool
  cfg_consts :: param_consts
  cfg_show_double :: "'d \<Rightarrow> string"
  cfg_options :: "string \<Rightarrow> 'e \<Rightarrow> status \<times> 'e"
  cfg_native :: bool
  cfg_dl :: "'e dl_ops"
  cfg_symbols :: service_symbols
  cfg_get_parameters :: "('d native_parameter \<Rightarrow> (('d, 'e) options_world, bool) cmd) \<Rightarrow>
     (('d, 'e) options_world, bool) cmd"

definition cfg_call :: "('e \<Rightarrow> 'r \<times> 'e) \<Rightarrow> (('d, 'e) options_world, 'r) cmd" where
  "cfg_call f = (\<lambda>w. let (r, e) = f (ow_env w) in (Inr r, w\<lparr>ow_env := e\<rparr>))"

section \<open>Operations\<close>

definition not_found_error :: status where
  "not_found_error = error_warning"

definition get_option :: "string \<Rightarrow> 'd options_map \<Rightarrow> 'd provider_option option" where
  "get_option name opts = om_find name opts"

text \<open>The text of one option: \<open>name=value;\<close>\<close>

definition option_text :: "'d provider_option \<Rightarrow> 'd option_value \<Rightarrow> string" where
  "option_text opt v = c_str (po_real_name opt) @ ''='' @ as_string v @ '';''"

definition options_set ::
    "('d, 'e) config_ops \<Rightarrow> string \<Rightarrow> 'd option_value \<Rightarrow> (('d, 'e) options_world, status) cmd" where
  "options_set cfg name value = fetch (\<lambda>w. om_find name (ow_options w)) (\<lambda>found.
     case found of None \<Rightarrow> return not_found_error
     | Some opt \<Rightarrow>
         bind (cfg_call (cfg_options cfg (option_text opt value))) (\<lambda>ret.
         seq (only_if (ret = success)
               (modify (ow_options_update (om_put name (update_value value opt)))))
             (return ret)))"

text \<open>
  \<^verbatim>\<open>set_default\<close>: the option is looked up by its real name and entered by its sanitized name;
  \<^verbatim>\<open>emplace\<close> leaves an existing entry alone.
\<close>

definition set_default :: "('d, 'e) config_ops \<Rightarrow> string \<Rightarrow> 'd option_value \<Rightarrow> 'd option_value \<Rightarrow> u32 \<Rightarrow>
    (('d, 'e) options_world, status) cmd" where
  "set_default cfg name value default_value flags =
     fetch (\<lambda>w. om_find name (ow_options w)) (\<lambda>found.
       let opt = make_provider_option name value default_value flags in
       if found \<noteq> None
       then seq (assert_that (cfg_debug cfg) ''0'' (\<lambda>_. False)) (return error_not_allowed)
       else seq (modify (ow_options_update (\<lambda>opts. fst (om_insert (c_str (po_name opt)) opt opts))))
         (return success))"

definition for_each_option ::
    "('d provider_option \<Rightarrow> (('d, 'e) options_world, unit) cmd) \<Rightarrow> (('d, 'e) options_world, unit) cmd" where
  "for_each_option f = fetch ow_options (\<lambda>opts. for_each (\<lambda>p. f (snd p)) opts)"

section \<open>The configuration service\<close>

definition map_flags :: "param_consts \<Rightarrow> u32 \<Rightarrow> u32" where
  "map_flags c flags =
     (if flags AND PARAM_DEPRECATED c \<noteq> 0 then opt_deprecated else 0) OR
     (if flags AND PARAM_READONLY c \<noteq> 0 then opt_readonly else 0) OR
     (if flags AND PARAM_TYPE_BOOL c \<noteq> 0 then opt_type_bool else 0) OR
     (if flags AND PARAM_TYPE_INTEGER c \<noteq> 0 then opt_type_integer else 0) OR
     (if flags AND PARAM_TYPE_DOUBLE c \<noteq> 0 then opt_type_double else 0)"

definition make_option :: "('d, 'e) config_ops \<Rightarrow> string \<Rightarrow> 'd option_value \<Rightarrow> u32 \<Rightarrow>
    (('d, 'e) options_world, status) cmd" where
  "make_option cfg name v flags = set_default cfg name v v flags"

definition service_callback ::
    "('d, 'e) config_ops \<Rightarrow> 'd native_parameter \<Rightarrow> (('d, 'e) options_world, bool) cmd" where
  "service_callback cfg p =
     (let c = cfg_consts cfg; flags = map_flags c (np_flags p); ty = np_flags p AND PARAM_TYPE_MASK c;
          name = c_str (np_name p) in
      bind (if ty = PARAM_TYPE_BOOL c then make_option cfg name (Ov_bool (np_bool p)) flags
            else if ty = PARAM_TYPE_INTEGER c
            then make_option cfg name (option_value_int (np_integer p)) flags
            else if ty = PARAM_TYPE_DOUBLE c
            then make_option cfg name (option_value_double (cfg_show_double cfg) (np_double p)) flags
            else seq (assert_that (cfg_debug cfg) ''(p->flags & WSREP_PARAM_TYPE_MASK) == 0'' (\<lambda>_. ty = 0))
              (make_option cfg name (Ov_string (c_str (np_string p))) flags))
        (\<lambda>ret. return (ret = success)))"

definition config_service_v1_probe :: "('d, 'e) config_ops \<Rightarrow> bool" where
  "config_service_v1_probe cfg \<longleftrightarrow> service_probe (cfg_dl cfg) (sym_init (cfg_symbols cfg)) \<noteq> 0 \<or>
     service_probe (cfg_dl cfg) (sym_deinit (cfg_symbols cfg)) \<noteq> 0"

definition config_service_v1_init :: "('d, 'e) config_ops \<Rightarrow> 'e \<Rightarrow> int \<times> 'e" where
  "config_service_v1_init cfg = service_init (cfg_dl cfg) (sym_init (cfg_symbols cfg))"

definition config_service_v1_deinit :: "('d, 'e) config_ops \<Rightarrow> 'e \<Rightarrow> 'e" where
  "config_service_v1_deinit cfg = service_deinit (cfg_dl cfg) (sym_deinit (cfg_symbols cfg))"

definition config_service_v1_fetch :: "('d, 'e) config_ops \<Rightarrow> (('d, 'e) options_world, int) cmd" where
  "config_service_v1_fetch cfg =
     (if \<not> cfg_native cfg then return 0
      else if config_service_v1_probe cfg then return 1
      else bind (cfg_call (config_service_v1_init cfg)) (\<lambda>i.
        if i \<noteq> 0 then return 1
        else bind (cfg_get_parameters cfg (service_callback cfg)) (\<lambda>ok.
          seq (modify (\<lambda>w. w\<lparr>ow_env := config_service_v1_deinit cfg (ow_env w)\<rparr>))
            (return (bool_int (\<not> ok))))))"

definition initial_options :: "('d, 'e) config_ops \<Rightarrow> (('d, 'e) options_world, status) cmd" where
  "initial_options cfg =
     seq (modify (ow_options_update (\<lambda>_. [])))
      (bind (config_service_v1_fetch cfg) (\<lambda>r.
        return (if r \<noteq> 0 then error_not_implemented else success)))"

section \<open>Properties\<close>

lemma wp_cfg_call [wp_simps]:
  "wp (cfg_call f) Q E w = (case f (ow_env w) of (r, e) \<Rightarrow> Q r (w\<lparr>ow_env := e\<rparr>))"
  by (simp add: wp_def cfg_call_def split: prod.splits)

text \<open>Every option is found under its own name, which is its real name with dots replaced.\<close>

definition option_ok :: "string \<Rightarrow> 'd provider_option \<Rightarrow> bool" where
  "option_ok k opt \<longleftrightarrow> k = c_str (po_name opt) \<and> po_name opt = sanitize_name (po_real_name opt)"

definition options_inv :: "'d options_map \<Rightarrow> bool" where
  "options_inv opts \<longleftrightarrow> om_inv opts \<and> (\<forall>k opt. om_find k opts = Some opt \<longrightarrow> option_ok k opt)"

lemma option_ok_simps [simp]:
  "option_ok (c_str (sanitize_name name)) (make_provider_option name v d f)"
  "option_ok k (update_value v opt) = option_ok k opt"
  by (simp_all add: option_ok_def make_provider_option_def update_value_def)

lemma options_inv_insert:
  assumes "options_inv opts" and "k = c_str (sanitize_name name)"
  shows "options_inv (fst (om_insert k (make_provider_option name v d f) opts))"
  using assms om.invar_insert [of opts k "make_provider_option name v d f"]
  by (auto simp: options_inv_def om.find_insert split: if_splits option.splits)

lemma options_inv_update:
  assumes "options_inv opts" and "om_find k opts = Some opt"
  shows "options_inv (om_put k (update_value v opt) opts)"
  using assms by (auto simp: options_inv_def om_inv_put om_find_put)

text \<open>
  C29. Setting an option: an unknown name is answered by the not-found code without asking the
  provider. Otherwise the provider gets the text \<open>name=value;\<close> with the real name, and exactly if
  it accepts, the option has the new value and its default, flags and all other options
  are as before.
\<close>

theorem set_option_effect:
  assumes "options_inv (ow_options w)"
  shows "\<exists>ret v. options_set cfg name value w = (Inr ret, v) \<and> options_inv (ow_options v) \<and>
    (case get_option name (ow_options w) of
       None \<Rightarrow> ret = error_warning \<and> v = w
     | Some opt \<Rightarrow>
         ret = fst (cfg_options cfg (c_str (po_real_name opt) @ ''='' @ as_string value @ '';'') (ow_env w)) \<and>
         (\<forall>k. get_option k (ow_options v) =
           (if k = name \<and> ret = success then Some (opt\<lparr>po_value := value\<rparr>)
            else get_option k (ow_options w))))"
proof -
  have "wp (options_set cfg name value) (\<lambda>ret v. options_inv (ow_options v) \<and>
    (case get_option name (ow_options w) of
       None \<Rightarrow> ret = error_warning \<and> v = w
     | Some opt \<Rightarrow>
         ret = fst (cfg_options cfg (c_str (po_real_name opt) @ ''='' @ as_string value @ '';'') (ow_env w)) \<and>
         (\<forall>k. get_option k (ow_options v) =
           (if k = name \<and> ret = success then Some (opt\<lparr>po_value := value\<rparr>)
            else get_option k (ow_options w))))) never w"
    using assms
    by (cases "om_find name (ow_options w)")
      (auto simp: options_set_def wp_simps get_option_def not_found_error_def option_text_def
        options_inv_update [unfolded update_value_def] om_find_put update_value_def split: prod.splits)
  then show ?thesis by (simp add: wp_returns_iff)
qed

text \<open>
  Creating an option with \<^verbatim>\<open>set_default\<close>: it succeeds whenever no option is stored under the
  given name, and the option can then be found under the sanitized name. It is the
  new one only if the sanitized name was not taken; otherwise, as when a name with a dot is
  created twice, the call reports success and the new value, default and flags are dropped.
\<close>

lemma set_default_effect:
  assumes "options_inv (ow_options w)" and "CHR 0x00 \<notin> set name"
    and "get_option name (ow_options w) = None"
  shows "\<exists>v. set_default cfg name value default_value flags w = (Inr success, v) \<and>
    options_inv (ow_options v) \<and>
    (\<forall>k. get_option k (ow_options v) =
      (if k = sanitize_name name \<and> get_option k (ow_options w) = None
       then Some \<lparr>po_name = sanitize_name name, po_real_name = name, po_value = value,
         po_default_value = default_value, po_flags = flags\<rparr>
       else get_option k (ow_options w)))"
proof -
  let ?opt = "make_provider_option name value default_value flags"
  have key: "c_str (sanitize_name name) = sanitize_name name"
    using assms(2) by (auto simp: c_str_def sanitize_name_def takeWhile_eq_all_conv)
  have name: "po_name ?opt = sanitize_name name"
    by (simp add: make_provider_option_def)
  have "wp (set_default cfg name value default_value flags) (\<lambda>ret v. ret = success \<and>
      ow_options v = fst (om_insert (sanitize_name name) ?opt (ow_options w))) never w"
    using assms(3) key name by (simp add: set_default_def get_option_def wp_simps Let_def)
  then obtain v where v: "set_default cfg name value default_value flags w = (Inr success, v)"
      "ow_options v = fst (om_insert (sanitize_name name) ?opt (ow_options w))"
    by (auto simp: wp_returns_iff)
  have "get_option k (ow_options v) = (if k = sanitize_name name \<and> get_option k (ow_options w) = None
       then Some ?opt else get_option k (ow_options w))" for k
    using v(2) by (auto simp: get_option_def om.find_insert split: option.splits)
  moreover have "options_inv (ow_options v)"
    using options_inv_insert [OF assms(1) key [symmetric]] v(2) by simp
  ultimately show ?thesis using v(1) by (auto simp: make_provider_option_def)
qed

text \<open>A provider without options of its own that accepts everything.\<close>

definition test_config :: "(int, string list) config_ops" where
  "test_config = \<lparr>cfg_debug = False,
     cfg_consts = \<lparr>PARAM_DEPRECATED = 1, PARAM_READONLY = 2, PARAM_TYPE_BOOL = 4, PARAM_TYPE_INTEGER = 8,
       PARAM_TYPE_DOUBLE = 16, PARAM_TYPE_MASK = 28\<rparr>,
     cfg_show_double = seqno_to_string, cfg_options = \<lambda>s e. (success, s # e), cfg_native = False,
     cfg_dl = \<lparr>dl_debug = False, dl_handle = True, dl_symbol = \<lambda>_. False, dl_call = \<lambda>_ e. (1, e),
       thread_symbols = test_symbols [], tls_symbols = test_symbols [], allowlist_symbols = test_symbols [],
       event_symbols = test_symbols [], monitor_symbols = test_symbols [], sym_node_isolation = [],
       sym_certify_v1 = [], thread_before_init = \<lambda>_ e. (0, e), thread_after_init = \<lambda>_ e. (0, e)\<rparr>,
     cfg_symbols = test_symbols [], cfg_get_parameters = \<lambda>_. return True\<rparr>"

definition test_option :: "int provider_option" where
  "test_option = make_provider_option ''gcs.fc_limit'' (option_value_int 16) (option_value_int 16) opt_type_integer"

definition test_options :: "(int, string list) options_world" where
  "test_options = \<lparr>ow_options = [(''gcs_fc_limit'', test_option)], ow_env = []\<rparr>"

lemma test_options_inv: "options_inv (ow_options test_options)"
  by (auto simp: options_inv_def test_options_def om_inv_def om_find_def option_ok_def test_option_def
      make_provider_option_def c_str_def sanitize_name_def)

theorem set_option_effect_witness:
  "\<exists>v. options_set test_config ''gcs_fc_limit'' (option_value_int 32) test_options = (Inr success, v) \<and>
    get_option ''gcs_fc_limit'' (ow_options v) = Some (test_option\<lparr>po_value := option_value_int 32\<rparr>)"
  using set_option_effect [OF test_options_inv, of test_config "''gcs_fc_limit''" "option_value_int 32"]
  by (auto simp: test_options_def get_option_def om_find_def test_config_def)

lemma set_default_effect_witness:
  "\<exists>v. set_default test_config ''gcs.fc_limit'' (option_value_int 99) (option_value_int 99) 0 test_options =
      (Inr success, v) \<and> get_option ''gcs_fc_limit'' (ow_options v) = Some test_option"
  using set_default_effect [OF test_options_inv, of "''gcs.fc_limit''" test_config
      "option_value_int 99" "option_value_int 99" 0]
  by (auto simp: test_options_def get_option_def om_find_def sanitize_name_def)

end
