(* ===== verification/Provider_V26.thy ===== *)
theory Provider_V26
  imports Applier Server_View Provider_Options
begin

text \<open>
  The adapter to a provider library with the C interface wsrep API version 26
  (\<^verbatim>\<open>wsrep_provider_v26.cpp\<close>): conversion of status codes, flags, handles, meta data and views,
  the calls of the provider interface as calls of the library's function table, and the callbacks
  by which the library calls the server.

  The library and the headers of its interface are not part of the source tree. The function
  table is a parameter (\<open>native_api\<close>), as are the constants of the headers (\<open>native_consts\<close>).
  The callbacks that encrypt data and print log messages are in theory \<open>Service_Callbacks\<close>, the
  constructor and the destructor in theory \<open>Provider_Object\<close>.
\<close>

section \<open>The C interface\<close>

record native_consts =
  WSREP_OK :: int
  WSREP_WARNING :: int
  WSREP_TRX_MISSING :: int
  WSREP_TRX_FAIL :: int
  WSREP_BF_ABORT :: int
  WSREP_SIZE_EXCEEDED :: int
  WSREP_CONN_FAIL :: int
  WSREP_NODE_FAIL :: int
  WSREP_FATAL :: int
  WSREP_NOT_IMPLEMENTED :: int
  WSREP_NOT_ALLOWED :: int
  FLAG_TRX_START :: u32
  FLAG_TRX_END :: u32
  FLAG_ROLLBACK :: u32
  FLAG_ISOLATION :: u32
  FLAG_PA_UNSAFE :: u32
  FLAG_TRX_PREPARE :: u32
  FLAG_SNAPSHOT :: u32
  FLAG_IMPLICIT_DEPS :: u32
  KEY_SHARED :: int
  KEY_REFERENCE :: int
  KEY_UPDATE :: int
  KEY_EXCLUSIVE :: int
  VIEW_PRIMARY :: int
  VIEW_NON_PRIMARY :: int
  VIEW_DISCONNECTED :: int
  DATA_ORDERED :: int
  VAR_STRING :: int
  VAR_INT64 :: int
  VAR_DOUBLE :: int
  NOT_ISOLATED :: int
  ISOLATED :: int
  FORCE_DISCONNECT :: int
  ISOLATION_SUCCESS :: int

record native_gtid =
  ng_uuid :: string
  ng_seqno :: int

record native_trx_meta =
  nm_gtid :: native_gtid
  nm_node :: string
  nm_trx :: u64
  nm_conn :: u64
  nm_depends_on :: int

record native_ws_handle =
  nh_trx_id :: u64
  nh_opaque :: u64

text \<open>The names of a member are fixed size arrays of characters.\<close>

record native_member =
  nmb_id :: string
  nmb_name :: string
  nmb_incoming :: string

record native_view_info =
  nv_state_id :: native_gtid
  nv_view :: int
  nv_status :: int
  nv_capabilities :: u32
  nv_my_idx :: int
  nv_proto_ver :: int
  nv_members :: "native_member list"

text \<open>A status variable; the value is a union read by its type. Printing a \<^verbatim>\<open>double\<close> is not modelled.\<close>

record native_stats_var =
  nsv_name :: string
  nsv_type :: int
  nsv_string :: string
  nsv_int64 :: int
  nsv_double_text :: string

text \<open>
  The function table \<^verbatim>\<open>wsrep_st\<close>. \<open>na_certify_v1\<close> and \<open>na_isolation_set\<close> are looked up in the
  library and may be missing. Replaying and receiving call back into the server, hence
  are commands on the world.
\<close>

record 'e native_api =
  na_debug :: bool
  na_consts :: native_consts
  na_connect :: "string \<Rightarrow> string \<Rightarrow> string \<Rightarrow> bool \<Rightarrow> 'e \<Rightarrow> int \<times> 'e"
  na_disconnect :: "'e \<Rightarrow> int \<times> 'e"
  na_capabilities :: "'e \<Rightarrow> u32"
  na_desync :: "'e \<Rightarrow> int \<times> 'e"
  na_resync :: "'e \<Rightarrow> int \<times> 'e"
  na_pause :: "'e \<Rightarrow> int \<times> 'e"
  na_resume :: "'e \<Rightarrow> int \<times> 'e"
  na_recv :: "hps_ref \<Rightarrow> ('e world, int) cmd"
  na_assign_read_view :: "native_ws_handle \<Rightarrow> native_gtid option \<Rightarrow> 'e \<Rightarrow> (int \<times> native_ws_handle) \<times> 'e"
  na_append_key :: "native_ws_handle \<Rightarrow> string list \<Rightarrow> int \<Rightarrow> bool \<Rightarrow> 'e \<Rightarrow> (int \<times> native_ws_handle) \<times> 'e"
  na_append_data :: "native_ws_handle \<Rightarrow> string \<Rightarrow> int \<Rightarrow> bool \<Rightarrow> 'e \<Rightarrow> (int \<times> native_ws_handle) \<times> 'e"
  na_certify :: "u64 \<Rightarrow> native_ws_handle \<Rightarrow> u32 \<Rightarrow> native_trx_meta \<Rightarrow> 'e \<Rightarrow>
     (int \<times> native_ws_handle \<times> native_trx_meta) \<times> 'e"
  na_certify_v1 :: "(u64 \<Rightarrow> native_ws_handle \<Rightarrow> u32 \<Rightarrow> native_trx_meta \<Rightarrow> 'e \<Rightarrow>
     (int \<times> native_ws_handle \<times> native_trx_meta) \<times> 'e) option"
  na_abort_certification :: "int \<Rightarrow> u64 \<Rightarrow> 'e \<Rightarrow> (int \<times> int) \<times> 'e"
  na_rollback :: "u64 \<Rightarrow> 'e \<Rightarrow> int \<times> 'e"
  na_commit_order_enter :: "native_ws_handle \<Rightarrow> native_trx_meta \<Rightarrow> 'e \<Rightarrow> int \<times> 'e"
  na_commit_order_leave :: "native_ws_handle \<Rightarrow> native_trx_meta \<Rightarrow> string \<Rightarrow> 'e \<Rightarrow> int \<times> 'e"
  na_release :: "native_ws_handle \<Rightarrow> 'e \<Rightarrow> (int \<times> native_ws_handle) \<times> 'e"
  na_replay_trx :: "native_ws_handle \<Rightarrow> ('e world, int) cmd"
  na_to_execute_start :: "u64 \<Rightarrow> string list list \<Rightarrow> string list \<Rightarrow> u32 \<Rightarrow> native_trx_meta \<Rightarrow> 'e \<Rightarrow>
     (int \<times> native_trx_meta) \<times> 'e"
  na_to_execute_end :: "u64 \<Rightarrow> string \<Rightarrow> 'e \<Rightarrow> int \<times> 'e"
  na_sync_wait :: "native_gtid option \<Rightarrow> int \<Rightarrow> 'e \<Rightarrow> (int \<times> native_gtid) \<times> 'e"
  na_last_committed_id :: "'e \<Rightarrow> (int \<times> native_gtid) \<times> 'e"
  na_sst_sent :: "native_gtid \<Rightarrow> int \<Rightarrow> 'e \<Rightarrow> int \<times> 'e"
  na_sst_received :: "native_gtid \<Rightarrow> int \<Rightarrow> 'e \<Rightarrow> int \<times> 'e"
  na_enc_set_key :: "string \<Rightarrow> 'e \<Rightarrow> int \<times> 'e"
  na_stats_get :: "'e \<Rightarrow> native_stats_var list option \<times> 'e"
  na_stats_free :: "'e \<Rightarrow> 'e"
  na_stats_reset :: "'e \<Rightarrow> 'e"
  na_options_get :: "'e \<Rightarrow> string option \<times> 'e"
  na_options_set :: "string \<Rightarrow> 'e \<Rightarrow> int \<times> 'e"
  na_isolation_set :: "(int \<Rightarrow> 'e \<Rightarrow> int \<times> 'e) option"
  na_provider_name :: "string option"
  na_provider_version :: "string option"
  na_provider_vendor :: "string option"
  na_must_exit :: "hps_ref \<Rightarrow> 'e \<Rightarrow> bool"

section \<open>Conversions\<close>

text \<open>The cases of a C++ \<^verbatim>\<open>switch\<close> are distinct; an unexpected code is logged.\<close>

definition map_return_value :: "native_consts \<Rightarrow> int \<Rightarrow> status" where
  "map_return_value c st =
     (if st = WSREP_OK c then success
      else if st = WSREP_WARNING c then error_warning
      else if st = WSREP_TRX_MISSING c then error_transaction_missing
      else if st = WSREP_TRX_FAIL c then error_certification_failed
      else if st = WSREP_BF_ABORT c then error_bf_abort
      else if st = WSREP_SIZE_EXCEEDED c then error_size_exceeded
      else if st = WSREP_CONN_FAIL c then error_connection_failed
      else if st = WSREP_NODE_FAIL c then error_provider_failed
      else if st = WSREP_FATAL c then error_fatal
      else if st = WSREP_NOT_IMPLEMENTED c then error_not_implemented
      else if st = WSREP_NOT_ALLOWED c then error_not_allowed
      else error_unknown)"

fun map_key_type :: "native_consts \<Rightarrow> key_type \<Rightarrow> int" where
  "map_key_type c shared = KEY_SHARED c"
| "map_key_type c reference = KEY_REFERENCE c"
| "map_key_type c update = KEY_UPDATE c"
| "map_key_type c exclusive = KEY_EXCLUSIVE c"

definition map_one :: "u32 \<Rightarrow> u32 \<Rightarrow> u32 \<Rightarrow> u32" where
  "map_one flags from to = (if flags AND from \<noteq> 0 then to else 0)"

definition map_flags_to_native :: "native_consts \<Rightarrow> u32 \<Rightarrow> u32" where
  "map_flags_to_native c flags =
     map_one flags flag_start_transaction (FLAG_TRX_START c) OR
     map_one flags flag_commit (FLAG_TRX_END c) OR
     map_one flags flag_rollback (FLAG_ROLLBACK c) OR
     map_one flags flag_isolation (FLAG_ISOLATION c) OR
     map_one flags flag_pa_unsafe (FLAG_PA_UNSAFE c) OR
     map_one flags flag_prepare (FLAG_TRX_PREPARE c) OR
     map_one flags flag_snapshot (FLAG_SNAPSHOT c) OR
     map_one flags flag_implicit_deps (FLAG_IMPLICIT_DEPS c)"

definition map_flags_from_native :: "native_consts \<Rightarrow> u32 \<Rightarrow> u32" where
  "map_flags_from_native c flags =
     map_one flags (FLAG_TRX_START c) flag_start_transaction OR
     map_one flags (FLAG_TRX_END c) flag_commit OR
     map_one flags (FLAG_ROLLBACK c) flag_rollback OR
     map_one flags (FLAG_ISOLATION c) flag_isolation OR
     map_one flags (FLAG_PA_UNSAFE c) flag_pa_unsafe OR
     map_one flags (FLAG_TRX_PREPARE c) flag_prepare OR
     map_one flags (FLAG_SNAPSHOT c) flag_snapshot OR
     map_one flags (FLAG_IMPLICIT_DEPS c) flag_implicit_deps"

definition handle_to_native :: "ws_handle \<Rightarrow> native_ws_handle" where
  "handle_to_native h = \<lparr>nh_trx_id = wsh_transaction_id h, nh_opaque = wsh_opaque h\<rparr>"

definition handle_from_native :: "native_ws_handle \<Rightarrow> ws_handle" where
  "handle_from_native n = \<lparr>wsh_transaction_id = nh_trx_id n, wsh_opaque = nh_opaque n\<rparr>"

text \<open>An identifier of 16 bytes is copied as it is.\<close>

definition gtid_to_native :: "gtid \<Rightarrow> native_gtid" where
  "gtid_to_native g = \<lparr>ng_uuid = gtid_id g, ng_seqno = gtid_seqno g\<rparr>"

definition gtid_from_native :: "native_gtid \<Rightarrow> gtid" where
  "gtid_from_native n = \<lparr>gtid_id = pad16 (ng_uuid n), gtid_seqno = ng_seqno n\<rparr>"

definition meta_to_native :: "ws_meta \<Rightarrow> native_trx_meta" where
  "meta_to_native m = \<lparr>nm_gtid = \<lparr>ng_uuid = gtid_id (wsm_gtid m), ng_seqno = wsm_seqno m\<rparr>,
     nm_node = wsm_server_id m, nm_trx = wsm_transaction_id m, nm_conn = wsm_client_id m,
     nm_depends_on = wsm_depends_on m\<rparr>"

definition meta_from_native :: "native_trx_meta \<Rightarrow> u32 \<Rightarrow> ws_meta" where
  "meta_from_native n flags = \<lparr>wsm_gtid = gtid_from_native (nm_gtid n),
     wsm_stid = \<lparr>stid_server_id = pad16 (nm_node n), stid_transaction_id = nm_trx n,
       stid_client_id = nm_conn n\<rparr>,
     wsm_depends_on = nm_depends_on n, wsm_flags = flags\<rparr>"

definition map_view_status_from_native :: "native_consts \<Rightarrow> int \<Rightarrow> exn + view_status" where
  "map_view_status_from_native c st =
     (if st = VIEW_PRIMARY c then Inr primary
      else if st = VIEW_NON_PRIMARY c then Inr non_primary
      else if st = VIEW_DISCONNECTED c then Inr disconnected
      else Inl (Runtime_error ''Unknown view status''))"

definition member_from_native :: "native_member \<Rightarrow> member" where
  "member_from_native m = \<lparr>member_id = pad16 (nmb_id m), member_name = c_str (nmb_name m),
     member_incoming = c_str (nmb_incoming m)\<rparr>"

text \<open>
  On the first connect the server learns its position from the view; later its position follows
  from its identifier.
\<close>

definition own_index_from_native :: "native_view_info \<Rightarrow> id \<Rightarrow> int" where
  "own_index_from_native v own_id =
     (if id_is_undefined own_id then nv_my_idx v
      else member_index_from 0 (map member_from_native (nv_members v)) own_id)"

definition view_from_native :: "native_consts \<Rightarrow> native_view_info \<Rightarrow> id \<Rightarrow> exn + view" where
  "view_from_native c v own_id = (case map_view_status_from_native c (nv_status v) of
     Inl e \<Rightarrow> Inl e
   | Inr st \<Rightarrow> Inr \<lparr>view_state_id = gtid_from_native (nv_state_id v), view_seqno = nv_view v,
       view_status = st, view_capabilities = nv_capabilities v,
       view_own_index = own_index_from_native v own_id, view_protocol_version = nv_proto_ver v,
       view_members = map member_from_native (nv_members v)\<rparr>)"

section \<open>The provider interface\<close>

abbreviation ret_of :: "'e native_api \<Rightarrow> int \<Rightarrow> status" where
  "ret_of api \<equiv> map_return_value (na_consts api)"

abbreviation not_ok :: "'e native_api \<Rightarrow> int \<Rightarrow> int" where
  "not_ok api st \<equiv> bool_int (st \<noteq> WSREP_OK (na_consts api))"

text \<open>A call with a write set handle that the library may change.\<close>

definition with_handle :: "(native_ws_handle \<Rightarrow> 'e \<Rightarrow> (int \<times> native_ws_handle) \<times> 'e) \<Rightarrow> (int \<Rightarrow> 'r) \<Rightarrow>
    ws_handle \<Rightarrow> 'e \<Rightarrow> ('r \<times> ws_handle) \<times> 'e" where
  "with_handle f conv h e = (case f (handle_to_native h) e of
     ((st, n), e') \<Rightarrow> ((conv st, handle_from_native n), e'))"

definition plain_call :: "('e \<Rightarrow> int \<times> 'e) \<Rightarrow> (int \<Rightarrow> 'r) \<Rightarrow> 'e \<Rightarrow> 'r \<times> 'e" where
  "plain_call f conv e = (case f e of (st, e') \<Rightarrow> (conv st, e'))"

definition v26_connect :: "'e native_api \<Rightarrow> string \<Rightarrow> string \<Rightarrow> string \<Rightarrow> bool \<Rightarrow> 'e \<Rightarrow> status \<times> 'e" where
  "v26_connect api cluster_name cluster_url state_donor boot =
     plain_call (na_connect api (c_str cluster_name) (c_str cluster_url) (c_str state_donor) boot) (ret_of api)"

definition v26_disconnect :: "'e native_api \<Rightarrow> 'e \<Rightarrow> int \<times> 'e" where
  "v26_disconnect api = plain_call (na_disconnect api) (not_ok api)"

definition v26_capabilities :: "'e native_api \<Rightarrow> 'e \<Rightarrow> u32" where
  "v26_capabilities api e = na_capabilities api e"

definition v26_desync :: "'e native_api \<Rightarrow> 'e \<Rightarrow> int \<times> 'e" where
  "v26_desync api = plain_call (na_desync api) (not_ok api)"

definition v26_resync :: "'e native_api \<Rightarrow> 'e \<Rightarrow> int \<times> 'e" where
  "v26_resync api = plain_call (na_resync api) (not_ok api)"

definition v26_pause :: "'e native_api \<Rightarrow> 'e \<Rightarrow> seqno \<times> 'e" where
  "v26_pause api = na_pause api"

definition v26_resume :: "'e native_api \<Rightarrow> 'e \<Rightarrow> int \<times> 'e" where
  "v26_resume api = plain_call (na_resume api) (not_ok api)"

definition v26_run_applier :: "'e native_api \<Rightarrow> hps_ref \<Rightarrow> ('e world, status) cmd" where
  "v26_run_applier api h = bind (na_recv api h) (\<lambda>st. return (ret_of api st))"

definition v26_start_transaction :: "ws_handle \<Rightarrow> 'e \<Rightarrow> (int \<times> ws_handle) \<times> 'e" where
  "v26_start_transaction h e = ((0, h), e)"

definition v26_assign_read_view ::
    "'e native_api \<Rightarrow> ws_handle \<Rightarrow> gtid option \<Rightarrow> 'e \<Rightarrow> (status \<times> ws_handle) \<times> 'e" where
  "v26_assign_read_view api h g =
     with_handle (\<lambda>n. na_assign_read_view api n (map_option gtid_to_native g)) (ret_of api) h"

definition v26_append_key :: "'e native_api \<Rightarrow> ws_handle \<Rightarrow> key \<Rightarrow> 'e \<Rightarrow> ((exn + int) \<times> ws_handle) \<times> 'e" where
  "v26_append_key api h k e =
     (if length (key_parts k) > 3
      then ((if na_debug api then Inl (Assertion ''0'') else Inr 1, h), e)
      else with_handle (\<lambda>n. na_append_key api n (key_parts k)
          (map_key_type (na_consts api) (key_type k)) True) (\<lambda>st. Inr (not_ok api st)) h e)"

definition v26_append_data :: "'e native_api \<Rightarrow> ws_handle \<Rightarrow> string \<Rightarrow> 'e \<Rightarrow> (status \<times> ws_handle) \<times> 'e" where
  "v26_append_data api h data =
     with_handle (\<lambda>n. na_append_data api n data (DATA_ORDERED (na_consts api)) True) (ret_of api) h"

text \<open>The second version of the call is used if there is a callback for the sequence number.\<close>

definition v26_certify :: "'e native_api \<Rightarrow> client_id \<Rightarrow> ws_handle \<Rightarrow> u32 \<Rightarrow> ws_meta \<Rightarrow> bool \<Rightarrow> 'e \<Rightarrow>
    (status \<times> ws_handle \<times> ws_meta) \<times> 'e" where
  "v26_certify api client h flags m seq_cb e =
     (let call = (case na_certify_v1 api of Some f \<Rightarrow> if seq_cb then f else na_certify api
                  | None \<Rightarrow> na_certify api) in
      case call client (handle_to_native h) (map_flags_to_native (na_consts api) flags) (meta_to_native m) e of
        ((st, n, nm), e') \<Rightarrow> ((ret_of api st, handle_from_native n, meta_from_native nm flags), e'))"

definition v26_bf_abort :: "'e native_api \<Rightarrow> seqno \<Rightarrow> transaction_id \<Rightarrow> 'e \<Rightarrow> (status \<times> seqno) \<times> 'e" where
  "v26_bf_abort api bf_seqno victim_id e = (case na_abort_certification api bf_seqno victim_id e of
     ((st, s), e') \<Rightarrow> ((ret_of api st, s), e'))"

definition v26_rollback :: "'e native_api \<Rightarrow> transaction_id \<Rightarrow> 'e \<Rightarrow> status \<times> 'e" where
  "v26_rollback api i = plain_call (na_rollback api i) (ret_of api)"

definition v26_commit_order_enter :: "'e native_api \<Rightarrow> ws_handle \<Rightarrow> ws_meta \<Rightarrow> 'e \<Rightarrow> status \<times> 'e" where
  "v26_commit_order_enter api h m =
     plain_call (na_commit_order_enter api (handle_to_native h) (meta_to_native m)) (ret_of api)"

definition v26_commit_order_leave :: "'e native_api \<Rightarrow> ws_handle \<Rightarrow> ws_meta \<Rightarrow> string \<Rightarrow> 'e \<Rightarrow> int \<times> 'e" where
  "v26_commit_order_leave api h m err =
     plain_call (na_commit_order_leave api (handle_to_native h) (meta_to_native m) err) (not_ok api)"

definition v26_release :: "'e native_api \<Rightarrow> ws_handle \<Rightarrow> 'e \<Rightarrow> (int \<times> ws_handle) \<times> 'e" where
  "v26_release api = with_handle (na_release api) (not_ok api)"

definition v26_replay :: "'e native_api \<Rightarrow> ws_handle \<Rightarrow> ('e world, status) cmd" where
  "v26_replay api h = bind (na_replay_trx api (handle_to_native h)) (\<lambda>st. return (ret_of api st))"

definition v26_enter_toi :: "'e native_api \<Rightarrow> client_id \<Rightarrow> key list \<Rightarrow> string \<Rightarrow> ws_meta \<Rightarrow> u32 \<Rightarrow> 'e \<Rightarrow>
    (status \<times> ws_meta) \<times> 'e" where
  "v26_enter_toi api client keys buffer m flags e =
     (case na_to_execute_start api client (map key_parts keys) (if buffer = [] then [] else [buffer])
        (map_flags_to_native (na_consts api) flags) (meta_to_native m) e of
        ((st, nm), e') \<Rightarrow> ((ret_of api st, meta_from_native nm flags), e'))"

definition v26_leave_toi :: "'e native_api \<Rightarrow> client_id \<Rightarrow> ws_meta \<Rightarrow> string \<Rightarrow> 'e \<Rightarrow> status \<times> 'e" where
  "v26_leave_toi api client m err = plain_call (na_to_execute_end api client err) (ret_of api)"

definition v26_causal_read :: "'e native_api \<Rightarrow> int \<Rightarrow> 'e \<Rightarrow> (gtid \<times> status) \<times> 'e" where
  "v26_causal_read api timeout e = (case na_sync_wait api None timeout e of
     ((st, g), e') \<Rightarrow> ((if st = WSREP_OK (na_consts api) then gtid_from_native g else gtid_undefined,
       ret_of api st), e'))"

definition v26_wait_for_gtid :: "'e native_api \<Rightarrow> gtid \<Rightarrow> int \<Rightarrow> 'e \<Rightarrow> status \<times> 'e" where
  "v26_wait_for_gtid api g timeout e = (case na_sync_wait api (Some (gtid_to_native g)) timeout e of
     ((st, _), e') \<Rightarrow> (ret_of api st, e'))"

definition v26_last_committed_gtid :: "'e native_api \<Rightarrow> 'e \<Rightarrow> (exn + gtid) \<times> 'e" where
  "v26_last_committed_gtid api e = (case na_last_committed_id api e of
     ((st, g), e') \<Rightarrow> (if st \<noteq> WSREP_OK (na_consts api)
        then Inl (Runtime_error ''Failed to read last committed id'')
        else Inr (gtid_from_native g), e'))"

definition v26_sst_sent :: "'e native_api \<Rightarrow> gtid \<Rightarrow> int \<Rightarrow> 'e \<Rightarrow> status \<times> 'e" where
  "v26_sst_sent api g err = plain_call (na_sst_sent api (gtid_to_native g) err) (ret_of api)"

definition v26_sst_received :: "'e native_api \<Rightarrow> gtid \<Rightarrow> int \<Rightarrow> 'e \<Rightarrow> status \<times> 'e" where
  "v26_sst_received api g err = plain_call (na_sst_received api (gtid_to_native g) err) (ret_of api)"

definition v26_enc_set_key :: "'e native_api \<Rightarrow> string \<Rightarrow> 'e \<Rightarrow> status \<times> 'e" where
  "v26_enc_set_key api key = plain_call (na_enc_set_key api key) (ret_of api)"

text \<open>A variable of unknown type is left out, or is a failed assertion.\<close>

fun v26_status_loop :: "'e native_api \<Rightarrow> native_stats_var list \<Rightarrow> exn + (string \<times> string) list" where
  "v26_status_loop api [] = Inr []"
| "v26_status_loop api (v # vs) =
     (let c = na_consts api;
          here = (if nsv_type v = VAR_STRING c then Inr [(nsv_name v, nsv_string v)]
            else if nsv_type v = VAR_INT64 c then Inr [(nsv_name v, seqno_to_string (nsv_int64 v))]
            else if nsv_type v = VAR_DOUBLE c then Inr [(nsv_name v, nsv_double_text v)]
            else if na_debug api then Inl (Assertion ''0'') else Inr []) in
      case here of Inl x \<Rightarrow> Inl x
      | Inr xs \<Rightarrow> map_sum id (\<lambda>ys. xs @ ys) (v26_status_loop api vs))"

definition v26_status :: "'e native_api \<Rightarrow> 'e \<Rightarrow> (exn + (string \<times> string) list) \<times> 'e" where
  "v26_status api e = (case na_stats_get api e of
     (None, e') \<Rightarrow> (Inr [], e')
   | (Some vs, e') \<Rightarrow> (v26_status_loop api vs, na_stats_free api e'))"

definition v26_reset_status :: "'e native_api \<Rightarrow> 'e \<Rightarrow> 'e" where
  "v26_reset_status api = na_stats_reset api"

definition v26_get_options :: "'e native_api \<Rightarrow> 'e \<Rightarrow> (exn + string) \<times> 'e" where
  "v26_get_options api e = (case na_options_get api e of
     (None, e') \<Rightarrow> (Inl (Runtime_error ''Failed to get provider options''), e')
   | (Some s, e') \<Rightarrow> (Inr s, e'))"

definition v26_set_options :: "'e native_api \<Rightarrow> string \<Rightarrow> 'e \<Rightarrow> status \<times> 'e" where
  "v26_set_options api opts = plain_call (na_options_set api (c_str opts)) (ret_of api)"

datatype node_isolation = not_isolated | isolated | force_disconnect

fun isolation_to_native :: "native_consts \<Rightarrow> node_isolation \<Rightarrow> int" where
  "isolation_to_native c not_isolated = NOT_ISOLATED c"
| "isolation_to_native c isolated = ISOLATED c"
| "isolation_to_native c force_disconnect = FORCE_DISCONNECT c"

definition v26_set_node_isolation :: "'e native_api \<Rightarrow> node_isolation \<Rightarrow> 'e \<Rightarrow> status \<times> 'e" where
  "v26_set_node_isolation api mode e = (case na_isolation_set api of
     None \<Rightarrow> (error_not_implemented, e)
   | Some f \<Rightarrow> plain_call (f (isolation_to_native (na_consts api) mode))
       (\<lambda>st. if st \<noteq> ISOLATION_SUCCESS (na_consts api) then error_warning else success) e)"

definition v26_name :: "'e native_api \<Rightarrow> string" where
  "v26_name api = (case na_provider_name api of None \<Rightarrow> ''unknown'' | Some s \<Rightarrow> s)"

definition v26_version :: "'e native_api \<Rightarrow> string" where
  "v26_version api = (case na_provider_version api of None \<Rightarrow> ''unknown'' | Some s \<Rightarrow> s)"

definition v26_vendor :: "'e native_api \<Rightarrow> string" where
  "v26_vendor api = (case na_provider_vendor api of None \<Rightarrow> ''unknown'' | Some s \<Rightarrow> s)"

text \<open>The adapter as a provider.\<close>

definition v26_provider :: "'e native_api \<Rightarrow> 'e provider_ops" where
  "v26_provider api = \<lparr>prov_start_transaction = v26_start_transaction,
     prov_assign_read_view = (\<lambda>h g e. case v26_assign_read_view api h g e of
       ((st, h'), e') \<Rightarrow> ((Inr st, h'), e')),
     prov_append_key = v26_append_key api, prov_append_data = v26_append_data api,
     prov_certify = v26_certify api,
     prov_bf_abort = (\<lambda>s i e. case v26_bf_abort api s i e of ((st, _), e') \<Rightarrow> (st, e')),
     prov_rollback = v26_rollback api, prov_commit_order_enter = v26_commit_order_enter api,
     prov_commit_order_leave = v26_commit_order_leave api, prov_release = v26_release api,
     prov_enter_toi = v26_enter_toi api, prov_leave_toi = v26_leave_toi api,
     prov_causal_read = v26_causal_read api, prov_connect = v26_connect api,
     prov_disconnect = v26_disconnect api, prov_desync = v26_desync api, prov_resync = v26_resync api,
     prov_pause = v26_pause api, prov_resume = v26_resume api, prov_sst_sent = v26_sst_sent api,
     prov_sst_received = v26_sst_received api\<rparr>"

section \<open>Callbacks\<close>

text \<open>A callback reports success, or failure if it ends with an exception of the library.\<close>

definition cb_guard :: "('e world, bool) cmd \<Rightarrow> ('e world, bool) cmd" where
  "cb_guard m = catch_runtime_error m (\<lambda>_. return False)"

definition connected_cb :: "'e services \<Rightarrow> native_consts \<Rightarrow> native_view_info \<Rightarrow> ('e world, bool) cmd" where
  "connected_cb svc c info = fetch (\<lambda>w. view_from_native c info (sv_id (w_ss w))) (\<lambda>r.
     case r of Inl x \<Rightarrow> throw x
     | Inr v \<Rightarrow>
         seq (assert_that (debug_build svc) ''own_index >= 0'' (\<lambda>_. view_own_index v \<ge> 0))
         (if view_own_index v < 0 then return False
          else seq (assert_that (debug_build svc) ''own id'' (\<lambda>w. id_is_undefined (sv_id (w_ss w)) \<or>
                 sv_id (w_ss w) = view_own_id v))
            (cb_guard (seq (on_connect svc v) (return True)))))"

definition view_cb ::
    "'e services \<Rightarrow> native_consts \<Rightarrow> hps_ref option \<Rightarrow> native_view_info \<Rightarrow> ('e world, bool) cmd" where
  "view_cb svc c h info = cb_guard (fetch (\<lambda>w. view_from_native c info (sv_id (w_ss w))) (\<lambda>r.
     case r of Inl x \<Rightarrow> throw x | Inr v \<Rightarrow> seq (on_view svc v h) (return True)))"

text \<open>The request with its terminating null byte, if there is one.\<close>

definition sst_request_cb :: "'e services \<Rightarrow> ('e world, bool \<times> string option) cmd" where
  "sst_request_cb svc = catch_runtime_error
     (bind (prepare_for_sst svc) (\<lambda>req.
       return (True, if length req > 0 then Some (req @ [CHR 0x00]) else None)))
     (\<lambda>_. return (False, None))"

text \<open>The second result is what is stored to \<^verbatim>\<open>exit_loop\<close>, if anything.\<close>

definition apply_cb :: "'e services \<Rightarrow> 'e native_api \<Rightarrow> hps_ref \<Rightarrow> native_ws_handle \<Rightarrow> u32 \<Rightarrow> string \<Rightarrow>
    native_trx_meta \<Rightarrow> ('e world, bool \<times> bool option) cmd" where
  "apply_cb svc api h n flags data nm = catch_runtime_error
     (bind (on_apply svc h (handle_from_native n)
         (meta_from_native nm (map_flags_from_native (na_consts api) flags)) data) (\<lambda>r.
       if r \<noteq> 0 then return (False, None)
       else fetch (\<lambda>w. na_must_exit api h (w_env w)) (\<lambda>b. return (True, Some b))))
     (\<lambda>_. return (False, None))"

definition synced_cb :: "'e services \<Rightarrow> ('e world, bool) cmd" where
  "synced_cb svc = cb_guard (seq (on_sync svc) (return True))"

definition sst_donate_cb :: "'e services \<Rightarrow> string \<Rightarrow> native_gtid \<Rightarrow> bool \<Rightarrow> ('e world, bool) cmd" where
  "sst_donate_cb svc req g bypass = cb_guard
     (bind (start_sst svc req (gtid_from_native g) bypass) (\<lambda>r. return (r = 0)))"

end
