(* ===== verification/Service_Callbacks.thy ===== *)
theory Service_Callbacks
  imports Provider_V26
begin

text \<open>
  The callbacks by which the provider library uses the services of the application: threads,
  mutexes and condition variables (\<^verbatim>\<open>thread_service_v1.cpp\<close>), TLS streams
  (\<^verbatim>\<open>tls_service_v1.cpp\<close>), the allowlist, events and the monitor of connections
  (\<^verbatim>\<open>allowlist_service_v1.cpp\<close>, \<^verbatim>\<open>event_service_v1.cpp\<close>,
  \<^verbatim>\<open>connection_monitor_service_v1.cpp\<close>), encryption and logging
  (\<^verbatim>\<open>wsrep_provider_v26.cpp\<close>, \<^verbatim>\<open>logger.hpp\<close>).

  The implementations are objects of the application, hence parameters; their functions take the
  pointer to the object first. A callback finds the object in a static variable
  (\<open>service_slot\<close> of theory \<open>Provider_Services\<close>).
\<close>

section \<open>Finding the implementation\<close>

text \<open>
  \<^verbatim>\<open>assert(impl)\<close> and the call through the pointer: without an implementation this is a failed
  assertion, or undefined.
\<close>

definition with_impl :: "'e dl_ops \<Rightarrow> (service_globals \<Rightarrow> service_slot) \<Rightarrow>
    (nat \<Rightarrow> ('e dl_world, 'a) cmd) \<Rightarrow> ('e dl_world, 'a) cmd" where
  "with_impl dl slot k = fetch (\<lambda>w. sl_impl (slot (dw_globals w))) (\<lambda>i. case i of
      Some s \<Rightarrow> k s
    | None \<Rightarrow> throw (if dl_debug dl then Assertion ''service_impl'' else Undefined ''service_impl''))"

definition forward :: "'e dl_ops \<Rightarrow> (service_globals \<Rightarrow> service_slot) \<Rightarrow>
    (nat \<Rightarrow> 'e \<Rightarrow> 'r \<times> 'e) \<Rightarrow> ('e dl_world, 'r) cmd" where
  "forward dl slot f = with_impl dl slot (\<lambda>s. dl_run (f s))"

definition forward_do :: "'e dl_ops \<Rightarrow> (service_globals \<Rightarrow> service_slot) \<Rightarrow>
    (nat \<Rightarrow> 'e \<Rightarrow> 'e) \<Rightarrow> ('e dl_world, unit) cmd" where
  "forward_do dl slot f = with_impl dl slot (\<lambda>s. dl_do (f s))"

section \<open>Threads, mutexes and condition variables\<close>

text \<open>
  Threads, mutexes, condition variables, their keys, memory blocks, time and scheduling parameters
  are pointers that the callbacks pass on. \<open>th_exit\<close> should not return; its first result tells
  whether it did all the same.
\<close>

record 'e thread_impl =
  th_create_thread_key :: "nat \<Rightarrow> string \<Rightarrow> 'e \<Rightarrow> nat \<times> 'e"
  th_create_thread :: "nat \<Rightarrow> nat \<Rightarrow> nat \<Rightarrow> nat \<Rightarrow> 'e \<Rightarrow> (int \<times> nat) \<times> 'e"
  th_detach :: "nat \<Rightarrow> nat \<Rightarrow> 'e \<Rightarrow> int \<times> 'e"
  th_equal :: "nat \<Rightarrow> nat \<Rightarrow> nat \<Rightarrow> 'e \<Rightarrow> int \<times> 'e"
  th_exit :: "nat \<Rightarrow> nat \<Rightarrow> nat \<Rightarrow> 'e \<Rightarrow> bool \<times> 'e"
  th_join :: "nat \<Rightarrow> nat \<Rightarrow> 'e \<Rightarrow> (int \<times> nat) \<times> 'e"
  th_self :: "nat \<Rightarrow> 'e \<Rightarrow> nat \<times> 'e"
  th_setschedparam :: "nat \<Rightarrow> nat \<Rightarrow> int \<Rightarrow> nat \<Rightarrow> 'e \<Rightarrow> int \<times> 'e"
  th_getschedparam :: "nat \<Rightarrow> nat \<Rightarrow> 'e \<Rightarrow> (int \<times> int \<times> nat) \<times> 'e"
  th_create_mutex_key :: "nat \<Rightarrow> string \<Rightarrow> 'e \<Rightarrow> nat \<times> 'e"
  th_init_mutex :: "nat \<Rightarrow> nat \<Rightarrow> nat \<Rightarrow> u64 \<Rightarrow> 'e \<Rightarrow> nat \<times> 'e"
  th_destroy_mutex :: "nat \<Rightarrow> nat \<Rightarrow> 'e \<Rightarrow> int \<times> 'e"
  th_lock :: "nat \<Rightarrow> nat \<Rightarrow> 'e \<Rightarrow> int \<times> 'e"
  th_trylock :: "nat \<Rightarrow> nat \<Rightarrow> 'e \<Rightarrow> int \<times> 'e"
  th_unlock :: "nat \<Rightarrow> nat \<Rightarrow> 'e \<Rightarrow> int \<times> 'e"
  th_create_cond_key :: "nat \<Rightarrow> string \<Rightarrow> 'e \<Rightarrow> nat \<times> 'e"
  th_init_cond :: "nat \<Rightarrow> nat \<Rightarrow> nat \<Rightarrow> u64 \<Rightarrow> 'e \<Rightarrow> nat \<times> 'e"
  th_destroy_cond :: "nat \<Rightarrow> nat \<Rightarrow> 'e \<Rightarrow> int \<times> 'e"
  th_wait :: "nat \<Rightarrow> nat \<Rightarrow> nat \<Rightarrow> 'e \<Rightarrow> int \<times> 'e"
  th_timedwait :: "nat \<Rightarrow> nat \<Rightarrow> nat \<Rightarrow> nat \<Rightarrow> 'e \<Rightarrow> int \<times> 'e"
  th_signal :: "nat \<Rightarrow> nat \<Rightarrow> 'e \<Rightarrow> int \<times> 'e"
  th_broadcast :: "nat \<Rightarrow> nat \<Rightarrow> 'e \<Rightarrow> int \<times> 'e"

definition thread_key_create_cb :: "'e dl_ops \<Rightarrow> 'e thread_impl \<Rightarrow> string \<Rightarrow> ('e dl_world, nat) cmd" where
  "thread_key_create_cb dl t name = forward dl thread_slot (\<lambda>s. th_create_thread_key t s name)"

definition thread_create_cb ::
    "'e dl_ops \<Rightarrow> 'e thread_impl \<Rightarrow> nat \<Rightarrow> nat \<Rightarrow> nat \<Rightarrow> ('e dl_world, int \<times> nat) cmd" where
  "thread_create_cb dl t key fn args = forward dl thread_slot (\<lambda>s. th_create_thread t s key fn args)"

definition thread_detach_cb :: "'e dl_ops \<Rightarrow> 'e thread_impl \<Rightarrow> nat \<Rightarrow> ('e dl_world, int) cmd" where
  "thread_detach_cb dl t thr = forward dl thread_slot (\<lambda>s. th_detach t s thr)"

definition thread_equal_cb :: "'e dl_ops \<Rightarrow> 'e thread_impl \<Rightarrow> nat \<Rightarrow> nat \<Rightarrow> ('e dl_world, int) cmd" where
  "thread_equal_cb dl t thr1 thr2 = forward dl thread_slot (\<lambda>s. th_equal t s thr1 thr2)"

text \<open>
  The thread ends in the call (\<open>Blocked\<close>: nothing runs after it). If the implementation returns,
  \<^verbatim>\<open>throw;\<close> without an exception ends the process, as a failed assertion does.
\<close>

definition thread_exit_cb :: "'e dl_ops \<Rightarrow> 'e thread_impl \<Rightarrow> nat \<Rightarrow> nat \<Rightarrow> ('e dl_world, unit) cmd" where
  "thread_exit_cb dl t thr retval = bind (forward dl thread_slot (\<lambda>s. th_exit t s thr retval))
     (\<lambda>returned. throw (if returned then Assertion ''std::terminate'' else Blocked ''thread exit''))"

definition thread_join_cb :: "'e dl_ops \<Rightarrow> 'e thread_impl \<Rightarrow> nat \<Rightarrow> ('e dl_world, int \<times> nat) cmd" where
  "thread_join_cb dl t thr = forward dl thread_slot (\<lambda>s. th_join t s thr)"

definition thread_self_cb :: "'e dl_ops \<Rightarrow> 'e thread_impl \<Rightarrow> ('e dl_world, nat) cmd" where
  "thread_self_cb dl t = forward dl thread_slot (th_self t)"

definition thread_setschedparam_cb ::
    "'e dl_ops \<Rightarrow> 'e thread_impl \<Rightarrow> nat \<Rightarrow> int \<Rightarrow> nat \<Rightarrow> ('e dl_world, int) cmd" where
  "thread_setschedparam_cb dl t thr policy sp =
     forward dl thread_slot (\<lambda>s. th_setschedparam t s thr policy sp)"

definition thread_getschedparam_cb ::
    "'e dl_ops \<Rightarrow> 'e thread_impl \<Rightarrow> nat \<Rightarrow> ('e dl_world, int \<times> int \<times> nat) cmd" where
  "thread_getschedparam_cb dl t thr = forward dl thread_slot (\<lambda>s. th_getschedparam t s thr)"

definition mutex_key_create_cb :: "'e dl_ops \<Rightarrow> 'e thread_impl \<Rightarrow> string \<Rightarrow> ('e dl_world, nat) cmd" where
  "mutex_key_create_cb dl t name = forward dl thread_slot (\<lambda>s. th_create_mutex_key t s name)"

definition mutex_init_cb ::
    "'e dl_ops \<Rightarrow> 'e thread_impl \<Rightarrow> nat \<Rightarrow> nat \<Rightarrow> u64 \<Rightarrow> ('e dl_world, nat) cmd" where
  "mutex_init_cb dl t key memblock memblock_size =
     forward dl thread_slot (\<lambda>s. th_init_mutex t s key memblock memblock_size)"

definition mutex_destroy_cb :: "'e dl_ops \<Rightarrow> 'e thread_impl \<Rightarrow> nat \<Rightarrow> ('e dl_world, int) cmd" where
  "mutex_destroy_cb dl t m = forward dl thread_slot (\<lambda>s. th_destroy_mutex t s m)"

definition mutex_lock_cb :: "'e dl_ops \<Rightarrow> 'e thread_impl \<Rightarrow> nat \<Rightarrow> ('e dl_world, int) cmd" where
  "mutex_lock_cb dl t m = forward dl thread_slot (\<lambda>s. th_lock t s m)"

definition mutex_trylock_cb :: "'e dl_ops \<Rightarrow> 'e thread_impl \<Rightarrow> nat \<Rightarrow> ('e dl_world, int) cmd" where
  "mutex_trylock_cb dl t m = forward dl thread_slot (\<lambda>s. th_trylock t s m)"

definition mutex_unlock_cb :: "'e dl_ops \<Rightarrow> 'e thread_impl \<Rightarrow> nat \<Rightarrow> ('e dl_world, int) cmd" where
  "mutex_unlock_cb dl t m = forward dl thread_slot (\<lambda>s. th_unlock t s m)"

definition cond_key_create_cb :: "'e dl_ops \<Rightarrow> 'e thread_impl \<Rightarrow> string \<Rightarrow> ('e dl_world, nat) cmd" where
  "cond_key_create_cb dl t name = forward dl thread_slot (\<lambda>s. th_create_cond_key t s name)"

definition cond_init_cb ::
    "'e dl_ops \<Rightarrow> 'e thread_impl \<Rightarrow> nat \<Rightarrow> nat \<Rightarrow> u64 \<Rightarrow> ('e dl_world, nat) cmd" where
  "cond_init_cb dl t key memblock memblock_size =
     forward dl thread_slot (\<lambda>s. th_init_cond t s key memblock memblock_size)"

definition cond_destroy_cb :: "'e dl_ops \<Rightarrow> 'e thread_impl \<Rightarrow> nat \<Rightarrow> ('e dl_world, int) cmd" where
  "cond_destroy_cb dl t c = forward dl thread_slot (\<lambda>s. th_destroy_cond t s c)"

definition cond_wait_cb :: "'e dl_ops \<Rightarrow> 'e thread_impl \<Rightarrow> nat \<Rightarrow> nat \<Rightarrow> ('e dl_world, int) cmd" where
  "cond_wait_cb dl t c m = forward dl thread_slot (\<lambda>s. th_wait t s c m)"

definition cond_timedwait_cb ::
    "'e dl_ops \<Rightarrow> 'e thread_impl \<Rightarrow> nat \<Rightarrow> nat \<Rightarrow> nat \<Rightarrow> ('e dl_world, int) cmd" where
  "cond_timedwait_cb dl t c m ts = forward dl thread_slot (\<lambda>s. th_timedwait t s c m ts)"

definition cond_signal_cb :: "'e dl_ops \<Rightarrow> 'e thread_impl \<Rightarrow> nat \<Rightarrow> ('e dl_world, int) cmd" where
  "cond_signal_cb dl t c = forward dl thread_slot (\<lambda>s. th_signal t s c)"

definition cond_broadcast_cb :: "'e dl_ops \<Rightarrow> 'e thread_impl \<Rightarrow> nat \<Rightarrow> ('e dl_world, int) cmd" where
  "cond_broadcast_cb dl t c = forward dl thread_slot (\<lambda>s. th_broadcast t s c)"

section \<open>TLS\<close>

text \<open>
  The codes of \<^verbatim>\<open>tls_service::status\<close>; an implementation may also give a negative system
  error number.
\<close>

datatype tls_status = tls_success | tls_want_read | tls_want_write | tls_eof | tls_error

fun tls_status_code :: "tls_status \<Rightarrow> int" where
  "tls_status_code tls_success = 0"
| "tls_status_code tls_want_read = 1"
| "tls_status_code tls_want_write = 2"
| "tls_status_code tls_eof = 3"
| "tls_status_code tls_error = 4"

text \<open>Constants of the library's headers that the callbacks use.\<close>

record callback_consts =
  TLS_SUCCESS :: int
  TLS_WANT_READ :: int
  TLS_WANT_WRITE :: int
  TLS_EOF :: int
  TLS_ERROR :: int
  KEY_IP :: int
  KEY_SSL :: int
  LOG_FATAL :: int
  LOG_ERROR :: int
  LOG_WARN :: int
  LOG_INFO :: int
  LOG_DEBUG :: int
  ENC :: int

definition ENOMEM :: int where
  "ENOMEM = 12"

record 'e tls_impl =
  ti_create_tls_stream :: "nat \<Rightarrow> int \<Rightarrow> 'e \<Rightarrow> nat option \<times> 'e"
  ti_destroy :: "nat \<Rightarrow> nat option \<Rightarrow> 'e \<Rightarrow> 'e"
  ti_get_error_number :: "nat \<Rightarrow> nat option \<Rightarrow> 'e \<Rightarrow> int \<times> 'e"
  ti_get_error_category :: "nat \<Rightarrow> nat option \<Rightarrow> 'e \<Rightarrow> nat \<times> 'e"
  ti_get_error_message :: "nat \<Rightarrow> nat option \<Rightarrow> int \<Rightarrow> nat \<Rightarrow> 'e \<Rightarrow> string \<times> 'e"
  ti_client_handshake :: "nat \<Rightarrow> nat option \<Rightarrow> 'e \<Rightarrow> int \<times> 'e"
  ti_server_handshake :: "nat \<Rightarrow> nat option \<Rightarrow> 'e \<Rightarrow> int \<times> 'e"
  ti_read :: "nat \<Rightarrow> nat option \<Rightarrow> u64 \<Rightarrow> 'e \<Rightarrow> (int \<times> u64 \<times> string) \<times> 'e"
  ti_write :: "nat \<Rightarrow> nat option \<Rightarrow> string \<Rightarrow> 'e \<Rightarrow> (int \<times> u64) \<times> 'e"
  ti_shutdown :: "nat \<Rightarrow> nat option \<Rightarrow> 'e \<Rightarrow> int \<times> 'e"

text \<open>\<^verbatim>\<open>wsrep_tls_stream_t\<close>: the file descriptor and the stream of the application.\<close>

record tls_stream =
  ts_fd :: int
  ts_opaque :: "nat option"

definition tls_stream_init_cb ::
    "'e dl_ops \<Rightarrow> 'e tls_impl \<Rightarrow> tls_stream \<Rightarrow> ('e dl_world, int \<times> tls_stream) cmd" where
  "tls_stream_init_cb dl t stream =
     bind (forward dl tls_slot (\<lambda>s. ti_create_tls_stream t s (ts_fd stream))) (\<lambda>opaque.
       return (if opaque = None then ENOMEM else 0, stream\<lparr>ts_opaque := opaque\<rparr>))"

definition tls_stream_deinit_cb :: "'e dl_ops \<Rightarrow> 'e tls_impl \<Rightarrow> tls_stream \<Rightarrow> ('e dl_world, unit) cmd" where
  "tls_stream_deinit_cb dl t stream = forward_do dl tls_slot (\<lambda>s. ti_destroy t s (ts_opaque stream))"

definition tls_stream_get_error_number_cb ::
    "'e dl_ops \<Rightarrow> 'e tls_impl \<Rightarrow> tls_stream \<Rightarrow> ('e dl_world, int) cmd" where
  "tls_stream_get_error_number_cb dl t stream =
     forward dl tls_slot (\<lambda>s. ti_get_error_number t s (ts_opaque stream))"

definition tls_stream_get_error_category_cb ::
    "'e dl_ops \<Rightarrow> 'e tls_impl \<Rightarrow> tls_stream \<Rightarrow> ('e dl_world, nat) cmd" where
  "tls_stream_get_error_category_cb dl t stream =
     forward dl tls_slot (\<lambda>s. ti_get_error_category t s (ts_opaque stream))"

definition tls_error_message_get_cb ::
    "'e dl_ops \<Rightarrow> 'e tls_impl \<Rightarrow> tls_stream \<Rightarrow> int \<Rightarrow> nat \<Rightarrow> ('e dl_world, string) cmd" where
  "tls_error_message_get_cb dl t stream value category =
     forward dl tls_slot (\<lambda>s. ti_get_error_message t s (ts_opaque stream) value category)"

definition tls_map_return_value :: "'e dl_ops \<Rightarrow> callback_consts \<Rightarrow> int \<Rightarrow> ('e dl_world, int) cmd" where
  "tls_map_return_value dl c st =
     (if st = tls_status_code tls_success then return (TLS_SUCCESS c)
      else if st = tls_status_code tls_want_read then return (TLS_WANT_READ c)
      else if st = tls_status_code tls_want_write then return (TLS_WANT_WRITE c)
      else if st = tls_status_code tls_eof then return (TLS_EOF c)
      else if st = tls_status_code tls_error then return (TLS_ERROR c)
      else seq (assert_that (dl_debug dl) ''status < 0'' (\<lambda>_. st < 0)) (return (TLS_ERROR c)))"

definition tls_stream_client_handshake_cb ::
    "'e dl_ops \<Rightarrow> callback_consts \<Rightarrow> 'e tls_impl \<Rightarrow> tls_stream \<Rightarrow> ('e dl_world, int) cmd" where
  "tls_stream_client_handshake_cb dl c t stream =
     bind (forward dl tls_slot (\<lambda>s. ti_client_handshake t s (ts_opaque stream))) (tls_map_return_value dl c)"

definition tls_stream_server_handshake_cb ::
    "'e dl_ops \<Rightarrow> callback_consts \<Rightarrow> 'e tls_impl \<Rightarrow> tls_stream \<Rightarrow> ('e dl_world, int) cmd" where
  "tls_stream_server_handshake_cb dl c t stream =
     bind (forward dl tls_slot (\<lambda>s. ti_server_handshake t s (ts_opaque stream))) (tls_map_return_value dl c)"

text \<open>The results: the status, the number of bytes transferred and, for a read, the bytes.\<close>

definition tls_stream_read_cb :: "'e dl_ops \<Rightarrow> callback_consts \<Rightarrow> 'e tls_impl \<Rightarrow> tls_stream \<Rightarrow> u64 \<Rightarrow>
    ('e dl_world, int \<times> u64 \<times> string) cmd" where
  "tls_stream_read_cb dl c t stream max_count =
     bind (forward dl tls_slot (\<lambda>s. ti_read t s (ts_opaque stream) max_count)) (\<lambda>(st, n, buf).
     bind (tls_map_return_value dl c st) (\<lambda>r. return (r, n, buf)))"

definition tls_stream_write_cb :: "'e dl_ops \<Rightarrow> callback_consts \<Rightarrow> 'e tls_impl \<Rightarrow> tls_stream \<Rightarrow> string \<Rightarrow>
    ('e dl_world, int \<times> u64) cmd" where
  "tls_stream_write_cb dl c t stream buf =
     bind (forward dl tls_slot (\<lambda>s. ti_write t s (ts_opaque stream) buf)) (\<lambda>(st, n).
     bind (tls_map_return_value dl c st) (\<lambda>r. return (r, n)))"

definition tls_stream_shutdown_cb ::
    "'e dl_ops \<Rightarrow> callback_consts \<Rightarrow> 'e tls_impl \<Rightarrow> tls_stream \<Rightarrow> ('e dl_world, int) cmd" where
  "tls_stream_shutdown_cb dl c t stream =
     bind (forward dl tls_slot (\<lambda>s. ti_shutdown t s (ts_opaque stream))) (tls_map_return_value dl c)"

section \<open>Allowlist, events and connections\<close>

datatype allowlist_key = allowlist_ip | allowlist_ssl

definition allowlist_key_from_native :: "callback_consts \<Rightarrow> int \<Rightarrow> exn + allowlist_key" where
  "allowlist_key_from_native c key =
     (if key = KEY_IP c then Inr allowlist_ip
      else if key = KEY_SSL c then Inr allowlist_ssl
      else Inl (Runtime_error ''Unknown allowlist key''))"

definition allowlist_cb :: "'e dl_ops \<Rightarrow> native_consts \<Rightarrow> callback_consts \<Rightarrow>
    (nat \<Rightarrow> allowlist_key \<Rightarrow> string \<Rightarrow> 'e \<Rightarrow> bool \<times> 'e) \<Rightarrow> int \<Rightarrow> string \<Rightarrow> ('e dl_world, int) cmd" where
  "allowlist_cb dl n c check key value = with_impl dl allowlist_slot (\<lambda>s.
     case allowlist_key_from_native c key of Inl x \<Rightarrow> throw x
     | Inr k \<Rightarrow> bind (dl_run (check s k value)) (\<lambda>allowed.
         return (if allowed then WSREP_OK n else WSREP_NOT_ALLOWED n)))"

text \<open>The implementation of the event service is the context that the library gives back.\<close>

definition event_callback ::
    "(nat \<Rightarrow> string \<Rightarrow> string \<Rightarrow> 'e \<Rightarrow> 'e) \<Rightarrow> nat option \<Rightarrow> string \<Rightarrow> string \<Rightarrow> ('e dl_world, unit) cmd" where
  "event_callback process_event ctx name value = (case ctx of None \<Rightarrow> skip
     | Some impl \<Rightarrow> dl_do (process_event impl name value))"

record 'e monitor_impl =
  mi_connect :: "nat \<Rightarrow> nat \<Rightarrow> string \<Rightarrow> string \<Rightarrow> string \<Rightarrow> 'e \<Rightarrow> bool \<times> 'e"
  mi_disconnect :: "nat \<Rightarrow> nat \<Rightarrow> 'e \<Rightarrow> bool \<times> 'e"
  mi_ssl_info :: "nat \<Rightarrow> nat \<Rightarrow> string \<Rightarrow> string \<Rightarrow> string \<Rightarrow> string \<Rightarrow> 'e \<Rightarrow> bool \<times> 'e"

definition connection_monitor_connect_cb :: "'e dl_ops \<Rightarrow> 'e monitor_impl \<Rightarrow> nat \<Rightarrow> string \<Rightarrow> string \<Rightarrow>
    string \<Rightarrow> ('e dl_world, unit) cmd" where
  "connection_monitor_connect_cb dl m i scheme local_address remote_address =
     seq (forward dl monitor_slot (\<lambda>s. mi_connect m s i scheme local_address remote_address)) skip"

definition connection_monitor_disconnect_cb ::
    "'e dl_ops \<Rightarrow> 'e monitor_impl \<Rightarrow> nat \<Rightarrow> ('e dl_world, unit) cmd" where
  "connection_monitor_disconnect_cb dl m i =
     seq (forward dl monitor_slot (\<lambda>s. mi_disconnect m s i)) skip"

definition connection_monitor_ssl_info_cb :: "'e dl_ops \<Rightarrow> 'e monitor_impl \<Rightarrow> nat \<Rightarrow> string \<Rightarrow> string \<Rightarrow>
    string \<Rightarrow> string \<Rightarrow> ('e dl_world, unit) cmd" where
  "connection_monitor_ssl_info_cb dl m i cipher subject issuer version =
     seq (forward dl monitor_slot (\<lambda>s. mi_ssl_info m s i cipher subject issuer version)) skip"

section \<open>Logging and encryption\<close>

datatype log_level = log_debug | log_info | log_warning | log_error | log_unknown

fun log_level_to_c_string :: "log_level \<Rightarrow> string" where
  "log_level_to_c_string log_debug = ''debug''"
| "log_level_to_c_string log_info = ''info''"
| "log_level_to_c_string log_warning = ''warning''"
| "log_level_to_c_string log_error = ''error''"
| "log_level_to_c_string log_unknown = ''unknown''"

text \<open>
  Where messages go: the function set by the application, or standard output. The message
  is written when the \<^verbatim>\<open>log\<close> object is destroyed.
\<close>

record 'e log_ops =
  lo_logger_fn :: "(log_level \<Rightarrow> string \<Rightarrow> string \<Rightarrow> 'e \<Rightarrow> 'e) option"
  lo_stdout :: "string \<Rightarrow> 'e \<Rightarrow> 'e"

definition log_message :: "'e log_ops \<Rightarrow> log_level \<Rightarrow> string \<Rightarrow> string \<Rightarrow> ('e dl_world, unit) cmd" where
  "log_message lo level prefix msg = (case lo_logger_fn lo of
      Some f \<Rightarrow> dl_do (f level prefix (c_str msg))
    | None \<Rightarrow> dl_do (lo_stdout lo (prefix @ msg @ [CHR 0x0A])))"

definition log_level_from_native :: "callback_consts \<Rightarrow> int \<Rightarrow> log_level" where
  "log_level_from_native c level =
     (if level = LOG_FATAL c \<or> level = LOG_ERROR c then log_error
      else if level = LOG_WARN c then log_warning
      else if level = LOG_INFO c then log_info
      else if level = LOG_DEBUG c then log_debug
      else log_unknown)"

definition logger_cb :: "'e log_ops \<Rightarrow> callback_consts \<Rightarrow> int \<Rightarrow> string \<Rightarrow> ('e dl_world, unit) cmd" where
  "logger_cb lo c level msg = log_message lo (log_level_from_native c level) ''P:'' (c_str msg)"

text \<open>
  \<open>service\<close>: the server has an encryption service. \<open>do_crypt\<close> gets the key, the initialization vector,
  the input, the direction and whether this is the last block; it gives the number of bytes written
  and the output, or an exception. \<open>free_ctx\<close> releases the context of the cipher.
\<close>

definition encrypt_cb :: "'e dl_ops \<Rightarrow> callback_consts \<Rightarrow> bool \<Rightarrow>
    (string \<Rightarrow> string \<Rightarrow> string \<Rightarrow> bool \<Rightarrow> bool \<Rightarrow> 'e \<Rightarrow> (exn + int \<times> string) \<times> 'e) \<Rightarrow> ('e \<Rightarrow> 'e) \<Rightarrow>
    string \<Rightarrow> string \<Rightarrow> string \<Rightarrow> int \<Rightarrow> bool \<Rightarrow> ('e dl_world, int \<times> string) cmd" where
  "encrypt_cb dl c service do_crypt free_ctx key iv input direction is_last =
     seq (assert_that (dl_debug dl) ''encryption_service()'' (\<lambda>_. service))
     (if \<not> service then return (-1, [])
      else catch_runtime_error
        (bind (dl_run (do_crypt key iv input (direction = ENC c) is_last)) (\<lambda>r. case r of
           Inl x \<Rightarrow> throw x | Inr y \<Rightarrow> return y))
        (\<lambda>_. seq (dl_do free_ctx) (return (-1, []))))"

end
