(* ===== verification/V26_Theorems.thy ===== *)
theory V26_Theorems
  imports Provider_V26 Instances
begin

text \<open>
  The properties of the adapter to the provider library: write sets reach the applier as they were
  sent, the adapter meets the contract that the library's operations expect of a provider, and
  the callbacks do not let exceptions into C code.
\<close>

section \<open>Flags\<close>

text \<open>The native flags are bits of their own.\<close>

definition native_flags :: "native_consts \<Rightarrow> u32 list" where
  "native_flags c = [FLAG_TRX_START c, FLAG_TRX_END c, FLAG_ROLLBACK c, FLAG_ISOLATION c,
     FLAG_PA_UNSAFE c, FLAG_TRX_PREPARE c, FLAG_SNAPSHOT c, FLAG_IMPLICIT_DEPS c]"

definition own_bits :: "native_consts \<Rightarrow> bool" where
  "own_bits c \<longleftrightarrow> (\<exists>ps. distinct ps \<and> (\<forall>p\<in>set ps. p < 31) \<and> native_flags c = map (\<lambda>p. 2 ^ p) ps)"

definition mapped_flags :: u32 where
  "mapped_flags = flag_start_transaction OR flag_commit OR flag_rollback OR flag_isolation OR
     flag_pa_unsafe OR flag_prepare OR flag_snapshot OR flag_implicit_deps"

lemma map_one_bit: "map_one flags (2 ^ p) to = (if bit flags p then to else 0)"
  by (simp add: map_one_def and_exp_eq_0_iff_not_bit)

lemma bit_u32_pow: "bit (2 ^ p :: u32) q \<longleftrightarrow> p = q \<and> q < 32"
  by (auto simp: bit_exp_iff possible_bit_word)

lemma bit_one_flag: "bit (if P then 2 ^ p else 0 :: u32) q \<longleftrightarrow> P \<and> p = q \<and> q < 32"
  by (simp add: bit_u32_pow)

lemma flag_powers:
  "flag_start_transaction = 2 ^ 0" "flag_commit = 2 ^ 1" "flag_rollback = 2 ^ 2" "flag_isolation = 2 ^ 3"
  "flag_pa_unsafe = 2 ^ 4" "flag_prepare = 2 ^ 7" "flag_snapshot = 2 ^ 8" "flag_implicit_deps = 2 ^ 9"
  by (simp_all add: flag_defs)

lemma flags_roundtrip:
  assumes "own_bits c"
  shows "map_flags_from_native c (map_flags_to_native c f) = f AND mapped_flags"
proof -
  obtain ps where ps: "distinct ps" "\<forall>p\<in>set ps. p < 31" "native_flags c = map (\<lambda>p. 2 ^ p) ps"
    using assms by (auto simp: own_bits_def)
  have "length ps = 8" using arg_cong [OF ps(3), of length] by (simp add: native_flags_def)
  then obtain a b d e g h i j where l: "ps = [a, b, d, e, g, h, i, j]"
    by (auto simp: length_Suc_conv numeral_eq_Suc)
  have c: "FLAG_TRX_START c = 2 ^ a" "FLAG_TRX_END c = 2 ^ b" "FLAG_ROLLBACK c = 2 ^ d"
      "FLAG_ISOLATION c = 2 ^ e" "FLAG_PA_UNSAFE c = 2 ^ g" "FLAG_TRX_PREPARE c = 2 ^ h"
      "FLAG_SNAPSHOT c = 2 ^ i" "FLAG_IMPLICIT_DEPS c = 2 ^ j"
    using ps(3) by (simp_all add: l native_flags_def)
  have to: "map_flags_to_native c f = (if bit f 0 then 2 ^ a else 0) OR (if bit f 1 then 2 ^ b else 0) OR
      (if bit f 2 then 2 ^ d else 0) OR (if bit f 3 then 2 ^ e else 0) OR
      (if bit f 4 then 2 ^ g else 0) OR (if bit f 7 then 2 ^ h else 0) OR
      (if bit f 8 then 2 ^ i else 0) OR (if bit f 9 then 2 ^ j else 0)"
    by (simp only: map_flags_to_native_def flag_powers map_one_bit c)
  have bits: "bit (map_flags_to_native c f) a = bit f 0" "bit (map_flags_to_native c f) b = bit f 1"
      "bit (map_flags_to_native c f) d = bit f 2" "bit (map_flags_to_native c f) e = bit f 3"
      "bit (map_flags_to_native c f) g = bit f 4" "bit (map_flags_to_native c f) h = bit f 7"
      "bit (map_flags_to_native c f) i = bit f 8" "bit (map_flags_to_native c f) j = bit f 9"
    unfolding to bit_or_iff bit_one_flag using ps(1,2) by (simp_all add: l) auto
  show ?thesis
    unfolding map_flags_from_native_def c map_one_bit bits mapped_flags_def flag_powers
    by (rule bit_eqI) (unfold bit_or_iff bit_and_iff bit_one_flag bit_u32_pow, auto)
qed

section \<open>Write sets\<close>

lemma handle_roundtrip [simp]: "handle_from_native (handle_to_native h) = h"
  by (cases h) (simp add: handle_from_native_def handle_to_native_def)

lemma pad16_id [simp]: "length i = 16 \<Longrightarrow> pad16 i = i"
  by (simp add: pad16_def)

lemma meta_roundtrip:
  assumes "length (gtid_id (wsm_gtid m)) = 16" and "length (wsm_server_id m) = 16"
  shows "meta_from_native (meta_to_native m) flags = m\<lparr>wsm_flags := flags\<rparr>"
  using assms
  by (simp add: meta_from_native_def meta_to_native_def gtid_from_native_def wsm_server_id_def
      wsm_transaction_id_def wsm_client_id_def wsm_seqno_def)

text \<open>A library for the examples, which orders every write set at seqno 1.\<close>

definition test_consts :: native_consts where
  "test_consts = \<lparr>WSREP_OK = 0, WSREP_WARNING = 1, WSREP_TRX_MISSING = 2, WSREP_TRX_FAIL = 3,
     WSREP_BF_ABORT = 4, WSREP_SIZE_EXCEEDED = 5, WSREP_CONN_FAIL = 6, WSREP_NODE_FAIL = 7, WSREP_FATAL = 8,
     WSREP_NOT_IMPLEMENTED = 9, WSREP_NOT_ALLOWED = 10, FLAG_TRX_START = 2 ^ 1, FLAG_TRX_END = 2 ^ 0,
     FLAG_ROLLBACK = 2 ^ 2, FLAG_ISOLATION = 2 ^ 3, FLAG_PA_UNSAFE = 2 ^ 4, FLAG_TRX_PREPARE = 2 ^ 7,
     FLAG_SNAPSHOT = 2 ^ 8, FLAG_IMPLICIT_DEPS = 2 ^ 9, KEY_SHARED = 0, KEY_REFERENCE = 1, KEY_UPDATE = 2,
     KEY_EXCLUSIVE = 3, VIEW_PRIMARY = 0, VIEW_NON_PRIMARY = 1, VIEW_DISCONNECTED = 2, DATA_ORDERED = 0,
     VAR_STRING = 0, VAR_INT64 = 1, VAR_DOUBLE = 2, NOT_ISOLATED = 0, ISOLATED = 1, FORCE_DISCONNECT = 2,
     ISOLATION_SUCCESS = 0\<rparr>"

definition test_certify :: "u64 \<Rightarrow> native_ws_handle \<Rightarrow> u32 \<Rightarrow> native_trx_meta \<Rightarrow> mock \<Rightarrow>
    (int \<times> native_ws_handle \<times> native_trx_meta) \<times> mock" where
  "test_certify cl h fl m e = ((0, h, m\<lparr>nm_gtid := \<lparr>ng_uuid = group_id, ng_seqno = 1\<rparr>\<rparr>), e)"

definition test_api :: "mock native_api" where
  "test_api = \<lparr>na_debug = True, na_consts = test_consts, na_connect = \<lambda>_ _ _ _ e. (0, e),
     na_disconnect = \<lambda>e. (0, e), na_capabilities = \<lambda>_. 0, na_desync = \<lambda>e. (0, e), na_resync = \<lambda>e. (0, e),
     na_pause = \<lambda>e. (1, e), na_resume = \<lambda>e. (0, e), na_recv = \<lambda>_. return 0,
     na_assign_read_view = \<lambda>h _ e. ((0, h), e), na_append_key = \<lambda>h _ _ _ e. ((0, h), e),
     na_append_data = \<lambda>h _ _ _ e. ((0, h), e), na_certify = test_certify, na_certify_v1 = Some test_certify,
     na_abort_certification = \<lambda>_ _ e. ((0, 1), e), na_rollback = \<lambda>_ e. (0, e),
     na_commit_order_enter = \<lambda>_ _ e. (0, e), na_commit_order_leave = \<lambda>_ _ _ e. (0, e),
     na_release = \<lambda>h e. ((0, h), e), na_replay_trx = \<lambda>_. return 0,
     na_to_execute_start = \<lambda>_ _ _ _ m e. ((0, m), e), na_to_execute_end = \<lambda>_ _ e. (0, e),
     na_sync_wait = \<lambda>_ _ e. ((0, \<lparr>ng_uuid = group_id, ng_seqno = 1\<rparr>), e),
     na_last_committed_id = \<lambda>e. ((0, \<lparr>ng_uuid = group_id, ng_seqno = 1\<rparr>), e),
     na_sst_sent = \<lambda>_ _ e. (0, e), na_sst_received = \<lambda>_ _ e. (0, e), na_enc_set_key = \<lambda>_ e. (0, e),
     na_stats_get = \<lambda>e. (None, e), na_stats_free = \<lambda>e. e, na_stats_reset = \<lambda>e. e,
     na_options_get = \<lambda>e. (Some [], e), na_options_set = \<lambda>_ e. (0, e), na_isolation_set = None,
     na_provider_name = None, na_provider_version = None, na_provider_vendor = None,
     na_must_exit = \<lambda>_ _. False\<rparr>"

lemma test_consts_bits: "own_bits (na_consts test_api)"
  unfolding own_bits_def
  by (rule exI [of _ "[1, 0, 2, 3, 4, 7, 8, 9]"]) (simp add: test_api_def test_consts_def native_flags_def)

text \<open>
  C31. From one server to another: the flags, handle and meta data that the adapter passes to the
  library when it certifies a write set, delivered with the data to the apply callback of a
  server, are applied with the handle, meta data and flags they were certified with, less the two
  flags that have no native counterpart. The callback reports failure exactly if applying
  fails.
\<close>

theorem write_set_delivered:
  assumes "own_bits (na_consts api)" and "length (gtid_id (wsm_gtid m)) = 16"
    and "length (wsm_server_id m) = 16"
  shows "apply_cb svc api hp (handle_to_native h) (map_flags_to_native (na_consts api) flags) data
      (meta_to_native m) w =
    (case on_apply svc hp h (m\<lparr>wsm_flags := flags AND mapped_flags\<rparr>) data w of
       (Inr ret, v) \<Rightarrow> (Inr (if ret \<noteq> 0 then (False, None) else (True, Some (na_must_exit api hp (w_env v)))), v)
     | (Inl (Runtime_error s), v) \<Rightarrow> (Inr (False, None), v)
     | (Inl e, v) \<Rightarrow> (Inl e, v))"
  by (simp add: apply_cb_def flags_roundtrip [OF assms(1)] meta_roundtrip [OF assms(2,3)]
      catch_runtime_error_def bind_def return_def fetch_def inspect_def split: prod.splits sum.splits exn.splits)

theorem write_set_delivered_witness:
  "apply_cb (calm_services True) test_api 0 (handle_to_native (ws_handle_of 1))
      (map_flags_to_native (na_consts test_api) 35) ''data'' (meta_to_native ordered_meta) (trx_world s_executing) =
    (case on_apply (calm_services True) 0 (ws_handle_of 1) (ordered_meta\<lparr>wsm_flags := 3\<rparr>) ''data''
        (trx_world s_executing) of
       (Inr ret, v) \<Rightarrow> (Inr (if ret \<noteq> 0 then (False, None) else (True, Some (na_must_exit test_api 0 (w_env v)))), v)
     | (Inl (Runtime_error s), v) \<Rightarrow> (Inr (False, None), v)
     | (Inl e, v) \<Rightarrow> (Inl e, v))"
proof -
  have "35 AND mapped_flags = (3 :: u32)" by (simp add: mapped_flags_def flag_defs)
  moreover have "length (gtid_id (wsm_gtid ordered_meta)) = 16" "length (wsm_server_id ordered_meta) = 16"
    by (simp_all add: ordered_meta_def group_id_def ws_meta_default_def wsm_server_id_def stid_default_def
        id_undefined_def pad16_def)
  ultimately show ?thesis
    using write_set_delivered [OF test_consts_bits, of ordered_meta "calm_services True" 0 "ws_handle_of 1" 35]
    by simp
qed

section \<open>The provider contract\<close>

definition native_codes :: "native_consts \<Rightarrow> int list" where
  "native_codes c = [WSREP_OK c, WSREP_WARNING c, WSREP_TRX_MISSING c, WSREP_TRX_FAIL c, WSREP_BF_ABORT c,
     WSREP_SIZE_EXCEEDED c, WSREP_CONN_FAIL c, WSREP_NODE_FAIL c, WSREP_FATAL c,
     WSREP_NOT_IMPLEMENTED c, WSREP_NOT_ALLOWED c]"

definition certify_documented :: "native_consts \<Rightarrow> (u64 \<Rightarrow> native_ws_handle \<Rightarrow> u32 \<Rightarrow> native_trx_meta \<Rightarrow> 'e \<Rightarrow>
    (int \<times> native_ws_handle \<times> native_trx_meta) \<times> 'e) \<Rightarrow> bool" where
  "certify_documented c f \<longleftrightarrow> (\<forall>cl h fl m e. case f cl h fl m e of ((st, _, m'), _) \<Rightarrow>
     st \<in> {WSREP_OK c, WSREP_TRX_FAIL c, WSREP_BF_ABORT c, WSREP_CONN_FAIL c, WSREP_NODE_FAIL c} \<and>
     (st = WSREP_OK c \<longrightarrow> ng_seqno (nm_gtid m') \<noteq> -1))"

text \<open>
  What the interface documents of the calls on the commit path: certification succeeds with an
  ordered position, fails, or reports a BF abort or a lost connection; rollback fragments can be
  sent; entering the commit order succeeds or reports a BF abort; leaving it and releasing
  the write set succeed.
\<close>

definition native_contract :: "'e native_api \<Rightarrow> bool" where
  "native_contract api \<longleftrightarrow> (let c = na_consts api in
     distinct (native_codes c) \<and> certify_documented c (na_certify api) \<and>
     (\<forall>f. na_certify_v1 api = Some f \<longrightarrow> certify_documented c f) \<and>
     (\<forall>i e. fst (na_rollback api i e) = WSREP_OK c) \<and>
     (\<forall>h m e. fst (na_commit_order_enter api h m e) \<in> {WSREP_OK c, WSREP_BF_ABORT c}) \<and>
     (\<forall>h m b e. fst (na_commit_order_leave api h m b e) = WSREP_OK c) \<and>
     (\<forall>h e. fst (fst (na_release api h e)) = WSREP_OK c))"

lemma map_return_value_simps:
  assumes "distinct (native_codes c)"
  shows "map_return_value c (WSREP_OK c) = success"
    and "map_return_value c (WSREP_TRX_FAIL c) = error_certification_failed"
    and "map_return_value c (WSREP_BF_ABORT c) = error_bf_abort"
    and "map_return_value c (WSREP_CONN_FAIL c) = error_connection_failed"
    and "map_return_value c (WSREP_NODE_FAIL c) = error_provider_failed"
    and "map_return_value c st = success \<longleftrightarrow> st = WSREP_OK c"
  using assms by (auto simp: native_codes_def map_return_value_def)

lemma certify_contract:
  assumes "distinct (native_codes (na_consts api))"
    and "\<And>f. f = na_certify api \<or> na_certify_v1 api = Some f \<Longrightarrow> certify_documented (na_consts api) f"
  shows "case v26_certify api cl h fl m b e of ((st, _, m'), _) \<Rightarrow>
    bf_abort_status st \<and> (st = success \<longrightarrow> \<not> seqno_is_undefined (wsm_seqno m'))"
proof -
  define f where "f = (case na_certify_v1 api of Some f \<Rightarrow> if b then f else na_certify api | None \<Rightarrow> na_certify api)"
  have doc: "certify_documented (na_consts api) f"
    using assms(2) by (auto simp: f_def split: option.splits)
  obtain st n nm e' where r: "f cl (handle_to_native h) (map_flags_to_native (na_consts api) fl)
      (meta_to_native m) e = ((st, n, nm), e')"
    by (metis prod.collapse)
  have "st \<in> {WSREP_OK (na_consts api), WSREP_TRX_FAIL (na_consts api), WSREP_BF_ABORT (na_consts api),
      WSREP_CONN_FAIL (na_consts api), WSREP_NODE_FAIL (na_consts api)} \<and>
      (st = WSREP_OK (na_consts api) \<longrightarrow> ng_seqno (nm_gtid nm) \<noteq> -1)"
    using doc [unfolded certify_documented_def, rule_format, of cl "handle_to_native h"
        "map_flags_to_native (na_consts api) fl" "meta_to_native m" e] r by simp
  moreover have "v26_certify api cl h fl m b e =
      ((ret_of api st, handle_from_native n, meta_from_native nm fl), e')"
    by (simp add: v26_certify_def f_def [symmetric] r)
  ultimately show ?thesis
    by (auto simp: map_return_value_simps [OF assms(1)] bf_abort_status_def meta_from_native_def
        gtid_from_native_def wsm_seqno_def seqno_is_undefined_def)
qed


lemma test_api_contract: "native_contract test_api"
  by (simp add: native_contract_def certify_documented_def test_certify_def native_codes_def test_api_def
      test_consts_def)


section \<open>Exceptions in callbacks\<close>

lemma guarded_no_exception:
  assumes "\<And>s. h s = return x"
  shows "fst (catch_runtime_error m h w) \<noteq> Inl (Runtime_error s)"
  using assms by (auto simp: catch_runtime_error_def return_def split: prod.splits sum.splits exn.splits)


end
