(* ===== verification/Provider_Object.thy ===== *)
theory Provider_Object
  imports Service_Callbacks V26_Theorems
begin

text \<open>
  The life of the provider object: the constructor and the destructor of
  \<^verbatim>\<open>wsrep_provider_v26\<close>, \<^verbatim>\<open>provider::make_provider()\<close> (\<^verbatim>\<open>provider.cpp\<close>), and the
  operations of \<^verbatim>\<open>server_state\<close> that own the provider. The functions that load, initialize, free
  and unload the library are parameters (\<open>loader_ops\<close>).
\<close>

section \<open>Constructor and destructor\<close>

text \<open>
  The members of \<^verbatim>\<open>server_state\<close> that only the constructor reads. \<open>cfg_encryption\<close> is \<open>None\<close>
  without an encryption service, and else what its \<^verbatim>\<open>encryption_enabled()\<close> returns.
\<close>

record server_config =
  cfg_address :: string
  cfg_incoming_address :: string
  cfg_working_dir :: string
  cfg_max_protocol_version :: int
  cfg_encryption :: "bool option"
  cfg_encryption_key :: string

text \<open>\<open>ia_encrypt\<close>: a callback for encryption is registered; the others always are.\<close>

record native_init_args =
  ia_node_name :: string
  ia_node_address :: string
  ia_node_incoming :: string
  ia_data_dir :: string
  ia_options :: string
  ia_proto_ver :: int
  ia_state_id :: native_gtid
  ia_encrypt :: bool

record 'e loader_ops =
  wl_load :: "string \<Rightarrow> 'e \<Rightarrow> int \<times> 'e"
  wl_init :: "native_init_args \<Rightarrow> 'e \<Rightarrow> int \<times> 'e"
  wl_free :: "'e \<Rightarrow> 'e"
  wl_unload :: "'e \<Rightarrow> 'e"

definition encryption_enabled :: "server_config \<Rightarrow> bool" where
  "encryption_enabled cfg \<longleftrightarrow> cfg_encryption cfg = Some True"

definition make_init_args :: "server_config \<Rightarrow> server_state \<Rightarrow> string \<Rightarrow> native_init_args" where
  "make_init_args cfg ss options = \<lparr>ia_node_name = c_str (sv_name ss),
     ia_node_address = c_str (cfg_address cfg), ia_node_incoming = c_str (cfg_incoming_address cfg),
     ia_data_dir = c_str (cfg_working_dir cfg), ia_options = c_str options,
     ia_proto_ver = cfg_max_protocol_version cfg, ia_state_id = gtid_to_native (initial_position ss),
     ia_encrypt = encryption_enabled cfg\<rparr>"

definition set_first_key :: "'e native_api \<Rightarrow> server_config \<Rightarrow> ('e dl_world, unit) cmd" where
  "set_first_key api cfg =
     only_if (encryption_enabled cfg \<and> cfg_encryption_key cfg \<noteq> [])
       (bind (dl_run (v26_enc_set_key api (cfg_encryption_key cfg))) (\<lambda>st.
          only_if (st \<noteq> success)
            (throw (Runtime_error (''Failed to set encryption key: '' @ status_to_string st)))))"

text \<open>An exception of the constructor does not run the destructor.\<close>

definition wsrep_provider_v26 :: "'e loader_ops \<Rightarrow> 'e native_api \<Rightarrow> 'e dl_ops \<Rightarrow> server_config \<Rightarrow>
    server_state \<Rightarrow> string \<Rightarrow> string \<Rightarrow> services_offer \<Rightarrow> ('e dl_world, unit) cmd" where
  "wsrep_provider_v26 ld api dl cfg ss options spec offer = block
     [modify (dw_enabled_update (\<lambda>_. no_services)),
      bind (dl_run (wl_load ld (c_str spec))) (\<lambda>r.
        only_if (r \<noteq> 0) (throw (Runtime_error ''Failed to load wsrep library''))),
      init_services dl offer,
      bind (dl_run (wl_init ld (make_init_args cfg ss options))) (\<lambda>st.
        only_if (st \<noteq> WSREP_OK (na_consts api))
          (throw (Runtime_error ''Failed to initialize wsrep provider''))),
      set_first_key api cfg]"

definition wsrep_provider_v26_destroy :: "'e loader_ops \<Rightarrow> 'e dl_ops \<Rightarrow> ('e dl_world, unit) cmd" where
  "wsrep_provider_v26_destroy ld dl = block [dl_do (wl_free ld), deinit_services dl, dl_do (wl_unload ld)]"

section \<open>The server and its provider\<close>

text \<open>\<open>ho_provider\<close>: the \<^verbatim>\<open>unique_ptr\<close> to the provider, as the services this provider has enabled.\<close>

record 'e host =
  ho_server :: server_state
  ho_config :: server_config
  ho_provider :: "services_offer option"
  ho_dl :: "'e dl_world"

definition on_dl :: "('e dl_world, 'a) cmd \<Rightarrow> ('e host, 'a) cmd" where
  "on_dl m = (\<lambda>h. case m (ho_dl h) of (r, d) \<Rightarrow> (r, h\<lparr>ho_dl := d\<rparr>))"

text \<open>A provider that could not be created is the null pointer.\<close>

definition make_provider :: "'e loader_ops \<Rightarrow> 'e native_api \<Rightarrow> 'e dl_ops \<Rightarrow> string \<Rightarrow> string \<Rightarrow>
    services_offer \<Rightarrow> ('e host, services_offer option) cmd" where
  "make_provider ld api dl spec options offer =
     fetch (\<lambda>h. (ho_config h, ho_server h)) (\<lambda>(cfg, ss).
       on_dl (catch_all
         (seq (wsrep_provider_v26 ld api dl cfg ss options spec offer) (fetch dw_enabled (\<lambda>en. return (Some en))))
         (return None)))"

definition set_provider :: "services_offer option \<Rightarrow> 'e host \<Rightarrow> 'e host" where
  "set_provider p h = h\<lparr>ho_provider := p, ho_server := (ho_server h)\<lparr>provider_loaded := p \<noteq> None\<rparr>\<rparr>"

definition destroy_provider ::
    "'e loader_ops \<Rightarrow> 'e dl_ops \<Rightarrow> services_offer option \<Rightarrow> ('e host, unit) cmd" where
  "destroy_provider ld dl p = (case p of None \<Rightarrow> skip
     | Some enabled \<Rightarrow> on_dl (seq (modify (dw_enabled_update (\<lambda>_. enabled))) (wsrep_provider_v26_destroy ld dl)))"

text \<open>
  The factory is \<open>make_provider\<close> unless the application sets another. The old provider is destroyed
  after the new one has been created and stored.
\<close>

definition load_provider :: "'e loader_ops \<Rightarrow> 'e dl_ops \<Rightarrow>
    (string \<Rightarrow> string \<Rightarrow> services_offer \<Rightarrow> ('e host, services_offer option) cmd) \<Rightarrow>
    string \<Rightarrow> string \<Rightarrow> services_offer \<Rightarrow> ('e host, int) cmd" where
  "load_provider ld dl factory spec options offer =
     bind (factory spec options offer) (\<lambda>p.
     fetch ho_provider (\<lambda>old.
       seq (block [modify (set_provider p), destroy_provider ld dl old])
         (return (if p = None then 1 else 0))))"

definition unload_provider :: "'e loader_ops \<Rightarrow> 'e dl_ops \<Rightarrow> ('e host, unit) cmd" where
  "unload_provider ld dl =
     fetch ho_provider (\<lambda>old. block [modify (set_provider None), destroy_provider ld dl old])"

definition set_encryption_key :: "'e native_api \<Rightarrow> string \<Rightarrow> ('e host, int) cmd" where
  "set_encryption_key api key =
     seq (modify (ho_config_update (cfg_encryption_key_update (\<lambda>_. key))))
       (branch (\<lambda>h. ho_provider h = None) (return 0)
         (bind (on_dl (dl_run (v26_enc_set_key api key))) (\<lambda>st.
           return (if st \<noteq> success then 1 else 0))))"

text \<open>Calls that the server passes on to its provider; \<^verbatim>\<open>provider()\<close> throws without one.\<close>

definition host_provider :: "('e host, 'a) cmd \<Rightarrow> ('e host, 'a) cmd" where
  "host_provider m =
     branch (\<lambda>h. ho_provider h = None) (throw (Runtime_error ''provider not loaded'')) m"

definition server_status :: "'e native_api \<Rightarrow> ('e host, (string \<times> string) list) cmd" where
  "server_status api = host_provider (bind (on_dl (dl_run (v26_status api))) (\<lambda>r. case r of
     Inl x \<Rightarrow> throw x | Inr vs \<Rightarrow> return vs))"

definition server_wait_for_gtid :: "'e native_api \<Rightarrow> gtid \<Rightarrow> int \<Rightarrow> ('e host, status) cmd" where
  "server_wait_for_gtid api g timeout = host_provider (on_dl (dl_run (v26_wait_for_gtid api g timeout)))"

section \<open>Loading and unloading\<close>

lemma wp_on_dl [wp_simps]:
  "wp (on_dl m) Q E h = wp m (\<lambda>a d. Q a (h\<lparr>ho_dl := d\<rparr>)) (\<lambda>e d. E e (h\<lparr>ho_dl := d\<rparr>)) (ho_dl h)"
  by (simp add: wp_def on_dl_def split: prod.splits sum.splits)

lemma counted_env [simp]: "counted w (v\<lparr>dw_env := e\<rparr>) = counted w v"
  "counted (w\<lparr>dw_env := e\<rparr>) v = counted w v"
  by (simp_all add: counted_def)

lemma wp_dl_run_env:
  assumes "\<And>r e. Q r (w\<lparr>dw_env := e\<rparr>)"
  shows "wp (dl_run f) Q E w"
  using assms by (simp add: wp_simps split: prod.splits)

lemma wp_set_first_key:
  assumes "\<And>e. Q () (w\<lparr>dw_env := e\<rparr>)"
  shows "wp (set_first_key api cfg) Q (\<lambda>_ _. True) w"
  using assms [of "dw_env w"] assms
  by (auto simp: set_first_key_def wp_only_if wp_bind wp_throw intro!: wp_dl_run_env)

lemma wp_constructor:
  assumes "dl_handle dl" and "\<And>e. fst (dl_call dl (sym_init (thread_symbols dl)) e) = 0"
  shows "wp (wsrep_provider_v26 ld api dl cfg ss options spec offer)
    (\<lambda>_ u. counted (w\<lparr>dw_enabled := no_services\<rparr>) u \<and> same_required (dw_enabled u) offer) (\<lambda>_ _. True) w"
proof -
  let ?Q = "\<lambda>_ u. counted (w\<lparr>dw_enabled := no_services\<rparr>) u \<and> same_required (dw_enabled u) offer"
  have init: "wp (init_services dl offer) ?Q (\<lambda>_ _. True) (w\<lparr>dw_enabled := no_services, dw_env := e\<rparr>)" for e
    by (rule wp_mono [OF wp_init_services [OF _ assms]]) (simp_all add: counted_def)
  have rest: "wp (bind (dl_run f) (\<lambda>st. only_if (P st) (throw x)))
      (\<lambda>_. wp (set_first_key api cfg) ?Q (\<lambda>_ _. True)) (\<lambda>_ _. True) u" if "?Q () u" for f P x u
    using that by (auto simp: wp_bind wp_only_if wp_throw intro!: wp_dl_run_env wp_set_first_key)
  show ?thesis
    unfolding wsrep_provider_v26_def wp_block wp_modify
    by (auto simp: wp_bind wp_only_if wp_throw intro!: wp_dl_run_env wp_mono [OF init] rest [unfolded wp_bind])
qed

lemma wp_destructor:
  assumes "counted w v" and "users monitor_slot w + 1 \<noteq> 0"
  shows "wp (wsrep_provider_v26_destroy ld dl) (\<lambda>_ u. users thread_slot u = users thread_slot w \<and>
    users tls_slot u = users tls_slot w \<and> users allowlist_slot u = users allowlist_slot w \<and>
    users monitor_slot u = users monitor_slot w \<and>
    event_initialized (dw_globals u) = event_initialized (dw_globals w)) never v"
  unfolding wsrep_provider_v26_destroy_def wp_block
  by (intro wp_dl_do) (rule wp_mono [OF wp_deinit_services [OF _ assms(2)]], use assms(1) in \<open>auto intro: wp_dl_do\<close>)

abbreviation host_users :: "(service_globals \<Rightarrow> service_slot) \<Rightarrow> 'e host \<Rightarrow> u64" where
  "host_users slot h \<equiv> sl_use_count (slot (dw_globals (ho_dl h)))"

lemma wp_make_provider:
  assumes "dl_handle dl" and "\<And>e. fst (dl_call dl (sym_init (thread_symbols dl)) e) = 0"
  shows "wp (make_provider ld api dl spec options offer) (\<lambda>p g. ho_provider g = ho_provider h \<and>
    (case p of None \<Rightarrow> True | Some en \<Rightarrow> en = dw_enabled (ho_dl g) \<and> same_required en offer \<and>
       counted ((ho_dl h)\<lparr>dw_enabled := no_services\<rparr>) (ho_dl g))) (\<lambda>_ _. True) h"
  by (simp add: make_provider_def wp_fetch wp_on_dl wp_catch_all wp_seq split: prod.splits)
    (rule wp_mono [OF wp_constructor [OF assms]], auto simp: wp_simps)

lemma load_provider_counted:
  assumes "ho_provider h = None" and "dl_handle dl"
    and "\<And>e. fst (dl_call dl (sym_init (thread_symbols dl)) e) = 0"
    and "load_provider ld dl (make_provider ld api dl) spec options offer h = (Inr 0, g)"
  shows "provider_loaded (ho_server g) \<and> ho_provider g = Some (dw_enabled (ho_dl g)) \<and>
    same_required (dw_enabled (ho_dl g)) offer \<and> counted ((ho_dl h)\<lparr>dw_enabled := no_services\<rparr>) (ho_dl g)"
proof -
  have "wp (load_provider ld dl (make_provider ld api dl) spec options offer) (\<lambda>r g. r = 0 \<longrightarrow>
      provider_loaded (ho_server g) \<and> ho_provider g = Some (dw_enabled (ho_dl g)) \<and>
      same_required (dw_enabled (ho_dl g)) offer \<and>
      counted ((ho_dl h)\<lparr>dw_enabled := no_services\<rparr>) (ho_dl g)) (\<lambda>_ _. True) h"
    unfolding load_provider_def wp_bind
    by (rule wp_mono [OF wp_make_provider [OF assms(2,3)]])
      (auto simp: assms(1) wp_simps set_provider_def destroy_provider_def split: option.splits)
  from wp_run [OF this assms(4)] show ?thesis by simp
qed

text \<open>
  C30. The life of a provider: if the server could load a provider with the services it offers,
  then the callbacks of the required services find the implementations that were offered, and
  unloading the provider returns, with every service left with as many users as before and the event
  service in use exactly if it was. This needs that the library's initialization of the thread
  service does not fail.
\<close>

theorem provider_lifetime:
  assumes "ho_provider h = None" and "dl_handle dl"
    and "\<And>e. fst (dl_call dl (sym_init (thread_symbols dl)) e) = 0"
    and "load_provider ld dl (make_provider ld api dl) spec options offer h = (Inr 0, g)"
    and "sl_use_count (monitor_slot (dw_globals (ho_dl h))) + 1 \<noteq> 0"
  shows "provider_loaded (ho_server g) \<and>
    (so_thread offer \<noteq> None \<longrightarrow> sl_impl (thread_slot (dw_globals (ho_dl g))) = so_thread offer) \<and>
    (so_tls offer \<noteq> None \<longrightarrow> sl_impl (tls_slot (dw_globals (ho_dl g))) = so_tls offer) \<and>
    (so_allowlist offer \<noteq> None \<longrightarrow> sl_impl (allowlist_slot (dw_globals (ho_dl g))) = so_allowlist offer) \<and>
    (\<exists>u. unload_provider ld dl g = (Inr (), u) \<and> \<not> provider_loaded (ho_server u) \<and>
      host_users thread_slot u = host_users thread_slot h \<and> host_users tls_slot u = host_users tls_slot h \<and>
      host_users allowlist_slot u = host_users allowlist_slot h \<and>
      host_users monitor_slot u = host_users monitor_slot h \<and>
      event_initialized (dw_globals (ho_dl u)) = event_initialized (dw_globals (ho_dl h)))"
proof -
  note loaded = load_provider_counted [OF assms(1-4)]
  let ?w = "(ho_dl h)\<lparr>dw_enabled := no_services\<rparr>"
  have "wp (unload_provider ld dl) (\<lambda>_ u. \<not> provider_loaded (ho_server u) \<and>
      host_users thread_slot u = host_users thread_slot h \<and> host_users tls_slot u = host_users tls_slot h \<and>
      host_users allowlist_slot u = host_users allowlist_slot h \<and>
      host_users monitor_slot u = host_users monitor_slot h \<and>
      event_initialized (dw_globals (ho_dl u)) = event_initialized (dw_globals (ho_dl h))) never g"
    using loaded assms(5)
    by (simp add: unload_provider_def destroy_provider_def set_provider_def wp_simps)
      (rule wp_mono [OF wp_destructor [of ?w]], auto)
  then show ?thesis
    using loaded by (auto simp: wp_returns_iff counted_def same_required_def installed_def)
qed

text \<open>
  If the library refuses to be initialized, loading the provider fails after the services have
  been enabled, and nothing disables them again: the constructor's exception skips the destructor.
  The static variables of the services stay as the initialization of the services left them, the
  library is neither freed nor unloaded, and unloading the provider does nothing.
\<close>

lemma failed_load_leaks:
  assumes "ho_provider h = None"
    and "wl_load ld (c_str spec) (dw_env (ho_dl h)) = (0, e)"
    and "init_services dl offer ((ho_dl h)\<lparr>dw_enabled := no_services, dw_env := e\<rparr>) = (Inr (), d)"
    and "wl_init ld (make_init_args (ho_config h) (ho_server h) options) (dw_env d) = (st, e')"
    and "st \<noteq> WSREP_OK (na_consts api)"
  shows "\<exists>g. load_provider ld dl (make_provider ld api dl) spec options offer h = (Inr 1, g) \<and>
    \<not> provider_loaded (ho_server g) \<and> dw_globals (ho_dl g) = dw_globals d \<and> dw_env (ho_dl g) = e' \<and>
    unload_provider ld dl g = (Inr (), g)"
proof -
  have "wp (init_services dl offer) (\<lambda>_ v. v = d) never ((ho_dl h)\<lparr>dw_enabled := no_services, dw_env := e\<rparr>)"
    using assms(3) by (simp add: wp_def)
  then have "wp (wsrep_provider_v26 ld api dl (ho_config h) (ho_server h) options spec offer)
      (\<lambda>_ _. False) (\<lambda>x v. unwinds x \<and> dw_globals v = dw_globals d \<and> dw_env v = e') (ho_dl h)"
    using assms(2,4,5) unfolding wsrep_provider_v26_def wp_block
    by (simp add: wp_simps) (erule wp_mono, simp_all add: wp_simps unwinds_def)
  then have "wp (make_provider ld api dl spec options offer) (\<lambda>p g. p = None \<and> ho_provider g = None \<and>
      ho_server g = ho_server h \<and> dw_globals (ho_dl g) = dw_globals d \<and> dw_env (ho_dl g) = e') never h"
    using assms(1) unfolding make_provider_def
    by (simp add: wp_simps) (erule wp_mono, auto simp: wp_simps)
  then have "wp (load_provider ld dl (make_provider ld api dl) spec options offer) (\<lambda>r g. r = 1 \<and>
      \<not> provider_loaded (ho_server g) \<and> dw_globals (ho_dl g) = dw_globals d \<and> dw_env (ho_dl g) = e' \<and>
      ho_provider g = None) never h"
    unfolding load_provider_def wp_bind
    by (rule wp_mono) (auto simp: wp_simps set_provider_def destroy_provider_def)
  then obtain g where "load_provider ld dl (make_provider ld api dl) spec options offer h = (Inr 1, g)"
      "\<not> provider_loaded (ho_server g)" "dw_globals (ho_dl g) = dw_globals d" "dw_env (ho_dl g) = e'"
      "ho_provider g = None"
    by (auto simp: wp_returns_iff)
  moreover have "unload_provider ld dl g = (Inr (), g)"
    using calculation(2,5)
    by (simp add: unload_provider_def set_provider_def destroy_provider_def fetch_def inspect_def
        skip_def seq_def bind_def modify_def return_def)
  ultimately show ?thesis by blast
qed

section \<open>Examples\<close>

text \<open>A library that has all services.\<close>

definition test_dl :: "mock dl_ops" where
  "test_dl = \<lparr>dl_debug = True, dl_handle = True, dl_symbol = \<lambda>_. True, dl_call = \<lambda>s e. (0, e),
     thread_symbols = test_symbols ''thread'', tls_symbols = test_symbols ''tls'',
     allowlist_symbols = test_symbols ''allowlist'', event_symbols = test_symbols ''event'',
     monitor_symbols = test_symbols ''monitor'', sym_node_isolation = ''isolation'',
     sym_certify_v1 = ''certify'', thread_before_init = \<lambda>_ e. (0, e), thread_after_init = \<lambda>_ e. (0, e)\<rparr>"

text \<open>Its initialization returns \<open>r\<close>.\<close>

definition test_loader :: "int \<Rightarrow> mock loader_ops" where
  "test_loader r = \<lparr>wl_load = \<lambda>_ e. (0, e), wl_init = \<lambda>_ e. (r, e), wl_free = \<lambda>e. e, wl_unload = \<lambda>e. e\<rparr>"

definition idle_slot :: service_slot where
  "idle_slot = \<lparr>sl_impl = None, sl_use_count = 0\<rparr>"

definition idle_services :: "mock dl_world" where
  "idle_services = \<lparr>dw_globals = \<lparr>thread_slot = idle_slot, tls_slot = idle_slot,
     allowlist_slot = idle_slot, monitor_slot = idle_slot, event_initialized = False,
     node_isolation_mode_set = False, certify_v1_resolved = False\<rparr>, dw_enabled = no_services,
     dw_env = mock_init\<rparr>"

definition all_services :: services_offer where
  "all_services = \<lparr>so_thread = Some 1, so_tls = Some 2, so_allowlist = Some 3, so_event = Some 4,
     so_monitor = Some 5\<rparr>"

definition test_host :: "mock host" where
  "test_host = \<lparr>ho_server = mock_server\<lparr>provider_loaded := False\<rparr>,
     ho_config = \<lparr>cfg_address = ''10.0.0.1'', cfg_incoming_address = '''', cfg_working_dir = ''/var'',
       cfg_max_protocol_version = 4, cfg_encryption = Some True, cfg_encryption_key = ''key''\<rparr>,
     ho_provider = None, ho_dl = idle_services\<rparr>"

lemmas test_host_simps = test_host_def test_dl_def test_loader_def idle_services_def idle_slot_def
  all_services_def no_services_def

lemma test_load:
  "fst (load_provider (test_loader 0) test_dl (make_provider (test_loader 0) test_api test_dl)
     ''galera'' '''' all_services test_host) = Inr 0"
  by code_simp

theorem provider_lifetime_witness:
  "\<exists>g u. load_provider (test_loader 0) test_dl (make_provider (test_loader 0) test_api test_dl)
      ''galera'' '''' all_services test_host = (Inr 0, g) \<and>
    sl_impl (tls_slot (dw_globals (ho_dl g))) = Some 2 \<and>
    unload_provider (test_loader 0) test_dl g = (Inr (), u) \<and>
    host_users tls_slot u = 0 \<and> \<not> event_initialized (dw_globals (ho_dl u))"
proof -
  obtain g where g: "load_provider (test_loader 0) test_dl (make_provider (test_loader 0) test_api test_dl)
      ''galera'' '''' all_services test_host = (Inr 0, g)"
    using test_load by (metis prod.collapse)
  show ?thesis
    using provider_lifetime [OF _ _ _ g] g by (simp add: test_host_simps) blast
qed

lemma test_init_services:
  "\<exists>d. init_services test_dl all_services idle_services = (Inr (), d) \<and>
    host_users tls_slot (test_host\<lparr>ho_dl := d\<rparr>) = 1"
proof -
  have "case init_services test_dl all_services idle_services of (r, d) \<Rightarrow>
      r = Inr () \<and> host_users tls_slot (test_host\<lparr>ho_dl := d\<rparr>) = 1"
    by code_simp
  then show ?thesis by (auto split: prod.splits)
qed

lemma failed_load_leaks_witness:
  "\<exists>g. load_provider (test_loader 1) test_dl (make_provider (test_loader 1) test_api test_dl)
      ''galera'' '''' all_services test_host = (Inr 1, g) \<and>
    \<not> provider_loaded (ho_server g) \<and> host_users tls_slot g = 1 \<and>
    unload_provider (test_loader 1) test_dl g = (Inr (), g)"
proof -
  have start: "(ho_dl test_host)\<lparr>dw_enabled := no_services, dw_env := mock_init\<rparr> = idle_services"
    by (simp add: test_host_simps)
  obtain d where d: "init_services test_dl all_services idle_services = (Inr (), d)"
      "sl_use_count (tls_slot (dw_globals d)) = 1"
    using test_init_services by auto
  show ?thesis
    using failed_load_leaks [of test_host "test_loader 1" "''galera''" mock_init test_dl all_services d "''''" 1
        "dw_env d" test_api] d start
    by (auto simp: test_host_def test_loader_def idle_services_def test_api_def test_consts_def)
qed

end
