(* ===== verification/Printing.thy ===== *)
theory Printing
  imports World
begin

text \<open>
  The texts of the log: the names of states, modes and errors (\<^verbatim>\<open>to_c_string()\<close> in
  \<^verbatim>\<open>transaction.hpp\<close>, \<^verbatim>\<open>client_state.hpp\<close>, \<^verbatim>\<open>server_state.hpp\<close>, \<^verbatim>\<open>view.hpp\<close>), and how
  keys, views and meta data are printed (\<^verbatim>\<open>key.cpp\<close>, \<^verbatim>\<open>view.cpp\<close>, \<^verbatim>\<open>provider.cpp\<close>).
  Different states have different names, and a printed key shows its bytes.
\<close>

section \<open>Names\<close>

fun trx_state_name :: "trx_state \<Rightarrow> string" where
  "trx_state_name s_executing = ''executing''"
| "trx_state_name s_preparing = ''preparing''"
| "trx_state_name s_prepared = ''prepared''"
| "trx_state_name s_certifying = ''certifying''"
| "trx_state_name s_committing = ''committing''"
| "trx_state_name s_ordered_commit = ''ordered_commit''"
| "trx_state_name s_committed = ''committed''"
| "trx_state_name s_cert_failed = ''cert_failed''"
| "trx_state_name s_must_abort = ''must_abort''"
| "trx_state_name s_aborting = ''aborting''"
| "trx_state_name s_aborted = ''aborted''"
| "trx_state_name s_must_replay = ''must_replay''"
| "trx_state_name s_replaying = ''replaying''"

fun session_state_name :: "client_session_state \<Rightarrow> string" where
  "session_state_name s_none = ''none''"
| "session_state_name s_idle = ''idle''"
| "session_state_name s_exec = ''exec''"
| "session_state_name s_result = ''result''"
| "session_state_name s_quitting = ''quit''"

fun client_mode_name :: "client_mode \<Rightarrow> string" where
  "client_mode_name m_undefined = ''undefined''"
| "client_mode_name m_local = ''local''"
| "client_mode_name m_high_priority = ''high priority''"
| "client_mode_name m_toi = ''toi''"
| "client_mode_name m_rsu = ''rsu''"
| "client_mode_name m_nbo = ''nbo''"

fun client_error_name :: "client_error \<Rightarrow> string" where
  "client_error_name e_success = ''success''"
| "client_error_name e_error_during_commit = ''commit_error''"
| "client_error_name e_deadlock_error = ''deadlock_error''"
| "client_error_name e_interrupted_error = ''interrupted_error''"
| "client_error_name e_size_exceeded_error = ''size_exceeded_error''"
| "client_error_name e_append_fragment_error = ''append_fragment_error''"
| "client_error_name e_not_supported_error = ''not_supported_error''"
| "client_error_name e_timeout_error = ''timeout_error''"

fun server_state_name :: "srv_state \<Rightarrow> string" where
  "server_state_name s_disconnected = ''disconnected''"
| "server_state_name s_initializing = ''initializing''"
| "server_state_name s_initialized = ''initialized''"
| "server_state_name s_connected = ''connected''"
| "server_state_name s_joiner = ''joiner''"
| "server_state_name s_joined = ''joined''"
| "server_state_name s_donor = ''donor''"
| "server_state_name s_synced = ''synced''"
| "server_state_name s_disconnecting = ''disconnecting''"

fun view_status_name :: "view_status \<Rightarrow> string" where
  "view_status_name primary = ''primary''"
| "view_status_name non_primary = ''non-primary''"
| "view_status_name disconnected = ''disconnected''"

fun key_type_name :: "key_type \<Rightarrow> string" where
  "key_type_name shared = ''shared''"
| "key_type_name reference = ''reference''"
| "key_type_name update = ''update''"
| "key_type_name exclusive = ''exclusive''"

lemma names_distinct:
  "inj trx_state_name" "inj session_state_name" "inj client_mode_name" "inj client_error_name"
  "inj server_state_name" "inj view_status_name" "inj key_type_name"
proof -
  show "inj trx_state_name"
    by (rule injI, rename_tac x y, case_tac x; case_tac y; simp)
  show "inj session_state_name"
    by (rule injI, rename_tac x y, case_tac x; case_tac y; simp)
  show "inj client_mode_name"
    by (rule injI, rename_tac x y, case_tac x; case_tac y; simp)
  show "inj client_error_name"
    by (rule injI, rename_tac x y, case_tac x; case_tac y; simp)
  show "inj server_state_name"
    by (rule injI, rename_tac x y, case_tac x; case_tac y; simp)
  show "inj view_status_name"
    by (rule injI, rename_tac x y, case_tac x; case_tac y; simp)
  show "inj key_type_name"
    by (rule injI, rename_tac x y, case_tac x; case_tac y; simp)
qed

section \<open>Keys, views and meta data\<close>

text \<open>The length in decimal, then two hexadecimal digits and a space for every byte.\<close>

definition print_key_part :: "string \<Rightarrow> string" where
  "print_key_part part = decimal (length part) @ '': '' @ concat (map (\<lambda>c. hex_byte c @ '' '') part)"

definition key_to_string :: "key \<Rightarrow> string" where
  "key_to_string k = ''type: '' @ key_type_name (key_type k) @
     concat (map (\<lambda>part. CHR 0x0A # ''    '' @ print_key_part part) (key_parts k))"

fun print_members :: "nat \<Rightarrow> member list \<Rightarrow> string" where
  "print_members n [] = []"
| "print_members n (m # ms) = CHR 0x09 # decimal n @ '': '' @ id_to_string (member_id m) @ '', '' @
     member_name m @ CHR 0x0A # print_members (Suc n) ms"

definition view_print :: "view \<Rightarrow> string" where
  "view_print v =
     ''  id: '' @ gtid_to_string (view_state_id v) @ CHR 0x0A #
     ''  status: '' @ view_status_name (view_status v) @ CHR 0x0A #
     ''  protocol_version: '' @ seqno_to_string (view_protocol_version v) @ CHR 0x0A #
     ''  capabilities: '' @ capability_str (view_capabilities v) @ CHR 0x0A #
     ''  final: '' @ (if is_final v then ''yes'' else ''no'') @ CHR 0x0A #
     ''  own_index: '' @ seqno_to_string (view_own_index v) @ CHR 0x0A #
     ''  members('' @ decimal (length (view_members v)) @ ''):'' @ CHR 0x0A #
     print_members 0 (view_members v)"

definition ws_meta_to_string :: "ws_meta \<Rightarrow> string" where
  "ws_meta_to_string m =
     ''gtid: '' @ gtid_to_string (wsm_gtid m) @ '' server_id: '' @ id_to_string (wsm_server_id m) @
     '' client_id: '' @ decimal (unat (wsm_client_id m)) @ '' trx_id: '' @
     decimal (unat (wsm_transaction_id m)) @ '' flags: '' @ seqno_to_string (sint (wsm_flags m)) @
     '' ('' @ flags_to_string (wsm_flags m) @ '')''"

lemma hex_byte_inj:
  assumes "hex_byte a = hex_byte b"
  shows "a = b"
proof -
  have "hex_digit (code a div 16) = hex_digit (code b div 16)" "hex_digit (code a mod 16) = hex_digit (code b mod 16)"
    using assms by (simp_all add: hex_byte_def)
  then show ?thesis by (metis hex_value_bytes)
qed

text \<open>The printed bytes determine the key part.\<close>

lemma print_bytes_inj:
  "concat (map (\<lambda>c. hex_byte c @ '' '') p) = concat (map (\<lambda>c. hex_byte c @ '' '') q) \<Longrightarrow> p = q"
proof (induction p arbitrary: q)
  case Nil
  then show ?case by (cases q) (simp_all add: hex_byte_def)
next
  case (Cons a p)
  then obtain b q' where q: "q = b # q'" by (cases q) (simp_all add: hex_byte_def)
  with Cons.prems have "hex_byte a = hex_byte b" by (simp add: hex_byte_def)
  then have "a = b" by (rule hex_byte_inj)
  with Cons q show ?case by (simp add: hex_byte_def)
qed

end
