(* ===== verification/Support.thy ===== *)
theory Support
  imports Service_Callbacks Printing Client_State
begin

text \<open>
  The classes that the rest of the library uses for its plumbing: exceptions
  (\<^verbatim>\<open>exception.hpp\<close>), the default mutex and condition variable (\<^verbatim>\<open>mutex.hpp\<close>,
  \<^verbatim>\<open>condition_variable.hpp\<close>), buffers (\<^verbatim>\<open>buffer.hpp\<close>), the debug log (\<^verbatim>\<open>logger.hpp\<close>,
  \<^verbatim>\<open>debug_log_state()\<close> of transactions and sessions), and the calls that \<^verbatim>\<open>client_state.hpp\<close>
  defines in the class body. A scope that holds a mutex releases it however the scope is left,
  and a debug message is written when one of the two levels asks for it.
\<close>

section \<open>Exceptions\<close>

text \<open>\<^verbatim>\<open>abort()\<close> ends the process as a failed assertion does.\<close>

definition process_abort :: exn where
  "process_abort = Assertion ''abort''"

definition make_runtime_error :: "bool \<Rightarrow> string \<Rightarrow> exn" where
  "make_runtime_error abort_on_exception msg =
     (if abort_on_exception then process_abort else Runtime_error msg)"

section \<open>Mutex and condition variable\<close>

text \<open>The calls of the thread library on one mutex and one condition variable; zero is success.\<close>

record 'e pthread_calls =
  pc_mutex_init :: "'e \<Rightarrow> int \<times> 'e"
  pc_mutex_destroy :: "'e \<Rightarrow> int \<times> 'e"
  pc_mutex_lock :: "'e \<Rightarrow> int \<times> 'e"
  pc_mutex_unlock :: "'e \<Rightarrow> int \<times> 'e"
  pc_cond_init :: "'e \<Rightarrow> int \<times> 'e"
  pc_cond_destroy :: "'e \<Rightarrow> int \<times> 'e"
  pc_cond_signal :: "'e \<Rightarrow> int \<times> 'e"
  pc_cond_broadcast :: "'e \<Rightarrow> int \<times> 'e"
  pc_cond_wait :: "'e \<Rightarrow> int \<times> 'e"

definition checked_call :: "exn \<Rightarrow> ('e \<Rightarrow> int \<times> 'e) \<Rightarrow> ('e, unit) cmd" where
  "checked_call x f = (\<lambda>e. case f e of (r, e') \<Rightarrow> (if r \<noteq> 0 then Inl x else Inr (), e'))"

definition default_mutex_create :: "bool \<Rightarrow> 'e pthread_calls \<Rightarrow> ('e, unit) cmd" where
  "default_mutex_create ab pc = checked_call (make_runtime_error ab ''mutex init failed'') (pc_mutex_init pc)"

definition default_mutex_destroy :: "'e pthread_calls \<Rightarrow> ('e, unit) cmd" where
  "default_mutex_destroy pc = checked_call process_abort (pc_mutex_destroy pc)"

definition default_mutex_lock :: "bool \<Rightarrow> 'e pthread_calls \<Rightarrow> ('e, unit) cmd" where
  "default_mutex_lock ab pc = checked_call (make_runtime_error ab ''mutex lock failed'') (pc_mutex_lock pc)"

definition default_mutex_unlock :: "bool \<Rightarrow> 'e pthread_calls \<Rightarrow> ('e, unit) cmd" where
  "default_mutex_unlock ab pc = checked_call (make_runtime_error ab ''mutex unlock failed'') (pc_mutex_unlock pc)"

definition default_cond_create :: "bool \<Rightarrow> 'e pthread_calls \<Rightarrow> ('e, unit) cmd" where
  "default_cond_create ab pc =
     checked_call (make_runtime_error ab ''Failed to initialized condvar'') (pc_cond_init pc)"

definition default_cond_destroy :: "'e pthread_calls \<Rightarrow> ('e, unit) cmd" where
  "default_cond_destroy pc = checked_call process_abort (pc_cond_destroy pc)"

definition default_cond_notify_one :: "'e pthread_calls \<Rightarrow> ('e, unit) cmd" where
  "default_cond_notify_one pc = modify (\<lambda>e. snd (pc_cond_signal pc e))"

definition default_cond_notify_all :: "'e pthread_calls \<Rightarrow> ('e, unit) cmd" where
  "default_cond_notify_all pc = modify (\<lambda>e. snd (pc_cond_broadcast pc e))"

definition default_cond_wait :: "bool \<Rightarrow> 'e pthread_calls \<Rightarrow> ('e, unit) cmd" where
  "default_cond_wait ab pc = checked_call (make_runtime_error ab ''Cond wait failed'') (pc_cond_wait pc)"

text \<open>
  A scope with a \<^verbatim>\<open>unique_lock\<close>. An exception that leaves its destructor ends the process.
\<close>

definition scope_exit :: "bool \<Rightarrow> 'e pthread_calls \<Rightarrow> ('e, unit) cmd" where
  "scope_exit ab pc = (\<lambda>e. case default_mutex_unlock ab pc e of
      (Inl _, e') \<Rightarrow> (Inl (Assertion ''std::terminate''), e') | r \<Rightarrow> r)"

definition lock_scope :: "bool \<Rightarrow> 'e pthread_calls \<Rightarrow> ('e, 'a) cmd \<Rightarrow> ('e, 'a) cmd" where
  "lock_scope ab pc body = seq (default_mutex_lock ab pc) (finally_do body (scope_exit ab pc))"

lemma wp_checked_call [wp_simps]:
  "wp (checked_call x f) Q E e = (case f e of (r, e') \<Rightarrow> if r = 0 then Q () e' else E x e')"
  by (simp add: wp_def checked_call_def split: prod.splits)

text \<open>
  What a scope needs of the mutex: taking it succeeds when it is free, and giving it back when it
  is held.
\<close>

locale mutex_scope =
  fixes pc :: "'e pthread_calls" and held :: "'e \<Rightarrow> bool"
  assumes lock_free: "\<not> held e \<Longrightarrow> fst (pc_mutex_lock pc e) = 0 \<and> held (snd (pc_mutex_lock pc e))"
    and unlock_held: "held e \<Longrightarrow> fst (pc_mutex_unlock pc e) = 0 \<and> \<not> held (snd (pc_mutex_unlock pc e))"
begin

text \<open>However the body ends, short of the end of the process, the scope leaves the mutex free.\<close>

lemma scope_releases:
  assumes "\<not> held e" and "\<And>e'. held e' \<Longrightarrow> wp body (\<lambda>_. held) (\<lambda>x e''. unwinds x \<and> held e'') e'"
  shows "wp (lock_scope ab pc body) (\<lambda>_ e'. \<not> held e') (\<lambda>x e'. unwinds x \<and> \<not> held e') e"
proof -
  obtain e1 where e1: "pc_mutex_lock pc e = (0, e1)" "held e1"
    using lock_free [OF assms(1)] by (cases "pc_mutex_lock pc e") auto
  obtain r e2 where body: "body e1 = (r, e2)" by fastforce
  have "held e2" and r: "\<And>x. r = Inl x \<Longrightarrow> unwinds x"
    using assms(2) [OF e1(2)] body by (auto simp: wp_def split: sum.splits)
  then obtain e3 where e3: "pc_mutex_unlock pc e2 = (0, e3)" "\<not> held e3"
    using unlock_held [OF \<open>held e2\<close>] by (cases "pc_mutex_unlock pc e2") auto
  then have "lock_scope ab pc body e = (r, e3)"
    using e1 body r
    by (cases r) (auto simp: lock_scope_def seq_def bind_def default_mutex_lock_def checked_call_def finally_do_def
        scope_exit_def default_mutex_unlock_def return_def throw_def)
  with r e3(2) show ?thesis by (auto simp: wp_def split: sum.splits)
qed

end

text \<open>
  The client lock of the model is such a mutex: the calls on \<open>w_locked\<close> are a default mutex whose
  lock fails when it is held.
\<close>

definition client_mutex :: "'e world pthread_calls" where
  "client_mutex = \<lparr>pc_mutex_init = \<lambda>w. (0, w\<lparr>w_locked := False\<rparr>), pc_mutex_destroy = \<lambda>w. (0, w),
     pc_mutex_lock = \<lambda>w. (if w_locked w then 35 else 0, w\<lparr>w_locked := True\<rparr>),
     pc_mutex_unlock = \<lambda>w. (if w_locked w then 0 else 1, w\<lparr>w_locked := False\<rparr>),
     pc_cond_init = \<lambda>w. (0, w), pc_cond_destroy = \<lambda>w. (0, w), pc_cond_signal = \<lambda>w. (0, w),
     pc_cond_broadcast = \<lambda>w. (0, w), pc_cond_wait = \<lambda>w. (0, w)\<rparr>"

interpretation client_scope: mutex_scope client_mutex w_locked
  by unfold_locales (simp_all add: client_mutex_def)

text \<open>The scope of the model's client lock is the scope of this mutex, without other threads.\<close>

lemma with_lock_scope:
  assumes "\<not> w_locked w" and "fst (bf_arrivals svc (w_env w)) = []" and "snd (bf_arrivals svc (w_env w)) = w_env w"
    and "w_locked (snd (body (w\<lparr>w_locked := True\<rparr>)))"
  shows "with_lock svc body w = lock_scope ab client_mutex body w"
proof -
  obtain r v where body: "body (w\<lparr>w_locked := True\<rparr>) = (r, v)" by fastforce
  have arrivals: "bf_arrivals svc (w_env w) = ([], w_env w)" using assms(2,3) by (cases "bf_arrivals svc (w_env w)") auto
  show ?thesis
    using assms(1,4) body arrivals
    by (cases r) (auto simp: with_lock_def lock_def lock_with_def lock_scope_def seq_def bind_def default_mutex_lock_def
        checked_call_def client_mutex_def branch_def inspect_def env_call_def skip_def return_def take_lock_def modify_def
        finally_do_def scope_exit_def default_mutex_unlock_def unlock_def throw_def)
qed

section \<open>Buffers\<close>

type_synonym mutable_buffer = string

definition mb_resize :: "nat \<Rightarrow> mutable_buffer \<Rightarrow> mutable_buffer" where
  "mb_resize n b = take n b @ replicate (n - length b) (CHR 0x00)"

definition mb_clear :: "mutable_buffer \<Rightarrow> mutable_buffer" where
  "mb_clear b = []"

definition mb_push_back :: "string \<Rightarrow> mutable_buffer \<Rightarrow> mutable_buffer" where
  "mb_push_back c b = b @ c"

definition mb_size :: "mutable_buffer \<Rightarrow> nat" where
  "mb_size b = length b"

text \<open>A view of memory: where the bytes are and how many.\<close>

record const_buffer =
  cb_ptr :: nat
  cb_size :: nat

definition const_buffer_default :: const_buffer where
  "const_buffer_default = \<lparr>cb_ptr = 0, cb_size = 0\<rparr>"

definition cb_bytes :: "(nat \<Rightarrow> char) \<Rightarrow> const_buffer \<Rightarrow> string" where
  "cb_bytes mem b = map (\<lambda>i. mem (cb_ptr b + i)) [0..<cb_size b]"

lemma mb_resize_size [simp]: "mb_size (mb_resize n b) = n"
  by (simp add: mb_size_def mb_resize_def)

lemma mb_resize_shrinks_back: "mb_resize (mb_size b) (mb_push_back c b) = b"
  by (simp add: mb_size_def mb_resize_def mb_push_back_def)

lemma mb_push_back_assoc: "mb_push_back d (mb_push_back c b) = mb_push_back (c @ d) b"
  by (simp add: mb_push_back_def)

lemma cb_bytes_stored:
  assumes "\<And>i. i < length s \<Longrightarrow> mem (p + i) = s ! i"
  shows "cb_bytes mem \<lparr>cb_ptr = p, cb_size = length s\<rparr> = s"
  by (rule nth_equalityI) (simp_all add: cb_bytes_def assms)

section \<open>Debug log\<close>

datatype debug_level = debug_level_server_state | debug_level_transaction | debug_level_streaming
  | debug_level_client_state

fun debug_level_code :: "debug_level \<Rightarrow> int" where
  "debug_level_code debug_level_server_state = 1"
| "debug_level_code debug_level_transaction = 2"
| "debug_level_code debug_level_streaming = 3"
| "debug_level_code debug_level_client_state = 4"

text \<open>The static members of \<^verbatim>\<open>log\<close>.\<close>

record 'e log_globals = "'e log_ops" +
  lg_debug_log_level :: int

definition log_globals_init :: "(string \<Rightarrow> 'e \<Rightarrow> 'e) \<Rightarrow> 'e log_globals" where
  "log_globals_init out = \<lparr>lo_logger_fn = None, lo_stdout = out, lg_debug_log_level = 0\<rparr>"

definition set_logger_fn :: "(log_level \<Rightarrow> string \<Rightarrow> string \<Rightarrow> 'e \<Rightarrow> 'e) option \<Rightarrow> 'e log_globals \<Rightarrow> 'e log_globals" where
  "set_logger_fn f g = g\<lparr>lo_logger_fn := f\<rparr>"

definition set_debug_log_level :: "int \<Rightarrow> 'e log_globals \<Rightarrow> 'e log_globals" where
  "set_debug_log_level n g = g\<lparr>lg_debug_log_level := n\<rparr>"

text \<open>\<^verbatim>\<open>log_error()\<close>, \<^verbatim>\<open>log_warning()\<close>, \<^verbatim>\<open>log_info()\<close> and \<^verbatim>\<open>log_debug()\<close>.\<close>

definition log_line :: "'e log_globals \<Rightarrow> log_level \<Rightarrow> string \<Rightarrow> ('e dl_world, unit) cmd" where
  "log_line g level msg = log_message (log_ops.truncate g) level ''L:'' msg"

definition WSREP_LOG_DEBUG :: "'e log_globals \<Rightarrow> int \<Rightarrow> debug_level \<Rightarrow> string \<Rightarrow> ('e dl_world, unit) cmd" where
  "WSREP_LOG_DEBUG g level_fn level msg =
     only_if (level_fn \<ge> debug_level_code level) (log_line g log_debug msg)"

text \<open>\<open>own\<close> is the level of the session.\<close>

definition client_debug_log_level :: "int \<Rightarrow> 'e log_globals \<Rightarrow> int" where
  "client_debug_log_level own g = max own (lg_debug_log_level g)"

fun hexadecimal :: "nat \<Rightarrow> string" where
  "hexadecimal n = (if n < 16 then [hex_digit n] else hexadecimal (n div 16) @ [hex_digit (n mod 16)])"

declare hexadecimal.simps [simp del]

definition thread_id_to_string :: "thread_id \<Rightarrow> string" where
  "thread_id_to_string t = hexadecimal t"

definition bool_to_string :: "bool \<Rightarrow> string" where
  "bool_to_string b = (if b then ''1'' else ''0'')"

fun fragment_unit_int :: "fragment_unit \<Rightarrow> nat" where
  "fragment_unit_int bytes = 0"
| "fragment_unit_int row = 1"
| "fragment_unit_int statement = 2"

definition client_state_text :: "string \<Rightarrow> client_state \<Rightarrow> string" where
  "client_state_text context c = context @ ''('' @ decimal (unat (cs_id c)) @ '','' @ session_state_name (cs_state c) @
     '','' @ client_mode_name (cs_mode c) @ '','' @ client_error_name (current_error c) @
     '','' @ seqno_to_string (status_int (current_error_status c)) @
     '',toi: '' @ seqno_to_string (wsm_seqno (toi_meta c)) @ '',nbo: '' @ seqno_to_string (wsm_seqno (nbo_meta c)) @ '')''"

definition client_debug_log_state ::
    "'e log_globals \<Rightarrow> int \<Rightarrow> string \<Rightarrow> client_state \<Rightarrow> ('e dl_world, unit) cmd" where
  "client_debug_log_state g own context c =
     WSREP_LOG_DEBUG g (client_debug_log_level own g) debug_level_client_state (client_state_text context c)"

definition client_debug_log_keys ::
    "'e log_globals \<Rightarrow> int \<Rightarrow> client_state \<Rightarrow> key list \<Rightarrow> ('e dl_world, unit) cmd" where
  "client_debug_log_keys g own c keys = for_each (\<lambda>k.
     WSREP_LOG_DEBUG g (client_debug_log_level own g) debug_level_client_state
       (''TOI keys:  id: '' @ decimal (unat (cs_id c)) @ ''key: '' @ key_to_string k)) keys"

text \<open>\<open>self\<close> is the thread that writes the message.\<close>

definition transaction_text :: "thread_id \<Rightarrow> string \<Rightarrow> client_state \<Rightarrow> string" where
  "transaction_text self context c = (let t = cs_transaction c; sc = trx_streaming_context t; nl = [CHR 0x0A] in
     context @ nl @ ''    server: '' @ id_to_string (trx_server_id t) @
     '', client: '' @ seqno_to_string (sint (cs_id c)) @ '', state: '' @ session_state_name (cs_state c) @
     '', mode: '' @ client_mode_name (cs_mode c) @ nl @
     ''    trx_id: '' @ seqno_to_string (sint (trx_id t)) @ '', seqno: '' @ seqno_to_string (wsm_seqno (trx_ws_meta t)) @
     '', flags: '' @ seqno_to_string (sint (trx_flags t)) @ nl @
     ''    state: '' @ trx_state_name (trx_state t) @ '', bfa_state: '' @ trx_state_name (bf_abort_state t) @
     '', error: '' @ client_error_name (current_error c) @
     '', status: '' @ seqno_to_string (status_int (current_error_status c)) @ nl @
     ''    is_sr: '' @ bool_to_string (is_streaming t) @ '', frags: '' @ decimal (fragments_certified sc) @
     '', frags size: '' @ decimal (length (fragments sc)) @ '', unit: '' @ decimal (fragment_unit_int (fragment_unit sc)) @
     '', size: '' @ decimal (unat (fragment_size sc)) @ '', counter: '' @ decimal (unat (unit_counter sc)) @
     '', log_pos: '' @ decimal (unat (log_position sc)) @ '', sr_rb: '' @ bool_to_string (sc_is_rolled_back sc) @ nl @
     ''    own: '' @ bool_to_string (owning_thread c = self) @ '' thread_id: '' @ thread_id_to_string (owning_thread c))"

definition trx_debug_log_state ::
    "'e log_globals \<Rightarrow> int \<Rightarrow> thread_id \<Rightarrow> string \<Rightarrow> client_state \<Rightarrow> ('e dl_world, unit) cmd" where
  "trx_debug_log_state g own self context c =
     WSREP_LOG_DEBUG g (client_debug_log_level own g) debug_level_transaction (transaction_text self context c)"

definition trx_debug_log_key_append ::
    "'e log_globals \<Rightarrow> int \<Rightarrow> client_state \<Rightarrow> key \<Rightarrow> ('e dl_world, unit) cmd" where
  "trx_debug_log_key_append g own c k =
     WSREP_LOG_DEBUG g (client_debug_log_level own g) debug_level_transaction
       (''key_append: trx_id: '' @ seqno_to_string (sint (trx_id (cs_transaction c))) @ '' append key:'' @ [CHR 0x0A] @
        key_to_string k)"

text \<open>
  The levels are nested: a level that shows the messages of sessions shows those of transactions,
  and either of the two levels is enough. Below the levels nothing is written.
\<close>

lemma debug_levels_nested:
  "debug_level_code l \<le> debug_level_code l' \<Longrightarrow> debug_level_code l' \<le> n \<Longrightarrow>
   WSREP_LOG_DEBUG g n l msg = log_line g log_debug msg"
  by (simp add: WSREP_LOG_DEBUG_def only_if_def)

lemma either_level_enough:
  "client_debug_log_level own g \<ge> debug_level_code l \<longleftrightarrow>
   own \<ge> debug_level_code l \<or> lg_debug_log_level g \<ge> debug_level_code l"
  by (auto simp: client_debug_log_level_def)

lemma quiet_debug_log:
  assumes "own \<le> 0" and "lg_debug_log_level g \<le> 0"
  shows "client_debug_log_state g own context c w = (Inr (), w)" "client_debug_log_keys g own c keys w = (Inr (), w)"
    "trx_debug_log_state g own self context c w = (Inr (), w)" "trx_debug_log_key_append g own c k w = (Inr (), w)"
proof -
  have quiet: "WSREP_LOG_DEBUG g (client_debug_log_level own g) l msg = skip" for l msg
    using assms by (cases l) (auto simp: WSREP_LOG_DEBUG_def only_if_def client_debug_log_level_def)
  have "for_each (\<lambda>k. skip) keys w = (Inr (), w)"
    by (induction keys) (simp_all add: seq_def bind_def skip_def return_def)
  then show "client_debug_log_keys g own c keys w = (Inr (), w)" by (simp add: client_debug_log_keys_def quiet)
  show "client_debug_log_state g own context c w = (Inr (), w)" "trx_debug_log_state g own self context c w = (Inr (), w)"
    "trx_debug_log_key_append g own c k w = (Inr (), w)"
    by (simp_all add: client_debug_log_state_def trx_debug_log_state_def trx_debug_log_key_append_def quiet skip_def return_def)
qed

section \<open>Calls defined in the class body of a session\<close>

definition acquire_ownership :: "'e services \<Rightarrow> ('e world, unit) cmd" where
  "acquire_ownership svc = with_lock svc (do_acquire_ownership svc)"

definition client_store_globals :: "'e services \<Rightarrow> ('e world, unit) cmd" where
  "client_store_globals svc = acquire_ownership svc"

definition client_assign_xid :: "'e services \<Rightarrow> xid \<Rightarrow> ('e world, unit) cmd" where
  "client_assign_xid svc x = trx_assign_xid svc x"

definition client_restore_xid :: "'e services \<Rightarrow> xid \<Rightarrow> ('e world, int) cmd" where
  "client_restore_xid svc x = trx_restore_to_prepared_state svc x"

definition client_commit_by_xid :: "'e services \<Rightarrow> xid \<Rightarrow> ('e world, int) cmd" where
  "client_commit_by_xid svc x = trx_commit_or_rollback_by_xid svc x True"

definition client_rollback_by_xid :: "'e services \<Rightarrow> xid \<Rightarrow> ('e world, int) cmd" where
  "client_rollback_by_xid svc x = trx_commit_or_rollback_by_xid svc x False"

definition clone_transaction_for_replay :: "'e services \<Rightarrow> transaction \<Rightarrow> ('e world, unit) cmd" where
  "clone_transaction_for_replay svc other = clone_for_replay svc other"

section \<open>Reading an identifier\<close>

text \<open>\<^verbatim>\<open>operator>>\<close> for an identifier takes a line.\<close>

definition id_read :: "string \<Rightarrow> exn + id" where
  "id_read str = id_of_string (takeWhile (\<lambda>c. c \<noteq> CHR 0x0A) str)"

lemma id_read_printed:
  assumes "length i = 16" and "CHR 0x0A \<notin> set (id_to_string i)"
  shows "id_read (id_to_string i @ CHR 0x0A # rest) = Inr i"
proof -
  have "takeWhile (\<lambda>c. c \<noteq> CHR 0x0A) (id_to_string i @ CHR 0x0A # rest) = id_to_string i"
    using assms(2) by (subst takeWhile_append2) auto
  then show ?thesis using id_string_roundtrip [of i] assms(1) by (simp add: id_read_def id_wf_def)
qed

end
