(* ===== verification/Sim_Engine.thy ===== *)
theory Sim_Engine
  imports Client_State Keeps
begin

text \<open>
  The storage engine of the simulator (\<^verbatim>\<open>dbsim/db_storage_engine.cpp\<close>) and what the clients of a
  simulated server share (\<^verbatim>\<open>dbsim/db_server.hpp\<close>): the counters, the commit mutex and the check
  that commits are sequentially consistent.

  \<open>db_env\<close> is the part of the simulator that a client session sees: the storage engine and the
  server data, which other threads change too, the transaction object and the statistics of the
  client itself, and the state of the provider.
\<close>

section \<open>State\<close>

text \<open>Command line parameters (\<^verbatim>\<open>db_params.hpp\<close>) and their default values.\<close>

record db_params =
  pm_n_servers :: nat
  pm_n_clients :: nat
  pm_n_transactions :: nat
  pm_n_rows :: nat
  pm_max_data_size :: nat
  pm_random_data_size :: bool
  pm_alg_freq :: nat
  pm_sync_wait :: bool
  pm_topology :: string
  pm_wsrep_provider :: string
  pm_wsrep_provider_options :: string
  pm_status_file :: string
  pm_debug_log_level :: int
  pm_fast_exit :: int
  pm_thread_instrumentation :: int
  pm_cond_checks :: bool
  pm_tls_service :: int
  pm_check_sequential_consistency :: bool
  pm_do_2pc :: bool

definition db_params_default :: db_params where
  "db_params_default = \<lparr>pm_n_servers = 0, pm_n_clients = 0, pm_n_transactions = 0, pm_n_rows = 1000,
     pm_max_data_size = 8, pm_random_data_size = False, pm_alg_freq = 0, pm_sync_wait = False,
     pm_topology = [], pm_wsrep_provider = [], pm_wsrep_provider_options = [],
     pm_status_file = ''status.json'', pm_debug_log_level = 0, pm_fast_exit = 0,
     pm_thread_instrumentation = 0, pm_cond_checks = False, pm_tls_service = 0,
     pm_check_sequential_consistency = False, pm_do_2pc = False\<rparr>"

record storage_engine =
  se_transactions :: "client_ref list"
  se_alg_freq :: nat
  se_bf_aborts :: int
  se_position :: gtid
  se_view :: view

definition make_storage_engine :: "db_params \<Rightarrow> storage_engine" where
  "make_storage_engine params = \<lparr>se_transactions = [], se_alg_freq = pm_alg_freq params,
     se_bf_aborts = 0, se_position = gtid_undefined, se_view = view_default\<rparr>"

record client_stats =
  st_commits :: int
  st_rollbacks :: int
  st_replays :: int

definition client_stats_init :: client_stats where
  "client_stats_init = \<lparr>st_commits = 0, st_rollbacks = 0, st_replays = 0\<rparr>"

text \<open>
  \<open>db_data\<close> is the client's buffer of row data, \<open>db_hps_commit_seqno\<close> the number that its high
  priority service has read from a write set; \<open>db_aborted\<close>: the process was told to abort in an
  emergency shutdown.
\<close>

record 'p db_env =
  db_engine :: storage_engine
  db_se_trx :: "client_ref option"
  db_stats :: client_stats
  db_last_client_id :: u64
  db_last_transaction_id :: u64
  db_commit_mutex :: "client_ref option"
  db_next_commit_seqno :: u64
  db_committed_seqno :: u64
  db_data :: string
  db_hps_commit_seqno :: u64
  db_aborted :: bool
  db_prov :: 'p

text \<open>
  What a client meets of the rest of the process: the random numbers, the iteration order of an
  unordered set, the bytes of a 64 bit number in memory, the threads that run while it waits for the commit mutex, and the sessions of
  the other clients.
\<close>

record 'p db_ops =
  dm_debug :: bool
  dm_uniform :: "nat \<Rightarrow> nat \<Rightarrow> 'p db_env \<Rightarrow> nat \<times> 'p db_env"
  dm_hash_order :: "client_ref list \<Rightarrow> client_ref list"
  dm_bytes :: "u64 \<Rightarrow> string"
  dm_of_bytes :: "string \<Rightarrow> u64"
  dm_wait_commit_mutex :: "'p db_env \<Rightarrow> 'p db_env"
  dm_victim_mode :: "client_ref \<Rightarrow> 'p db_env \<Rightarrow> client_mode"
  dm_victim_bf_abort :: "client_ref \<Rightarrow> seqno \<Rightarrow> 'p db_env \<Rightarrow> bool \<times> 'p db_env"

definition upd_engine :: "(storage_engine \<Rightarrow> storage_engine) \<Rightarrow> ('p db_env, unit) cmd" where
  "upd_engine f = modify (db_engine_update f)"

definition set_se_trx :: "client_ref option \<Rightarrow> ('p db_env, unit) cmd" where
  "set_se_trx c = modify (db_se_trx_update (\<lambda>_. c))"

definition db_call :: "('e \<Rightarrow> 'r \<times> 'e) \<Rightarrow> ('e, 'r) cmd" where
  "db_call f = (\<lambda>e. let (r, e') = f e in (Inr r, e'))"

lemma wp_db_call [wp_simps]: "wp (db_call f) Q E e = (case f e of (r, e') \<Rightarrow> Q r e')"
  by (simp add: wp_def db_call_def split: prod.split)

section \<open>Storage engine\<close>

definition se_validate_position :: "gtid \<Rightarrow> ('p db_env, unit) cmd" where
  "se_validate_position g = fetch (\<lambda>e. se_position (db_engine e)) (\<lambda>p.
     only_if (gtid_id p = gtid_id g \<and> gtid_seqno g \<le> gtid_seqno p)
       (throw (Runtime_error (''Invalid position submitted, position seqno '' @ seqno_to_string (gtid_seqno p) @
          '' is greater than submitted seqno '' @ seqno_to_string (gtid_seqno g)))))"

definition se_store_position :: "gtid \<Rightarrow> ('p db_env, unit) cmd" where
  "se_store_position g = seq (se_validate_position g) (upd_engine (se_position_update (\<lambda>_. g)))"

definition se_get_position :: "('p db_env, gtid) cmd" where
  "se_get_position = fetch (\<lambda>e. se_position (db_engine e)) return"

definition se_store_view :: "view \<Rightarrow> ('p db_env, unit) cmd" where
  "se_store_view v = upd_engine (se_view_update (\<lambda>_. v))"

definition se_get_view :: "('p db_env, view) cmd" where
  "se_get_view = fetch (\<lambda>e. se_view (db_engine e)) return"

fun bf_abort_first :: "'p db_ops \<Rightarrow> seqno \<Rightarrow> client_ref list \<Rightarrow> ('p db_env, unit) cmd" where
  "bf_abort_first os q [] = skip"
| "bf_abort_first os q (victim # victims) = branch (\<lambda>e. dm_victim_mode os victim e = m_local)
     (bind (db_call (dm_victim_bf_abort os victim q))
        (\<lambda>ok. only_if ok (upd_engine (se_bf_aborts_update (\<lambda>n. n + 1)))))
     (bf_abort_first os q victims)"

definition se_bf_abort_some :: "'p db_ops \<Rightarrow> transaction \<Rightarrow> ('p db_env, unit) cmd" where
  "se_bf_abort_some os txc = fetch (\<lambda>e. se_alg_freq (db_engine e)) (\<lambda>freq.
     only_if (freq \<noteq> 0) (bind (db_call (dm_uniform os 0 freq)) (\<lambda>r.
       only_if (r = 0) (fetch (\<lambda>e. se_transactions (db_engine e)) (\<lambda>ts.
         only_if (ts \<noteq> []) (bf_abort_first os (wsm_seqno (trx_ws_meta txc)) (dm_hash_order os ts)))))))"

text \<open>The transaction object of a client.\<close>

definition se_active :: "'p db_env \<Rightarrow> bool" where
  "se_active e \<longleftrightarrow> db_se_trx e \<noteq> None"

definition se_start :: "client_ref \<Rightarrow> ('p db_env, unit) cmd" where
  "se_start cc = branch (\<lambda>e. cc \<in> set (se_transactions (db_engine e)))
     (throw (Assertion ''abort''))
     (seq (upd_engine (se_transactions_update (\<lambda>ts. cc # ts))) (set_se_trx (Some cc)))"

definition se_apply :: "'p db_ops \<Rightarrow> transaction \<Rightarrow> ('p db_env, unit) cmd" where
  "se_apply os t = seq (assert_that (dm_debug os) ''cc_'' se_active) (se_bf_abort_some os t)"

definition se_erase :: "client_ref \<Rightarrow> ('p db_env, unit) cmd" where
  "se_erase cc = upd_engine (se_transactions_update (removeAll cc))"

definition se_commit :: "gtid \<Rightarrow> ('p db_env, unit) cmd" where
  "se_commit g = seq (fetch db_se_trx (\<lambda>t. case t of None \<Rightarrow> skip
       | Some cc \<Rightarrow> seq (se_erase cc) (se_store_position g)))
     (set_se_trx None)"

definition se_rollback :: "('p db_env, unit) cmd" where
  "se_rollback = seq (fetch db_se_trx (\<lambda>t. case t of None \<Rightarrow> skip | Some cc \<Rightarrow> se_erase cc))
     (set_se_trx None)"

section \<open>Server data shared by the clients\<close>

definition next_transaction_id :: "('p db_env, transaction_id) cmd" where
  "next_transaction_id = seq (modify (db_last_transaction_id_update (\<lambda>n. n + 1)))
     (fetch db_last_transaction_id return)"

text \<open>
  The critical section of a commit: the mutex is taken, then the number is drawn. The mutex is
  released by the provider's callback or at the end of the scope.
\<close>

definition get_commit_critical_section :: "'p db_ops \<Rightarrow> client_ref \<Rightarrow> ('p db_env, u64) cmd" where
  "get_commit_critical_section os me =
     seq (when_st (\<lambda>e. db_commit_mutex e \<noteq> None) (modify (dm_wait_commit_mutex os)))
     (branch (\<lambda>e. db_commit_mutex e \<noteq> None) (throw (Blocked ''commit_mutex_''))
       (seq (modify (\<lambda>e. e\<lparr>db_commit_mutex := Some me, db_next_commit_seqno := db_next_commit_seqno e + 1\<rparr>))
         (fetch db_next_commit_seqno return)))"

definition release_commit_critical_section :: "client_ref \<Rightarrow> ('p db_env, unit) cmd" where
  "release_commit_critical_section me = when_st (\<lambda>e. db_commit_mutex e = Some me)
     (modify (db_commit_mutex_update (\<lambda>_. None)))"

definition check_sequential_consistency :: "client_id \<Rightarrow> u64 \<Rightarrow> ('p db_env, unit) cmd" where
  "check_sequential_consistency client commit_seqno =
     branch (\<lambda>e. db_committed_seqno e \<ge> commit_seqno) (throw (Assertion ''Sequentiality violation''))
       (modify (db_committed_seqno_update (\<lambda>_. commit_seqno)))"

lemmas db_defs = upd_engine_def set_se_trx_def se_validate_position_def se_store_position_def se_get_position_def
  se_store_view_def se_get_view_def se_bf_abort_some_def se_start_def se_apply_def se_erase_def se_commit_def
  se_rollback_def next_transaction_id_def get_commit_critical_section_def release_commit_critical_section_def
  check_sequential_consistency_def

section \<open>Several clients on one storage engine\<close>

text \<open>
  The clients of a server, each with its transaction object, and the positions stored so far.
  A client may start, apply, commit and roll back at any time; a state transfer stores a position.
\<close>

datatype engine_op = Se_start | Se_apply transaction | Se_commit gtid | Se_rollback | Se_transfer gtid view

fun run_engine_op :: "'p db_ops \<Rightarrow> client_ref \<Rightarrow> engine_op \<Rightarrow> ('p db_env, unit) cmd" where
  "run_engine_op os c Se_start = se_start c"
| "run_engine_op os c (Se_apply t) = se_apply os t"
| "run_engine_op os c (Se_commit g) = se_commit g"
| "run_engine_op os c Se_rollback = se_rollback"
| "run_engine_op os c (Se_transfer g v) = seq (se_store_position g) (se_store_view v)"

record 'p engine_system =
  es_env :: "'p db_env"
  es_trx :: "client_ref \<Rightarrow> client_ref option"
  es_positions :: "gtid list"

definition add_position :: "gtid \<Rightarrow> gtid list \<Rightarrow> gtid list" where
  "add_position g gs = (if gs \<noteq> [] \<and> last gs = g then gs else gs @ [g])"

definition client_turn :: "'p db_ops \<Rightarrow> client_ref \<Rightarrow> engine_op \<Rightarrow> 'p engine_system \<Rightarrow> (exn + unit) \<times> 'p engine_system" where
  "client_turn os c x s = (let (r, e) = run_engine_op os c x ((es_env s)\<lparr>db_se_trx := es_trx s c\<rparr>) in
     (r, \<lparr>es_env = e, es_trx = (es_trx s)(c := db_se_trx e),
          es_positions = add_position (se_position (db_engine e)) (es_positions s)\<rparr>))"

inductive engine_step :: "'p db_ops \<Rightarrow> 'p engine_system \<Rightarrow> 'p engine_system \<Rightarrow> bool" for os where
  turn: "client_turn os c x s = (Inr (), s') \<Longrightarrow> engine_step os s s'"

definition engine_start :: "db_params \<Rightarrow> 'p db_env \<Rightarrow> 'p engine_system" where
  "engine_start params e = \<lparr>es_env = e\<lparr>db_engine := make_storage_engine params\<rparr>, es_trx = (\<lambda>_. None),
     es_positions = [gtid_undefined]\<rparr>"

text \<open>The abort of a victim changes neither the engine nor the transaction object of the aborting client.\<close>

definition engine_frame :: "'p db_ops \<Rightarrow> bool" where
  "engine_frame os \<longleftrightarrow>
     (\<forall>a b e. db_engine (snd (dm_uniform os a b e)) = db_engine e \<and> db_se_trx (snd (dm_uniform os a b e)) = db_se_trx e) \<and>
     (\<forall>v q e. db_engine (snd (dm_victim_bf_abort os v q e)) = db_engine e \<and>
        db_se_trx (snd (dm_victim_bf_abort os v q e)) = db_se_trx e)"

text \<open>A later position of the same group has a greater seqno.\<close>

definition position_after :: "gtid \<Rightarrow> gtid \<Rightarrow> bool" where
  "position_after p g \<longleftrightarrow> (gtid_id p = gtid_id g \<longrightarrow> gtid_seqno p < gtid_seqno g)"

definition engine_ok :: "'p engine_system \<Rightarrow> bool" where
  "engine_ok s \<longleftrightarrow> distinct (se_transactions (db_engine (es_env s))) \<and>
     set (se_transactions (db_engine (es_env s))) = {c. es_trx s c \<noteq> None} \<and>
     (\<forall>c. es_trx s c = None \<or> es_trx s c = Some c) \<and>
     es_positions s \<noteq> [] \<and> last (es_positions s) = se_position (db_engine (es_env s)) \<and>
     successively position_after (es_positions s)"

lemma engine_frameD:
  assumes "engine_frame os"
  shows "dm_uniform os a b e = (r, e') \<Longrightarrow> db_engine e' = db_engine e \<and> db_se_trx e' = db_se_trx e"
    and "dm_victim_bf_abort os v q e = (ok, e') \<Longrightarrow> db_engine e' = db_engine e \<and> db_se_trx e' = db_se_trx e"
  using assms unfolding engine_frame_def by (metis snd_conv)+

text \<open>Applying only counts the aborts.\<close>

definition only_counts :: "'p db_env \<Rightarrow> 'p db_env \<Rightarrow> bool" where
  "only_counts e e' \<longleftrightarrow> se_transactions (db_engine e') = se_transactions (db_engine e) \<and>
     se_position (db_engine e') = se_position (db_engine e) \<and> db_se_trx e' = db_se_trx e"

lemma only_countsI: "db_engine e' = db_engine e \<Longrightarrow> db_se_trx e' = db_se_trx e \<Longrightarrow> only_counts e e'"
  by (simp add: only_counts_def)

lemma bf_abort_first_counts:
  "engine_frame os \<Longrightarrow> wp (bf_abort_first os q vs) (\<lambda>_. only_counts e) never e"
proof (induction vs)
  case (Cons v vs)
  then show ?case
    using engine_frameD(2) [OF Cons.prems]
    by (auto simp: wp_simps upd_engine_def only_counts_def split: prod.split)
qed (simp add: wp_simps only_countsI)

lemma se_apply_counts:
  assumes "engine_frame os"
  shows "wp (se_apply os t) (\<lambda>_. only_counts e) (\<lambda>_ _. True) e"
proof -
  have later: "wp (bf_abort_first os q vs) (\<lambda>_. only_counts e) (\<lambda>_ _. True) e'"
    if "db_engine e' = db_engine e" "db_se_trx e' = db_se_trx e" for q vs e'
    by (rule wp_mono [OF bf_abort_first_counts [OF assms]]) (use that in \<open>auto simp: only_counts_def\<close>)
  show ?thesis
    using engine_frameD(1) [OF assms]
    by (auto simp: se_apply_def se_bf_abort_some_def wp_simps
        intro!: later only_countsI split: prod.split)
qed

text \<open>What each operation does to the set of transactions and the position, if it returns.\<close>

definition engine_effect :: "client_ref \<Rightarrow> engine_op \<Rightarrow> 'p db_env \<Rightarrow> 'p db_env \<Rightarrow> bool" where
  "engine_effect c x e e' \<longleftrightarrow>
     (se_position (db_engine e') = se_position (db_engine e) \<or>
      position_after (se_position (db_engine e)) (se_position (db_engine e'))) \<and>
     (case x of
        Se_start \<Rightarrow> c \<notin> set (se_transactions (db_engine e)) \<and>
          se_transactions (db_engine e') = c # se_transactions (db_engine e) \<and> db_se_trx e' = Some c
      | Se_apply t \<Rightarrow> only_counts e e'
      | Se_transfer g v \<Rightarrow> se_transactions (db_engine e') = se_transactions (db_engine e) \<and> db_se_trx e' = db_se_trx e
      | _ \<Rightarrow> se_transactions (db_engine e') = (case db_se_trx e of None \<Rightarrow> se_transactions (db_engine e)
            | Some d \<Rightarrow> removeAll d (se_transactions (db_engine e))) \<and> db_se_trx e' = None)"

lemma engine_effects:
  assumes "engine_frame os"
  shows "wp (run_engine_op os c x) (\<lambda>_. engine_effect c x e) (\<lambda>_ _. True) e"
proof (cases x)
  case (Se_apply t)
  then show ?thesis
    by simp (rule wp_mono [OF se_apply_counts [OF assms]], auto simp: engine_effect_def only_counts_def)
qed (auto simp: db_defs wp_simps engine_effect_def position_after_def split: option.split)

lemma engine_ok_turn:
  assumes "engine_ok s" and "engine_frame os" and "client_turn os c x s = (Inr (), s')"
  shows "engine_ok s'"
proof -
  let ?e = "(es_env s)\<lparr>db_se_trx := es_trx s c\<rparr>"
  obtain e where run: "run_engine_op os c x ?e = (Inr (), e)"
    and s': "s' = \<lparr>es_env = e, es_trx = (es_trx s)(c := db_se_trx e),
        es_positions = add_position (se_position (db_engine e)) (es_positions s)\<rparr>"
    using assms(3) by (auto simp: client_turn_def split: prod.splits)
  have grown: "successively position_after (add_position g (es_positions s))" "add_position g (es_positions s) \<noteq> []"
      "last (add_position g (es_positions s)) = g"
    if "g = se_position (db_engine (es_env s)) \<or> position_after (se_position (db_engine (es_env s))) g" for g
    using that assms(1) by (auto simp: engine_ok_def add_position_def successively_append_iff)
  have own: "es_trx s c = None \<or> es_trx s c = Some c" using assms(1) by (simp add: engine_ok_def)
  have old: "distinct (se_transactions (db_engine (es_env s)))"
      "set (se_transactions (db_engine (es_env s))) = {c. es_trx s c \<noteq> None}"
    using assms(1) by (simp_all add: engine_ok_def)
  have "wp (run_engine_op os c x) (\<lambda>_ e. engine_effect c x ?e e) (\<lambda>_ _. True) ?e"
    by (rule engine_effects [OF assms(2)])
  then have effect: "engine_effect c x ?e e" using run by (rule wp_run)
  then have "se_position (db_engine e) = se_position (db_engine (es_env s)) \<or>
      position_after (se_position (db_engine (es_env s))) (se_position (db_engine e))"
    by (auto simp: engine_effect_def)
  note pos = grown [OF this]
  have "distinct (se_transactions (db_engine e)) \<and>
      set (se_transactions (db_engine e)) = {d. ((es_trx s)(c := db_se_trx e)) d \<noteq> None} \<and>
      (db_se_trx e = None \<or> db_se_trx e = Some c)"
    using effect own old
    by (cases x; cases "es_trx s c") (auto simp: engine_effect_def only_counts_def distinct_removeAll split: if_splits)
  with pos assms(1) show ?thesis
    unfolding s' by (auto simp: engine_ok_def)
qed

lemma engine_ok_start: "engine_ok (engine_start params e)"
  by (simp add: engine_ok_def engine_start_def make_storage_engine_def)

lemma engine_ok_reachable: "(engine_step os)\<^sup>*\<^sup>* s s' \<Longrightarrow> engine_frame os \<Longrightarrow> engine_ok s \<Longrightarrow> engine_ok s'"
  by (induction rule: rtranclp_induct) (auto elim!: engine_step.cases intro: engine_ok_turn)


definition quiet_db_ops :: "'p db_ops" where
  "quiet_db_ops = \<lparr>dm_debug = True, dm_uniform = \<lambda>a b e. (a, e), dm_hash_order = id,
     dm_bytes = \<lambda>n. map (\<lambda>i. char_of (unat (drop_bit (8 * i) n) mod 256)) [0..<8],
     dm_of_bytes = \<lambda>s. of_nat (horner_sum of_char 256 s), dm_wait_commit_mutex = id,
     dm_victim_mode = \<lambda>v e. m_local, dm_victim_bf_abort = \<lambda>v q e. (True, e)\<rparr>"

lemma quiet_db_ops_frame: "engine_frame quiet_db_ops"
  by (simp add: engine_frame_def quiet_db_ops_def)

definition db_env_init :: "db_params \<Rightarrow> 'p \<Rightarrow> 'p db_env" where
  "db_env_init params p = \<lparr>db_engine = make_storage_engine params, db_se_trx = None, db_stats = client_stats_init,
     db_last_client_id = 0, db_last_transaction_id = 0, db_commit_mutex = None, db_next_commit_seqno = 0,
     db_committed_seqno = 0, db_data = [], db_hps_commit_seqno = 0, db_aborted = False, db_prov = p\<rparr>"


section \<open>The order of commits\<close>

text \<open>
  The clients of a server that check sequential consistency. A client draws its number in the
  critical section, and holds the mutex until the provider has put its write set into the total
  order and called back, or until certification has failed. The provider orders write sets as
  they come, and lets them commit in this order; a write set that fails certification or is
  rolled back is passed over. The number of draws is less than \<open>2 ^ 64\<close>.
\<close>

record 'p commit_system =
  cm_env :: "'p db_env"
  cm_number :: "client_ref \<Rightarrow> u64 option"
  cm_queue :: "(client_ref \<times> u64) list"

inductive commit_step :: "'p db_ops \<Rightarrow> 'p commit_system \<Rightarrow> 'p commit_system \<Rightarrow> bool" for os where
  enter: "get_commit_critical_section os c (cm_env s) = (Inr n, e) \<Longrightarrow> db_commit_mutex (cm_env s) = None \<Longrightarrow>
     db_next_commit_seqno (cm_env s) \<noteq> -1 \<Longrightarrow>
     commit_step os s (s\<lparr>cm_env := e, cm_number := (cm_number s)(c \<mapsto> n)\<rparr>)"
| order: "cm_number s c = Some n \<Longrightarrow> release_commit_critical_section c (cm_env s) = (Inr (), e) \<Longrightarrow>
     commit_step os s (s\<lparr>cm_env := e, cm_number := (cm_number s)(c := None), cm_queue := cm_queue s @ [(c, n)]\<rparr>)"
| fail: "cm_number s c = Some n \<Longrightarrow> release_commit_critical_section c (cm_env s) = (Inr (), e) \<Longrightarrow>
     commit_step os s (s\<lparr>cm_env := e, cm_number := (cm_number s)(c := None)\<rparr>)"
| commit: "cm_queue s = (c, n) # q \<Longrightarrow> check_sequential_consistency i n (cm_env s) = (Inr (), e) \<Longrightarrow>
     commit_step os s (s\<lparr>cm_env := e, cm_queue := q\<rparr>)"
| pass_over: "cm_queue s = (c, n) # q \<Longrightarrow> commit_step os s (s\<lparr>cm_queue := q\<rparr>)"

inductive_cases commit_stepE: "commit_step os s s'"

text \<open>
  Drawn, waiting and committed numbers are in order: the queue increases, from above the last
  committed number up to the last one drawn; who holds a number holds the mutex, and it is the
  last one.
\<close>

definition commits_in_order :: "'p commit_system \<Rightarrow> bool" where
  "commits_in_order s \<longleftrightarrow>
     sorted_wrt (<) (db_committed_seqno (cm_env s) # map snd (cm_queue s)) \<and>
     (\<forall>n \<in> set (db_committed_seqno (cm_env s) # map snd (cm_queue s)). n \<le> db_next_commit_seqno (cm_env s)) \<and>
     (\<forall>c n. cm_number s c = Some n \<longrightarrow> db_commit_mutex (cm_env s) = Some c \<and> n = db_next_commit_seqno (cm_env s) \<and>
        (\<forall>m \<in> set (db_committed_seqno (cm_env s) # map snd (cm_queue s)). m < n))"

definition commits_start :: "'p db_env \<Rightarrow> 'p commit_system" where
  "commits_start e = \<lparr>cm_env = e\<lparr>db_commit_mutex := None, db_next_commit_seqno := 0, db_committed_seqno := 0\<rparr>,
     cm_number = (\<lambda>_. None), cm_queue = []\<rparr>"

lemma next_number: "x \<noteq> -1 \<Longrightarrow> n \<le> x \<Longrightarrow> n < x + 1" for x n :: u64
  by (metis add.commute add_eq_0_iff less_Suc_eq_le unatSuc word_le_nat_alt word_less_nat_alt)

lemma sole_number: "commits_in_order s \<Longrightarrow> cm_number s c = Some n \<Longrightarrow> d \<noteq> c \<Longrightarrow> cm_number s d = None"
  unfolding commits_in_order_def by (metis not_None_eq option.inject)

lemma commits_in_order_step: "commit_step os s s' \<Longrightarrow> commits_in_order s \<Longrightarrow> commits_in_order s'"
proof (induction rule: commit_step.induct)
  case (enter c s n e)
  have e: "e = (cm_env s)\<lparr>db_commit_mutex := Some c, db_next_commit_seqno := db_next_commit_seqno (cm_env s) + 1\<rparr>"
      "n = db_next_commit_seqno (cm_env s) + 1"
    using enter.hyps(1,2)
    by (auto simp: get_commit_critical_section_def seq_def bind_def when_st_def branch_def inspect_def only_if_def skip_def
        return_def modify_def fetch_def)
  have free: "cm_number s d = None" for d
    using enter.prems enter.hyps(2) by (cases "cm_number s d") (auto simp: commits_in_order_def)
  have "m < db_next_commit_seqno (cm_env s) + 1" if "m \<in> set (db_committed_seqno (cm_env s) # map snd (cm_queue s))" for m
    using that enter.prems by (intro next_number enter.hyps(3)) (auto simp: commits_in_order_def)
  then show ?case
    using enter.prems free unfolding e commits_in_order_def by (auto intro: less_imp_le)
next
  case (order s c n e)
  have e: "e = (cm_env s)\<lparr>db_commit_mutex := None\<rparr>"
    using order.hyps order.prems
    by (auto simp: release_commit_critical_section_def commits_in_order_def when_st_def inspect_def only_if_def modify_def)
  show ?case
    using sole_number [OF order.prems order.hyps(1)] order.prems order.hyps(1) unfolding e commits_in_order_def by (auto simp: sorted_wrt_append)
next
  case (fail s c n e)
  have e: "e = (cm_env s)\<lparr>db_commit_mutex := None\<rparr>"
    using fail.hyps fail.prems
    by (auto simp: release_commit_critical_section_def commits_in_order_def when_st_def inspect_def only_if_def modify_def)
  show ?case
    using sole_number [OF fail.prems fail.hyps(1)] fail.prems unfolding e commits_in_order_def by auto
next
  case (commit s c n q i e)
  have e: "e = (cm_env s)\<lparr>db_committed_seqno := n\<rparr>"
    using commit.hyps(2)
    by (auto simp: check_sequential_consistency_def branch_def inspect_def modify_def throw_def split: if_splits)
  show ?case using commit.prems commit.hyps(1) unfolding e commits_in_order_def by auto
next
  case (pass_over s c n q)
  then show ?case unfolding commits_in_order_def by auto
qed

lemma commits_in_order_reachable:
  "(commit_step os)\<^sup>*\<^sup>* s s' \<Longrightarrow> commits_in_order s \<Longrightarrow> commits_in_order s'"
  by (induction rule: rtranclp_induct) (auto intro: commits_in_order_step)

lemma commits_in_order_start: "commits_in_order (commits_start e)"
  by (simp add: commits_in_order_def commits_start_def)



end
