(* ===== verification/Sim_Client.thy ===== *)
theory Sim_Client
  imports Sim_Engine Applier
begin

text \<open>
  The DBMS side of the simulator: its client service (\<^verbatim>\<open>dbsim/db_client_service.cpp\<close>), its high
  priority service (\<^verbatim>\<open>dbsim/db_high_priority_service.cpp\<close>) and the client that runs
  transactions (\<^verbatim>\<open>dbsim/db_client.cpp\<close>), over the model of the library. The environment of
  the library is \<open>db_env\<close>; the provider, the other threads and the replay in the provider are
  parameters.
\<close>

definition on_env :: "('e, 'a) cmd \<Rightarrow> ('e world, 'a) cmd" where
  "on_env m = (\<lambda>w. case m (w_env w) of (r, e) \<Rightarrow> (r, w\<lparr>w_env := e\<rparr>))"

lemma wp_on_env [wp_simps]:
  "wp (on_env m) Q E w = wp m (\<lambda>a e. Q a (w\<lparr>w_env := e\<rparr>)) (\<lambda>x e. E x (w\<lparr>w_env := e\<rparr>)) (w_env w)"
  by (simp add: on_env_def wp_def split: prod.split sum.split)

text \<open>The exception class whose constructor aborts the process.\<close>

definition not_implemented_error :: exn where
  "not_implemented_error = Assertion ''not implemented''"

definition client_reset_error :: "('e world, unit) cmd" where
  "client_reset_error = modify (w_cs_update (current_error_update (\<lambda>_. e_success)))"

section \<open>High priority service\<close>

text \<open>The service of an applier or a replayer, as commands in the session of its client.\<close>

definition dbh_start_transaction :: "'p db_env services \<Rightarrow> ws_handle \<Rightarrow> ws_meta \<Rightarrow> ('p db_env world, int) cmd" where
  "dbh_start_transaction svc h m = client_start_transaction_applying svc h m"

definition dbh_next_fragment :: "'p db_env services \<Rightarrow> ws_meta \<Rightarrow> ('p db_env world, int) cmd" where
  "dbh_next_fragment svc m = client_next_fragment svc m"

definition dbh_adopt_transaction :: "transaction \<Rightarrow> ('p db_env world, int) cmd" where
  "dbh_adopt_transaction t = throw not_implemented_error"

definition dbh_apply_write_set ::
    "'p db_ops \<Rightarrow> ws_meta \<Rightarrow> string \<Rightarrow> ('p db_env world, int) cmd" where
  "dbh_apply_write_set os m buf = fetch w_self (\<lambda>me.
     seq (on_env (se_start me))
     (fetch trx (\<lambda>t.
     seq (on_env (se_apply os t))
     (seq (assert_that (dm_debug os) ''buf.size() > sizeof(uint64_t)'' (\<lambda>_. length buf > 8))
     (if length buf < 8 then throw (Undefined ''memcpy'')
      else seq (on_env (modify (db_hps_commit_seqno_update (\<lambda>_. dm_of_bytes os (drop (length buf - 8) buf)))))
        (return 0))))))"

definition dbh_apply_toi :: "ws_meta \<Rightarrow> string \<Rightarrow> ('p db_env world, int) cmd" where
  "dbh_apply_toi m buf = throw not_implemented_error"

definition dbh_apply_nbo_begin :: "ws_meta \<Rightarrow> string \<Rightarrow> ('p db_env world, int) cmd" where
  "dbh_apply_nbo_begin m buf = throw not_implemented_error"

definition dbh_check_consistency :: "db_params \<Rightarrow> ws_meta \<Rightarrow> ('p db_env world, unit) cmd" where
  "dbh_check_consistency params m =
     when_st (\<lambda>w. stid_server_id (wsm_stid m) = sv_id (w_ss w) \<and> pm_check_sequential_consistency params)
       (on_env (fetch db_hps_commit_seqno (check_sequential_consistency (stid_client_id (wsm_stid m)))))"

definition dbh_commit ::
    "'p db_env services \<Rightarrow> db_params \<Rightarrow> ws_handle \<Rightarrow> ws_meta \<Rightarrow> ('p db_env world, int) cmd" where
  "dbh_commit svc params h m =
     seq (client_prepare_for_ordering svc h m True)
     (bind (client_before_commit svc False) (\<lambda>ret.
      seq (only_if (ret = 0) (on_env (se_commit (wsm_gtid m))))
     (seq (dbh_check_consistency params m)
     (or_chain (return ret) [client_ordered_commit svc, client_after_commit svc]))))"

definition assert_zero :: "'e services \<Rightarrow> int \<Rightarrow> ('e world, unit) cmd" where
  "assert_zero svc ret = assert_svc svc ''ret == 0'' (\<lambda>_. ret = 0)"

text \<open>The rollback of the client's transaction in the library and in the storage engine.\<close>

definition db_bf_rollback :: "'p db_env services \<Rightarrow> ('p db_env world, int) cmd" where
  "db_bf_rollback svc =
     bind (client_before_rollback svc) (\<lambda>ret.
     seq (assert_zero svc ret)
     (seq (on_env se_rollback)
     (bind (client_after_rollback svc) (\<lambda>ret. seq (assert_zero svc ret) (return ret)))))"

definition dbh_rollback :: "'p db_env services \<Rightarrow> ws_handle \<Rightarrow> ws_meta \<Rightarrow> ('p db_env world, int) cmd" where
  "dbh_rollback svc h m = seq (client_prepare_for_ordering svc h m False)
     (bind (client_before_rollback svc) (\<lambda>ret.
      seq (assert_zero svc ret)
     (seq (on_env se_rollback)
     (bind (client_after_rollback svc) (\<lambda>ret. seq (assert_zero svc ret) (return ret))))))"

definition dbh_adopt_apply_error :: "'p db_env services \<Rightarrow> string \<Rightarrow> ('p db_env world, unit) cmd" where
  "dbh_adopt_apply_error svc err = client_adopt_apply_error svc err"

definition dbh_after_apply :: "'p db_env services \<Rightarrow> ('p db_env world, unit) cmd" where
  "dbh_after_apply svc = client_after_applying svc"

definition replayer_after_apply :: "('p db_env world, unit) cmd" where
  "replayer_after_apply = skip"

definition dbh_log_dummy_write_set ::
    "'p db_env services \<Rightarrow> ws_handle \<Rightarrow> ws_meta \<Rightarrow> string \<Rightarrow> ('p db_env world, int) cmd" where
  "dbh_log_dummy_write_set svc h m err =
     bind (client_start_transaction_applying svc h m) (\<lambda>ret.
     seq (assert_zero svc ret)
     (bind (if wsm_ordered m then
         seq (client_adopt_apply_error svc err)
         (seq (client_prepare_for_ordering svc h m True)
         (bind (client_before_commit svc False) (\<lambda>ret. seq (assert_zero svc ret)
         (bind (client_ordered_commit svc) (\<lambda>ret. seq (assert_zero svc ret)
         (bind (client_after_commit svc) (\<lambda>ret. seq (assert_zero svc ret) (return ret))))))))
       else return ret) (\<lambda>ret.
     seq (client_after_applying svc) (return ret))))"

section \<open>Client service\<close>

text \<open>
  The replay runs in the provider, which is given the handle of the transaction and the
  replayer's service; \<open>pr\<close> is the provider's \<^verbatim>\<open>replay\<close>.
\<close>

definition db_replay ::
    "'p db_env services \<Rightarrow> (ws_handle \<Rightarrow> ('p db_env world, status) cmd) \<Rightarrow> ('p db_env world, status) cmd" where
  "db_replay svc pr = high_priority_context svc
     (fetch (\<lambda>w. (provider_loaded (w_ss w), trx_ws_handle (trx w))) (\<lambda>(loaded, h).
        if \<not> loaded then throw (Runtime_error ''provider not loaded'')
        else bind (pr h) (\<lambda>ret.
          seq (only_if (ret = success)
                 (on_env (modify (db_stats_update (st_replays_update (\<lambda>n. n + 1))))))
            (return ret))))"

definition db_event :: "client_callback \<Rightarrow> 'p db_env \<Rightarrow> 'p db_env" where
  "db_event ev e = (if ev = Emergency_shutdown then e\<lparr>db_aborted := True\<rparr> else e)"

definition db_client_service ::
    "('p db_env world, int) cmd \<Rightarrow> ('p db_env world, status) cmd \<Rightarrow> 'p db_env client_ops" where
  "db_client_service rollback replayed = \<lparr>
     cl_event = db_event,
     cl_interrupted = \<lambda>e. (False, e),
     cl_statement_allowed_for_streaming = \<lambda>e. True,
     cl_bytes_generated = \<lambda>e. 0,
     cl_prepare_data_for_replication = \<lambda>h e. ((0, h), e),
     cl_prepare_fragment_for_replication = \<lambda>h e. ((0, [], 0, h), e),
     cl_remove_fragments = return 0,
     cl_bf_rollback = rollback,
     cl_replay = replayed,
     cl_replay_unordered = return success,
     cl_commit_by_xid = return success,
     cl_is_explicit_xa = \<lambda>e. False,
     cl_is_prepared_xa = \<lambda>e. False,
     cl_is_xa_rollback = \<lambda>e. False\<rparr>"

text \<open>
  The services of a simulated client: those of \<open>base\<close>, with the simulator's client service. Its
  callbacks call the library, which calls the callbacks: they are nested to a depth \<open>n\<close>, below
  which a callback blocks. The rollback hooks call no callback, so that two levels are enough for
  a rollback.
\<close>

fun db_services ::
    "'p db_env services \<Rightarrow> ('p db_env services \<Rightarrow> ws_handle \<Rightarrow> ('p db_env world, status) cmd) \<Rightarrow> nat \<Rightarrow>
     'p db_env services" where
  "db_services base pr 0 = base\<lparr>client_ops := db_client_service (throw (Blocked ''depth'')) (throw (Blocked ''depth''))\<rparr>"
| "db_services base pr (Suc n) = (let svc = db_services base pr n in
     base\<lparr>client_ops := db_client_service (db_bf_rollback svc) (db_replay svc (pr svc))\<rparr>)"

lemma db_services_base [simp]:
  "debug_build (db_services base pr n) = debug_build base" "prov (db_services base pr n) = prov base"
  "storage (db_services base pr n) = storage base" "server_ops (db_services base pr n) = server_ops base"
  "hps (db_services base pr n) = hps base" "bf_arrivals (db_services base pr n) = bf_arrivals base"
  by (cases n; simp add: Let_def)+

lemma db_services_client [simp]:
  "cl_event (client_ops (db_services base pr n)) = db_event"
  "cl_interrupted (client_ops (db_services base pr n)) = (\<lambda>e. (False, e))"
  "cl_prepare_data_for_replication (client_ops (db_services base pr n)) = (\<lambda>h e. ((0, h), e))"
  "cl_prepare_fragment_for_replication (client_ops (db_services base pr n)) = (\<lambda>h e. ((0, [], 0, h), e))"
  "cl_remove_fragments (client_ops (db_services base pr n)) = return 0"
  "cl_is_explicit_xa (client_ops (db_services base pr n)) = (\<lambda>e. False)"
  "cl_is_xa_rollback (client_ops (db_services base pr n)) = (\<lambda>e. False)"
  by (cases n; simp add: Let_def db_client_service_def)+

section \<open>Client\<close>

definition make_db_client :: "db_params \<Rightarrow> client_ref \<Rightarrow> client_id \<Rightarrow> client_mode \<Rightarrow> 'p db_env world \<Rightarrow> 'p db_env world" where
  "make_db_client params me i m w = w\<lparr>w_self := me, w_cs := client_state_init (w_thread w) i m, w_locked := False,
     w_env := (w_env w)\<lparr>db_se_trx := None, db_stats := client_stats_init,
       db_data := replicate (pm_max_data_size params) (CHR 0x00)\<rparr>\<rparr>"

definition db_client_bf_abort :: "'p db_env services \<Rightarrow> seqno \<Rightarrow> ('p db_env world, int) cmd" where
  "db_client_bf_abort svc q = with_lock svc (client_bf_abort svc q)"

definition client_command :: "'e services \<Rightarrow> ('e world, int) cmd \<Rightarrow> ('e world, int) cmd" where
  "client_command svc f =
     bind (before_command svc False) (\<lambda>err.
     bind (if err = 0 then
         bind (before_statement svc) (\<lambda>err.
         bind (if err = 0 then f else return err) (\<lambda>err. seq (after_statement svc) (return err)))
       else return err) (\<lambda>err.
     seq (after_command_before_result svc)
     (bind (branch (\<lambda>w. current_error (w_cs w) \<noteq> e_success)
         (seq (assert_svc svc ''state() == s_aborted'' (\<lambda>w. tstate w = s_aborted)) (return 1))
         (return err)) (\<lambda>err.
     seq (after_command_after_result svc) (return err)))))"

text \<open>The three commands of a transaction: start, change of a row, commit.\<close>

definition start_statement :: "'p db_env services \<Rightarrow> ('p db_env world, int) cmd" where
  "start_statement svc = bind (on_env next_transaction_id) (\<lambda>i.
     bind (client_start_transaction svc i) (\<lambda>err.
     seq (assert_svc svc ''err == 0'' (\<lambda>_. err = 0))
     (fetch w_self (\<lambda>me. seq (on_env (se_start me)) (return err)))))"

definition make_row_key :: "string \<Rightarrow> string \<Rightarrow> ('w, key) cmd" where
  "make_row_key client_key randkey = (case append_key_part ''dbms'' (key_make exclusive) of Inl e \<Rightarrow> throw e
     | Inr k \<Rightarrow> (case append_key_part client_key k of Inl e \<Rightarrow> throw e
     | Inr k \<Rightarrow> (case append_key_part randkey k of Inl e \<Rightarrow> throw e | Inr k \<Rightarrow> return k)))"

definition put_bytes :: "string \<Rightarrow> string \<Rightarrow> string" where
  "put_bytes bs data = take (length data) bs @ drop (length bs) data"

definition row_statement :: "'p db_env services \<Rightarrow> 'p db_ops \<Rightarrow> db_params \<Rightarrow> ('p db_env world, int) cmd" where
  "row_statement svc os params =
     seq (assert_svc svc ''transaction.active()'' (\<lambda>w. active (trx w)))
     (bind (on_env (db_call (dm_uniform os 0 (pm_n_rows params)))) (\<lambda>randkey.
      seq (on_env (modify (db_data_update (put_bytes (dm_bytes os (of_nat randkey))))))
     (fetch (\<lambda>w. cs_id (w_cs w)) (\<lambda>client_key.
      bind (make_row_key (dm_bytes os client_key) (dm_bytes os (of_nat randkey))) (\<lambda>key.
      bind (client_append_key svc key) (\<lambda>err.
      fetch (\<lambda>w. db_data (w_env w)) (\<lambda>data.
      bind (if \<not> pm_random_data_size params then return (length data)
            else if data = [] then throw (Undefined ''uniform_int_distribution'')
            else on_env (db_call (dm_uniform os 1 (length data)))) (\<lambda>n.
      or_else (return err) (client_append_data svc (take n data))))))))))"

definition abandon_transaction :: "'p db_env services \<Rightarrow> ('p db_env world, unit) cmd" where
  "abandon_transaction svc = block
     [seq (client_before_rollback svc) skip, on_env se_rollback, seq (client_after_rollback svc) skip]"

text \<open>The end of the commit: \<open>err\<close> is the result of the hooks up to \<^verbatim>\<open>before_commit\<close>.\<close>

definition finish_commit :: "'p db_env services \<Rightarrow> db_params \<Rightarrow> u64 \<Rightarrow> int \<Rightarrow> ('p db_env world, int) cmd" where
  "finish_commit svc params commit_seqno err =
     seq (only_if (err = 0) (fetch (\<lambda>w. (wsm_gtid (trx_ws_meta (trx w)), cs_id (w_cs w))) (\<lambda>(g, i).
       seq (on_env (se_commit g)) (only_if (pm_check_sequential_consistency params)
         (on_env (check_sequential_consistency i commit_seqno))))))
     (bind (or_chain (return err) [client_ordered_commit svc, client_after_commit svc]) (\<lambda>err.
      seq (only_if (err \<noteq> 0) (abandon_transaction svc)) (return err)))"

definition commit_hooks ::
    "'p db_env services \<Rightarrow> 'p db_ops \<Rightarrow> db_params \<Rightarrow> client_ref \<Rightarrow> u64 \<Rightarrow> ('p db_env world, int) cmd" where
  "commit_hooks svc os params me commit_seqno =
     seq (only_if (\<not> pm_check_sequential_consistency params) (on_env (release_commit_critical_section me)))
     (seq (client_append_data svc (dm_bytes os commit_seqno))
     (bind (or_chain (return 0) (if pm_do_2pc params
          then [client_before_prepare svc True, client_after_prepare svc] else [])) (\<lambda>err.
      bind (or_else (return err) (client_before_commit svc True)) (finish_commit svc params commit_seqno))))"

definition commit_statement :: "'p db_env services \<Rightarrow> 'p db_ops \<Rightarrow> db_params \<Rightarrow> ('p db_env world, int) cmd" where
  "commit_statement svc os params = fetch w_self (\<lambda>me.
     bind (on_env (get_commit_critical_section os me)) (\<lambda>commit_seqno.
     finally_do (commit_hooks svc os params me commit_seqno)
       (on_env (release_commit_critical_section me))))"

definition count_outcome :: "'p db_env services \<Rightarrow> ('p db_env world, unit) cmd" where
  "count_outcome svc = fetch tstate (\<lambda>s. case s of
       s_committed \<Rightarrow> on_env (modify (db_stats_update (st_commits_update (\<lambda>n. n + 1))))
     | s_aborted \<Rightarrow> on_env (modify (db_stats_update (st_rollbacks_update (\<lambda>n. n + 1))))
     | _ \<Rightarrow> unreachable svc)"

definition run_one_transaction :: "'p db_env services \<Rightarrow> 'p db_ops \<Rightarrow> db_params \<Rightarrow> ('p db_env world, unit) cmd" where
  "run_one_transaction svc os params =
     seq (only_if (pm_sync_wait params) (bind (sync_wait svc 5) (\<lambda>r.
            only_if (r \<noteq> 0) (throw (Runtime_error ''Sync wait failed'')))))
     (seq client_reset_error
     (bind (client_command svc (start_statement svc)) (\<lambda>err.
      bind (or_chain (return err) [client_command svc (row_statement svc os params),
          client_command svc (commit_statement svc os params)]) (\<lambda>err.
      block
       [assert_svc svc ''err || aborted || committed'' (\<lambda>w. err \<noteq> 0 \<or> tstate w \<in> {s_aborted, s_committed}),
        assert_svc svc ''se_trx_.active() == false'' (\<lambda>w. \<not> se_active (w_env w)),
        assert_svc svc ''transaction.active() == false'' (\<lambda>w. \<not> active (trx w)),
        count_outcome svc]))))"

definition db_client_start :: "'p db_env services \<Rightarrow> 'p db_ops \<Rightarrow> db_params \<Rightarrow> ('p db_env world, unit) cmd" where
  "db_client_start svc os params = block
     [inspect (\<lambda>w. client_open svc (cs_id (w_cs w))),
      for_each (\<lambda>i. run_one_transaction svc os params) [0..<pm_n_transactions params],
      client_close svc,
      client_cleanup svc]"

end
