(* ===== verification/Sim_Threads.thy ===== *)
theory Sim_Threads
  imports Keeps Identifiers
begin

text \<open>
  The thread service of the simulator (\<^verbatim>\<open>dbsim/db_threads.cpp\<close>): threads, mutexes and condition
  variables that count their operations and check how they are used. Objects live in stores
  addressed by pointers; the state is seen by all threads, and \<open>tk_this\<close> is the thread that runs.

  A native mutex is modelled by the thread that holds it, and blocks while another one does. The
  other calls of the thread library are parameters (\<open>pthread_ops\<close>).
\<close>

section \<open>Objects\<close>

datatype ti_opcode = oc_thread_create | oc_thread_destroy | oc_mutex_create | oc_mutex_destroy
  | oc_mutex_lock | oc_mutex_trylock | oc_mutex_unlock | oc_cond_create | oc_cond_destroy
  | oc_cond_wait | oc_cond_timedwait | oc_cond_signal | oc_cond_broadcast

definition ti_opcodes :: "ti_opcode list" where
  "ti_opcodes = [oc_thread_create, oc_thread_destroy, oc_mutex_create, oc_mutex_destroy,
     oc_mutex_lock, oc_mutex_trylock, oc_mutex_unlock, oc_cond_create, oc_cond_destroy,
     oc_cond_wait, oc_cond_timedwait, oc_cond_signal, oc_cond_broadcast]"

fun ti_opstring :: "ti_opcode \<Rightarrow> string" where
  "ti_opstring oc_thread_create = ''thread_create''"
| "ti_opstring oc_thread_destroy = ''thread_destroy''"
| "ti_opstring oc_mutex_create = ''mutex_create''"
| "ti_opstring oc_mutex_destroy = ''mutex_destroy''"
| "ti_opstring oc_mutex_lock = ''mutex_lock''"
| "ti_opstring oc_mutex_trylock = ''mutex_trylock''"
| "ti_opstring oc_mutex_unlock = ''mutex_unlock''"
| "ti_opstring oc_cond_create = ''cond_create''"
| "ti_opstring oc_cond_destroy = ''cond_destroy''"
| "ti_opstring oc_cond_wait = ''cond_wait''"
| "ti_opstring oc_cond_timedwait = ''cond_timedwait''"
| "ti_opstring oc_cond_signal = ''cond_signal''"
| "ti_opstring oc_cond_broadcast = ''cond_broadcast''"

record ti_thread =
  tt_key :: nat
  tt_os :: nat
  tt_retval :: nat
  tt_detached :: bool

text \<open>\<open>tm_locked\<close> and \<open>tm_owner\<close> are kept in a debug build; \<open>tm_holder\<close> is the native mutex.\<close>

record ti_mutex =
  tm_key :: nat
  tm_inplace :: bool
  tm_locked :: bool
  tm_owner :: "nat option"
  tm_holder :: "nat option"

record ti_cond =
  tc_key :: nat
  tc_inplace :: bool
  tc_waiter :: bool

record 'e pthread_ops =
  pt_debug :: bool
  pt_create :: "'e \<Rightarrow> (int \<times> nat) \<times> 'e"
  pt_detach :: "nat \<Rightarrow> 'e \<Rightarrow> int \<times> 'e"
  pt_join :: "nat \<Rightarrow> 'e \<Rightarrow> (int \<times> nat) \<times> 'e"
  pt_setschedparam :: "nat \<Rightarrow> int \<Rightarrow> nat \<Rightarrow> 'e \<Rightarrow> int \<times> 'e"
  pt_getschedparam :: "nat \<Rightarrow> 'e \<Rightarrow> (int \<times> int \<times> nat) \<times> 'e"
  pt_sizeof_mutex :: u64
  pt_sizeof_cond :: u64
  pt_cond_result :: "'e \<Rightarrow> int \<times> 'e"
  pt_hash_order :: "(string \<times> u64) list \<Rightarrow> (string \<times> u64) list"

record 'e ti_world =
  tk_keys :: "string list"
  tk_key_cnt :: nat
  tk_ops_map :: "(ti_opcode \<Rightarrow> u64) list"
  tk_total_ops :: "ti_opcode \<Rightarrow> u64"
  tk_total_allocations :: u64
  tk_mutex_contention :: u64
  tk_contention_counts :: "(string \<times> u64) list"
  tk_op_level :: int
  tk_cond_checks :: bool
  tk_threads :: "nat \<Rightarrow> ti_thread option"
  tk_mutexes :: "nat \<Rightarrow> ti_mutex option"
  tk_conds :: "nat \<Rightarrow> ti_cond option"
  tk_next :: nat
  tk_self :: "nat \<Rightarrow> nat option"
  tk_this :: nat
  tk_env :: 'e

definition pt_call :: "('e \<Rightarrow> 'r \<times> 'e) \<Rightarrow> ('e ti_world, 'r) cmd" where
  "pt_call f = (\<lambda>w. let (r, e) = f (tk_env w) in (Inr r, w\<lparr>tk_env := e\<rparr>))"

definition EBUSY :: int where
  "EBUSY = 16"

section \<open>Keys and counts\<close>

text \<open>A key is a pointer made of a number that is one more than an index.\<close>

definition append_key :: "string \<Rightarrow> string \<Rightarrow> ('e ti_world, nat) cmd" where
  "append_key name kind = seq (modify (\<lambda>w. w\<lparr>tk_keys := tk_keys w @ [name @ ''_'' @ kind],
       tk_ops_map := tk_ops_map w @ [\<lambda>_. 0], tk_key_cnt := Suc (tk_key_cnt w)\<rparr>))
     (fetch tk_key_cnt return)"

definition get_key_index :: "'e pthread_ops \<Rightarrow> nat \<Rightarrow> ('e ti_world, nat) cmd" where
  "get_key_index os key = fetch (\<lambda>w. 0 < key \<and> key - 1 < length (tk_keys w)) (\<lambda>ok.
     if ok then return (key - 1)
     else throw (if pt_debug os then Assertion ''index < key_vec.size()'' else Undefined ''key_vec''))"

definition get_key_name :: "'e pthread_ops \<Rightarrow> nat \<Rightarrow> ('e ti_world, string) cmd" where
  "get_key_name os key = bind (get_key_index os key) (\<lambda>i. fetch (\<lambda>w. tk_keys w ! i) return)"

definition count_key :: "nat \<Rightarrow> ti_opcode \<Rightarrow> 'e ti_world \<Rightarrow> 'e ti_world" where
  "count_key i oc w = w\<lparr>tk_ops_map := (tk_ops_map w)[i := (tk_ops_map w ! i)(oc := (tk_ops_map w ! i) oc + 1)]\<rparr>"

definition update_ops :: "'e pthread_ops \<Rightarrow> nat \<Rightarrow> ti_opcode \<Rightarrow> ('e ti_world, unit) cmd" where
  "update_ops os key oc = fetch tk_op_level (\<lambda>level.
     if level < 1 then skip
     else seq (modify (\<lambda>w. w\<lparr>tk_total_ops := (tk_total_ops w)(oc := tk_total_ops w oc + 1)\<rparr>))
       (if level < 2 then skip
        else bind (get_key_index os key) (\<lambda>i. modify (count_key i oc))))"

definition count_allocation :: "('e ti_world, unit) cmd" where
  "count_allocation = modify (tk_total_allocations_update (\<lambda>n. n + 1))"

definition add_count :: "string \<Rightarrow> (string \<times> u64) list \<Rightarrow> (string \<times> u64) list" where
  "add_count name m = om_put name (1 + (case om_find name m of None \<Rightarrow> 0 | Some n \<Rightarrow> n)) m"

definition cond_check :: "bool \<Rightarrow> string \<Rightarrow> ('e ti_world, unit) cmd" where
  "cond_check condition message = when_st (\<lambda>w. tk_cond_checks w \<and> \<not> condition) (throw (Assertion message))"

section \<open>Threads\<close>

definition new_address :: "('e ti_world, nat) cmd" where
  "new_address = (\<lambda>w. (Inr (tk_next w), w\<lparr>tk_next := Suc (tk_next w)\<rparr>))"

definition the_thread :: "nat \<Rightarrow> (ti_thread \<Rightarrow> ('e ti_world, 'a) cmd) \<Rightarrow> ('e ti_world, 'a) cmd" where
  "the_thread p k = fetch (\<lambda>w. tk_threads w p) (\<lambda>t. case t of None \<Rightarrow> throw (Undefined ''thread'') | Some t \<Rightarrow> k t)"

definition upd_thread :: "nat \<Rightarrow> (ti_thread \<Rightarrow> ti_thread) \<Rightarrow> ('e ti_world, unit) cmd" where
  "upd_thread p f = modify (\<lambda>w. w\<lparr>tk_threads := (tk_threads w)(p := map_option f (tk_threads w p))\<rparr>)"

definition make_thread :: "'e pthread_ops \<Rightarrow> nat \<Rightarrow> ('e ti_world, nat) cmd" where
  "make_thread os key = bind new_address (\<lambda>p.
     seq (modify (\<lambda>w. w\<lparr>tk_threads := (tk_threads w)(p \<mapsto>
            \<lparr>tt_key = key, tt_os = 0, tt_retval = 0, tt_detached = False\<rparr>)\<rparr>))
       (seq (update_ops os key oc_thread_create) (return p)))"

definition delete_thread :: "'e pthread_ops \<Rightarrow> nat \<Rightarrow> ('e ti_world, unit) cmd" where
  "delete_thread os p = the_thread p (\<lambda>t.
     seq (update_ops os (tt_key t) oc_thread_destroy)
       (modify (\<lambda>w. w\<lparr>tk_threads := (tk_threads w)(p := None)\<rparr>)))"

definition ti_create_thread_key :: "string \<Rightarrow> ('e ti_world, nat) cmd" where
  "ti_create_thread_key name = append_key name ''thread''"

definition ti_create_thread :: "'e pthread_ops \<Rightarrow> nat \<Rightarrow> ('e ti_world, int \<times> nat option) cmd" where
  "ti_create_thread os key = bind (make_thread os key) (\<lambda>p.
     seq count_allocation
     (bind (pt_call (pt_create os)) (\<lambda>(ret, th).
        if ret \<noteq> 0 then seq (delete_thread os p) (return (ret, None))
        else seq (upd_thread p (\<lambda>t. t\<lparr>tt_os := th\<rparr>)) (return (ret, Some p)))))"

definition main_thread_initializer :: "'e pthread_ops \<Rightarrow> ('e ti_world, unit) cmd" where
  "main_thread_initializer os = bind (append_key ''main'' ''thread'') (\<lambda>key.
     bind (make_thread os key) (\<lambda>p. modify (\<lambda>w. w\<lparr>tk_self := (tk_self w)(tk_this w \<mapsto> p)\<rparr>)))"

definition ti_detach :: "'e pthread_ops \<Rightarrow> nat \<Rightarrow> ('e ti_world, int) cmd" where
  "ti_detach os p = the_thread p (\<lambda>t.
     seq (upd_thread p (\<lambda>t. t\<lparr>tt_detached := True\<rparr>)) (pt_call (pt_detach os (tt_os t))))"

definition ti_equal :: "nat \<Rightarrow> nat \<Rightarrow> ('e ti_world, int) cmd" where
  "ti_equal p q = the_thread p (\<lambda>t. the_thread q (\<lambda>u. return (bool_int (tt_os t = tt_os u))))"

definition ti_join :: "'e pthread_ops \<Rightarrow> nat \<Rightarrow> ('e ti_world, int \<times> nat) cmd" where
  "ti_join os p = the_thread p (\<lambda>t.
     bind (pt_call (pt_join os (tt_os t))) (\<lambda>r.
     the_thread p (\<lambda>t. seq (only_if (\<not> tt_detached t) (delete_thread os p)) (return r))))"

definition ti_self :: "('e ti_world, nat option) cmd" where
  "ti_self = fetch (\<lambda>w. tk_self w (tk_this w)) return"

definition ti_setschedparam :: "'e pthread_ops \<Rightarrow> nat \<Rightarrow> int \<Rightarrow> nat \<Rightarrow> ('e ti_world, int) cmd" where
  "ti_setschedparam os p policy param =
     the_thread p (\<lambda>t. pt_call (pt_setschedparam os (tt_os t) policy param))"

definition ti_getschedparam :: "'e pthread_ops \<Rightarrow> nat \<Rightarrow> ('e ti_world, int \<times> int \<times> nat) cmd" where
  "ti_getschedparam os p = the_thread p (\<lambda>t. pt_call (pt_getschedparam os (tt_os t)))"

text \<open>The entry of a new thread; \<open>fn\<close> is the function it runs. \<open>exit_thread\<close> does not return.\<close>

definition start_thread :: "'e pthread_ops \<Rightarrow> nat \<Rightarrow> ('e ti_world, nat) cmd \<Rightarrow> ('e ti_world, nat) cmd" where
  "start_thread os p fn =
     seq (modify (\<lambda>w. w\<lparr>tk_self := (tk_self w)(tk_this w \<mapsto> p)\<rparr>))
     (bind fn (\<lambda>ret.
      seq (modify (\<lambda>w. w\<lparr>tk_self := (tk_self w)(tk_this w := None)\<rparr>))
      (the_thread p (\<lambda>t. seq (only_if (tt_detached t) (delete_thread os p)) (return ret)))))"

definition exit_thread :: "'e pthread_ops \<Rightarrow> nat \<Rightarrow> nat \<Rightarrow> ('e ti_world, unit) cmd" where
  "exit_thread os p retval =
     seq (modify (\<lambda>w. w\<lparr>tk_self := (tk_self w)(tk_this w := None)\<rparr>))
     (the_thread p (\<lambda>t. block
       [upd_thread p (\<lambda>t. t\<lparr>tt_retval := retval\<rparr>),
        only_if (tt_detached t) (delete_thread os p),
        throw (Blocked ''pthread_exit'')]))"

section \<open>Mutexes\<close>

definition the_mutex :: "nat \<Rightarrow> (ti_mutex \<Rightarrow> ('e ti_world, 'a) cmd) \<Rightarrow> ('e ti_world, 'a) cmd" where
  "the_mutex p k = fetch (\<lambda>w. tk_mutexes w p) (\<lambda>m. case m of None \<Rightarrow> throw (Undefined ''mutex'') | Some m \<Rightarrow> k m)"

definition upd_mutex :: "nat \<Rightarrow> (nat \<Rightarrow> ti_mutex \<Rightarrow> ti_mutex) \<Rightarrow> ('e ti_world, unit) cmd" where
  "upd_mutex p f = modify (\<lambda>w. w\<lparr>tk_mutexes := (tk_mutexes w)(p := map_option (f (tk_this w)) (tk_mutexes w p))\<rparr>)"

text \<open>The native mutex: it is taken if it is free.\<close>

definition native_trylock :: "nat \<Rightarrow> ('e ti_world, int) cmd" where
  "native_trylock p = the_mutex p (\<lambda>m. if tm_holder m = None
     then seq (upd_mutex p (\<lambda>t m. m\<lparr>tm_holder := Some t\<rparr>)) (return 0) else return EBUSY)"

definition native_unlock :: "nat \<Rightarrow> ('e ti_world, int) cmd" where
  "native_unlock p = the_mutex p (\<lambda>m. fetch tk_this (\<lambda>t. if tm_holder m = Some t
     then seq (upd_mutex p (\<lambda>_ m. m\<lparr>tm_holder := None\<rparr>)) (return 0) else throw (Undefined ''pthread_mutex_unlock'')))"

text \<open>What other threads do (\<open>others\<close>) while this one is blocked.\<close>

definition meanwhile :: "('e ti_world, unit) cmd \<Rightarrow> ('e ti_world, unit) cmd" where
  "meanwhile others = fetch tk_this (\<lambda>t. seq others (modify (tk_this_update (\<lambda>_. t))))"

definition native_lock :: "('e ti_world, unit) cmd \<Rightarrow> nat \<Rightarrow> ('e ti_world, int) cmd" where
  "native_lock others p = seq (meanwhile others)
     (bind (native_trylock p) (\<lambda>r. if r = 0 then return 0 else throw (Blocked ''pthread_mutex_lock'')))"

text \<open>A debug build records the owner once the native mutex is held.\<close>

definition record_owner :: "'e pthread_ops \<Rightarrow> nat \<Rightarrow> int \<Rightarrow> ('e ti_world, unit) cmd" where
  "record_owner os p ret = only_if (pt_debug os \<and> ret = 0) (the_mutex p (\<lambda>m.
     seq (assert_that True ''owner_ == std::thread::id()'' (\<lambda>_. tm_owner m = None))
       (upd_mutex p (\<lambda>t m. m\<lparr>tm_locked := True, tm_owner := Some t\<rparr>))))"

definition ti_mutex_lock :: "'e pthread_ops \<Rightarrow> ('e ti_world, unit) cmd \<Rightarrow> nat \<Rightarrow> ('e ti_world, int) cmd" where
  "ti_mutex_lock os others p = the_mutex p (\<lambda>m.
     seq (update_ops os (tm_key m) oc_mutex_lock)
     (bind (native_trylock p) (\<lambda>ret.
      bind (if ret = EBUSY then
              seq (modify (tk_mutex_contention_update (\<lambda>n. n + 1)))
              (bind (get_key_name os (tm_key m)) (\<lambda>name.
               seq (modify (tk_contention_counts_update (add_count name))) (native_lock others p)))
            else return ret) (\<lambda>ret.
      seq (record_owner os p ret) (return ret)))))"

definition ti_mutex_trylock :: "'e pthread_ops \<Rightarrow> nat \<Rightarrow> ('e ti_world, int) cmd" where
  "ti_mutex_trylock os p = the_mutex p (\<lambda>m.
     seq (update_ops os (tm_key m) oc_mutex_trylock)
     (bind (native_trylock p) (\<lambda>ret. seq (record_owner os p ret) (return ret))))"

definition ti_mutex_unlock :: "'e pthread_ops \<Rightarrow> nat \<Rightarrow> ('e ti_world, int) cmd" where
  "ti_mutex_unlock os p = the_mutex p (\<lambda>m.
     seq (assert_that (pt_debug os) ''locked_'' (\<lambda>_. tm_locked m))
     (seq (assert_that (pt_debug os) ''owner_ == this_thread'' (\<lambda>w. tm_owner m = Some (tk_this w)))
     (seq (only_if (pt_debug os) (upd_mutex p (\<lambda>_ m. m\<lparr>tm_owner := None\<rparr>)))
     (bind (native_unlock p) (\<lambda>ret.
      seq (update_ops os (tm_key m) oc_mutex_unlock) (return ret))))))"

definition ti_create_mutex_key :: "string \<Rightarrow> ('e ti_world, nat) cmd" where
  "ti_create_mutex_key name = append_key name ''mutex''"

definition ti_init_mutex :: "'e pthread_ops \<Rightarrow> nat \<Rightarrow> nat \<Rightarrow> u64 \<Rightarrow> ('e ti_world, nat) cmd" where
  "ti_init_mutex os key memblock memblock_size = (let inplace = memblock_size \<ge> pt_sizeof_mutex os in
     bind (if inplace then return memblock else new_address) (\<lambda>p.
     seq (modify (\<lambda>w. w\<lparr>tk_mutexes := (tk_mutexes w)(p \<mapsto> \<lparr>tm_key = key, tm_inplace = inplace,
            tm_locked = False, tm_owner = None, tm_holder = None\<rparr>)\<rparr>))
     (seq (update_ops os key oc_mutex_create)
     (seq (only_if (\<not> inplace) count_allocation) (return p)))))"

definition ti_destroy_mutex :: "'e pthread_ops \<Rightarrow> nat \<Rightarrow> ('e ti_world, int) cmd" where
  "ti_destroy_mutex os p = the_mutex p (\<lambda>m.
     seq (update_ops os (tm_key m) oc_mutex_destroy)
     (seq (modify (\<lambda>w. w\<lparr>tk_mutexes := (tk_mutexes w)(p := None)\<rparr>)) (return 0)))"

section \<open>Condition variables\<close>

definition the_cond :: "nat \<Rightarrow> (ti_cond \<Rightarrow> ('e ti_world, 'a) cmd) \<Rightarrow> ('e ti_world, 'a) cmd" where
  "the_cond p k = fetch (\<lambda>w. tk_conds w p) (\<lambda>c. case c of None \<Rightarrow> throw (Undefined ''cond'') | Some c \<Rightarrow> k c)"

definition set_waiter :: "nat \<Rightarrow> bool \<Rightarrow> ('e ti_world, unit) cmd" where
  "set_waiter p b = modify (\<lambda>w. w\<lparr>tk_conds := (tk_conds w)(p := map_option (tc_waiter_update (\<lambda>_. b)) (tk_conds w p))\<rparr>)"

text \<open>
  Waiting: the checks and the release of the mutex (\<open>ti_wait_begin\<close>), what other threads do, and
  the return with the mutex taken again (\<open>ti_wait_end\<close>). The native wait needs the mutex to be
  held by the caller. Between the two, the owner is kept aside.
\<close>

definition ti_wait_begin :: "'e pthread_ops \<Rightarrow> ti_opcode \<Rightarrow> nat \<Rightarrow> nat \<Rightarrow> ('e ti_world, bool \<times> nat option) cmd" where
  "ti_wait_begin os oc c p = the_cond c (\<lambda>cond.
     bind (native_trylock p) (\<lambda>r.
     bind (get_key_name os (tc_key cond)) (\<lambda>name.
     seq (cond_check (r \<noteq> 0) ''Mutex not locked in cond wait'')
     (seq (set_waiter c True)
     (seq (update_ops os (tc_key cond) oc)
     (the_mutex p (\<lambda>m.
      seq (only_if (pt_debug os) (upd_mutex p (\<lambda>_ m. m\<lparr>tm_locked := False, tm_owner := None\<rparr>)))
      (bind (native_unlock p) (\<lambda>_. return (tm_locked m, tm_owner m)))))))))) "

definition ti_wait_end :: "'e pthread_ops \<Rightarrow> bool \<times> nat option \<Rightarrow> nat \<Rightarrow> nat \<Rightarrow> ('e ti_world, unit) cmd" where
  "ti_wait_end os ctx c p =
     bind (native_trylock p) (\<lambda>r. if r \<noteq> 0 then throw (Blocked ''pthread_cond_wait'')
     else seq (only_if (pt_debug os) (upd_mutex p (\<lambda>_ m. m\<lparr>tm_locked := fst ctx, tm_owner := snd ctx\<rparr>)))
       (set_waiter c False))"

definition ti_wait :: "'e pthread_ops \<Rightarrow> ('e ti_world, unit) cmd \<Rightarrow> nat \<Rightarrow> nat \<Rightarrow> ('e ti_world, int) cmd" where
  "ti_wait os others c p = bind (ti_wait_begin os oc_cond_wait c p) (\<lambda>ctx.
     seq (meanwhile others)
     (bind (pt_call (pt_cond_result os)) (\<lambda>ret. seq (ti_wait_end os ctx c p) (return ret))))"

definition ti_timedwait :: "'e pthread_ops \<Rightarrow> ('e ti_world, unit) cmd \<Rightarrow> nat \<Rightarrow> nat \<Rightarrow> ('e ti_world, int) cmd" where
  "ti_timedwait os others c p = bind (ti_wait_begin os oc_cond_timedwait c p) (\<lambda>ctx.
     seq (meanwhile others)
     (bind (pt_call (pt_cond_result os)) (\<lambda>ret. seq (ti_wait_end os ctx c p) (return ret))))"

definition ti_signal :: "'e pthread_ops \<Rightarrow> nat \<Rightarrow> ('e ti_world, int) cmd" where
  "ti_signal os c = the_cond c (\<lambda>cond.
     seq (update_ops os (tc_key cond) oc_cond_signal)
     (bind (get_key_name os (tc_key cond)) (\<lambda>name.
      seq (cond_check (tc_waiter cond) ''Signalling condition variable without waiter'') (return 0))))"

definition ti_broadcast :: "'e pthread_ops \<Rightarrow> nat \<Rightarrow> ('e ti_world, int) cmd" where
  "ti_broadcast os c = the_cond c (\<lambda>cond. seq (update_ops os (tc_key cond) oc_cond_broadcast) (return 0))"

definition ti_create_cond_key :: "string \<Rightarrow> ('e ti_world, nat) cmd" where
  "ti_create_cond_key name = append_key name ''cond''"

definition ti_init_cond :: "'e pthread_ops \<Rightarrow> nat \<Rightarrow> nat \<Rightarrow> u64 \<Rightarrow> ('e ti_world, nat) cmd" where
  "ti_init_cond os key memblock memblock_size = (let inplace = memblock_size \<ge> pt_sizeof_cond os in
     bind (if inplace then return memblock else new_address) (\<lambda>p.
     seq (modify (\<lambda>w. w\<lparr>tk_conds := (tk_conds w)(p \<mapsto>
            \<lparr>tc_key = key, tc_inplace = inplace, tc_waiter = False\<rparr>)\<rparr>))
     (seq (update_ops os key oc_cond_create)
     (seq (only_if (\<not> inplace) count_allocation) (return p)))))"

definition ti_destroy_cond :: "'e pthread_ops \<Rightarrow> nat \<Rightarrow> ('e ti_world, int) cmd" where
  "ti_destroy_cond os p = the_cond p (\<lambda>c.
     seq (update_ops os (tc_key c) oc_cond_destroy)
     (seq (modify (\<lambda>w. w\<lparr>tk_conds := (tk_conds w)(p := None)\<rparr>)) (return 0)))"

section \<open>Settings and statistics\<close>

definition ti_level :: "int \<Rightarrow> ('e ti_world, unit) cmd" where
  "ti_level level = modify (tk_op_level_update (\<lambda>_. level))"

definition ti_set_cond_checks :: "bool \<Rightarrow> ('e ti_world, unit) cmd" where
  "ti_set_cond_checks b = modify (tk_cond_checks_update (\<lambda>_. b))"

definition count_line :: "string \<Rightarrow> u64 \<Rightarrow> string" where
  "count_line name n = ''  '' @ name @ '': '' @ decimal (unat n) @ [CHR 0x0A]"

text \<open>The keys in alphabetical order; of keys with the same name the first is kept.\<close>

definition sorted_ops :: "'e ti_world \<Rightarrow> (string \<times> (ti_opcode \<Rightarrow> u64)) list" where
  "sorted_ops w = fold (\<lambda>(name, ops) m. fst (om_insert name ops m)) (zip (tk_keys w) (tk_ops_map w)) []"

definition ti_stats :: "'e pthread_ops \<Rightarrow> 'e ti_world \<Rightarrow> string" where
  "ti_stats os w =
     ''Totals:'' @ CHR 0x0A #
     concat (map (\<lambda>oc. if tk_total_ops w oc > 0 then count_line (ti_opstring oc) (tk_total_ops w oc) else [])
       ti_opcodes) @
     ''Total allocations: '' @ decimal (unat (tk_total_allocations w)) @ CHR 0x0A #
     ''Mutex contention: '' @ decimal (unat (tk_mutex_contention w)) @ CHR 0x0A #
     concat (map (\<lambda>(name, n). count_line name n) (pt_hash_order os (tk_contention_counts w))) @
     ''Per key:'' @ CHR 0x0A #
     concat (map (\<lambda>(name, ops). concat (map (\<lambda>oc. if ops oc \<noteq> 0
         then count_line (name @ '': '' @ ti_opstring oc) (ops oc) else []) ti_opcodes)) (sorted_ops w))"

section \<open>Programs over the service\<close>

text \<open>
  A command stays within a predicate if it holds whenever the command returns; a failed check ends
  the process.
\<close>

named_theorems stays_intro "rules that break up \<open>stays\<close> goals"

definition stays :: "('w \<Rightarrow> bool) \<Rightarrow> ('w, 'a) cmd \<Rightarrow> bool" where
  "stays I m \<longleftrightarrow> (\<forall>w. I w \<longrightarrow> wp m (\<lambda>_. I) (\<lambda>_ _. True) w)"

lemma staysI: "(\<And>w. I w \<Longrightarrow> wp m (\<lambda>_. I) (\<lambda>_ _. True) w) \<Longrightarrow> stays I m"
  by (simp add: stays_def)

lemma staysD: "stays I m \<Longrightarrow> I w \<Longrightarrow> wp m (\<lambda>_. I) (\<lambda>_ _. True) w"
  by (simp add: stays_def)

lemma stays_run: "stays I m \<Longrightarrow> I w \<Longrightarrow> m w = (Inr r, v) \<Longrightarrow> I v"
  by (drule (1) staysD) (simp add: wp_def)

lemma stays_atom [stays_intro]: "stays I (return a)" "stays I (throw e)" "stays I skip" "stays I (assert_that d msg P)"
  by (simp_all add: stays_def wp_simps)

lemma stays_modify: "(\<And>w. I w \<Longrightarrow> I (f w)) \<Longrightarrow> stays I (modify f)"
  by (simp add: stays_def wp_simps)

lemma stays_bind [stays_intro]:
  assumes "stays I m" and "\<And>a. stays I (k a)"
  shows "stays I (bind m k)"
proof (rule staysI)
  fix w assume "I w"
  with assms(1) have "wp m (\<lambda>_. I) (\<lambda>_ _. True) w" by (rule staysD)
  then show "wp (bind m k) (\<lambda>_. I) (\<lambda>_ _. True) w"
    unfolding wp_bind by (rule wp_mono) (use assms(2) in \<open>simp_all add: stays_def\<close>)
qed

lemma stays_seq [stays_intro]: "stays I m \<Longrightarrow> stays I n \<Longrightarrow> stays I (seq m n)"
  by (simp add: seq_def stays_bind)

lemma stays_block [stays_intro]:
  "stays I (block [])" "stays I m \<Longrightarrow> stays I (block ms) \<Longrightarrow> stays I (block (m # ms))"
  by (simp_all add: stays_atom stays_seq)

lemma stays_inspect [stays_intro]: "(\<And>v. stays I (b v)) \<Longrightarrow> stays I (inspect b)"
  by (simp add: stays_def wp_simps)

lemma stays_fetch [stays_intro]: "(\<And>x. stays I (k x)) \<Longrightarrow> stays I (fetch f k)"
  by (simp add: stays_def wp_simps)

lemma stays_conditional [stays_intro]:
  "stays I m \<Longrightarrow> stays I (only_if b m)" "stays I m \<Longrightarrow> stays I (when_st P m)"
  "stays I (n :: ('w, 'a) cmd) \<Longrightarrow> stays I n' \<Longrightarrow> stays I (if b then n else n')"
  by (simp_all add: stays_def wp_simps)

lemma stays_case_option [stays_intro]:
  "stays I m \<Longrightarrow> (\<And>a. stays I (f a)) \<Longrightarrow> stays I (case x of None \<Rightarrow> m | Some a \<Rightarrow> f a)"
  by (simp split: option.split)

lemma stays_case_prod [stays_intro]:
  "(\<And>a b. stays I (f a b)) \<Longrightarrow> stays I (case p of (a, b) \<Rightarrow> f a b)"
  by (simp add: split_beta)

lemma stays_Let [stays_intro]: "(\<And>x. stays I (k x)) \<Longrightarrow> stays I (Let v k)"
  by (simp add: Let_def)

text \<open>
  Programs of the threads of a process: the operations in any order and on any objects, chosen
  by the state, with a switch to another thread between any two of them. The settings stay as
  they are.
\<close>

definition discard :: "('w, 'a) cmd \<Rightarrow> ('w, unit) cmd" where
  "discard m = seq m skip"

lemma stays_discard: "stays I m \<Longrightarrow> stays I (discard m)"
  by (simp add: discard_def stays_intro)

inductive ti_program :: "'e pthread_ops \<Rightarrow> ('e ti_world, unit) cmd \<Rightarrow> bool" for os where
  nothing: "ti_program os skip"
| then_do: "ti_program os m \<Longrightarrow> ti_program os n \<Longrightarrow> ti_program os (seq m n)"
| choose: "(\<And>w. ti_program os (k w)) \<Longrightarrow> ti_program os (inspect k)"
| switch: "ti_program os (modify (tk_this_update (\<lambda>_. t)))"
| thread_key: "ti_program os (discard (ti_create_thread_key name))"
| mutex_key: "ti_program os (discard (ti_create_mutex_key name))"
| cond_key: "ti_program os (discard (ti_create_cond_key name))"
| create_thread: "ti_program os (discard (ti_create_thread os key))"
| run_thread: "ti_program os m \<Longrightarrow> ti_program os (discard (start_thread os p (seq m (return r))))"
| exit: "ti_program os (exit_thread os p r)"
| detach: "ti_program os (discard (ti_detach os p))"
| join: "ti_program os (discard (ti_join os p))"
| init_mutex: "ti_program os (discard (ti_init_mutex os key mem n))"
| destroy_mutex: "ti_program os (discard (ti_destroy_mutex os p))"
| lock: "ti_program os others \<Longrightarrow> ti_program os (discard (ti_mutex_lock os others p))"
| trylock: "ti_program os (discard (ti_mutex_trylock os p))"
| unlock: "ti_program os (discard (ti_mutex_unlock os p))"
| init_cond: "ti_program os (discard (ti_init_cond os key mem n))"
| destroy_cond: "ti_program os (discard (ti_destroy_cond os c))"
| wait: "ti_program os others \<Longrightarrow> ti_program os (discard (ti_wait os others c p))"
| timedwait: "ti_program os others \<Longrightarrow> ti_program os (discard (ti_timedwait os others c p))"
| signal: "ti_program os (discard (ti_signal os c))"
| broadcast: "ti_program os (discard (ti_broadcast os c))"

text \<open>
  What holds between operations when all are counted: every count of an operation is the sum of
  the counts of the keys, every mutex has a key, and, in a debug build that checks condition
  variables, the recorded owner of a mutex is the thread that holds it.
\<close>

definition counts_add_up :: "'e ti_world \<Rightarrow> bool" where
  "counts_add_up w \<longleftrightarrow> length (tk_ops_map w) = length (tk_keys w) \<and> tk_key_cnt w = length (tk_keys w) \<and>
     (\<forall>oc. tk_total_ops w oc = sum_list (map (\<lambda>ops. ops oc) (tk_ops_map w)))"

definition owner_known :: "'e pthread_ops \<Rightarrow> 'e ti_world \<Rightarrow> ti_mutex \<Rightarrow> bool" where
  "owner_known os w m \<longleftrightarrow> 0 < tm_key m \<and> tm_key m \<le> length (tk_keys w) \<and>
     (pt_debug os \<and> tk_cond_checks w \<longrightarrow> tm_owner m = tm_holder m \<and> (tm_holder m \<noteq> None \<longrightarrow> tm_locked m))"

definition ti_ok :: "'e pthread_ops \<Rightarrow> bool \<Rightarrow> 'e ti_world \<Rightarrow> bool" where
  "ti_ok os cc w \<longleftrightarrow> 2 \<le> tk_op_level w \<and> tk_cond_checks w = cc \<and> counts_add_up w \<and>
     (\<forall>p m. tk_mutexes w p = Some m \<longrightarrow> owner_known os w m)"

lemma counts_add_up_mutexes [simp]: "counts_add_up (w\<lparr>tk_mutexes := ms\<rparr>) = counts_add_up w"
  by (simp add: counts_add_up_def)

lemma sum_list_update_one:
  "i < length xs \<Longrightarrow> sum_list (map g (xs[i := x])) = sum_list (map g xs) - g (xs ! i) + (g x :: u64)"
  by (induction xs arbitrary: i) (auto split: nat.split simp: algebra_simps)

lemma counts_add_up_count:
  assumes "counts_add_up w" and "i < length (tk_keys w)"
  shows "counts_add_up (count_key i oc (w\<lparr>tk_total_ops := (tk_total_ops w)(oc := tk_total_ops w oc + 1)\<rparr>))"
  using assms by (auto simp: counts_add_up_def count_key_def sum_list_update_one)

lemma stays_update_ops [stays_intro]: "stays (ti_ok os cc) (update_ops os key oc)"
  using counts_add_up_count
  by (auto simp: stays_def ti_ok_def update_ops_def get_key_index_def wp_simps count_key_def owner_known_def)

lemma update_ops_frame:
  "wp (update_ops os key oc) (\<lambda>_ v. tk_mutexes v = tk_mutexes w \<and> tk_this v = tk_this w \<and>
      tk_keys v = tk_keys w \<and> tk_cond_checks v = tk_cond_checks w \<and> tk_conds v = tk_conds w) (\<lambda>_ _. True) w"
  by (simp add: update_ops_def get_key_index_def wp_simps count_key_def)

text \<open>An operation that touches neither keys nor counts nor mutexes.\<close>

lemma stays_apart:
  assumes "\<And>w. tk_op_level (f w) = tk_op_level w" and "\<And>w. tk_keys (f w) = tk_keys w"
    and "\<And>w. tk_key_cnt (f w) = tk_key_cnt w" and "\<And>w. tk_ops_map (f w) = tk_ops_map w"
    and "\<And>w. tk_total_ops (f w) = tk_total_ops w" and "\<And>w. tk_cond_checks (f w) = tk_cond_checks w"
    and "\<And>w. tk_mutexes (f w) = tk_mutexes w"
  shows "stays (ti_ok os cc) (modify f)"
  by (rule stays_modify) (simp add: ti_ok_def counts_add_up_def owner_known_def assms)

lemma stays_append_key [stays_intro]: "stays (ti_ok os cc) (append_key name kind)"
  by (auto simp: stays_def ti_ok_def append_key_def wp_simps counts_add_up_def owner_known_def intro: le_SucI)

lemma stays_pt_call [stays_intro]: "stays (ti_ok os cc) (pt_call f)"
  by (simp add: stays_def ti_ok_def pt_call_def wp_def counts_add_up_def owner_known_def split_beta)

lemma stays_count_allocation [stays_intro]: "stays (ti_ok os cc) count_allocation"
  unfolding count_allocation_def by (rule stays_apart) simp_all

lemma stays_new_address [stays_intro]: "stays (ti_ok os cc) new_address"
  by (simp add: stays_def ti_ok_def new_address_def wp_def counts_add_up_def owner_known_def)

lemma stays_cond_check [stays_intro]: "stays (ti_ok os cc) (cond_check b msg)"
  by (simp add: cond_check_def stays_intro)

lemma stays_get_key [stays_intro]: "stays (ti_ok os cc) (get_key_index os key)" "stays (ti_ok os cc) (get_key_name os key)"
  unfolding get_key_name_def get_key_index_def by (intro stays_intro)+

lemma stays_the_thread [stays_intro]: "(\<And>t. stays I (k t)) \<Longrightarrow> stays I (the_thread p k)"
  unfolding the_thread_def by (intro stays_intro) auto

lemma stays_the_mutex [stays_intro]: "(\<And>m. stays I (k m)) \<Longrightarrow> stays I (the_mutex p k)"
  unfolding the_mutex_def by (intro stays_intro) auto

lemma stays_the_cond [stays_intro]: "(\<And>c. stays I (k c)) \<Longrightarrow> stays I (the_cond p k)"
  unfolding the_cond_def by (intro stays_intro) auto

lemma stays_upd_thread [stays_intro]: "stays (ti_ok os cc) (upd_thread p f)"
  unfolding upd_thread_def by (rule stays_apart) simp_all

lemma stays_set_waiter [stays_intro]: "stays (ti_ok os cc) (set_waiter p b)"
  unfolding set_waiter_def by (rule stays_apart) simp_all

lemma stays_make_thread [stays_intro]: "stays (ti_ok os cc) (make_thread os key)"
  unfolding make_thread_def by (intro stays_intro stays_apart) simp_all

lemma stays_delete_thread [stays_intro]: "stays (ti_ok os cc) (delete_thread os p)"
  unfolding delete_thread_def by (intro stays_intro stays_apart) simp_all

lemma stays_thread_ops [stays_intro]:
  "stays (ti_ok os cc) (ti_create_thread os key)" "stays (ti_ok os cc) (ti_detach os p)"
  "stays (ti_ok os cc) (ti_join os p)" "stays (ti_ok os cc) (exit_thread os p r)"
  unfolding ti_create_thread_def ti_detach_def ti_join_def exit_thread_def
  by (intro stays_intro stays_apart; simp)+

lemma stays_start_thread: "stays (ti_ok os cc) m \<Longrightarrow> stays (ti_ok os cc) (start_thread os p (seq m (return r)))"
  unfolding start_thread_def by (intro stays_intro stays_apart) simp_all

lemma stays_create_key [stays_intro]:
  "stays (ti_ok os cc) (ti_create_thread_key name)" "stays (ti_ok os cc) (ti_create_mutex_key name)"
  "stays (ti_ok os cc) (ti_create_cond_key name)"
  unfolding ti_create_thread_key_def ti_create_mutex_key_def ti_create_cond_key_def by (intro stays_intro)+

lemma stays_init_cond [stays_intro]: "stays (ti_ok os cc) (ti_init_cond os key mem n)"
  unfolding ti_init_cond_def by (intro stays_intro stays_apart; simp)

lemma stays_cond_ops [stays_intro]:
  "stays (ti_ok os cc) (ti_destroy_cond os c)" "stays (ti_ok os cc) (ti_signal os c)" "stays (ti_ok os cc) (ti_broadcast os c)"
  unfolding ti_destroy_cond_def ti_signal_def ti_broadcast_def by (intro stays_intro stays_apart; simp)+

lemma stays_destroy_mutex [stays_intro]: "stays (ti_ok os cc) (ti_destroy_mutex os p)"
  unfolding ti_destroy_mutex_def
  by (intro stays_intro stays_modify) (auto simp: ti_ok_def counts_add_up_def owner_known_def)

lemma stays_meanwhile [stays_intro]: "stays (ti_ok os cc) others \<Longrightarrow> stays (ti_ok os cc) (meanwhile others)"
  unfolding meanwhile_def by (intro stays_intro stays_apart) simp_all

lemma ti_ok_put:
  assumes "ti_ok os cc w" and "owner_known os w m" and "tk_mutexes w = ms"
  shows "ti_ok os cc (w\<lparr>tk_mutexes := ms(p \<mapsto> m)\<rparr>)"
  using assms by (auto simp: ti_ok_def counts_add_up_def owner_known_def)

lemma update_ops_valid_key:
  assumes "ti_ok os cc w"
  shows "wp (update_ops os key oc) (\<lambda>_ v. ti_ok os cc v \<and> 0 < key \<and> key \<le> length (tk_keys v) \<and>
    tk_mutexes v = tk_mutexes w) (\<lambda>_ _. True) w"
  using staysD [OF stays_update_ops assms, of key oc] update_ops_frame [of os key oc w] assms
  by (auto simp: update_ops_def get_key_index_def wp_simps ti_ok_def count_key_def)

text \<open>Creating a mutex and counting it commute, so that a mutex has a key from the start.\<close>

lemma update_ops_put:
  "update_ops os key oc (w\<lparr>tk_mutexes := ms\<rparr>) =
     (case update_ops os key oc w of (r, v) \<Rightarrow> (r, v\<lparr>tk_mutexes := ms\<rparr>))"
  by (simp add: update_ops_def get_key_index_def count_key_def fetch_def inspect_def seq_def bind_def modify_def
      skip_def return_def throw_def)

lemma stays_init_mutex [stays_intro]: "stays (ti_ok os cc) (ti_init_mutex os key mem n)"
proof -
  have put: "stays (ti_ok os cc) (seq (modify (\<lambda>w. w\<lparr>tk_mutexes := (tk_mutexes w)(p \<mapsto> \<lparr>tm_key = key, tm_inplace = b,
            tm_locked = False, tm_owner = None, tm_holder = None\<rparr>)\<rparr>))
     (seq (update_ops os key oc_mutex_create) m))" if "stays (ti_ok os cc) m" for p b and m :: "('a ti_world, nat) cmd"
  proof (rule staysI)
    fix w assume ok: "ti_ok os cc w"
    show "wp (seq (modify (\<lambda>w. w\<lparr>tk_mutexes := (tk_mutexes w)(p \<mapsto> \<lparr>tm_key = key, tm_inplace = b,
            tm_locked = False, tm_owner = None, tm_holder = None\<rparr>)\<rparr>))
     (seq (update_ops os key oc_mutex_create) m)) (\<lambda>_. ti_ok os cc) (\<lambda>_ _. True) w"
      using update_ops_valid_key [OF ok, of key oc_mutex_create] that
      by (auto simp: wp_simps wp_def [of "update_ops os key oc_mutex_create"] update_ops_put owner_known_def
          split: prod.splits sum.splits intro!: staysD [OF that] ti_ok_put)
  qed
  show ?thesis unfolding ti_init_mutex_def seq_def
    by (intro stays_intro put [unfolded seq_def])
qed

text \<open>Taking the native mutex.\<close>

lemma wp_the_mutex [wp_simps]:
  "wp (the_mutex p k) Q E w = (case tk_mutexes w p of None \<Rightarrow> E (Undefined ''mutex'') w | Some m \<Rightarrow> wp (k m) Q E w)"
  by (simp add: the_mutex_def wp_simps split: option.split)

lemma wp_upd_mutex [wp_simps]:
  "wp (upd_mutex p f) Q E w =
     Q () (w\<lparr>tk_mutexes := (tk_mutexes w)(p := map_option (f (tk_this w)) (tk_mutexes w p))\<rparr>)"
  by (simp add: upd_mutex_def wp_simps)

lemma take_and_record:
  assumes "ti_ok os cc w"
  shows "wp (bind (native_trylock p) (\<lambda>ret. seq (record_owner os p ret) (return ret)))
    (\<lambda>_. ti_ok os cc) (\<lambda>_ _. True) w"
  using assms
  by (auto simp: native_trylock_def record_owner_def wp_simps EBUSY_def ti_ok_def counts_add_up_def owner_known_def
      split: option.split)

lemma stays_trylock [stays_intro]: "stays (ti_ok os cc) (ti_mutex_trylock os p)"
  unfolding ti_mutex_trylock_def
  by (intro stays_the_mutex stays_seq stays_update_ops staysI take_and_record)

lemma stays_record_contention [stays_intro]:
  "stays (ti_ok os cc) (modify (tk_mutex_contention_update f))"
  "stays (ti_ok os cc) (modify (tk_contention_counts_update g))"
  by (rule stays_apart; simp)+

lemma lock_split:
  "bind (native_trylock p) (\<lambda>ret. bind (if ret = EBUSY then m else return ret) (\<lambda>ret. seq (record_owner os p ret) (return ret))) w =
   (if (\<exists>mu. tk_mutexes w p = Some mu \<and> tm_holder mu \<noteq> None)
    then bind m (\<lambda>ret. seq (record_owner os p ret) (return ret)) w
    else bind (native_trylock p) (\<lambda>ret. seq (record_owner os p ret) (return ret)) w)"
  by (auto simp: native_trylock_def the_mutex_def bind_def seq_def fetch_def inspect_def return_def throw_def upd_mutex_def
      modify_def EBUSY_def split: option.split)

lemma stays_lock_blocked: 
  assumes "stays (ti_ok os cc) others"
  shows "stays (ti_ok os cc) (bind (native_lock others p) (\<lambda>ret. seq (record_owner os p ret) (return ret)))"
proof -
  have eq: "bind (native_lock others p) (\<lambda>ret. seq (record_owner os p ret) (return ret)) =
    seq (meanwhile others) (\<lambda>w. bind (bind (native_trylock p) (\<lambda>r. if r = 0 then return 0 else throw (Blocked ''pthread_mutex_lock'')))
      (\<lambda>ret. seq (record_owner os p ret) (return ret)) w)"
    by (simp add: native_lock_def bind_def seq_def fun_eq_iff split: prod.split sum.split)
  show ?thesis unfolding eq
  proof (rule stays_seq [OF stays_meanwhile [OF assms]], rule staysI)
    fix w assume "ti_ok os cc w"
    from take_and_record [OF this, of p]
    show "wp (bind (bind (native_trylock p) (\<lambda>r. if r = 0 then return 0 else throw (Blocked ''pthread_mutex_lock'')))
      (\<lambda>ret. seq (record_owner os p ret) (return ret))) (\<lambda>_. ti_ok os cc) (\<lambda>_ _. True) w"
      by (auto simp: wp_simps native_trylock_def record_owner_def EBUSY_def split: option.splits if_splits)
  qed
qed

lemma stays_lock: "stays (ti_ok os cc) others \<Longrightarrow> stays (ti_ok os cc) (ti_mutex_lock os others p)"
  unfolding ti_mutex_lock_def
proof (intro stays_the_mutex stays_seq stays_update_ops)
  fix m assume others: "stays (ti_ok os cc) others"
  let ?rec = "\<lambda>ret. seq (record_owner os p ret) (return ret)"
  let ?m = "seq (modify (tk_mutex_contention_update (\<lambda>n. n + 1)))
    (bind (get_key_name os (tm_key m)) (\<lambda>name.
     seq (modify (tk_contention_counts_update (add_count name))) (native_lock others p)))"
  have "bind ?m ?rec = seq (modify (tk_mutex_contention_update (\<lambda>n. n + 1)))
    (bind (get_key_name os (tm_key m)) (\<lambda>name.
     seq (modify (tk_contention_counts_update (add_count name))) (bind (native_lock others p) ?rec)))"
    by (simp add: bind_def seq_def fun_eq_iff split: prod.split sum.split)
  then have blocked: "stays (ti_ok os cc) (bind ?m ?rec)"
    by (simp only:) (intro stays_intro stays_lock_blocked others)
  show "stays (ti_ok os cc) (bind (native_trylock p) (\<lambda>ret. bind (if ret = EBUSY then ?m else return ret) ?rec))"
  proof (rule staysI)
    fix w assume "ti_ok os cc w"
    then show "wp (bind (native_trylock p) (\<lambda>ret. bind (if ret = EBUSY then ?m else return ret) ?rec))
      (\<lambda>_. ti_ok os cc) (\<lambda>_ _. True) w"
      using take_and_record [of os cc w p] staysD [OF blocked, of w] by (simp add: wp_def lock_split)
  qed
qed

lemma ti_ok_release:
  assumes "ti_ok os cc w" and "tk_mutexes w p = Some m"
  shows "ti_ok os cc (w\<lparr>tk_mutexes := (tk_mutexes w)(p \<mapsto> m\<lparr>tm_owner := None, tm_holder := None\<rparr>)\<rparr>)"
    and "ti_ok os cc (w\<lparr>tk_mutexes := (tk_mutexes w)(p \<mapsto> m\<lparr>tm_locked := b, tm_owner := None, tm_holder := None\<rparr>)\<rparr>)"
    and "\<not> pt_debug os \<Longrightarrow> ti_ok os cc (w\<lparr>tk_mutexes := (tk_mutexes w)(p \<mapsto> m\<lparr>tm_holder := None\<rparr>)\<rparr>)"
  using assms by (auto intro!: ti_ok_put simp: ti_ok_def owner_known_def)

lemma stays_unlock [stays_intro]: "stays (ti_ok os cc) (ti_mutex_unlock os p)"
proof -
  have release: "wp (seq (only_if (pt_debug os) (upd_mutex p (\<lambda>_ m. m\<lparr>tm_owner := None\<rparr>)))
     (bind (native_unlock p) (\<lambda>ret. seq (update_ops os key oc) (return ret)))) (\<lambda>_. ti_ok os cc) (\<lambda>_ _. True) w"
    if "ti_ok os cc w" for w key oc
    using ti_ok_release [OF that] staysD [OF stays_update_ops, of os cc _ key oc]
    by (auto simp: wp_simps wp_fun native_unlock_def split: option.split)
  show ?thesis unfolding ti_mutex_unlock_def
    by (intro stays_the_mutex stays_seq [OF stays_atom(4)] staysI release)
qed

text \<open>A wait begins with the mutex held and gives it up; it ends when the mutex is taken again.\<close>

lemma wp_get_key_name:
  "wp (get_key_name os key) Q E w = (if 0 < key \<and> key - 1 < length (tk_keys w) then Q (tk_keys w ! (key - 1)) w
     else E (if pt_debug os then Assertion ''index < key_vec.size()'' else Undefined ''key_vec'') w)"
  by (simp add: get_key_name_def get_key_index_def wp_simps)

definition saved_owner :: "'e pthread_ops \<Rightarrow> bool \<Rightarrow> bool \<times> nat option \<Rightarrow> 'e ti_world \<Rightarrow> bool" where
  "saved_owner os cc ctx w \<longleftrightarrow> ti_ok os cc w \<and> (pt_debug os \<and> cc \<longrightarrow> ctx = (True, Some (tk_this w)))"

lemma wait_end_ok: "saved_owner os cc ctx w \<Longrightarrow> wp (ti_wait_end os ctx c p) (\<lambda>_. ti_ok os cc) (\<lambda>_ _. True) w"
  by (auto simp: saved_owner_def ti_wait_end_def native_trylock_def set_waiter_def wp_simps EBUSY_def ti_ok_def
      counts_add_up_def owner_known_def split: option.split)

lemma give_up_mutex:
  assumes "ti_ok os cc w"
  shows "wp (the_mutex p (\<lambda>m.
      seq (only_if (pt_debug os) (upd_mutex p (\<lambda>_ m. m\<lparr>tm_locked := False, tm_owner := None\<rparr>)))
      (bind (native_unlock p) (\<lambda>_. return (tm_locked m, tm_owner m))))) (saved_owner os cc) (\<lambda>_ _. True) w"
proof (cases "tk_mutexes w p")
  case None
  then show ?thesis by (simp add: wp_simps)
next
  case (Some m)
  have known: "owner_known os w m" and checks: "tk_cond_checks w = cc"
    using assms Some by (auto simp: ti_ok_def)
  show ?thesis
    using Some ti_ok_release [OF assms Some] known checks
    by (cases "pt_debug os") (simp_all add: wp_simps native_unlock_def saved_owner_def owner_known_def)
qed

lemma probe_mutex:
  assumes "ti_ok os cc w" and "\<And>v. ti_ok os cc v \<Longrightarrow> wp k Q (\<lambda>_ _. True) v"
  shows "wp (bind (native_trylock p) (\<lambda>r. bind (get_key_name os key) (\<lambda>name.
      seq (cond_check (r \<noteq> 0) msg) k))) Q (\<lambda>_ _. True) w"
proof -
  have "ti_ok os cc (w\<lparr>tk_mutexes := (tk_mutexes w)(p \<mapsto> m\<lparr>tm_holder := t\<rparr>)\<rparr>)"
    if "\<not> tk_cond_checks w" and "tk_mutexes w p = Some m" for m t
    using that assms(1) by (auto simp: ti_ok_def owner_known_def intro!: ti_ok_put)
  then show ?thesis
    using assms
    by (auto simp: wp_simps wp_get_key_name native_trylock_def cond_check_def EBUSY_def split: option.split)
qed

lemma wait_begin_ok:
  assumes "ti_ok os cc w"
  shows "wp (ti_wait_begin os oc c p) (saved_owner os cc) (\<lambda>_ _. True) w"
proof -
  have rest: "wp (seq (set_waiter c True) (seq (update_ops os key oc) (the_mutex p (\<lambda>m.
      seq (only_if (pt_debug os) (upd_mutex p (\<lambda>_ m. m\<lparr>tm_locked := False, tm_owner := None\<rparr>)))
      (bind (native_unlock p) (\<lambda>_. return (tm_locked m, tm_owner m))))))) (saved_owner os cc) (\<lambda>_ _. True) v"
    if "ti_ok os cc v" for v key
    unfolding wp_seq
    by (rule wp_mono [OF staysD [OF stays_set_waiter that]],
        erule wp_mono [OF staysD [OF stays_update_ops]]) (simp_all add: give_up_mutex)
  show ?thesis
    unfolding ti_wait_begin_def the_cond_def
    by (simp add: wp_fetch wp_throw split: option.split)
       (intro allI impI probe_mutex [OF assms] rest)
qed

lemma stays_wait:
  assumes "stays (ti_ok os cc) others"
  shows "stays (ti_ok os cc) (ti_wait os others c p)" "stays (ti_ok os cc) (ti_timedwait os others c p)"
proof -
  have kept: "wp (meanwhile others) (\<lambda>_. saved_owner os cc ctx) (\<lambda>_ _. True) v"
    if "saved_owner os cc ctx v" for ctx v
  proof -
    have ok: "ti_ok os cc v" using that by (simp add: saved_owner_def)
    from that show ?thesis
      unfolding meanwhile_def wp_fetch wp_seq
      by (intro wp_mono [OF staysD [OF assms ok]])
         (auto simp: wp_modify saved_owner_def ti_ok_def counts_add_up_def owner_known_def)
  qed
  have called: "wp (pt_call f) (\<lambda>_. saved_owner os cc ctx) (\<lambda>_ _. True) v" if "saved_owner os cc ctx v"
    for ctx v and f :: "'a \<Rightarrow> int \<times> 'a"
    using that by (auto simp: pt_call_def wp_def split_beta saved_owner_def ti_ok_def counts_add_up_def owner_known_def)
  have rest: "wp (seq (meanwhile others) (bind (pt_call (pt_cond_result os)) (\<lambda>ret. seq (ti_wait_end os ctx c p) (return ret))))
      (\<lambda>_. ti_ok os cc) (\<lambda>_ _. True) v" if "saved_owner os cc ctx v" for ctx v
    unfolding wp_seq wp_bind
    by (rule wp_mono [OF kept [OF that]], erule wp_mono [OF called])
       (simp_all add: wp_fun wait_end_ok)
  have "stays (ti_ok os cc) (bind (ti_wait_begin os oc c p) (\<lambda>ctx. seq (meanwhile others)
      (bind (pt_call (pt_cond_result os)) (\<lambda>ret. seq (ti_wait_end os ctx c p) (return ret)))))" for oc
    by (rule staysI, subst wp_bind, rule wp_mono [OF wait_begin_ok]) (auto intro: rest)
  then show "stays (ti_ok os cc) (ti_wait os others c p)" "stays (ti_ok os cc) (ti_timedwait os others c p)"
    by (simp_all add: ti_wait_def ti_timedwait_def)
qed

lemma stays_program: "ti_program os m \<Longrightarrow> stays (ti_ok os cc) m"
proof (induction rule: ti_program.induct)
  case (switch t)
  then show ?case by (intro stays_apart) simp_all
qed (auto intro!: stays_intro stays_discard stays_lock stays_wait stays_start_thread)

section \<open>Properties\<close>

text \<open>A process at its start: static objects are zero, the main thread is registered, then the settings are made.\<close>

definition static_world :: "nat \<Rightarrow> 'e \<Rightarrow> 'e ti_world" where
  "static_world t e = \<lparr>tk_keys = [], tk_key_cnt = 0, tk_ops_map = [], tk_total_ops = (\<lambda>_. 0),
     tk_total_allocations = 0, tk_mutex_contention = 0, tk_contention_counts = [], tk_op_level = 0,
     tk_cond_checks = False, tk_threads = (\<lambda>_. None), tk_mutexes = (\<lambda>_. None), tk_conds = (\<lambda>_. None),
     tk_next = 1, tk_self = (\<lambda>_. None), tk_this = t, tk_env = e\<rparr>"

definition start_process :: "'e pthread_ops \<Rightarrow> int \<Rightarrow> bool \<Rightarrow> ('e ti_world, unit) cmd" where
  "start_process os level checks =
     block [main_thread_initializer os, ti_level level, ti_set_cond_checks checks]"

lemma start_process_ok:
  assumes "2 \<le> level"
  shows "wp (start_process os level cc) (\<lambda>_. ti_ok os cc) never (static_world t e)"
  using assms
  by (simp add: start_process_def main_thread_initializer_def append_key_def make_thread_def new_address_def
      update_ops_def static_world_def ti_level_def ti_set_cond_checks_def wp_simps wp_def [of "\<lambda>w. (Inr (tk_next w), _ w)"]
      ti_ok_def counts_add_up_def)

lemma reached_ok:
  assumes "2 \<le> level" and "ti_program os m" and "seq (start_process os level cc) m (static_world t e) = (Inr (), w)"
  shows "ti_ok os cc w"
proof -
  have "wp (seq (start_process os level cc) m) (\<lambda>_. ti_ok os cc) (\<lambda>_ _. True) (static_world t e)"
    unfolding wp_seq
    by (rule wp_mono [OF start_process_ok [OF assms(1)]]) (simp_all add: staysD [OF stays_program [OF assms(2)]])
  then show ?thesis using assms(3) by (rule wp_run)
qed

text \<open>
  C39. When operations are counted per key, then after any program of any threads the total count of
  every operation is the sum of its counts over all keys.
\<close>

theorem thread_counts_add_up:
  assumes "2 \<le> level" and "ti_program os m" and "seq (start_process os level cc) m (static_world t e) = (Inr (), w)"
  shows "tk_total_ops w oc = (\<Sum>ops\<leftarrow>tk_ops_map w. ops oc) \<and> length (tk_ops_map w) = length (tk_keys w)"
  using reached_ok [OF assms] by (simp add: ti_ok_def counts_add_up_def)

text \<open>
  C38. In a debug build that checks condition variables, after any program of any threads, with waits
  in which other threads run: a thread that holds a mutex can unlock it, after which it is free; if
  any other thread tries, the process stops at an assertion and the mutex stays locked.
\<close>

theorem unlock_checked:
  assumes "2 \<le> level" and "ti_program os m" and "seq (start_process os level True) m (static_world t e) = (Inr (), w)"
    and "pt_debug os" and "tk_mutexes w p = Some mu"
  shows "(tm_holder mu = Some (tk_this w) \<longrightarrow> (\<exists>v mu'. ti_mutex_unlock os p w = (Inr 0, v) \<and>
      tk_mutexes v p = Some mu' \<and> tm_holder mu' = None \<and> tm_owner mu' = None)) \<and>
    (tm_holder mu \<noteq> Some (tk_this w) \<longrightarrow> (\<exists>msg. ti_mutex_unlock os p w = (Inl (Assertion msg), w)))"
proof -
  have "owner_known os w mu" and "tk_cond_checks w" and "counts_add_up w"
    using reached_ok [OF assms(1-3)] assms(5) by (auto simp: ti_ok_def)
  with assms(4,5) show ?thesis
    by (auto simp: ti_mutex_unlock_def the_mutex_def native_unlock_def upd_mutex_def update_ops_def get_key_index_def
        owner_known_def count_key_def fetch_def inspect_def seq_def bind_def return_def throw_def assert_that_def
        only_if_def modify_def skip_def)
qed

text \<open>Two threads of a process with one mutex and one condition variable.\<close>

definition plain_pthreads :: "unit pthread_ops" where
  "plain_pthreads = \<lparr>pt_debug = True, pt_create = \<lambda>e. ((0, 7), e), pt_detach = \<lambda>_ e. (0, e),
     pt_join = \<lambda>_ e. ((0, 0), e), pt_setschedparam = \<lambda>_ _ _ e. (0, e), pt_getschedparam = \<lambda>_ e. ((0, 0, 0), e),
     pt_sizeof_mutex = 64, pt_sizeof_cond = 64, pt_cond_result = \<lambda>e. (0, e), pt_hash_order = id\<rparr>"

definition make_pair :: "(unit ti_world, unit) cmd" where
  "make_pair = block [discard (ti_create_mutex_key ''m''), discard (ti_create_cond_key ''c''),
     discard (ti_init_mutex plain_pthreads 2 0 0), discard (ti_init_cond plain_pthreads 3 0 0)]"

definition wait_and_wake :: "(unit ti_world, unit) cmd" where
  "wait_and_wake = block [make_pair, discard (ti_mutex_lock plain_pthreads skip 2),
     discard (ti_wait plain_pthreads (block [modify (tk_this_update (\<lambda>_. 6)),
         discard (ti_mutex_lock plain_pthreads skip 2), discard (ti_signal plain_pthreads 3),
         discard (ti_mutex_unlock plain_pthreads 2)]) 3 2)]"

lemmas ti_run_defs = start_process_def main_thread_initializer_def append_key_def make_thread_def new_address_def
  update_ops_def static_world_def ti_level_def ti_set_cond_checks_def discard_def ti_create_mutex_key_def
  ti_create_cond_key_def ti_init_mutex_def ti_init_cond_def ti_mutex_lock_def ti_wait_def ti_wait_begin_def
  ti_wait_end_def ti_signal_def ti_mutex_unlock_def meanwhile_def native_trylock_def native_unlock_def native_lock_def
  record_owner_def get_key_name_def get_key_index_def count_key_def count_allocation_def cond_check_def set_waiter_def
  the_mutex_def the_cond_def upd_mutex_def pt_call_def plain_pthreads_def make_pair_def EBUSY_def
  fetch_def inspect_def seq_def bind_def return_def throw_def assert_that_def only_if_def when_st_def modify_def skip_def

lemma program_block:
  "ti_program os (block [])" "ti_program os m \<Longrightarrow> ti_program os (block ms) \<Longrightarrow> ti_program os (block (m # ms))"
  by (simp_all add: ti_program.nothing ti_program.then_do)

lemma wait_and_wake_program: "ti_program plain_pthreads wait_and_wake"
  unfolding wait_and_wake_def make_pair_def by (intro program_block ti_program.intros)

lemma wait_and_wake_runs:
  "\<exists>w mu. seq (start_process plain_pthreads 2 True) wait_and_wake (static_world 5 ()) = (Inr (), w) \<and>
    tk_total_ops w oc_mutex_lock = 2 \<and> tk_mutexes w 2 = Some mu \<and> tm_holder mu = Some 5 \<and> tk_this w = 5"
  by (simp add: wait_and_wake_def ti_run_defs)

theorem thread_counts_add_up_witness:
  "\<exists>w. seq (start_process plain_pthreads 2 True) wait_and_wake (static_world 5 ()) = (Inr (), w) \<and>
    (\<Sum>ops\<leftarrow>tk_ops_map w. ops oc_mutex_lock) = 2"
  using wait_and_wake_runs thread_counts_add_up [OF _ wait_and_wake_program, of 2 True 5 "()" _ oc_mutex_lock] by auto

theorem unlock_checked_witness:
  "\<exists>w v. seq (start_process plain_pthreads 2 True) wait_and_wake (static_world 5 ()) = (Inr (), w) \<and>
    ti_mutex_unlock plain_pthreads 2 w = (Inr 0, v)"
proof -
  have "pt_debug plain_pthreads" by (simp add: plain_pthreads_def)
  then show ?thesis
    using wait_and_wake_runs unlock_checked [OF _ wait_and_wake_program, of 2 5 "()" _ 2] by fastforce
qed

text \<open>
  Whether a thread waits on a condition variable is one bit. When two threads wait and one of them
  returns, the bit is cleared, and the next signal stops the process although the other still waits.
\<close>

lemma second_waiter_forgotten:
  "\<exists>w. seq (start_process plain_pthreads 2 True) (block [make_pair, discard (ti_mutex_lock plain_pthreads skip 2),
     discard (ti_wait plain_pthreads (block [modify (tk_this_update (\<lambda>_. 6)),
         discard (ti_mutex_lock plain_pthreads skip 2),
         discard (ti_wait plain_pthreads (block [modify (tk_this_update (\<lambda>_. 7)), discard (ti_signal plain_pthreads 3)]) 3 2),
         discard (ti_signal plain_pthreads 3)]) 3 2)]) (static_world 5 ()) =
    (Inl (Assertion ''Signalling condition variable without waiter''), w)"
  by (simp add: ti_run_defs)

end
