(* ===== verification/Sim_Tls.thy ===== *)
theory Sim_Tls
  imports Service_Callbacks
begin

text \<open>
  The TLS service of the simulator (\<^verbatim>\<open>dbsim/db_tls.cpp\<close>): a stream on a socket with a simulated
  handshake, short reads and writes, renegotiation and errors. The socket and the random numbers
  are parameters (\<open>sock_ops\<close>); streams live in a store that is addressed by pointers.
\<close>

section \<open>Streams\<close>

datatype stream_state = ts_initialized | ts_client_handshake | ts_server_handshake | ts_idle
  | ts_want_read | ts_want_write

record db_stream =
  ds_fd :: int
  ds_state :: stream_state
  ds_last_error :: int
  ds_mode :: int
  ds_bytes_read :: u64
  ds_bytes_written :: u64
  ds_is_blocking :: bool

text \<open>
  \<open>sk_nonblock\<close>: \<^verbatim>\<open>fcntl(fd, F_GETFL)\<close> has \<^verbatim>\<open>O_NONBLOCK\<close>. \<open>sk_send\<close> gives the result and, if it is -1,
  the error number; \<open>sk_read\<close> also the bytes. \<open>sk_rand\<close> is \<^verbatim>\<open>rand()\<close>.
\<close>

record 'e sock_ops =
  sk_debug :: bool
  sk_nonblock :: "int \<Rightarrow> 'e \<Rightarrow> bool"
  sk_send :: "int \<Rightarrow> string \<Rightarrow> 'e \<Rightarrow> (int \<times> int) \<times> 'e"
  sk_read :: "int \<Rightarrow> u64 \<Rightarrow> 'e \<Rightarrow> (int \<times> int \<times> string) \<times> 'e"
  sk_rand :: "'e \<Rightarrow> nat \<times> 'e"
  sk_strerror :: "int \<Rightarrow> string"

definition EINTR :: int where
  "EINTR = 4"

definition EAGAIN :: int where
  "EAGAIN = 11"

definition EPROTO :: int where
  "EPROTO = 71"

text \<open>One stream at work: the stream, \<^verbatim>\<open>errno\<close>, and the environment.\<close>

record 'e stream_world =
  sw_stream :: db_stream
  sw_errno :: int
  sw_env :: 'e

abbreviation upd_stream :: "(db_stream \<Rightarrow> db_stream) \<Rightarrow> ('e stream_world, unit) cmd" where
  "upd_stream f \<equiv> modify (sw_stream_update f)"

definition make_stream :: "'e sock_ops \<Rightarrow> int \<Rightarrow> int \<Rightarrow> 'e \<Rightarrow> db_stream" where
  "make_stream os fd mode e = \<lparr>ds_fd = fd, ds_state = ts_initialized, ds_last_error = 0, ds_mode = mode,
     ds_bytes_read = 0, ds_bytes_written = 0, ds_is_blocking = \<not> sk_nonblock os fd e\<rparr>"

definition random_below :: "'e sock_ops \<Rightarrow> nat \<Rightarrow> ('e stream_world, bool) cmd" where
  "random_below os n = (\<lambda>w. let (r, e) = sk_rand os (sw_env w) in (Inr (r mod n = 0), w\<lparr>sw_env := e\<rparr>))"

definition stream_send :: "'e sock_ops \<Rightarrow> string \<Rightarrow> ('e stream_world, int) cmd" where
  "stream_send os buf = (\<lambda>w. let ((r, err), e) = sk_send os (ds_fd (sw_stream w)) buf (sw_env w) in
     (Inr r, w\<lparr>sw_env := e, sw_errno := if r = -1 then err else sw_errno w\<rparr>))"

definition stream_recv :: "'e sock_ops \<Rightarrow> u64 \<Rightarrow> ('e stream_world, int \<times> string) cmd" where
  "stream_recv os n = (\<lambda>w. let ((r, err, buf), e) = sk_read os (ds_fd (sw_stream w)) n (sw_env w) in
     (Inr (r, buf), w\<lparr>sw_env := e, sw_errno := if r = -1 then err else sw_errno w\<rparr>))"

text \<open>Errors and short transfers are simulated on non-blocking streams only, in modes 2 and 3.\<close>

definition simulates :: "int \<Rightarrow> 'e stream_world \<Rightarrow> bool" where
  "simulates level w \<longleftrightarrow> \<not> (ds_is_blocking (sw_stream w) \<or> ds_mode (sw_stream w) < level)"

definition determine_count :: "'e sock_ops \<Rightarrow> u64 \<Rightarrow> u64 \<Rightarrow> ('e stream_world, u64) cmd" where
  "determine_count os short count = branch (simulates 2)
     (bind (random_below os 100) (\<lambda>b. return (if b then min short count else count)))
     (return count)"

definition determine_read_count :: "'e sock_ops \<Rightarrow> u64 \<Rightarrow> ('e stream_world, u64) cmd" where
  "determine_read_count os = determine_count os 42"

definition determine_write_count :: "'e sock_ops \<Rightarrow> u64 \<Rightarrow> ('e stream_world, u64) cmd" where
  "determine_write_count os = determine_count os 43"

text \<open>The simulated interruption returns the error number itself, which is positive.\<close>

definition do_read :: "'e sock_ops \<Rightarrow> u64 \<Rightarrow> ('e stream_world, int \<times> string) cmd" where
  "do_read os max_count = branch (simulates 3)
     (bind (random_below os 1000) (\<lambda>b. if b then return (EINTR, []) else stream_recv os max_count))
     (stream_recv os max_count)"

definition do_write :: "'e sock_ops \<Rightarrow> string \<Rightarrow> ('e stream_world, int) cmd" where
  "do_write os buf = branch (simulates 3)
     (bind (random_below os 1000) (\<lambda>b. if b then return EINTR else stream_send os buf))
     (stream_send os buf)"

definition map_success :: "'e sock_ops \<Rightarrow> int \<Rightarrow> ('e stream_world, tls_status \<times> u64) cmd" where
  "map_success os result = branch (simulates 2)
     (bind (random_below os 1000) (\<lambda>b.
        if b then seq (upd_stream (ds_state_update (\<lambda>_. ts_want_read))) (return (tls_want_read, word_of_int result))
        else bind (random_below os 1000) (\<lambda>b.
        if b then seq (upd_stream (ds_state_update (\<lambda>_. ts_want_write))) (return (tls_want_write, word_of_int result))
        else return (tls_success, word_of_int result))))
     (return (tls_success, word_of_int result))"

definition map_result :: "'e sock_ops \<Rightarrow> int \<Rightarrow> ('e stream_world, tls_status \<times> u64) cmd" where
  "map_result os result =
     (if result > 0 then map_success os result
      else if result = 0 then return (tls_eof, 0)
      else branch (\<lambda>w. sw_errno w = EAGAIN) (return (tls_want_read, 0))
        (seq (modify (\<lambda>w. w\<lparr>sw_stream := (sw_stream w)\<lparr>ds_last_error := sw_errno w\<rparr>\<rparr>))
          (return (tls_error, 0))))"

definition clear_error :: "('e stream_world, unit) cmd" where
  "clear_error = upd_stream (ds_last_error_update (\<lambda>_. 0))"

section \<open>Handshake\<close>

definition handle_handshake_read :: "'e sock_ops \<Rightarrow> string \<Rightarrow> ('e stream_world, tls_status) cmd" where
  "handle_handshake_read os expect =
     seq (assert_that (sk_debug os) ''strlen(expect) >= 4'' (\<lambda>_. length expect \<ge> 4))
     (bind (stream_recv os 4) (\<lambda>(n, buf).
      seq (only_if (n > 0) (upd_stream (ds_bytes_read_update (\<lambda>b. b + word_of_int n))))
      (fetch sw_errno (\<lambda>err.
        if n = -1 \<and> err = EAGAIN then return tls_want_read
        else if n = 0 then return tls_eof
        else if n \<noteq> 4 \<or> buf \<noteq> take 4 expect
          then seq (upd_stream (ds_last_error_update (\<lambda>_. EPROTO))) (return tls_error)
        else return tls_success))))"

text \<open>
  The handshake runs in up to three blocks, each for one state of the stream. A block gives the
  status to return, and tells whether it ran: a non-blocking stream then returns. The status is
  not initialized, hence \<open>None\<close> at first.
\<close>

definition hs_send :: "'e sock_ops \<Rightarrow> string \<Rightarrow> stream_state \<Rightarrow> tls_status option \<Rightarrow>
    ('e stream_world, bool \<times> tls_status option) cmd" where
  "hs_send os word waiting ret = branch (\<lambda>w. ds_state (sw_stream w) = ts_initialized)
     (seq (stream_send os word)
       (seq (upd_stream (\<lambda>s. s\<lparr>ds_state := waiting, ds_bytes_written := ds_bytes_written s + 4\<rparr>))
         (return (True, Some tls_want_read))))
     (return (False, ret))"

definition hs_read :: "'e sock_ops \<Rightarrow> string \<Rightarrow> stream_state \<Rightarrow> tls_status option \<Rightarrow>
    ('e stream_world, bool \<times> tls_status option) cmd" where
  "hs_read os expect waiting ret = branch (\<lambda>w. ds_state (sw_stream w) = waiting)
     (bind (handle_handshake_read os expect) (\<lambda>r.
       if r = tls_success then
         seq (upd_stream (ds_state_update (\<lambda>_. ts_want_write))) (return (True, Some tls_want_write))
       else return (True, Some r)))
     (return (False, ret))"

definition hs_done :: "tls_status option \<Rightarrow> ('e stream_world, bool \<times> tls_status option) cmd" where
  "hs_done ret = branch (\<lambda>w. ds_state (sw_stream w) = ts_want_write)
     (seq (upd_stream (ds_state_update (\<lambda>_. ts_idle))) (return (True, Some tls_success)))
     (return (False, ret))"

definition hs_return :: "tls_status option \<Rightarrow> ('e stream_world, tls_status) cmd" where
  "hs_return ret = (case ret of Some r \<Rightarrow> return r | None \<Rightarrow> throw (Undefined ''ret''))"

definition handshake ::
    "'e sock_ops \<Rightarrow> string \<Rightarrow> string \<Rightarrow> stream_state \<Rightarrow> ('e stream_world, tls_status) cmd" where
  "handshake os word expect waiting =
     seq (assert_that (sk_debug os) ''state_'' (\<lambda>w. ds_state (sw_stream w) \<in> {ts_initialized, waiting, ts_want_write}))
     (fetch (\<lambda>w. ds_is_blocking (sw_stream w)) (\<lambda>blocking.
      bind (hs_send os word waiting None) (\<lambda>(ran, ret). if ran \<and> \<not> blocking then hs_return ret else
      bind (hs_read os expect waiting ret) (\<lambda>(ran, ret). if ran \<and> \<not> blocking then hs_return ret else
      bind (hs_done ret) (\<lambda>(ran, ret). if ran \<and> \<not> blocking then hs_return ret else
      if \<not> blocking then seq (upd_stream (ds_last_error_update (\<lambda>_. EPROTO))) (return tls_error)
      else hs_return ret)))))"

definition client_handshake :: "'e sock_ops \<Rightarrow> ('e stream_world, tls_status) cmd" where
  "client_handshake os = seq clear_error (handshake os ''clie'' ''serv'' ts_client_handshake)"

definition server_handshake :: "'e sock_ops \<Rightarrow> ('e stream_world, tls_status) cmd" where
  "server_handshake os = handshake os ''serv'' ''clie'' ts_server_handshake"

section \<open>Reading and writing\<close>

definition stream_read :: "'e sock_ops \<Rightarrow> u64 \<Rightarrow> ('e stream_world, tls_status \<times> u64 \<times> string) cmd" where
  "stream_read os max_count =
     seq clear_error
     (fetch (\<lambda>w. ds_state (sw_stream w) = ts_want_read) (\<lambda>renegotiated.
      seq (only_if renegotiated (upd_stream (ds_state_update (\<lambda>_. ts_idle))))
      (if renegotiated \<and> max_count = 0 then return (tls_success, 0, [])
       else bind (determine_read_count os max_count) (\<lambda>count.
            bind (do_read os count) (\<lambda>(n, buf).
            seq (only_if (n > 0) (upd_stream (ds_bytes_read_update (\<lambda>b. b + word_of_int n))))
            (bind (map_result os n) (\<lambda>(st, k). return (st, k, buf))))))))"

definition stream_write :: "'e sock_ops \<Rightarrow> string \<Rightarrow> ('e stream_world, tls_status \<times> u64) cmd" where
  "stream_write os buf =
     seq clear_error
     (fetch (\<lambda>w. ds_state (sw_stream w) = ts_want_write) (\<lambda>renegotiated.
      seq (only_if renegotiated (upd_stream (ds_state_update (\<lambda>_. ts_idle))))
      (if renegotiated \<and> buf = [] then return (tls_success, 0)
       else bind (determine_write_count os (word_of_nat (length buf))) (\<lambda>count.
            bind (do_write os (take (unat count) buf)) (\<lambda>n.
            seq (only_if (n > 0) (upd_stream (ds_bytes_written_update (\<lambda>b. b + word_of_int n))))
            (map_result os n))))))"

section \<open>The service\<close>

text \<open>
  The streams by address, the byte counts of destroyed streams, and the mode. A stream that has
  been destroyed must not be used.
\<close>

record 'e tls_world =
  tw_streams :: "nat \<Rightarrow> db_stream option"
  tw_next :: nat
  tw_bytes_read :: u64
  tw_bytes_written :: u64
  tw_mode :: int
  tw_errno :: int
  tw_env :: 'e

definition on_stream :: "nat \<Rightarrow> ('e stream_world, 'a) cmd \<Rightarrow> ('e tls_world, 'a) cmd" where
  "on_stream p m = (\<lambda>w. case tw_streams w p of
      None \<Rightarrow> (Inl (Undefined ''stream''), w)
    | Some s \<Rightarrow> (case m \<lparr>sw_stream = s, sw_errno = tw_errno w, sw_env = tw_env w\<rparr> of
        (r, v) \<Rightarrow> (r, w\<lparr>tw_streams := (tw_streams w)(p \<mapsto> sw_stream v), tw_errno := sw_errno v,
                         tw_env := sw_env v\<rparr>)))"

definition db_create_tls_stream :: "'e sock_ops \<Rightarrow> int \<Rightarrow> ('e tls_world, nat) cmd" where
  "db_create_tls_stream os fd = (\<lambda>w. (Inr (tw_next w),
     w\<lparr>tw_streams := (tw_streams w)(tw_next w \<mapsto> make_stream os fd (tw_mode w) (tw_env w)),
       tw_next := Suc (tw_next w)\<rparr>))"

definition merge_to_global_stats :: "db_stream \<Rightarrow> ('e tls_world, unit) cmd" where
  "merge_to_global_stats s = modify (\<lambda>w. w\<lparr>tw_bytes_read := tw_bytes_read w + ds_bytes_read s,
     tw_bytes_written := tw_bytes_written w + ds_bytes_written s\<rparr>)"

definition db_destroy_tls_stream :: "nat \<Rightarrow> ('e tls_world, unit) cmd" where
  "db_destroy_tls_stream p = fetch (\<lambda>w. tw_streams w p) (\<lambda>s. case s of
      None \<Rightarrow> throw (Undefined ''stream'')
    | Some s \<Rightarrow> seq (merge_to_global_stats s) (modify (\<lambda>w. w\<lparr>tw_streams := (tw_streams w)(p := None)\<rparr>)))"

definition db_get_error_number :: "nat \<Rightarrow> ('e tls_world, int) cmd" where
  "db_get_error_number p = on_stream p (fetch (\<lambda>w. ds_last_error (sw_stream w)) return)"

definition db_get_error_category :: "nat \<Rightarrow> ('e tls_world, nat) cmd" where
  "db_get_error_category p = on_stream p (return 1)"

definition db_get_error_message :: "'e sock_ops \<Rightarrow> int \<Rightarrow> string" where
  "db_get_error_message os value = sk_strerror os value"

definition db_client_handshake :: "'e sock_ops \<Rightarrow> nat \<Rightarrow> ('e tls_world, tls_status) cmd" where
  "db_client_handshake os p = on_stream p (client_handshake os)"

definition db_server_handshake :: "'e sock_ops \<Rightarrow> nat \<Rightarrow> ('e tls_world, tls_status) cmd" where
  "db_server_handshake os p = on_stream p (server_handshake os)"

definition db_read :: "'e sock_ops \<Rightarrow> nat \<Rightarrow> u64 \<Rightarrow> ('e tls_world, tls_status \<times> u64 \<times> string) cmd" where
  "db_read os p max_count = on_stream p (stream_read os max_count)"

definition db_write :: "'e sock_ops \<Rightarrow> nat \<Rightarrow> string \<Rightarrow> ('e tls_world, tls_status \<times> u64) cmd" where
  "db_write os p buf = on_stream p (stream_write os buf)"

definition db_shutdown :: "nat \<Rightarrow> ('e tls_world, tls_status) cmd" where
  "db_shutdown p = return tls_success"

definition db_tls_init :: "int \<Rightarrow> ('e tls_world, unit) cmd" where
  "db_tls_init mode = modify (tw_mode_update (\<lambda>_. mode))"

definition db_tls_stats :: "'e tls_world \<Rightarrow> string" where
  "db_tls_stats w = ''Transport stats:'' @ CHR 0x0A # ''  bytes_read: '' @ decimal (unat (tw_bytes_read w)) @
     CHR 0x0A # ''  bytes_written: '' @ decimal (unat (tw_bytes_written w)) @ [CHR 0x0A]"

section \<open>Two streams on a pair of sockets\<close>

text \<open>
  A connected pair of non-blocking sockets, 0 for the client and 1 for the server: what one sends,
  the other reads, in order; a read without data fails with \<^verbatim>\<open>EAGAIN\<close>.
\<close>

record chan =
  ch_to_client :: string
  ch_to_server :: string

definition pair_send :: "int \<Rightarrow> string \<Rightarrow> chan \<Rightarrow> (int \<times> int) \<times> chan" where
  "pair_send fd buf e = ((int (length buf), 0),
     if fd = 0 then e\<lparr>ch_to_server := ch_to_server e @ buf\<rparr> else e\<lparr>ch_to_client := ch_to_client e @ buf\<rparr>)"

definition pair_read :: "int \<Rightarrow> u64 \<Rightarrow> chan \<Rightarrow> (int \<times> int \<times> string) \<times> chan" where
  "pair_read fd n e =
     (let q = (if fd = 0 then ch_to_client e else ch_to_server e); buf = take (unat n) q; rest = drop (unat n) q in
      if q = [] then ((-1, EAGAIN, []), e)
      else ((int (length buf), 0, buf),
        if fd = 0 then e\<lparr>ch_to_client := rest\<rparr> else e\<lparr>ch_to_server := rest\<rparr>))"

definition pair_ops :: "bool \<Rightarrow> chan sock_ops" where
  "pair_ops d = \<lparr>sk_debug = d, sk_nonblock = \<lambda>_ _. True, sk_send = pair_send, sk_read = pair_read,
     sk_rand = \<lambda>e. (1, e), sk_strerror = \<lambda>_. ''''\<rparr>"

text \<open>Both ends, and a call of the handshake by either end, as long as it has not finished.\<close>

record ends =
  en_client :: db_stream
  en_server :: db_stream
  en_chan :: chan

definition end_world :: "db_stream \<Rightarrow> chan \<Rightarrow> chan stream_world" where
  "end_world s e = \<lparr>sw_stream = s, sw_errno = 0, sw_env = e\<rparr>"

inductive hs_step :: "bool \<Rightarrow> ends \<Rightarrow> ends \<Rightarrow> bool" for d where
  client_call: "ds_state (en_client x) \<noteq> ts_idle \<Longrightarrow>
     client_handshake (pair_ops d) (end_world (en_client x) (en_chan x)) = (Inr st, v) \<Longrightarrow>
     hs_step d x (x\<lparr>en_client := sw_stream v, en_chan := sw_env v\<rparr>)"
| server_call: "ds_state (en_server x) \<noteq> ts_idle \<Longrightarrow>
     server_handshake (pair_ops d) (end_world (en_server x) (en_chan x)) = (Inr st, v) \<Longrightarrow>
     hs_step d x (x\<lparr>en_server := sw_stream v, en_chan := sw_env v\<rparr>)"

inductive_cases hs_stepE: "hs_step d x y"

definition ends_init :: "int \<Rightarrow> ends" where
  "ends_init mode = (let e = \<lparr>ch_to_client = [], ch_to_server = []\<rparr> in
     \<lparr>en_client = make_stream (pair_ops True) 0 mode e, en_server = make_stream (pair_ops True) 1 mode e,
      en_chan = e\<rparr>)"

text \<open>How far an end has come: its word sent, the word of the other end read, finished.\<close>

definition hs_phase :: "stream_state \<Rightarrow> stream_state \<Rightarrow> nat" where
  "hs_phase waiting s = (if s = ts_initialized then 0 else if s = waiting then 1
     else if s = ts_want_write then 2 else 3)"

abbreviation client_phase :: "ends \<Rightarrow> nat" where
  "client_phase x \<equiv> hs_phase ts_client_handshake (ds_state (en_client x))"

abbreviation server_phase :: "ends \<Rightarrow> nat" where
  "server_phase x \<equiv> hs_phase ts_server_handshake (ds_state (en_server x))"

definition end_ok :: "stream_state \<Rightarrow> int \<Rightarrow> db_stream \<Rightarrow> bool" where
  "end_ok waiting fd s \<longleftrightarrow> ds_state s \<in> {ts_initialized, waiting, ts_want_write, ts_idle} \<and>
     ds_fd s = fd \<and> \<not> ds_is_blocking s \<and> ds_last_error s = 0 \<and>
     ds_bytes_written s = (if hs_phase waiting (ds_state s) \<ge> 1 then 4 else 0) \<and>
     ds_bytes_read s = (if hs_phase waiting (ds_state s) \<ge> 2 then 4 else 0)"

definition in_flight :: "string \<Rightarrow> nat \<Rightarrow> nat \<Rightarrow> string" where
  "in_flight word sender reader = (if sender \<ge> 1 \<and> reader \<le> 1 then word else [])"

definition ends_ok :: "ends \<Rightarrow> bool" where
  "ends_ok x \<longleftrightarrow> end_ok ts_client_handshake 0 (en_client x) \<and> end_ok ts_server_handshake 1 (en_server x) \<and>
     (client_phase x \<ge> 2 \<longrightarrow> server_phase x \<ge> 1) \<and> (server_phase x \<ge> 2 \<longrightarrow> client_phase x \<ge> 1) \<and>
     ch_to_server (en_chan x) = in_flight ''clie'' (client_phase x) (server_phase x) \<and>
     ch_to_client (en_chan x) = in_flight ''serv'' (server_phase x) (client_phase x)"

text \<open>The next phase of an end, given the phase of the other, and the status of the call.\<close>

definition next_phase :: "nat \<Rightarrow> nat \<Rightarrow> nat" where
  "next_phase own other = (if own = 1 \<and> other = 0 then 1 else Suc own)"

definition phase_status :: "nat \<Rightarrow> tls_status" where
  "phase_status p = (if p \<le> 1 then tls_want_read else if p = 2 then tls_want_write else tls_success)"

lemmas hs_simps = client_handshake_def server_handshake_def handshake_def hs_send_def hs_read_def
  hs_done_def hs_return_def handle_handshake_read_def clear_error_def stream_send_def stream_recv_def
  pair_ops_def pair_send_def pair_read_def end_world_def seq_def bind_def fetch_def inspect_def branch_def
  modify_def return_def assert_that_def only_if_def skip_def

lemma client_call_ok:
  assumes "ends_ok x" and "ds_state (en_client x) \<noteq> ts_idle"
  shows "\<exists>v. client_handshake (pair_ops d) (end_world (en_client x) (en_chan x)) =
      (Inr (phase_status (next_phase (client_phase x) (server_phase x))), v) \<and>
    ends_ok (x\<lparr>en_client := sw_stream v, en_chan := sw_env v\<rparr>) \<and>
    hs_phase ts_client_handshake (ds_state (sw_stream v)) = next_phase (client_phase x) (server_phase x)"
proof -
  have "ds_state (en_client x) \<in> {ts_initialized, ts_client_handshake, ts_want_write}"
    using assms by (auto simp: ends_ok_def end_ok_def)
  then show ?thesis
    using assms(1)
    by (auto simp: hs_simps ends_ok_def end_ok_def hs_phase_def in_flight_def next_phase_def phase_status_def
        Let_def)
qed

lemma server_call_ok:
  assumes "ends_ok x" and "ds_state (en_server x) \<noteq> ts_idle"
  shows "\<exists>v. server_handshake (pair_ops d) (end_world (en_server x) (en_chan x)) =
      (Inr (phase_status (next_phase (server_phase x) (client_phase x))), v) \<and>
    ends_ok (x\<lparr>en_server := sw_stream v, en_chan := sw_env v\<rparr>) \<and>
    hs_phase ts_server_handshake (ds_state (sw_stream v)) = next_phase (server_phase x) (client_phase x)"
proof -
  have "ds_state (en_server x) \<in> {ts_initialized, ts_server_handshake, ts_want_write}"
    using assms by (auto simp: ends_ok_def end_ok_def)
  then show ?thesis
    using assms(1)
    by (auto simp: hs_simps ends_ok_def end_ok_def hs_phase_def in_flight_def next_phase_def phase_status_def
        Let_def)
qed

lemma ends_ok_reachable:
  assumes "(hs_step d)\<^sup>*\<^sup>* x y" and "ends_ok x"
  shows "ends_ok y"
  using assms
proof (induction rule: rtranclp_induct)
  case (step y z)
  then have y: "ends_ok y" by simp
  from \<open>hs_step d y z\<close> show ?case
  proof (cases rule: hs_step.cases)
    case (client_call st v)
    then show ?thesis using client_call_ok [OF y, of d] by auto
  next
    case (server_call st v)
    then show ?thesis using server_call_ok [OF y, of d] by auto
  qed
qed

text \<open>A turn of each end, if it has not finished.\<close>

definition client_turn :: "bool \<Rightarrow> ends \<Rightarrow> ends" where
  "client_turn d x = (if ds_state (en_client x) = ts_idle then x
     else case client_handshake (pair_ops d) (end_world (en_client x) (en_chan x)) of
       (_, v) \<Rightarrow> x\<lparr>en_client := sw_stream v, en_chan := sw_env v\<rparr>)"

definition server_turn :: "bool \<Rightarrow> ends \<Rightarrow> ends" where
  "server_turn d x = (if ds_state (en_server x) = ts_idle then x
     else case server_handshake (pair_ops d) (end_world (en_server x) (en_chan x)) of
       (_, v) \<Rightarrow> x\<lparr>en_server := sw_stream v, en_chan := sw_env v\<rparr>)"

definition hs_round :: "bool \<Rightarrow> ends \<Rightarrow> ends" where
  "hs_round d x = server_turn d (client_turn d x)"

lemma idle_phase: "end_ok waiting fd s \<Longrightarrow> waiting \<noteq> ts_idle \<Longrightarrow> ds_state s = ts_idle \<longleftrightarrow> hs_phase waiting (ds_state s) = 3"
  by (auto simp: end_ok_def hs_phase_def)

lemma client_turn_ok:
  assumes "ends_ok x"
  shows "ends_ok (client_turn d x) \<and> server_phase (client_turn d x) = server_phase x \<and>
    client_phase (client_turn d x) = (if client_phase x = 3 then 3 else next_phase (client_phase x) (server_phase x))"
  using assms client_call_ok [OF assms, of d] idle_phase [of ts_client_handshake 0 "en_client x"]
  by (auto simp: client_turn_def ends_ok_def)

lemma server_turn_ok:
  assumes "ends_ok x"
  shows "ends_ok (server_turn d x) \<and> client_phase (server_turn d x) = client_phase x \<and>
    server_phase (server_turn d x) = (if server_phase x = 3 then 3 else next_phase (server_phase x) (client_phase x))"
  using assms server_call_ok [OF assms, of d] idle_phase [of ts_server_handshake 1 "en_server x"]
  by (auto simp: server_turn_def ends_ok_def)

text \<open>What a round does to the phases.\<close>

definition round_phases :: "nat \<times> nat \<Rightarrow> nat \<times> nat" where
  "round_phases = (\<lambda>(c, s). let c' = (if c = 3 then 3 else next_phase c s) in
     (c', if s = 3 then 3 else next_phase s c'))"

lemma hs_round_ok:
  assumes "ends_ok x"
  shows "ends_ok (hs_round d x) \<and>
    (client_phase (hs_round d x), server_phase (hs_round d x)) = round_phases (client_phase x, server_phase x)"
  using client_turn_ok [OF assms, of d] server_turn_ok [of "client_turn d x" d]
  by (simp add: hs_round_def round_phases_def Let_def)

lemma phase_le_3: "hs_phase waiting s \<le> 3"
  by (simp add: hs_phase_def)

lemma three_rounds: "c \<le> 3 \<Longrightarrow> s \<le> 3 \<Longrightarrow> (round_phases ^^ 3) (c, s) = (3, 3)"
proof -
  assume "c \<le> 3" "s \<le> 3"
  then have "c \<in> {0, 1, 2, 3}" "s \<in> {0, 1, 2, 3}" by auto
  then show ?thesis by (auto simp: round_phases_def next_phase_def eval_nat_numeral)
qed

lemma hs_rounds_ok:
  assumes "ends_ok x"
  shows "ends_ok ((hs_round d ^^ n) x) \<and>
    (client_phase ((hs_round d ^^ n) x), server_phase ((hs_round d ^^ n) x)) =
      (round_phases ^^ n) (client_phase x, server_phase x)"
  using assms by (induction n) (use hs_round_ok in auto)

lemma ends_ok_init: "ends_ok (ends_init mode)"
  by (simp add: ends_init_def ends_ok_def end_ok_def make_stream_def pair_ops_def hs_phase_def in_flight_def Let_def)



text \<open>
  An interrupted read is simulated by the error number itself. As this is a positive number, the
  caller is told that four bytes were read, and they are counted, although none were.
\<close>

lemma simulated_interrupt_counts_bytes:
  assumes "\<not> ds_is_blocking (sw_stream w)" and "ds_mode (sw_stream w) = 3" and "ds_state (sw_stream w) = ts_idle"
    and "sk_rand os (sw_env w) = (1, e1)" and "sk_rand os e1 = (0, e2)"
    and "sk_rand os e2 = (1, e3)" and "sk_rand os e3 = (1, e4)"
  shows "\<exists>v. stream_read os 10 w = (Inr (tls_success, 4, []), v) \<and>
    ds_bytes_read (sw_stream v) = ds_bytes_read (sw_stream w) + 4"
  using assms
  by (simp add: stream_read_def clear_error_def determine_read_count_def determine_count_def do_read_def
      map_result_def map_success_def simulates_def random_below_def EINTR_def seq_def bind_def fetch_def
      inspect_def branch_def modify_def return_def only_if_def skip_def)

text \<open>A write that would block is answered like a read: the caller is asked to wait until it can read.\<close>

lemma blocked_write_wants_read:
  assumes "ds_mode (sw_stream w) = 1" and "ds_state (sw_stream w) = ts_idle"
    and "sk_send os (ds_fd (sw_stream w)) ''abc'' (sw_env w) = ((-1, EAGAIN), e)"
  shows "\<exists>v. stream_write os ''abc'' w = (Inr (tls_want_read, 0), v)"
  using assms
  by (simp add: stream_write_def clear_error_def determine_write_count_def determine_count_def do_write_def stream_send_def
      map_result_def simulates_def seq_def bind_def fetch_def
      inspect_def branch_def modify_def return_def only_if_def skip_def)

end
