(* ===== verification/Sim_Server.thy ===== *)
theory Sim_Server
  imports Sim_Client Sim_Threads Sim_Tls Reporter
begin

text \<open>
  The servers of the simulator and the simulator itself: the server service
  (\<^verbatim>\<open>dbsim/db_server_service.cpp\<close>), the servers with their applier and client threads
  (\<^verbatim>\<open>dbsim/db_server.cpp\<close>), the cluster with its state transfers (\<^verbatim>\<open>dbsim/db_simulator.cpp\<close>),
  the command line (\<^verbatim>\<open>dbsim/db_params.cpp\<close>) and \<^verbatim>\<open>main\<close>.

  A thread is recorded when it is started and runs to its end where it is joined; what other threads
  do meanwhile comes from its services and, while a thread waits for a state, from \<open>so_others\<close>.
\<close>

section \<open>Server service\<close>

definition db_sst_request :: "string \<Rightarrow> 'p db_env \<Rightarrow> string \<times> 'p db_env" where
  "db_sst_request name e = (name, e)"

definition db_log_view :: "hps_ref option \<Rightarrow> view \<Rightarrow> 'p db_env \<Rightarrow> 'p db_env" where
  "db_log_view h v e = snd (se_store_view v e)"

definition db_get_view :: "id \<Rightarrow> 'p db_env \<Rightarrow> view \<times> 'p db_env" where
  "db_get_view own_id e = (let stored = se_view (db_engine e) in
     (\<lparr>view_state_id = view_state_id stored, view_seqno = view_seqno stored, view_status = view_status stored,
       view_capabilities = view_capabilities stored, view_own_index = member_index stored own_id,
       view_protocol_version = view_protocol_version stored, view_members = view_members stored\<rparr>, e))"

definition db_get_position :: "'p db_env \<Rightarrow> gtid \<times> 'p db_env" where
  "db_get_position e = (se_position (db_engine e), e)"

definition db_set_position :: "gtid \<Rightarrow> ('p db_env, unit) cmd" where
  "db_set_position g = se_store_position g"

definition db_background_rollback :: "('p db_env world, unit) cmd" where
  "db_background_rollback = skip"

definition db_recover_streaming_appliers :: "('p db_env world, unit) cmd" where
  "db_recover_streaming_appliers = skip"

definition db_wait_committing_transactions :: "int \<Rightarrow> ('p db_env, int) cmd" where
  "db_wait_committing_transactions timeout = throw not_implemented_error"

definition db_streaming_applier_service :: "('p db_env, hps_ref) cmd" where
  "db_streaming_applier_service = throw not_implemented_error"

text \<open>Every operation of the storage service that touches data is not implemented.\<close>

definition db_storage_call :: "('p db_env, int) cmd" where
  "db_storage_call = throw not_implemented_error"

text \<open>State changes go to the reporter of the server, which writes \<^verbatim>\<open><name>.json\<close>.\<close>

definition make_db_reporter :: "('d, 'x) os_ops \<Rightarrow> string \<Rightarrow> (('d, 'x) reporter_world, unit) cmd" where
  "make_db_reporter os name = make_reporter os (name @ ''.json'') 4"

definition db_log_state_change ::
    "('d, 'x) os_ops \<Rightarrow> bool \<Rightarrow> srv_state \<Rightarrow> srv_state \<Rightarrow> (('d, 'x) reporter_world, unit) cmd" where
  "db_log_state_change os debug from_state to_state = report_state os debug to_state"

text \<open>
  The service as the library sees it. The operations that are not implemented end the process and are
  not part of it: streaming, for which they exist, is never switched on by a client of the simulator.
  The state transfer reaches another server and is below. \<open>report\<close> is the effect of the reporter.
\<close>

definition db_server_service ::
    "string \<Rightarrow> (srv_state \<Rightarrow> 'p db_env \<Rightarrow> 'p db_env) \<Rightarrow> 'p db_env server_ops \<Rightarrow> 'p db_env server_ops" where
  "db_server_service name report rest = rest\<lparr>
     sv_background_rollback := db_background_rollback,
     sv_bootstrap := id,
     sv_log_view := db_log_view,
     sv_recover_streaming_appliers := db_recover_streaming_appliers,
     sv_get_view := db_get_view,
     sv_get_position := db_get_position,
     sv_log_state_change := \<lambda>from_state. report,
     sv_sst_before_init := \<lambda>e. True,
     sv_sst_request := db_sst_request name\<rparr>"

section \<open>Servers\<close>

record 'p db_server =
  sr_address :: string
  sr_working_dir :: string
  sr_world :: "'p db_env world"
  sr_appliers :: nat
  sr_clients :: "(client_id \<times> client_stats) list"
  sr_client_threads :: "client_id list"

definition db_server_state :: "string \<Rightarrow> server_state" where
  "db_server_state name = server_state_init name gtid_undefined rm_async"

definition make_db_server :: "db_params \<Rightarrow> 'p \<Rightarrow> string \<Rightarrow> string \<Rightarrow> 'p db_server" where
  "make_db_server params p name address = \<lparr>sr_address = address, sr_working_dir = ''dbsim_'' @ name @ ''_data'',
     sr_world = \<lparr>w_cs = client_state_init 0 client_id_undefined m_local, w_ss = db_server_state name, w_self = 0,
       w_thread = 0, w_locked = False, w_env = db_env_init params p\<rparr>,
     sr_appliers = 0, sr_clients = [], sr_client_threads = []\<rparr>"

text \<open>
  The body of an applier thread; \<open>run_applier\<close> is the call of the provider, which runs until the
  server disconnects.
\<close>

definition applier_thread :: "'p db_env services \<Rightarrow> db_params \<Rightarrow> client_ref \<Rightarrow> ('p db_env world, status) cmd \<Rightarrow>
    ('p db_env world, unit) cmd" where
  "applier_thread svc params me run_applier =
     seq (on_env (modify (db_last_client_id_update (\<lambda>n. n + 1))))
     (fetch (\<lambda>w. db_last_client_id (w_env w)) (\<lambda>i. block
       [modify (make_db_client params me i m_high_priority),
        inspect (\<lambda>w. client_open svc (cs_id (w_cs w))),
        seq (before_command svc False) skip,
        seq run_applier skip,
        after_command_before_result svc,
        after_command_after_result svc,
        client_close svc,
        client_cleanup svc]))"

definition start_applier :: "('p db_server, unit) cmd" where
  "start_applier = modify (sr_appliers_update Suc)"

definition on_world :: "('p db_env world, 'a) cmd \<Rightarrow> ('p db_server, 'a) cmd" where
  "on_world m = (\<lambda>s. case m (sr_world s) of (r, w) \<Rightarrow> (r, s\<lparr>sr_world := w\<rparr>))"

definition stop_applier :: "('p db_env world, unit) cmd \<Rightarrow> ('p db_server, unit) cmd" where
  "stop_applier thread = branch (\<lambda>s. sr_appliers s = 0) (throw (Undefined ''appliers_.front()''))
     (seq (on_world thread) (modify (sr_appliers_update (\<lambda>n. n - 1))))"

definition db_start_client :: "nat \<Rightarrow> ('p db_server, unit) cmd" where
  "db_start_client i = modify (\<lambda>s. s\<lparr>sr_clients := sr_clients s @ [(of_nat i, client_stats_init)],
     sr_client_threads := sr_client_threads s @ [of_nat i]\<rparr>)"

definition start_clients :: "db_params \<Rightarrow> ('p db_server, unit) cmd" where
  "start_clients params = for_each (\<lambda>i. db_start_client (i + 1)) [0..<pm_n_clients params]"

text \<open>
  The body of the thread of client number \<open>k\<close>, and its end. The client object keeps its statistics.
  The client threads stay in the list when they are joined.
\<close>

definition client_thread ::
    "'p db_env services \<Rightarrow> 'p db_ops \<Rightarrow> db_params \<Rightarrow> client_ref \<Rightarrow> client_id \<Rightarrow> ('p db_env world, client_stats) cmd" where
  "client_thread svc os params me i =
     seq (modify (make_db_client params me i m_local))
     (seq (db_client_start svc os params) (fetch (\<lambda>w. db_stats (w_env w)) return))"

definition join_client :: "(nat \<Rightarrow> client_id \<Rightarrow> ('p db_env world, client_stats) cmd) \<Rightarrow> nat \<times> client_id \<Rightarrow>
    ('p db_server, unit) cmd" where
  "join_client thread = (\<lambda>(k, i). bind (on_world (thread k i)) (\<lambda>st.
     modify (sr_clients_update (\<lambda>cs. cs[k := (i, st)]))))"

definition add_stats :: "client_stats \<Rightarrow> client_stats \<Rightarrow> client_stats" where
  "add_stats s t = \<lparr>st_commits = st_commits s + st_commits t, st_rollbacks = st_rollbacks s + st_rollbacks t,
     st_replays = st_replays s + st_replays t\<rparr>"

definition join_clients :: "(nat \<Rightarrow> client_id \<Rightarrow> ('p db_env world, client_stats) cmd) \<Rightarrow> ('p db_server, unit) cmd" where
  "join_clients thread = fetch (\<lambda>s. zip [0..<length (sr_client_threads s)] (sr_client_threads s))
     (for_each (join_client thread))"

end
