(* ===== verification/Sim_Cluster.thy ===== *)
theory Sim_Cluster
  imports Sim_Server
begin

text \<open>
  The simulator: it starts the servers of a cluster one after the other, starts the clients, waits for
  them and shuts the servers down (\<^verbatim>\<open>dbsim/db_simulator.cpp\<close>); the command line
  (\<^verbatim>\<open>dbsim/db_params.cpp\<close>) and \<^verbatim>\<open>main\<close> (\<^verbatim>\<open>dbsim/dbsim.cpp\<close>).
\<close>

section \<open>State\<close>

text \<open>\<open>sm_out\<close> is what was written to \<^verbatim>\<open>std::cout\<close>.\<close>

record ('p, 't) simulator =
  sm_servers :: "(string \<times> 'p db_server) list"
  sm_stats :: client_stats
  sm_ti :: "'t ti_world"
  sm_tls :: "'t tls_world"
  sm_out :: "string list"

text \<open>
  What the simulator meets: the services, the provider's applier loop and the surroundings of the clients of
  each server; the construction of a provider object (the specification, the options, and whether a
  thread and a TLS service are offered); the status variables of a provider;
  what other threads do before each wake-up of a thread that waits; the initial state of a provider;
  the order of an unordered map in the statistics, and the duration and rate as printed.
\<close>

record ('p, 't) sim_ops =
  so_svc :: "string \<Rightarrow> 'p db_env services"
  so_db_ops :: "string \<Rightarrow> 'p db_ops"
  so_run_applier :: "string \<Rightarrow> ('p db_env world, status) cmd"
  so_make_provider :: "string \<Rightarrow> string \<Rightarrow> bool \<Rightarrow> bool \<Rightarrow> 'p db_env \<Rightarrow> bool \<times> 'p db_env"
  so_status :: "string \<Rightarrow> 'p db_env \<Rightarrow> (string \<times> string) list"
  so_others :: "('p, 't) simulator \<Rightarrow> (('p, 't) simulator \<Rightarrow> ('p, 't) simulator) list"
  so_provider_init :: "string \<Rightarrow> 'p"
  so_pthreads :: "'t pthread_ops"
  so_seconds :: "('p, 't) simulator \<Rightarrow> string"
  so_rate :: "int \<Rightarrow> ('p, 't) simulator \<Rightarrow> string"

definition make_simulator :: "'t ti_world \<Rightarrow> 't tls_world \<Rightarrow> ('p, 't) simulator" where
  "make_simulator ti tls = \<lparr>sm_servers = [], sm_stats = client_stats_init, sm_ti = ti, sm_tls = tls, sm_out = []\<rparr>"

text \<open>An operation of one server, found by its name.\<close>

definition on_server :: "string \<Rightarrow> ('p db_server, 'a) cmd \<Rightarrow> (('p, 't) simulator, 'a) cmd" where
  "on_server name m = (\<lambda>s. case om_find name (sm_servers s) of
      None \<Rightarrow> (Inl (Undefined ''server''), s)
    | Some sr \<Rightarrow> (case m sr of (r, sr') \<Rightarrow>
        (r, s\<lparr>sm_servers := map (\<lambda>(n, x). (n, if n = name then sr' else x)) (sm_servers s)\<rparr>)))"

abbreviation on_server_world :: "string \<Rightarrow> ('p db_env world, 'a) cmd \<Rightarrow> (('p, 't) simulator, 'a) cmd" where
  "on_server_world name m \<equiv> on_server name (on_world m)"

definition on_ti :: "('t ti_world, unit) cmd \<Rightarrow> (('p, 't) simulator, unit) cmd" where
  "on_ti m = (\<lambda>s. case m (sm_ti s) of (r, t) \<Rightarrow> (r, s\<lparr>sm_ti := t\<rparr>))"

definition on_tls :: "('t tls_world, unit) cmd \<Rightarrow> (('p, 't) simulator, unit) cmd" where
  "on_tls m = (\<lambda>s. case m (sm_tls s) of (r, t) \<Rightarrow> (r, s\<lparr>sm_tls := t\<rparr>))"

definition print :: "(('p, 't) simulator \<Rightarrow> string) \<Rightarrow> (('p, 't) simulator, unit) cmd" where
  "print f = modify (\<lambda>s. s\<lparr>sm_out := sm_out s @ [f s]\<rparr>)"

section \<open>State transfer\<close>

definition strip_request :: "string \<Rightarrow> string" where
  "strip_request request = takeWhile (\<lambda>c. c \<noteq> CHR 0x00) request"

definition sim_sst :: "('p, 't) sim_ops \<Rightarrow> db_params \<Rightarrow> string \<Rightarrow> string \<Rightarrow> gtid \<Rightarrow> bool \<Rightarrow>
    (('p, 't) simulator, unit) cmd" where
  "sim_sst os params donor request g bypass = (let name = strip_request request in
     branch (\<lambda>s. om_find name (sm_servers s) = None)
       (throw (Runtime_error (''Server '' @ request @ '' not found'')))
     (block
       [only_if (\<not> bypass) (block
          [on_server_world name (on_env (se_store_position g)),
           bind (on_server_world donor (on_env se_get_view)) (\<lambda>v. on_server_world name (on_env (se_store_view v)))]),
        on_server_world name (modify (make_db_client params 0 (- 1) m_local)),
        bind (on_server_world name (sst_received (so_svc os name) 0)) (\<lambda>r.
          only_if (r \<noteq> 0) (throw (Runtime_error ''Call to SST received failed''))),
        on_server_world donor (sst_sent (so_svc os donor) g 0)]))"

definition db_start_sst :: "('p, 't) sim_ops \<Rightarrow> db_params \<Rightarrow> string \<Rightarrow> string \<Rightarrow> gtid \<Rightarrow> bool \<Rightarrow>
    (('p, 't) simulator, int) cmd" where
  "db_start_sst os params donor request g bypass = seq (sim_sst os params donor request g bypass) (return 0)"

text \<open>\<^verbatim>\<open>server_state::start_sst()\<close> of the donor, with this service.\<close>

definition donor_start_sst :: "('p, 't) sim_ops \<Rightarrow> db_params \<Rightarrow> string \<Rightarrow> string \<Rightarrow> gtid \<Rightarrow> bool \<Rightarrow>
    (('p, 't) simulator, int) cmd" where
  "donor_start_sst os params donor request g bypass =
     seq (on_server_world donor (sv_set_state (so_svc os donor) s_donor))
     (bind (db_start_sst os params donor request g bypass) (\<lambda>r.
       if r \<noteq> 0 then seq (on_server_world donor (return_from_donor_state (so_svc os donor))) (return 1) else return 0))"

section \<open>Starting the cluster\<close>

definition server_port :: "nat \<Rightarrow> string" where
  "server_port i = decimal (10000 + (i + 1) * 10)"

definition server_name :: "nat \<Rightarrow> string" where
  "server_name i = decimal (i + 1)"

definition server_address :: "nat \<Rightarrow> string" where
  "server_address i = ''127.0.0.1:'' @ server_port i"

definition contains :: "string \<Rightarrow> string \<Rightarrow> bool" where
  "contains needle s \<longleftrightarrow> (\<exists>k \<in> set [0..<Suc (length s)]. take (length needle) (drop k s) = needle)"

definition build_cluster_address :: "db_params \<Rightarrow> string" where
  "build_cluster_address params = (if contains ''galera_smm'' (pm_wsrep_provider params) then ''gcomm://'' else []) @
     concat (map (\<lambda>i. server_address i @ (if i < pm_n_servers params - 1 then '','' else [])) [0..<pm_n_servers params])"

text \<open>\<^verbatim>\<open>wait_until_state()\<close> of the main thread; each wake-up follows a step of the other threads.\<close>

fun sim_wait_loop :: "string \<Rightarrow> srv_state \<Rightarrow> (('p, 't) simulator \<Rightarrow> ('p, 't) simulator) list \<Rightarrow>
    (('p, 't) simulator, unit) cmd" where
  "sim_wait_loop name target [] = bind (on_server name (fetch (\<lambda>sr. srv (sr_world sr)) return)) (\<lambda>st.
     if st = target then skip else throw (Blocked ''wait_until_state''))"
| "sim_wait_loop name target (f # fs) = bind (on_server name (fetch (\<lambda>sr. srv (sr_world sr)) return)) (\<lambda>st.
     if st = target then skip
     else seq (modify f) (bind (on_server name (fetch (\<lambda>sr. srv (sr_world sr)) return)) (\<lambda>st.
       if wait_interrupted target st then throw (Runtime_error ''State wait was interrupted'')
       else sim_wait_loop name target fs)))"

definition sim_wait :: "('p, 't) sim_ops \<Rightarrow> string \<Rightarrow> srv_state \<Rightarrow> (('p, 't) simulator, int) cmd" where
  "sim_wait os name target = fetch (so_others os) (\<lambda>fs.
     catch_all (seq (sim_wait_loop name target fs) (return 0)) (return 1))"

definition fail_unless_zero :: "string \<Rightarrow> ('w, int) cmd \<Rightarrow> ('w, unit) cmd" where
  "fail_unless_zero msg m = bind m (\<lambda>r. only_if (r \<noteq> 0) (throw (Runtime_error msg)))"

text \<open>\<^verbatim>\<open>load_provider()\<close> and \<^verbatim>\<open>unload_provider()\<close>, with the construction of the provider object as a parameter.\<close>

definition sim_load_provider :: "('p, 't) sim_ops \<Rightarrow> db_params \<Rightarrow> ('p db_env world, int) cmd" where
  "sim_load_provider os params = bind (env_call (so_make_provider os (pm_wsrep_provider params)
       (pm_wsrep_provider_options params) (pm_thread_instrumentation params \<noteq> 0) (pm_tls_service params \<noteq> 0)))
     (\<lambda>ok. seq (only_if ok (modify (w_ss_update (provider_loaded_update (\<lambda>_. True))))) (return (bool_int (\<not> ok))))"

definition sim_unload_provider :: "('p db_env world, unit) cmd" where
  "sim_unload_provider = modify (w_ss_update (provider_loaded_update (\<lambda>_. False)))"

definition start_server :: "('p, 't) sim_ops \<Rightarrow> db_params \<Rightarrow> string \<Rightarrow> nat \<Rightarrow> (('p, 't) simulator, unit) cmd" where
  "start_server os params cluster_address i = (let name = server_name i in
     bind (fetch (\<lambda>s. om_insert name (make_db_server params (so_provider_init os name) name (server_address i))
             (sm_servers s)) (\<lambda>(m, ok). seq (modify (sm_servers_update (\<lambda>_. m))) (return ok))) (\<lambda>ok.
     block
       [only_if (\<not> ok) (throw (Runtime_error ''Failed to add server'')),
        fail_unless_zero ''Failed to load provider'' (on_server_world name (sim_load_provider os params)),
        fail_unless_zero ''Failed to connect''
          (on_server_world name (sv_connect (so_svc os name) ''sim_cluster'' cluster_address [] (i = 0))),
        on_server name start_applier,
        fail_unless_zero ''Failed to reach initializing state'' (sim_wait os name s_initializing),
        on_server_world name (sv_initialized (so_svc os name)),
        fail_unless_zero ''Failed to reach synced state'' (sim_wait os name s_synced)]))"

text \<open>
  The clients start on every server, or on those that the topology marks as masters, in the order of
  the map. \<^verbatim>\<open>operator[]\<close> of a string at its length gives the null character, behind it is undefined.
\<close>

definition char_at :: "string \<Rightarrow> nat \<Rightarrow> ('w, char) cmd" where
  "char_at s n = (if n < length s then return (s ! n) else if n = length s then return (CHR 0x00)
     else throw (Undefined ''operator[]''))"

definition start_load :: "db_params \<Rightarrow> nat \<times> string \<Rightarrow> (('p, 't) simulator, unit) cmd" where
  "start_load params = (\<lambda>(index, name).
     if pm_topology params = [] then on_server name (start_clients params)
     else bind (char_at (pm_topology params) index) (\<lambda>c. only_if (c = CHR ''m'') (on_server name (start_clients params))))"

definition sim_start :: "('p, 't) sim_ops \<Rightarrow> db_params \<Rightarrow> (('p, 't) simulator, unit) cmd" where
  "sim_start os params = block
     [on_ti (ti_level (pm_thread_instrumentation params)),
      on_ti (ti_set_cond_checks (pm_cond_checks params)),
      on_tls (db_tls_init (pm_tls_service params)),
      for_each (start_server os params (build_cluster_address params)) [0..<pm_n_servers params],
      fetch (\<lambda>s. zip [0..<length (sm_servers s)] (map fst (sm_servers s))) (for_each (start_load params))]"

section \<open>Stopping the cluster\<close>

definition sim_stats :: "('p, 't) sim_ops \<Rightarrow> ('p, 't) simulator \<Rightarrow> string" where
  "sim_stats os s = (let transactions = st_commits (sm_stats s) + st_rollbacks (sm_stats s);
       bf_aborts = sum_list (map (\<lambda>(n, sr). se_bf_aborts (db_engine (w_env (sr_world sr)))) (sm_servers s)) in
     ''Number of transactions: '' @ seqno_to_string transactions @ CHR 0x0A #
     ''Seconds: '' @ so_seconds os s @ '' '' @ CHR 0x0A #
     ''Transactions per second: '' @ so_rate os transactions s @ CHR 0x0A #
     ''BF aborts: '' @ seqno_to_string bf_aborts @ CHR 0x0A #
     ''Client commits: '' @ seqno_to_string (st_commits (sm_stats s)) @ CHR 0x0A #
     ''Client rollbacks: '' @ seqno_to_string (st_rollbacks (sm_stats s)) @ CHR 0x0A #
     ''Client replays: '' @ seqno_to_string (st_replays (sm_stats s)))"

definition stop_clients :: "('p, 't) sim_ops \<Rightarrow> db_params \<Rightarrow> string \<Rightarrow> (('p, 't) simulator, unit) cmd" where
  "stop_clients os params name = block
     [on_server name (join_clients (\<lambda>k i. client_thread (so_svc os name) (so_db_ops os name) params (k + 1) i)),
      bind (on_server name (fetch (\<lambda>sr. map snd (sr_clients sr)) return)) (\<lambda>stats.
        for_each (\<lambda>st. modify (sm_stats_update (\<lambda>t. add_stats t st))) stats)]"

definition stop_server :: "('p, 't) sim_ops \<Rightarrow> db_params \<Rightarrow> string \<Rightarrow> (('p, 't) simulator, unit) cmd" where
  "stop_server os params name = block
     [on_server_world name (seq (provider_call (\<lambda>e. (so_status os name e, e))) skip),
      on_server_world name (seq (sv_disconnect (so_svc os name)) skip),
      fail_unless_zero ''Failed to reach disconnected state'' (sim_wait os name s_disconnected),
      on_server name (stop_applier (applier_thread (so_svc os name) params 0 (so_run_applier os name))),
      on_server_world name sim_unload_provider]"

text \<open>The result is the exit code, if the process exits here.\<close>

definition sim_stop :: "('p, 't) sim_ops \<Rightarrow> db_params \<Rightarrow> (('p, 't) simulator, int option) cmd" where
  "sim_stop os params =
     seq (block
       [fetch (\<lambda>s. map fst (sm_servers s)) (for_each (stop_clients os params)),
        print (\<lambda>s. ti_stats (so_pthreads os) (sm_ti s))])
     (if pm_fast_exit params \<noteq> 0 then return (Some 0)
      else seq (fetch (\<lambda>s. map fst (sm_servers s)) (for_each (stop_server os params))) (return None))"

definition sim_run :: "('p, 't) sim_ops \<Rightarrow> db_params \<Rightarrow> (('p, 't) simulator, int option) cmd" where
  "sim_run os params = seq (sim_start os params) (bind (sim_stop os params) (\<lambda>code.
     case code of Some c \<Rightarrow> return (Some c) | None \<Rightarrow> seq (block
       [print (\<lambda>_. ''Results:''), print (sim_stats os), print (\<lambda>s. ti_stats (so_pthreads os) (sm_ti s)),
        print (\<lambda>s. db_tls_stats (sm_tls s))]) (return None)))"

section \<open>Command line\<close>

text \<open>
  The options of the command line: their names, whether they are required, and the parameter that
  receives the value.
\<close>

datatype option_target = No_value | To_string "string \<Rightarrow> db_params \<Rightarrow> db_params" | To_size "nat \<Rightarrow> db_params \<Rightarrow> db_params"
  | To_int "int \<Rightarrow> db_params \<Rightarrow> db_params" | To_bool "bool \<Rightarrow> db_params \<Rightarrow> db_params"

record db_option =
  op_name :: string
  op_required :: bool
  op_target :: option_target

definition db_options :: "db_option list" where
  "db_options = [
     \<lparr>op_name = ''help'', op_required = False, op_target = No_value\<rparr>,
     \<lparr>op_name = ''wsrep-provider'', op_required = True, op_target = To_string (\<lambda>x. pm_wsrep_provider_update (\<lambda>_. x))\<rparr>,
     \<lparr>op_name = ''wsrep-provider-options'', op_required = False, op_target = To_string (\<lambda>x. pm_wsrep_provider_options_update (\<lambda>_. x))\<rparr>,
     \<lparr>op_name = ''status-file'', op_required = False, op_target = To_string (\<lambda>x. pm_status_file_update (\<lambda>_. x))\<rparr>,
     \<lparr>op_name = ''servers'', op_required = True, op_target = To_size (\<lambda>x. pm_n_servers_update (\<lambda>_. x))\<rparr>,
     \<lparr>op_name = ''topology'', op_required = False, op_target = To_string (\<lambda>x. pm_topology_update (\<lambda>_. x))\<rparr>,
     \<lparr>op_name = ''clients'', op_required = True, op_target = To_size (\<lambda>x. pm_n_clients_update (\<lambda>_. x))\<rparr>,
     \<lparr>op_name = ''transactions'', op_required = False, op_target = To_size (\<lambda>x. pm_n_transactions_update (\<lambda>_. x))\<rparr>,
     \<lparr>op_name = ''rows'', op_required = False, op_target = To_size (\<lambda>x. pm_n_rows_update (\<lambda>_. x))\<rparr>,
     \<lparr>op_name = ''max-data-size'', op_required = False, op_target = To_size (\<lambda>x. pm_max_data_size_update (\<lambda>_. x))\<rparr>,
     \<lparr>op_name = ''random-data-size'', op_required = False, op_target = To_bool (\<lambda>x. pm_random_data_size_update (\<lambda>_. x))\<rparr>,
     \<lparr>op_name = ''alg-freq'', op_required = False, op_target = To_size (\<lambda>x. pm_alg_freq_update (\<lambda>_. x))\<rparr>,
     \<lparr>op_name = ''sync-wait'', op_required = False, op_target = To_bool (\<lambda>x. pm_sync_wait_update (\<lambda>_. x))\<rparr>,
     \<lparr>op_name = ''debug-log-level'', op_required = False, op_target = To_int (\<lambda>x. pm_debug_log_level_update (\<lambda>_. x))\<rparr>,
     \<lparr>op_name = ''fast-exit'', op_required = False, op_target = To_int (\<lambda>x. pm_fast_exit_update (\<lambda>_. x))\<rparr>,
     \<lparr>op_name = ''ti'', op_required = False, op_target = To_int (\<lambda>x. pm_thread_instrumentation_update (\<lambda>_. x))\<rparr>,
     \<lparr>op_name = ''ti-cond-checks'', op_required = False, op_target = To_bool (\<lambda>x. pm_cond_checks_update (\<lambda>_. x))\<rparr>,
     \<lparr>op_name = ''tls-service'', op_required = False, op_target = To_int (\<lambda>x. pm_tls_service_update (\<lambda>_. x))\<rparr>,
     \<lparr>op_name = ''check-sequential-consistency'', op_required = False, op_target = To_bool (\<lambda>x. pm_check_sequential_consistency_update (\<lambda>_. x))\<rparr>,
     \<lparr>op_name = ''do-2pc'', op_required = False, op_target = To_bool (\<lambda>x. pm_do_2pc_update (\<lambda>_. x))\<rparr>]"

text \<open>
  The option parser is a library: it gets the options, the parameters to fill in and the arguments.
  \<open>Po_error\<close> and \<open>Po_other\<close>: it throws an error of its own or another exception.
\<close>

datatype parsed = Po_help | Po_error string | Po_other | Po_params db_params

type_synonym option_parser = "db_option list \<Rightarrow> db_params \<Rightarrow> string list \<Rightarrow> parsed"

definition validate_params :: "db_params \<Rightarrow> string option" where
  "validate_params params =
     (if pm_n_servers params \<noteq> length (pm_topology params) \<and> pm_topology params \<noteq> [] then
        Some (''Error: --topology='' @ pm_topology params @ '' does not match the number of server --servers='' @
          decimal (pm_n_servers params) @ [CHR 0x0A])
      else None)"

text \<open>\<open>Inl\<close>: the process exits with this code.\<close>

definition parse_args :: "option_parser \<Rightarrow> string list \<Rightarrow> int + db_params" where
  "parse_args po argv = (case po db_options db_params_default argv of Po_help \<Rightarrow> Inl 0 | Po_error msg \<Rightarrow> Inl 1 | Po_other \<Rightarrow> Inl 1
     | Po_params params \<Rightarrow> (case validate_params params of None \<Rightarrow> Inr params | Some msg \<Rightarrow> Inl 1))"

definition dbsim_main :: "('p, 't) sim_ops \<Rightarrow> option_parser \<Rightarrow> string list \<Rightarrow> (('p, 't) simulator, int) cmd" where
  "dbsim_main os po argv = (case parse_args po argv of Inl c \<Rightarrow> return c
     | Inr params \<Rightarrow> catch_all (bind (sim_run os params) (\<lambda>code. return (case code of Some c \<Rightarrow> c | None \<Rightarrow> 0))) (return 1))"

text \<open>
  No option name is used twice, and an accepted command line names a server per letter of the topology,
  if it gives one.
\<close>

lemma db_options_distinct: "distinct (map op_name db_options)"
  by (simp add: db_options_def)

lemma parse_args_valid:
  "parse_args po argv = Inr params \<Longrightarrow> pm_topology params = [] \<or> length (pm_topology params) = pm_n_servers params"
  by (auto simp: parse_args_def validate_params_def split: parsed.splits if_splits)

section \<open>The log of the simulator\<close>

text \<open>\<^verbatim>\<open>printf\<close> with \<^verbatim>\<open>%0nd\<close>, for a number that is not negative; then the line of \<^verbatim>\<open>logger_fn\<close>.\<close>

definition zero_padded :: "nat \<Rightarrow> nat \<Rightarrow> string" where
  "zero_padded k n = replicate (k - length (decimal n)) (CHR ''0'') @ decimal n"

record log_date =
  tm_year :: nat
  tm_mon :: nat
  tm_mday :: nat
  tm_hour :: nat
  tm_min :: nat
  tm_sec :: nat
  tv_nsec :: nat

definition date_text :: "log_date \<Rightarrow> string" where
  "date_text d = take 84 (zero_padded 4 (tm_year d + 1900) @ ''-'' @ zero_padded 2 (tm_mon d + 1) @ ''-'' @
     zero_padded 2 (tm_mday d) @ '' '' @ zero_padded 2 (tm_hour d) @ '':'' @ zero_padded 2 (tm_min d) @ '':'' @
     zero_padded 2 (tm_sec d) @ ''.'' @ zero_padded 3 (tv_nsec d div 1000000))"

definition sim_log_line :: "log_date \<Rightarrow> log_level \<Rightarrow> string \<Rightarrow> string \<Rightarrow> string" where
  "sim_log_line d l pfx msg = date_text d @ '' '' @ pfx @ log_level_to_c_string l @ '' '' @ msg @ [CHR 0x0A]"

end
