(* ===== verification/Env_Frame.thy ===== *)
theory Env_Frame
  imports Invariants
begin

text \<open>
  What the code around the library keeps of its own data: if every function that the hooks of a
  transaction call keeps a predicate of the environment, so do the hooks. They also leave the
  state and the identity of the session alone.
\<close>

definition fn_keeps :: "('e \<Rightarrow> bool) \<Rightarrow> ('e \<Rightarrow> 'r \<times> 'e) \<Rightarrow> bool" where
  "fn_keeps P f \<longleftrightarrow> (\<forall>e. P e \<longrightarrow> P (snd (f e)))"

definition session_part :: "'e world \<Rightarrow> client_session_state \<times> client_id \<times> client_ref" where
  "session_part w = (cs_state (w_cs w), cs_id (w_cs w), w_self w)"

definition env_holds :: "('e \<Rightarrow> bool) \<Rightarrow> client_session_state \<times> client_id \<times> client_ref \<Rightarrow> 'e world \<Rightarrow> bool" where
  "env_holds P p w \<longleftrightarrow> P (w_env w) \<and> session_part w = p"

definition provider_keeps :: "'e services \<Rightarrow> ('e \<Rightarrow> bool) \<Rightarrow> bool" where
  "provider_keeps svc P \<longleftrightarrow>
     (\<forall>h. fn_keeps P (prov_start_transaction (prov svc) h)) \<and>
     (\<forall>h k. fn_keeps P (prov_append_key (prov svc) h k)) \<and>
     (\<forall>h d. fn_keeps P (prov_append_data (prov svc) h d)) \<and>
     (\<forall>c h f m b. fn_keeps P (prov_certify (prov svc) c h f m b)) \<and>
     (\<forall>q i. fn_keeps P (prov_bf_abort (prov svc) q i)) \<and>
     (\<forall>i. fn_keeps P (prov_rollback (prov svc) i)) \<and>
     (\<forall>h m. fn_keeps P (prov_commit_order_enter (prov svc) h m)) \<and>
     (\<forall>h m d. fn_keeps P (prov_commit_order_leave (prov svc) h m d)) \<and>
     (\<forall>h. fn_keeps P (prov_release (prov svc) h)) \<and> fn_keeps P (bf_arrivals svc)"

definition client_keeps :: "'e services \<Rightarrow> ('e \<Rightarrow> bool) \<Rightarrow> bool" where
  "client_keeps svc P \<longleftrightarrow>
     (\<forall>ev e. P e \<longrightarrow> P (cl_event (client_ops svc) ev e)) \<and> fn_keeps P (cl_interrupted (client_ops svc)) \<and>
     (\<forall>h. fn_keeps P (cl_prepare_data_for_replication (client_ops svc) h)) \<and>
     (\<forall>h. fn_keeps P (cl_prepare_fragment_for_replication (client_ops svc) h)) \<and>
     (\<forall>p. keeps (env_holds P p) (cl_remove_fragments (client_ops svc)))"

definition storage_keeps :: "'e services \<Rightarrow> ('e \<Rightarrow> bool) \<Rightarrow> bool" where
  "storage_keeps svc P \<longleftrightarrow>
     fn_keeps P (st_acquire (storage svc)) \<and> (\<forall>e. P e \<longrightarrow> P (st_release (storage svc) e)) \<and>
     (\<forall>e. P e \<longrightarrow> P (st_store_globals (storage svc) e)) \<and>
     (\<forall>h. fn_keeps P (st_start_transaction (storage svc) h)) \<and>
     (\<forall>t e. P e \<longrightarrow> P (st_adopt_transaction (storage svc) t e)) \<and>
     (\<forall>i t f d x. fn_keeps P (st_append_fragment (storage svc) i t f d x)) \<and>
     (\<forall>m. fn_keeps P (st_update_fragment_meta (storage svc) m)) \<and>
     fn_keeps P (st_remove_fragments (storage svc)) \<and>
     (\<forall>h m. fn_keeps P (st_commit (storage svc) h m)) \<and> (\<forall>h m. fn_keeps P (st_rollback (storage svc) h m))"

definition server_keeps :: "'e services \<Rightarrow> ('e \<Rightarrow> bool) \<Rightarrow> bool" where
  "server_keeps svc P \<longleftrightarrow>
     fn_keeps P (sv_streaming_applier_service (server_ops svc)) \<and>
     (\<forall>h t. fn_keeps P (hps_adopt_transaction (hps svc) h t)) \<and>
     (\<forall>h e. P e \<longrightarrow> P (hps_after_apply (hps svc) h e)) \<and>
     (\<forall>h e. P e \<longrightarrow> P (sv_release_high_priority_service (server_ops svc) h e)) \<and>
     (\<forall>p. keeps (env_holds P p) (sv_background_rollback (server_ops svc)))"

locale env_frame =
  fixes svc :: "'e services" and P :: "'e \<Rightarrow> bool" and p :: "client_session_state \<times> client_id \<times> client_ref"
  assumes provider_keeps: "provider_keeps svc P"
    and client_keeps: "client_keeps svc P"
    and storage_keeps: "storage_keeps svc P"
    and server_keeps: "server_keeps svc P"
begin

abbreviation inv :: "'e world \<Rightarrow> bool" where
  "inv \<equiv> env_holds P p"

lemmas kept = provider_keeps [unfolded provider_keeps_def] client_keeps [unfolded client_keeps_def]
  storage_keeps [unfolded storage_keeps_def] server_keeps [unfolded server_keeps_def]

subsection \<open>Calls and assignments\<close>

lemma k_modify: "(\<And>w. w_env (f w) = w_env w \<and> session_part (f w) = session_part w) \<Longrightarrow> keeps inv (modify f)"
  by (rule keeps_modify) (simp add: env_holds_def)

lemma k_env_call: "fn_keeps P f \<Longrightarrow> keeps inv (env_call f)"
  by (rule keepsI) (simp add: wp_simps env_holds_def session_part_def fn_keeps_def split_beta)

lemma k_env_do: "(\<And>e. P e \<Longrightarrow> P (f e)) \<Longrightarrow> keeps inv (env_do f)"
  by (rule keepsI) (simp add: wp_simps env_holds_def session_part_def)

lemma k_provider_call: "fn_keeps P f \<Longrightarrow> keeps inv (provider_call f)"
  unfolding provider_call_def by (intro keeps_intro k_env_call)

lemma k_functions:
  "fn_keeps P (prov_start_transaction (prov svc) h)" "fn_keeps P (prov_append_key (prov svc) h k)"
  "fn_keeps P (prov_append_data (prov svc) h d)" "fn_keeps P (prov_certify (prov svc) c h f m b)"
  "fn_keeps P (prov_bf_abort (prov svc) q i)" "fn_keeps P (prov_rollback (prov svc) i)"
  "fn_keeps P (prov_commit_order_enter (prov svc) h m)" "fn_keeps P (prov_commit_order_leave (prov svc) h m d)"
  "fn_keeps P (prov_release (prov svc) h)" "fn_keeps P (bf_arrivals svc)"
  "fn_keeps P (cl_interrupted (client_ops svc))"
  "fn_keeps P (cl_prepare_data_for_replication (client_ops svc) h)"
  "fn_keeps P (cl_prepare_fragment_for_replication (client_ops svc) h)"
  "fn_keeps P (st_acquire (storage svc))" "fn_keeps P (st_start_transaction (storage svc) h)"
  "fn_keeps P (st_append_fragment (storage svc) j t fl d x)" "fn_keeps P (st_update_fragment_meta (storage svc) m)"
  "fn_keeps P (st_remove_fragments (storage svc))" "fn_keeps P (st_commit (storage svc) h m)"
  "fn_keeps P (st_rollback (storage svc) h m)" "fn_keeps P (sv_streaming_applier_service (server_ops svc))"
  "fn_keeps P (hps_adopt_transaction (hps svc) sa tr)"
  using kept by simp_all

lemma k_events:
  "P e \<Longrightarrow> P (cl_event (client_ops svc) ev e)" "P e \<Longrightarrow> P (st_release (storage svc) e)"
  "P e \<Longrightarrow> P (st_store_globals (storage svc) e)" "P e \<Longrightarrow> P (st_adopt_transaction (storage svc) tr e)"
  "P e \<Longrightarrow> P (hps_after_apply (hps svc) sa e)" "P e \<Longrightarrow> P (sv_release_high_priority_service (server_ops svc) sa e)"
  using kept by simp_all

lemma k_callbacks: "keeps inv (cl_remove_fragments (client_ops svc))" "keeps inv (sv_background_rollback (server_ops svc))"
  using client_keeps server_keeps unfolding client_keeps_def server_keeps_def by (blast, blast)

lemma k_client_event: "keeps inv (client_event svc ev)"
  unfolding client_event_def by (intro k_env_do k_events)

lemma k_on_context: "keeps inv (on_context f)"
  by (rule keepsI) (simp add: wp_simps env_holds_def session_part_def split: sum.split)

lemma k_assignments:
  "keeps inv (set_flags fl)" "keeps inv (set_handle h)" "keeps inv (set_context cx)" "keeps inv pa_unsafe_on"
  "keeps inv unlock" "keeps inv take_lock" "keeps inv (unreachable svc)" "keeps inv (override_error svc er st)"
  "keeps inv (update_last_written_gtid svc g)" "keeps inv (set_state svc n)"
  unfolding set_flags_def set_handle_def set_context_def pa_unsafe_on_def unlock_def take_lock_def unreachable_def
    override_error_def update_last_written_gtid_def set_state_def
  by (intro keeps_intro k_modify k_client_event; simp add: session_part_def)+

lemmas calls = k_env_call k_env_do k_provider_call k_functions k_events k_callbacks k_client_event k_on_context
  k_assignments

subsection \<open>Registers\<close>

lemma k_registers:
  "keeps inv (start_streaming_client svc)" "keeps inv (stop_streaming_client svc)"
  "keeps inv (stop_streaming_applier svc i t)" "keeps inv (convert_streaming_client_to_applier svc)"
  "keeps inv (queue_rollback_event svc t)"
  unfolding start_streaming_client_def stop_streaming_client_def stop_streaming_applier_def
    convert_streaming_client_to_applier_def queue_rollback_event_def
  by (intro keeps_intro calls k_modify; simp add: session_part_def)+

lemma k_send_events: "keeps inv (send_events svc is)"
proof (induction "is")
  case (Cons i "is")
  then show ?case unfolding send_events.simps by (intro keeps_intro calls k_modify; simp add: session_part_def)
qed (simp add: keeps_return)

lemma k_send_pending: "keeps inv (send_pending_rollback_events svc)"
  unfolding send_pending_rollback_events_def by (intro keeps_intro k_send_events)

lemmas registers = k_registers k_send_pending

subsection \<open>BF abort and locking\<close>

lemma k_bf_abort_enter: "keeps inv (bf_abort_enter svc q)"
  unfolding bf_abort_enter_def by (intro keeps_intro calls k_modify; simp add: session_part_def)

lemma k_in_total_order: "keeps inv m \<Longrightarrow> keeps inv (in_total_order m)"
  unfolding in_total_order_def by (intro keeps_intro calls k_modify; simp add: session_part_def)

lemma k_bf_arrival: "(\<And>q. keeps inv (m q)) \<Longrightarrow> keeps inv (bf_arrival svc m a)"
  unfolding bf_arrival_def as_bf_thread_def by (intro keeps_intro calls k_modify k_in_total_order; simp add: session_part_def)

lemma k_lock_with: "(\<And>q. keeps inv (m q)) \<Longrightarrow> keeps inv (lock_with svc m)"
  unfolding lock_with_def by (intro keeps_intro calls k_bf_arrival; simp)

lemma k_streaming_rollback: "keeps inv (streaming_rollback svc)"
  unfolding streaming_rollback_def replicate_rollback_def
  by (intro keeps_intro calls registers k_lock_with k_bf_abort_enter k_modify; simp add: session_part_def)

lemma k_bf_abort: "keeps inv (trx_bf_abort svc q)"
  unfolding trx_bf_abort_def hand_to_rollbacker_def
  by (intro keeps_intro calls registers k_streaming_rollback k_bf_abort_enter k_modify; simp add: session_part_def)

lemma k_lock: "keeps inv (lock svc)"
  unfolding lock_def by (intro k_lock_with k_bf_abort)

lemma k_with_lock: "keeps inv m \<Longrightarrow> keeps inv (with_lock svc m)"
  unfolding with_lock_def by (intro keeps_intro k_lock k_assignments)

lemmas locking = k_lock k_with_lock k_streaming_rollback k_bf_abort

subsection \<open>Hooks\<close>

lemma k_with_storage: "keeps inv m \<Longrightarrow> keeps inv (with_storage svc m)"
  unfolding with_storage_def by (intro keeps_intro calls; simp)

lemma k_helpers:
  "keeps inv (storage_rollback svc)" "keeps inv (wait_for_replayers svc)"
  "keeps inv (abort_or_interrupt svc)" "keeps inv (append_key_call svc k)"
  "keeps inv (certify_call svc m b)" "keeps inv (release_call svc)" "keeps inv (append_data_call svc d)"
  "keeps inv (commit_order_enter_call svc)" "keeps inv (commit_order_leave_call svc)"
  "keeps inv (must_abort_unless_aborted svc)" "keeps inv (fail_must_abort svc err)"
  unfolding storage_rollback_def wait_for_replayers_def abort_or_interrupt_def append_key_call_def
    certify_call_def release_call_def append_data_call_def commit_order_enter_call_def
    commit_order_leave_call_def must_abort_unless_aborted_def fail_must_abort_def
  by (intro keeps_intro calls locking; simp)+

lemma k_append_sr_keys: "keeps inv (append_sr_keys_for_commit svc)"
  unfolding append_sr_keys_for_commit_def by (intro keeps_intro k_helpers)

lemma k_certify_fragment_result: "keeps inv (certify_fragment_result svc st m)"
  unfolding certify_fragment_result_def by (intro keeps_intro calls k_helpers k_modify; simp add: session_part_def)

lemma k_certify_fragment: "keeps inv (certify_fragment svc)"
  unfolding certify_fragment_def replicate_fragment_def store_and_certify_fragment_def conclude_fragment_def
  by (intro keeps_intro calls registers locking k_helpers k_with_storage k_certify_fragment_result)

lemma k_streaming_step: "keeps inv (streaming_step svc b)"
  unfolding streaming_step_def by (intro keeps_intro calls k_certify_fragment)

lemma k_certify_commit_result: "keeps inv (certify_commit_result svc st)"
  unfolding certify_commit_result_def by (intro keeps_intro calls k_helpers k_modify; simp add: session_part_def)

lemma k_certify_commit: "keeps inv (certify_commit svc b)"
  unfolding certify_commit_def certify_unless_aborted_def start_certifying_def replicate_commit_def
  by (intro keeps_intro calls registers locking k_helpers k_append_sr_keys k_certify_commit_result k_modify; simp add: session_part_def)

lemmas certification = k_helpers k_append_sr_keys k_with_storage k_streaming_step k_certify_commit

lemma k_prepare: "keeps inv (trx_before_prepare svc b)" "keeps inv (trx_after_prepare svc)"
  unfolding trx_before_prepare_def before_prepare_local_def remove_fragments_before_prepare_def trx_after_prepare_def
  by (intro keeps_intro calls locking certification)+

lemma k_remove_fragments: "keeps inv (remove_fragments_in_storage_service_scope svc)"
  unfolding remove_fragments_in_storage_service_scope_def by (intro keeps_intro calls locking certification; simp)

lemma k_commit:
  "keeps inv (trx_before_commit svc b)" "keeps inv (trx_ordered_commit svc)" "keeps inv (trx_after_commit svc)"
  unfolding trx_before_commit_def before_commit_local_def before_commit_high_priority_def before_commit_prepare_def
    enter_commit_order_def trx_ordered_commit_def trx_after_commit_def
  by (intro keeps_intro calls locking certification registers k_prepare k_remove_fragments k_modify; simp add: session_part_def)+

lemma k_rollback: "keeps inv (trx_before_rollback svc)" "keeps inv (trx_after_rollback svc)"
  unfolding trx_before_rollback_def before_rollback_local_def rollback_streaming_def trx_after_rollback_def
  by (intro keeps_intro calls locking k_remove_fragments)+

lemma k_append_key: "keeps inv (trx_append_key svc k)"
  unfolding trx_append_key_def by (intro keeps_intro calls certification k_modify; simp add: session_part_def)

lemma k_start: "keeps inv (trx_start_transaction svc i)" "keeps inv (trx_append_data svc d)"
  unfolding trx_start_transaction_def trx_append_data_def by (intro keeps_intro calls certification k_modify; simp add: session_part_def)+

lemma k_client_hooks:
  "keeps inv (client_start_transaction svc i)" "keeps inv (client_append_key svc k)"
  "keeps inv (client_append_data svc d)" "keeps inv (client_before_prepare svc b)"
  "keeps inv (client_after_prepare svc)" "keeps inv (client_before_commit svc b)"
  "keeps inv (client_ordered_commit svc)" "keeps inv (client_after_commit svc)"
  "keeps inv (client_before_rollback svc)" "keeps inv (client_after_rollback svc)"
  unfolding client_start_transaction_def client_append_key_def client_append_data_def client_before_prepare_def
    client_after_prepare_def client_before_commit_def client_ordered_commit_def client_after_commit_def
    client_before_rollback_def client_after_rollback_def
  by (intro keeps_intro locking k_start k_append_key k_prepare k_commit k_rollback)+

end

end
