(* ===== verification/Sim_Theorems.thy ===== *)
theory Sim_Theorems
  imports Sim_Client Env_Frame Instances
begin

text \<open>
  The commit of a client of the simulator: the hooks of the library, the provider's commit order and
  the storage engine together.
\<close>

section \<open>In the commit order\<close>

text \<open>
  What the provider promises of its commit order: a transaction that has entered it at a position
  (\<open>entered\<close>) stays there whatever other threads do until it leaves, and is not BF aborted any
  more.
\<close>

definition orders_commits :: "'e services \<Rightarrow> (gtid \<Rightarrow> 'e \<Rightarrow> bool) \<Rightarrow> bool" where
  "orders_commits svc entered \<longleftrightarrow>
     (\<forall>h m e. fst (prov_commit_order_enter (prov svc) h m e) = success \<longrightarrow>
        entered (wsm_gtid m) (snd (prov_commit_order_enter (prov svc) h m e))) \<and>
     (\<forall>g e. entered g e \<longrightarrow> entered g (snd (bf_arrivals svc e))) \<and>
     (\<forall>g q i e. entered g e \<longrightarrow> fst (prov_bf_abort (prov svc) q i e) \<noteq> success \<and>
        entered g (snd (prov_bf_abort (prov svc) q i e)))"

lemma bf_abort_ordered:
  assumes "orders_commits svc entered" and "entered g (w_env w)" and "w_locked w" and "provider_loaded (w_ss w)"
  shows "wp (trx_bf_abort svc q) (\<lambda>r v. \<not> r \<and> (\<exists>e. v = w\<lparr>w_env := e\<rparr> \<and> entered g e)) never w"
proof (cases "prov_bf_abort (prov svc) q (trx_id (trx w)) (w_env w)")
  case (Pair st e)
  then have "st \<noteq> success" "entered g e"
    using assms(1,2) unfolding orders_commits_def by (metis fst_conv snd_conv)+
  moreover have "w = w\<lparr>w_env := w_env w\<rparr>" by simp
  ultimately show ?thesis
    using assms(2-4) Pair
    by (auto simp: trx_bf_abort_def wp_simps wp_bf_abort_enter intro: exI [of _ "w_env w"])
qed

definition ordered_at :: "(gtid \<Rightarrow> 'e \<Rightarrow> bool) \<Rightarrow> gtid \<Rightarrow> 'e world \<Rightarrow> 'e world \<Rightarrow> bool" where
  "ordered_at entered g w x \<longleftrightarrow> undisturbed w x \<and> \<not> w_locked x \<and> entered g (w_env x)"

lemma arrival_ordered:
  assumes "orders_commits svc entered" and "provider_loaded (w_ss w)" and "ordered_at entered g w v"
  shows "wp (bf_arrival svc (trx_bf_abort svc) a) (\<lambda>_. ordered_at entered g w) never v"
proof -
  have abort: "wp (trx_bf_abort svc q) Q never x"
    if "entered g (w_env x)" "w_locked x" "provider_loaded (w_ss x)" "\<And>e. entered g e \<Longrightarrow> Q False (x\<lparr>w_env := e\<rparr>)" for q x Q
    by (rule wp_mono [OF bf_abort_ordered [OF assms(1) that(1-3)]]) (use that(4) in auto)
  have loaded: "provider_loaded (w_ss v)" and v: "undisturbed w v" "\<not> w_locked v" "entered g (w_env v)"
    using assms(2,3) by (auto simp: ordered_at_def undisturbed_def)
  show ?thesis
  proof (cases "snd a")
    case True
    with v loaded show ?thesis
      by (auto simp: bf_arrival_def as_bf_thread_def in_total_order_def wp_simps wp_fun ordered_at_def undisturbed_def
          comp_def intro!: abort exI [of _ False])
  next
    case False
    with v loaded show ?thesis
      by (auto simp: bf_arrival_def as_bf_thread_def wp_simps wp_fun ordered_at_def undisturbed_def intro!: abort)
  qed
qed

lemma lock_ordered:
  assumes "orders_commits svc entered" and "provider_loaded (w_ss w)" and "entered g (w_env w)" and "\<not> w_locked w"
  shows "wp (lock svc) (\<lambda>_ v. undisturbed w v \<and> w_locked v \<and> entered g (w_env v)) never w"
proof -
  obtain as e where e: "bf_arrivals svc (w_env w) = (as, e)" by (cases "bf_arrivals svc (w_env w)")
  then have "entered g e" using assms(1,3) unfolding orders_commits_def by (metis snd_conv)
  then have "ordered_at entered g w (w\<lparr>w_env := e\<rparr>)" using assms(4) by (simp add: ordered_at_def undisturbed_refl)
  then have "wp (for_each (bf_arrival svc (trx_bf_abort svc)) as) (\<lambda>_. ordered_at entered g w) never (w\<lparr>w_env := e\<rparr>)"
    by (intro wp_for_each_inv arrival_ordered [OF assms(1,2)])
  then have "wp (for_each (bf_arrival svc (trx_bf_abort svc)) as)
      (\<lambda>_. wp take_lock (\<lambda>_ v. undisturbed w v \<and> w_locked v \<and> entered g (w_env v)) never) never (w\<lparr>w_env := e\<rparr>)"
    by (rule wp_mono) (auto simp: ordered_at_def wp_take_lock)
  then show ?thesis using assms(4) e unfolding lock_def by (simp add: wp_lock_with)
qed

lemma wp_anything: "(\<And>a v. Q a v) \<Longrightarrow> wp m Q (\<lambda>_ _. True) w"
  by (simp add: wp_def split: prod.split sum.split)

lemma wp_anything_returned: "(\<And>v. Q r v) \<Longrightarrow> wp (seq m (return r)) Q (\<lambda>_ _. True) w"
  by (simp add: wp_seq wp_fun wp_anything)

lemma enter_commit_order_kept:
  assumes w: "ready_or_failed svc 0 w" and c: "provider_contract svc" and o: "orders_commits svc entered"
  shows "wp (enter_commit_order svc) (\<lambda>ret v. entered_or_failed svc ret v \<and>
    (ret = 0 \<longrightarrow> tstate v = s_committing \<and> entered (wsm_gtid (trx_ws_meta (trx v))) (w_env v))) never w"
proof -
  have facts: "provider_loaded (w_ss w)" "owner_locked w" "tstate w = s_committing"
      "certified (trx w)" "debug_build svc \<longrightarrow> ordered (trx w)"
    using w by (auto simp: ready_or_failed_def plain_local_def)
  obtain st e where st: "prov_commit_order_enter (prov svc) (trx_ws_handle (trx w)) (trx_ws_meta (trx w)) (w_env w) = (st, e)"
    by fastforce
  have "wp (enter_commit_order svc) (\<lambda>ret v. ret = 0 \<longrightarrow> tstate v = s_committing \<and>
      entered (wsm_gtid (trx_ws_meta (trx v))) (w_env v)) (\<lambda>_ _. True) w"
  proof (cases "st = success")
    case True
    then have "entered (wsm_gtid (trx_ws_meta (trx w))) e" using o st unfolding orders_commits_def by (metis fst_conv snd_conv)
    with facts(1) have "wp (lock svc) (\<lambda>_ v. undisturbed w v \<and> entered (wsm_gtid (trx_ws_meta (trx w))) (w_env v)) (\<lambda>_ _. True)
        (w\<lparr>w_locked := False, w_env := e\<rparr>)"
      by (intro wp_mono [OF lock_ordered [OF o]]) auto
    then have "wp (lock svc) (\<lambda>_ v. tstate v = s_committing \<and> entered (wsm_gtid (trx_ws_meta (trx v))) (w_env v)) (\<lambda>_ _. True)
        (w\<lparr>w_locked := False, w_env := e\<rparr>)"
      by (rule wp_mono) (use facts in \<open>auto simp: undisturbed_def\<close>)
    then show ?thesis
      using facts st True unfolding enter_commit_order_def commit_order_enter_call_def unlock_def
      by (simp add: wp_simps wp_fun)
  next
    case False
    have "wp (lock svc) (\<lambda>_. wp (if st = error_bf_abort then
         seq (block [must_abort_unless_aborted svc, set_state svc s_must_replay]) (return (1::int))
       else seq (unreachable svc) (return 1)) (\<lambda>ret v. ret = 0 \<longrightarrow> tstate v = s_committing \<and>
          entered (wsm_gtid (trx_ws_meta (trx v))) (w_env v)) (\<lambda>_ _. True)) (\<lambda>_ _. True) v" for v
      by (rule wp_anything) (auto intro!: wp_anything_returned)
    then show ?thesis
      using facts st False unfolding enter_commit_order_def commit_order_enter_call_def unlock_def
      by (simp add: wp_seq wp_block wp_skip wp_assert wp_modify wp_bind wp_fetch wp_provider_call)
  qed
  from wp_conj [OF enter_commit_order_spec [OF w c] this] show ?thesis
    by (rule wp_mono) auto
qed


text \<open>
  The outcome of \<^verbatim>\<open>before_commit\<close> in a debug build, when the commit order protects the transaction: it
  is in the commit order at the position of its write set, or can be rolled back.
\<close>

definition committing_or_failed :: "(gtid \<Rightarrow> 'e \<Rightarrow> bool) \<Rightarrow> int \<Rightarrow> 'e world \<Rightarrow> bool" where
  "committing_or_failed entered ret v \<longleftrightarrow>
     ret = 0 \<and> committing s_committing (wsm_gtid (trx_ws_meta (trx v))) v \<and>
       entered (wsm_gtid (trx_ws_meta (trx v))) (w_env v) \<or>
     ret = 1 \<and> plain_local v \<and> \<not> w_locked v \<and> prepare_failed_state (tstate v)"

lemma before_commit_local_kept:
  assumes "plain_local w" "owner_locked w" "\<not> is_xa (trx w)"
    and "tstate w = s_executing \<or> tstate w = s_must_abort \<or>
      tstate w = s_committing \<and> certified (trx w) \<and> (debug_build svc \<longrightarrow> ordered (trx w))"
    and c: "provider_contract svc" and o: "orders_commits svc entered"
  shows "wp (before_commit_local svc cb) (\<lambda>ret v. entered_or_failed svc ret v \<and>
    (ret = 0 \<longrightarrow> tstate v = s_committing \<and> entered (wsm_gtid (trx_ws_meta (trx v))) (w_env v))) never w"
  unfolding before_commit_local_def wp_bind
proof (rule wp_mono [OF before_commit_prepare_spec [OF assms(1-5)]])
  fix ret v assume v: "ready_or_failed svc ret v"
  have enter: "ret = 0 \<Longrightarrow> wp (enter_commit_order svc) (\<lambda>ret v. entered_or_failed svc ret v \<and>
      (ret = 0 \<longrightarrow> tstate v = s_committing \<and> entered (wsm_gtid (trx_ws_meta (trx v))) (w_env v))) never v"
    using v enter_commit_order_kept [OF _ c o] by blast
  have "tstate v \<noteq> s_prepared" "ret \<noteq> 0 \<Longrightarrow> entered_or_failed svc ret v"
    using v by (auto simp: ready_or_failed_def entered_or_failed_def prepare_failed_state_def)
  then show "wp (branch (\<lambda>w. ret = 0 \<and> tstate w = s_prepared)
       (bind (certify_commit svc False) (\<lambda>ret.
         seq (assert_svc svc ''committing or failed''
                (\<lambda>w. ret = 0 \<and> tstate w = s_committing \<or> prepare_failed_state (tstate w) \<or>
                     tstate w = s_prepared))
             (return ret)))
       (return ret)) (\<lambda>ret. wp (if ret = 0 then enter_commit_order svc else return ret)
         (\<lambda>ret v. entered_or_failed svc ret v \<and> (ret = 0 \<longrightarrow> tstate v = s_committing \<and>
            entered (wsm_gtid (trx_ws_meta (trx v))) (w_env v))) never) never v"
    using enter by (simp add: wp_branch wp_return)
qed simp

lemma before_commit_kept:
  assumes w: "plain_local w" "\<not> w_locked w" "\<not> is_xa (trx w)"
      "tstate w = s_executing \<or> tstate w = s_must_abort \<or>
       tstate w = s_committing \<and> certified (trx w) \<and> (debug_build svc \<longrightarrow> ordered (trx w))"
    and c: "provider_contract svc" and o: "orders_commits svc entered" and d: "debug_build svc"
  shows "wp (trx_before_commit svc cb) (committing_or_failed entered) never w"
  unfolding trx_before_commit_def with_lock_def wp_seq
proof (rule wp_lock_plain [OF w(1,2)])
  fix v assume v: "window w v" "owner_locked v" "plain_local v"
  have st: "tstate v = s_executing \<or> tstate v = s_must_abort \<or>
      tstate v = s_committing \<and> certified (trx v) \<and> (debug_build svc \<longrightarrow> ordered (trx v))"
    and xa: "\<not> is_xa (trx v)"
    using w(3,4) windowD(16,24,26) [OF v(1)] window_state [OF v(1)] by auto
  have mode: "cs_mode (w_cs v) = m_local" using v(3) by (simp add: plain_local_def busy_local_def)
  have result: "wp (seq (when_st (\<lambda>w. ret = 0 \<and> tstate w = s_committing)
             (modify (upd_trx (\<lambda>t. t\<lparr>is_bf_immutable := True\<rparr>)))) (return ret))
        (\<lambda>a. wp unlock (\<lambda>_. committing_or_failed entered a) never) never u"
    if "entered_or_failed svc ret u \<and> (ret = 0 \<longrightarrow> tstate u = s_committing \<and>
      entered (wsm_gtid (trx_ws_meta (trx u))) (w_env u))" for ret u
    using that d
    by (auto simp: wp_simps entered_or_failed_def committing_or_failed_def unlock_def committing_def ordered_iff
         owner_locked_def plain_local_def busy_local_def is_streaming_def)
  have body: "wp (before_commit_local svc cb) (\<lambda>ret. wp (seq
        (when_st (\<lambda>w. ret = 0 \<and> tstate w = s_committing)
             (modify (upd_trx (\<lambda>t. t\<lparr>is_bf_immutable := True\<rparr>)))) (return ret))
        (\<lambda>a. wp unlock (\<lambda>_. committing_or_failed entered a) never) never) never v"
    by (rule wp_mono [OF before_commit_local_kept [OF v(3,2) xa st c o]]) (erule result, simp)
  show "wp (finally_do (seq (block
       [assert_svc svc ''mode() != m_toi'' (\<lambda>w. cs_mode (w_cs w) \<noteq> m_toi),
        assert_svc svc ''state before commit''
          (\<lambda>w. tstate w \<in> {s_executing, s_prepared, s_committing, s_must_abort, s_replaying}),
        assert_svc svc ''certified()''
          (\<lambda>w. tstate w \<noteq> s_committing \<and> tstate w \<noteq> s_replaying \<or> certified (trx w))])
     (bind (fetch (\<lambda>w. cs_mode (w_cs w)) (\<lambda>m. case m of
          m_local \<Rightarrow> before_commit_local svc cb
        | m_high_priority \<Rightarrow> before_commit_high_priority svc
        | _ \<Rightarrow> seq (unreachable svc) (return 1))) (\<lambda>ret.
      seq (when_st (\<lambda>w. ret = 0 \<and> tstate w = s_committing)
             (modify (upd_trx (\<lambda>t. t\<lparr>is_bf_immutable := True\<rparr>))))
          (return ret)))) unlock) (committing_or_failed entered) never v"
    by (rule wp_finally_total)
       (use st mode body in \<open>auto simp: wp_seq wp_skip wp_assert wp_bind wp_fetch\<close>)
qed

section \<open>The commit of a client\<close>

text \<open>
  A client's own part of the simulator: its transaction object and its entry in the storage engine,
  and its statistics. The engine has reached the positions \<open>gs\<close>.
\<close>

definition reached :: "gtid \<Rightarrow> 'p db_env \<Rightarrow> bool" where
  "reached g e \<longleftrightarrow> gtid_id (se_position (db_engine e)) = gtid_id g \<and> gtid_seqno g \<le> gtid_seqno (se_position (db_engine e))"

definition own_part :: "client_ref \<Rightarrow> bool \<Rightarrow> client_stats \<Rightarrow> gtid set \<Rightarrow> 'p db_env \<Rightarrow> bool" where
  "own_part me act st gs e \<longleftrightarrow> db_se_trx e = (if act then Some me else None) \<and>
     (me \<in> set (se_transactions (db_engine e)) \<longleftrightarrow> act) \<and> db_stats e = st \<and> (\<forall>g \<in> gs. reached g e)"

text \<open>
  The other threads of the server, and the provider, leave this part alone, and positions only
  grow; the holder of the commit mutex releases it; and a transaction that is in the commit order
  comes after the position of the engine.
\<close>

definition leaves_client_alone :: "'p db_env services \<Rightarrow> client_ref \<Rightarrow> bool" where
  "leaves_client_alone svc me \<longleftrightarrow> (\<forall>act st gs.
     provider_keeps svc (own_part me act st gs) \<and> client_keeps svc (own_part me act st gs) \<and>
     storage_keeps svc (own_part me act st gs) \<and> server_keeps svc (own_part me act st gs))"

definition mutex_released :: "'p db_ops \<Rightarrow> client_ref \<Rightarrow> bool" where
  "mutex_released os me \<longleftrightarrow> (\<forall>e. db_commit_mutex (dm_wait_commit_mutex os e) = None) \<and>
     (\<forall>act st gs e. own_part me act st gs e \<longrightarrow> own_part me act st gs (dm_wait_commit_mutex os e))"

definition engine_behind :: "(gtid \<Rightarrow> 'p db_env \<Rightarrow> bool) \<Rightarrow> bool" where
  "engine_behind entered \<longleftrightarrow> (\<forall>g e. entered g e \<longrightarrow> position_after (se_position (db_engine e)) g)"

lemma leaves_frame: "leaves_client_alone svc me \<Longrightarrow> env_frame svc (own_part me act st gs)"
  by (simp add: leaves_client_alone_def env_frame_def)

lemma wp_frame:
  assumes "wp m Q never w" and "keeps (env_holds P p) m" and "env_holds P p w"
  shows "wp m (\<lambda>a v. Q a v \<and> env_holds P p v) never w"
  by (rule wp_mono [OF wp_conj [OF assms(1) keepsD [OF assms(2,3)]]]) auto

lemmas kept_hooks = env_frame.k_client_hooks [OF leaves_frame]

lemma own_part_apart [simp]:
  "own_part me act st gs (e\<lparr>db_commit_mutex := x\<rparr>) = own_part me act st gs e"
  "own_part me act st gs (e\<lparr>db_commit_mutex := x, db_next_commit_seqno := n\<rparr>) = own_part me act st gs e"
  by (simp_all add: own_part_def reached_def)

lemma critical_section_own:
  assumes "mutex_released os me" and "own_part me act st gs e"
  shows "wp (get_commit_critical_section os me) (\<lambda>_. own_part me act st gs) never e"
  using assms by (auto simp: get_commit_critical_section_def wp_simps mutex_released_def)

lemma release_own:
  "own_part me act st gs e \<Longrightarrow> wp (release_commit_critical_section me) (\<lambda>_. own_part me act st gs) never e"
  by (simp add: release_commit_critical_section_def wp_simps)

lemma se_commit_own:
  assumes "own_part me True st gs e" and "position_after (se_position (db_engine e)) g"
  shows "wp (se_commit g) (\<lambda>_. own_part me False st {g}) never e"
  using assms
  by (auto simp: se_commit_def se_erase_def se_store_position_def se_validate_position_def upd_engine_def set_se_trx_def
      own_part_def reached_def position_after_def wp_simps)

lemma se_rollback_own: "own_part me act st gs e \<Longrightarrow> wp se_rollback (\<lambda>_. own_part me False st {}) never e"
  by (cases act) (simp_all add: se_rollback_def se_erase_def upd_engine_def set_se_trx_def own_part_def wp_simps)

text \<open>The session of the client while it runs the statement.\<close>

definition in_statement :: "client_session_state \<times> client_id \<times> client_ref \<Rightarrow> bool" where
  "in_statement p \<longleftrightarrow> fst p = s_exec"

lemma append_data_plain:
  assumes "plain_local w" and "cs_state (w_cs w) = s_exec" and "\<not> w_locked w" and "\<not> is_xa (trx w)"
  shows "wp (client_append_data svc d) (\<lambda>_ v. plain_local v \<and> \<not> w_locked v \<and> \<not> is_xa (trx v) \<and> tstate v = tstate w \<and>
    certified (trx v) = certified (trx w)) never w"
  using assms
  by (simp add: client_append_data_def trx_append_data_def append_data_call_def wp_simps plain_local_def busy_local_def
      is_xa_def is_streaming_def active_def split_beta)

lemma before_prepare_any:
  assumes "plain_local w" "owner_locked w" "\<not> is_xa (trx w)" "tstate w = s_executing \<or> tstate w = s_must_abort"
    and "provider_contract svc"
  shows "wp (trx_before_prepare svc cb) (certified_or_failed svc) never w"
proof (cases "tstate w = s_executing")
  case True
  with assms show ?thesis by (intro before_prepare_spec)
next
  case False
  with assms have "tstate w = s_must_abort" by simp
  with assms show ?thesis
    by (auto simp: trx_before_prepare_def wp_simps certified_or_failed_def owner_locked_def plain_local_def busy_local_def
        wp_override_error prepare_failed_state_def is_streaming_def active_def is_xa_def)
qed

text \<open>The two hooks of a two phase commit, in a debug build; each takes and releases the lock.\<close>

definition prepared_at :: "trx_state \<Rightarrow> int \<Rightarrow> 'e world \<Rightarrow> bool" where
  "prepared_at s ret v \<longleftrightarrow> plain_local v \<and> \<not> w_locked v \<and> \<not> is_xa (trx v) \<and>
     (ret = 0 \<and> (tstate v = s \<or> tstate v = s_must_abort) \<and> certified (trx v) \<and> ordered (trx v) \<or>
      ret = 1 \<and> prepare_failed_state (tstate v))"

lemma with_lock_plain:
  assumes "plain_local w" and "\<not> w_locked w"
    and "\<And>v. window w v \<Longrightarrow> owner_locked v \<Longrightarrow> plain_local v \<Longrightarrow> wp m (\<lambda>a x. Q a (x\<lparr>w_locked := False\<rparr>)) never v"
  shows "wp (with_lock svc m) Q never w"
  unfolding with_lock_def wp_seq
proof (rule wp_lock_plain [OF assms(1,2)], rule wp_finally_total)
  fix v assume "window w v" "owner_locked v" "plain_local v"
  then have "wp m (\<lambda>a x. Q a (x\<lparr>w_locked := False\<rparr>)) never v" by (rule assms(3))
  then show "wp m (\<lambda>a. wp unlock (\<lambda>_. Q a) never) never v" by (simp add: unlock_def wp_modify [abs_def])
qed

lemma client_before_prepare_ok:
  assumes "plain_local w" "\<not> w_locked w" "\<not> is_xa (trx w)" "tstate w = s_executing \<or> tstate w = s_must_abort"
    and "cs_state (w_cs w) = s_exec" and "provider_contract svc" and "debug_build svc"
  shows "wp (client_before_prepare svc cb) (prepared_at s_preparing) never w"
  unfolding client_before_prepare_def
proof (rule with_lock_plain [OF assms(1,2)], goal_cases)
  case (1 v)
  have "tstate v = s_executing \<or> tstate v = s_must_abort" "\<not> is_xa (trx v)" "cs_state (w_cs v) = s_exec"
    using windowD(2,26) [OF 1(1)] window_state [OF 1(1)] assms(3-5) by auto
  then have "wp (trx_before_prepare svc cb) (\<lambda>a x. prepared_at s_preparing a (x\<lparr>w_locked := False\<rparr>)) never v"
    using 1 assms(6,7)
    by (intro wp_mono [OF before_prepare_any]) (auto simp: certified_or_failed_def prepared_at_def)
  with 1(2) \<open>cs_state (w_cs v) = s_exec\<close> show ?case by (simp add: wp_simps owner_locked_def)
qed

lemma client_after_prepare_ok:
  assumes "prepared_at s_preparing 0 w" and "cs_state (w_cs w) = s_exec" and "debug_build svc"
  shows "wp (client_after_prepare svc) (prepared_at s_committing) never w"
  unfolding client_after_prepare_def
proof (rule with_lock_plain, goal_cases)
  case (3 v)
  have facts: "tstate v = s_preparing \<or> tstate v = s_must_abort" "\<not> is_xa (trx v)" "cs_state (w_cs v) = s_exec"
      "certified (trx v)" "ordered (trx v)"
    using windowD(2,16,24,26) [OF 3(1)] window_state [OF 3(1)] assms(1,2) by (auto simp: prepared_at_def)
  then show ?case
    using 3(2,3)
    by (auto simp: wp_simps trx_after_prepare_def owner_locked_def wp_set_state may_set_state_def prepared_at_def
        prepare_failed_state_def plain_local_def busy_local_def is_streaming_def)
qed (use assms(1) in \<open>auto simp: prepared_at_def\<close>)

definition ready_to_commit :: "int \<Rightarrow> 'e world \<Rightarrow> bool" where
  "ready_to_commit ret v \<longleftrightarrow> plain_local v \<and> \<not> w_locked v \<and> \<not> is_xa (trx v) \<and>
     (ret = 0 \<and> (tstate v = s_executing \<or> tstate v = s_must_abort \<or>
        tstate v = s_committing \<and> certified (trx v) \<and> ordered (trx v)) \<or>
      ret = 1 \<and> prepare_failed_state (tstate v))"

lemma session_exec: "env_holds P (s_exec, i, me) w \<Longrightarrow> cs_state (w_cs w) = s_exec \<and> w_self w = me \<and> P (w_env w)"
  by (simp add: env_holds_def session_part_def)

lemma prepare_phase:
  assumes "plain_local w" "\<not> w_locked w" "\<not> is_xa (trx w)" "tstate w = s_executing \<or> tstate w = s_must_abort"
    and own: "env_holds (own_part me act st gs) (s_exec, i, me) w"
    and c: "provider_contract svc" and d: "debug_build svc" and f: "leaves_client_alone svc me"
  shows "wp (or_chain (return 0) (if two_phase then [client_before_prepare svc True, client_after_prepare svc] else []))
    (\<lambda>ret v. ready_to_commit ret v \<and> env_holds (own_part me act st gs) (s_exec, i, me) v) never w"
proof (cases two_phase)
  case False
  then show ?thesis using assms(1-5) by (auto simp: wp_simps ready_to_commit_def)
next
  case True
  let ?I = "env_holds (own_part me act st gs) (s_exec, i, me)"
  have after: "wp (client_after_prepare svc) (\<lambda>s v. ready_to_commit (bool_int (s \<noteq> 0)) v \<and> ?I v) never v"
    if "prepared_at s_preparing 0 v" "?I v" for v
    by (rule wp_mono [OF wp_frame [OF client_after_prepare_ok kept_hooks(5) [OF f]]])
       (use that session_exec [OF that(2)] d in \<open>auto simp: prepared_at_def ready_to_commit_def prepare_failed_state_def\<close>)
  have "wp (client_before_prepare svc True) (\<lambda>r v. prepared_at s_preparing r v \<and> ?I v) never w"
    using session_exec [OF own] by (intro wp_frame client_before_prepare_ok kept_hooks(4) assms) auto
  then have "wp (client_before_prepare svc True) (\<lambda>r. if bool_int (r \<noteq> 0) \<noteq> 0 then (\<lambda>v. ready_to_commit 1 v \<and> ?I v)
      else wp (client_after_prepare svc) (\<lambda>s v. ready_to_commit (bool_int (s \<noteq> 0)) v \<and> ?I v) never) never w"
  proof (rule wp_mono, goal_cases)
    case (1 r v)
    then show ?case
      using after [of v] by (cases "r = 0") (auto simp: prepared_at_def ready_to_commit_def)
  qed simp
  with True show ?thesis by (simp add: wp_or_else wp_fun)
qed

lemma commit_phase:
  assumes w: "ready_to_commit err w" and own: "env_holds (own_part me act st gs) (s_exec, i, me) w"
    and c: "provider_contract svc" and o: "orders_commits svc entered" and d: "debug_build svc"
    and f: "leaves_client_alone svc me"
  shows "wp (or_else (return err) (client_before_commit svc True))
    (\<lambda>ret v. committing_or_failed entered ret v \<and> env_holds (own_part me act st gs) (s_exec, i, me) v) never w"
proof (cases "err = 0")
  case True
  have plain: "plain_local w" "\<not> w_locked w" "\<not> is_xa (trx w)" "tstate w = s_executing \<or> tstate w = s_must_abort \<or>
      tstate w = s_committing \<and> certified (trx w) \<and> (debug_build svc \<longrightarrow> ordered (trx w))"
    using w True by (auto simp: ready_to_commit_def)
  have "wp (client_before_commit svc True) (committing_or_failed entered) never w"
    using before_commit_kept [OF plain c o d, of True] session_exec [OF own] plain(1)
    by (simp add: client_before_commit_def wp_simps plain_local_def)
  from wp_frame [OF this kept_hooks(6) [OF f] own]
  have "wp (client_before_commit svc True) (\<lambda>s v. committing_or_failed entered (bool_int (s \<noteq> 0)) v \<and>
      env_holds (own_part me act st gs) (s_exec, i, me) v) never w"
    by (rule wp_mono) (auto simp: committing_or_failed_def)
  with True show ?thesis by (simp add: wp_or_else wp_return)
next
  case False
  with w own show ?thesis by (auto simp: wp_or_else wp_return ready_to_commit_def committing_or_failed_def)
qed

lemma commits_in_library:
  assumes "committing s_committing g w" and own: "env_holds (own_part me False st gs) (s_exec, i, me) w"
    and n: "finishes_commits svc" and f: "leaves_client_alone svc me"
  shows "wp (or_chain (return 0) [client_ordered_commit svc, client_after_commit svc])
    (\<lambda>ret v. ret = 0 \<and> committing s_committed g v \<and> env_holds (own_part me False st gs) (s_exec, i, me) v) never w"
proof -
  let ?I = "env_holds (own_part me False st gs) (s_exec, i, me)"
  have after: "wp (client_after_commit svc) (\<lambda>s v. s = 0 \<and> committing s_committed g v \<and> ?I v) never v"
    if v: "committing s_ordered_commit g v" "?I v" for v
  proof -
    have "wp (client_after_commit svc) (\<lambda>s v. s = 0 \<and> committing s_committed g v) never v"
      using wp_mono [OF after_commit_spec [OF v(1) n], of "\<lambda>s v. s = 0 \<and> committing s_committed g v" never]
        v(1) session_exec [OF v(2)] by (auto simp: client_after_commit_def wp_simps committing_def)
    from wp_frame [OF this kept_hooks(8) [OF f] v(2)] show ?thesis by (rule wp_mono) auto
  qed
  have "wp (client_ordered_commit svc) (\<lambda>s v. s = 0 \<and> committing s_ordered_commit g v) never w"
    using wp_mono [OF ordered_commit_spec [OF assms(1) n], of "\<lambda>s v. s = 0 \<and> committing s_ordered_commit g v" never]
      assms(1) session_exec [OF own] by (auto simp: client_ordered_commit_def wp_simps committing_def)
  from wp_frame [OF this kept_hooks(7) [OF f] own]
  have "wp (client_ordered_commit svc) (\<lambda>r. if bool_int (r \<noteq> 0) \<noteq> 0 then (\<lambda>v. False)
      else wp (client_after_commit svc) (\<lambda>s v. bool_int (s \<noteq> 0) = 0 \<and> committing s_committed g v \<and> ?I v) never) never w"
    by (rule wp_mono) (auto intro!: wp_mono [OF after])
  then show ?thesis by (simp add: wp_or_else wp_fun cong: if_cong)
qed

lemma rolls_back_in_library:
  assumes w: "plain_local w" "\<not> w_locked w" "prepare_failed_state (tstate w)"
    and own: "env_holds (own_part me act st gs) (s_exec, i, me) w" and f: "leaves_client_alone svc me"
  shows "wp (abandon_transaction svc)
    (\<lambda>_ v. (tstate v = s_aborted \<or> tstate v = s_must_replay) \<and> \<not> w_locked v \<and>
      env_holds (own_part me False st {}) (s_exec, i, me) v) never w"
proof -
  have allowed: "rollback_allowed (tstate w)" using w(3) by (auto simp: rollback_allowed_def prepare_failed_state_def)
  have "wp (trx_before_rollback svc) (\<lambda>_ v. \<not> w_locked v \<and> (tstate v = s_aborting \<or> tstate v = s_must_replay) \<and>
      w_thread v = owning_thread (w_cs v) \<and> \<not> is_streaming (trx v)) never w"
    by (rule wp_mono [OF before_rollback_spec [OF w(1,2) allowed]])
       (auto simp: rollback_targets_def rollback_target_def split: if_splits)
  then have "wp (client_before_rollback svc) (\<lambda>_ v. \<not> w_locked v \<and> (tstate v = s_aborting \<or> tstate v = s_must_replay) \<and>
      w_thread v = owning_thread (w_cs v) \<and> \<not> is_streaming (trx v)) never w"
    using w session_exec [OF own] by (simp add: client_before_rollback_def wp_simps plain_local_def)
  note before = wp_frame [OF this kept_hooks(9) [OF f] own]
  have after: "wp (client_after_rollback svc) (\<lambda>_ v. ((tstate v = s_aborted \<or> tstate v = s_must_replay) \<and> \<not> w_locked v) \<and>
      env_holds (own_part me False st {}) (s_exec, i, me) v) never v"
    if v: "\<not> w_locked v" "tstate v = s_aborting \<or> tstate v = s_must_replay" "w_thread v = owning_thread (w_cs v)"
      "\<not> is_streaming (trx v)" "env_holds (own_part me False st {}) (s_exec, i, me) v" for v
  proof (rule wp_frame [OF _ kept_hooks(10) [OF f] v(5)])
    have "wp (trx_after_rollback svc) (\<lambda>_ v. (tstate v = s_aborted \<or> tstate v = s_must_replay) \<and> \<not> w_locked v) never v"
      by (rule wp_mono [OF after_rollback_spec [OF v(1,3,4,2)]]) (auto split: if_splits)
    then show "wp (client_after_rollback svc) (\<lambda>_ v. (tstate v = s_aborted \<or> tstate v = s_must_replay) \<and> \<not> w_locked v) never v"
      using v session_exec [OF v(5)] by (simp add: client_after_rollback_def wp_simps)
  qed
  have "wp (on_env se_rollback) (\<lambda>_. wp (client_after_rollback svc) (\<lambda>_ v. (tstate v = s_aborted \<or> tstate v = s_must_replay) \<and>
      \<not> w_locked v \<and> env_holds (own_part me False st {}) (s_exec, i, me) v) never) never v"
    if v: "(\<not> w_locked v \<and> (tstate v = s_aborting \<or> tstate v = s_must_replay) \<and> w_thread v = owning_thread (w_cs v) \<and>
      \<not> is_streaming (trx v)) \<and> env_holds (own_part me act st gs) (s_exec, i, me) v" for v
    unfolding wp_on_env
    by (rule wp_mono [OF se_rollback_own])
       (use v in \<open>auto simp: env_holds_def session_part_def intro!: wp_mono [OF after]\<close>)
  from wp_mono [OF before this] show ?thesis by (simp add: abandon_transaction_def wp_simps wp_fun)
qed

text \<open>How the commit statement leaves the transaction and the client's part of the storage engine.\<close>

definition statement_done :: "client_stats \<Rightarrow> client_id \<Rightarrow> client_ref \<Rightarrow> int \<Rightarrow> 'p db_env world \<Rightarrow> bool" where
  "statement_done st i me ret v \<longleftrightarrow>
     ret = 0 \<and> (\<exists>g. committing s_committed g v \<and> env_holds (own_part me False st {g}) (s_exec, i, me) v) \<or>
     ret = 1 \<and> (tstate v = s_aborted \<or> tstate v = s_must_replay) \<and> \<not> w_locked v \<and>
       env_holds (own_part me False st {}) (s_exec, i, me) v"

lemma statement_done_mutex:
  "statement_done st i me ret v \<Longrightarrow> statement_done st i me ret (v\<lparr>w_env := (w_env v)\<lparr>db_commit_mutex := x\<rparr>\<rparr>)"
  by (simp add: statement_done_def committing_def env_holds_def session_part_def)

lemma finish_phase:
  assumes w: "committing_or_failed entered err w" and own: "env_holds (own_part me True st gs) (s_exec, i, me) w"
    and n: "finishes_commits svc" and f: "leaves_client_alone svc me" and b: "engine_behind entered"
    and check: "\<not> pm_check_sequential_consistency params"
  shows "wp (finish_commit svc params commit_seqno err) (statement_done st i me) never w"
proof (cases "err = 0")
  case True
  let ?g = "wsm_gtid (trx_ws_meta (trx w))"
  let ?rest = "\<lambda>err. seq (only_if (err \<noteq> 0) (abandon_transaction svc)) (return err)"
  have g: "committing s_committing ?g w" "position_after (se_position (db_engine (w_env w))) ?g"
    using w True b by (auto simp: committing_or_failed_def engine_behind_def)
  have library: "wp (or_chain (return 0) [client_ordered_commit svc, client_after_commit svc])
      (\<lambda>err. wp (?rest err) (statement_done st i me) never) never (w\<lparr>w_env := e\<rparr>)"
    if "own_part me False st {?g} e" for e
    by (rule wp_mono [OF commits_in_library [of ?g _ me st "{?g}" i, OF _ _ n f]])
       (use g that own in \<open>auto simp: wp_simps statement_done_def committing_def env_holds_def session_part_def\<close>)
  have "own_part me True st gs (w_env w)" using own by (simp add: env_holds_def)
  from wp_mono [OF se_commit_own [OF this g(2)] library]
  show ?thesis
    using True check
    by (simp add: finish_commit_def wp_seq wp_only_if wp_fetch wp_on_env wp_bind [of "or_chain _ _"] wp_skip
        del: or_chain.simps)
next
  case False
  then have "err = 1" "plain_local w" "\<not> w_locked w" "prepare_failed_state (tstate w)"
    using w by (auto simp: committing_or_failed_def)
  moreover have "wp (abandon_transaction svc) (\<lambda>_. statement_done st i me 1) never w"
    by (rule wp_mono [OF rolls_back_in_library [OF calculation(2-4) own f]]) (auto simp: statement_done_def)
  ultimately show ?thesis by (simp add: finish_commit_def wp_simps wp_fun)
qed

lemma commit_hooks_done:
  assumes w: "plain_local w" "\<not> w_locked w" "\<not> is_xa (trx w)" "tstate w = s_executing \<or> tstate w = s_must_abort"
    and own: "env_holds (own_part me True st gs) (s_exec, i, me) w"
    and c: "provider_contract svc" and o: "orders_commits svc entered" and d: "debug_build svc"
    and n: "finishes_commits svc" and f: "leaves_client_alone svc me"
    and b: "engine_behind entered" and check: "\<not> pm_check_sequential_consistency params"
  shows "wp (commit_hooks svc os params me commit_seqno) (statement_done st i me) never w"
proof -
  let ?I = "env_holds (own_part me True st gs) (s_exec, i, me)"
  have commit: "wp (bind (or_else (return err) (client_before_commit svc True)) (finish_commit svc params commit_seqno))
      (statement_done st i me) never v" if "ready_to_commit err v \<and> ?I v" for err v
    unfolding wp_bind
    by (rule wp_mono [OF commit_phase [OF _ _ c o d f]]) (use that finish_phase [OF _ _ n f b check] in auto)
  let ?plain = "\<lambda>v. plain_local v \<and> \<not> w_locked v \<and> \<not> is_xa (trx v) \<and> tstate v = tstate w \<and> certified (trx v) = certified (trx w)"
  have prepare: "wp (bind (or_chain (return 0) (if pm_do_2pc params
          then [client_before_prepare svc True, client_after_prepare svc] else [])) (\<lambda>err.
      bind (or_else (return err) (client_before_commit svc True)) (finish_commit svc params commit_seqno)))
      (statement_done st i me) never v" if v: "?plain v \<and> ?I v" for v
    unfolding wp_bind [of "or_chain _ _"]
    by (rule wp_mono [OF prepare_phase [OF _ _ _ _ _ c d f] commit]) (use v w(4) in auto)
  have append: "wp (client_append_data svc (dm_bytes os commit_seqno)) (\<lambda>_ v. ?plain v \<and> ?I v) never (w\<lparr>w_env := e\<rparr>)"
    if "own_part me True st gs e" for e
  proof (rule wp_frame [OF wp_mono [OF append_data_plain] kept_hooks(3) [OF f]])
    show "?I (w\<lparr>w_env := e\<rparr>)" using that own by (simp add: env_holds_def session_part_def)
  qed (use w session_exec [OF own] in auto)
  have "own_part me True st gs (w_env w)" using own by (simp add: env_holds_def)
  from wp_mono [OF release_own [OF this], where Q' = "\<lambda>_ e. wp (client_append_data svc (dm_bytes os commit_seqno))
      (\<lambda>_. wp (bind (or_chain (return 0) (if pm_do_2pc params
          then [client_before_prepare svc True, client_after_prepare svc] else [])) (\<lambda>err.
      bind (or_else (return err) (client_before_commit svc True)) (finish_commit svc params commit_seqno)))
      (statement_done st i me) never) never (w\<lparr>w_env := e\<rparr>)"]
  show ?thesis
    using check wp_mono [OF append prepare]
    by (simp add: commit_hooks_def wp_seq wp_only_if wp_on_env)
qed

lemma commit_statement_done:
  assumes w: "plain_local w" "\<not> w_locked w" "\<not> is_xa (trx w)" "tstate w = s_executing \<or> tstate w = s_must_abort"
    and own: "env_holds (own_part me True st gs) (s_exec, i, me) w"
    and c: "provider_contract svc" and o: "orders_commits svc entered" and d: "debug_build svc"
    and n: "finishes_commits svc" and f: "leaves_client_alone svc me" and m: "mutex_released os me"
    and b: "engine_behind entered" and check: "\<not> pm_check_sequential_consistency params"
  shows "wp (commit_statement svc os params) (statement_done st i me) never w"
proof -
  have released: "wp (on_env (release_commit_critical_section me)) (\<lambda>_. statement_done st i me a) never v"
    if "statement_done st i me a v" for a v
    using that statement_done_mutex [OF that, of None] by (simp add: release_commit_critical_section_def wp_simps)
  have body: "wp (finally_do (commit_hooks svc os params me n') (on_env (release_commit_critical_section me)))
      (statement_done st i me) never (w\<lparr>w_env := e\<rparr>)" if "own_part me True st gs e" for n' e
    by (rule wp_finally_total, rule wp_mono [OF commit_hooks_done [OF _ _ _ _ _ c o d n f b check]])
       (use w own that released in \<open>auto simp: env_holds_def session_part_def\<close>)
  have "own_part me True st gs (w_env w)" "w_self w = me" using own by (auto simp: env_holds_def session_part_def)
  with wp_mono [OF critical_section_own [OF m this(1)] body]
  show ?thesis by (simp add: commit_statement_def wp_fetch wp_bind wp_on_env)
qed

text \<open>The hypotheses, for the services of the simulator.\<close>

definition others_leave_client_alone :: "'p db_env services \<Rightarrow> client_ref \<Rightarrow> bool" where
  "others_leave_client_alone base me \<longleftrightarrow> (\<forall>act st gs.
     provider_keeps base (own_part me act st gs) \<and> storage_keeps base (own_part me act st gs) \<and>
     server_keeps base (own_part me act st gs))"

lemma own_part_event [simp]: "own_part me act st gs (db_event ev e) = own_part me act st gs e"
  by (simp add: db_event_def own_part_def reached_def)

lemma db_services_leave: "others_leave_client_alone base me \<Longrightarrow> leaves_client_alone (db_services base pr k) me"
  by (auto simp: others_leave_client_alone_def leaves_client_alone_def provider_keeps_def client_keeps_def storage_keeps_def
      server_keeps_def fn_keeps_def keeps_intro)

lemma db_services_contracts:
  "provider_contract (db_services base pr k) = provider_contract base"
  "orders_commits (db_services base pr k) entered = orders_commits base entered"
  "finishes_commits (db_services base pr k) = finishes_commits base"
  by (simp_all add: provider_contract_def orders_commits_def finishes_commits_def)


text \<open>
  A provider with one node, whose state is the last seqno; a transaction may enter the commit order
  when the storage engine is behind it.
\<close>

definition solo_order :: "client_id \<Rightarrow> ws_handle \<Rightarrow> u32 \<Rightarrow> ws_meta \<Rightarrow> bool \<Rightarrow> int db_env \<Rightarrow>
    (status \<times> ws_handle \<times> ws_meta) \<times> int db_env" where
  "solo_order c h flags m seq_cb e = (let n = db_prov e + 1 in
     (if n = seqno_undefined then (error_certification_failed, h, m) else
      (success, h, m\<lparr>wsm_gtid := \<lparr>gtid_id = group_id, gtid_seqno = n\<rparr>\<rparr>),
      e\<lparr>db_prov := n, db_commit_mutex := None\<rparr>))"

definition solo_enter :: "ws_handle \<Rightarrow> ws_meta \<Rightarrow> int db_env \<Rightarrow> status \<times> int db_env" where
  "solo_enter h m e = (if position_after (se_position (db_engine e)) (wsm_gtid m) then success else error_bf_abort, e)"

definition solo_base :: "int db_env services" where
  "solo_base = \<lparr>debug_build = True,
     prov = \<lparr>prov_start_transaction = \<lambda>h e. ((0, h), e), prov_assign_read_view = \<lambda>h g e. ((Inr success, h), e),
       prov_append_key = \<lambda>h k e. ((Inr 0, h), e), prov_append_data = \<lambda>h d e. ((success, h), e),
       prov_certify = solo_order, prov_bf_abort = \<lambda>q i e. (error_not_allowed, e), prov_rollback = \<lambda>i e. (success, e),
       prov_commit_order_enter = solo_enter, prov_commit_order_leave = \<lambda>h m d e. (0, e),
       prov_release = \<lambda>h e. ((0, h), e), prov_enter_toi = \<lambda>c ks d m f e. ((success, m), e),
       prov_leave_toi = \<lambda>c m d e. (success, e), prov_causal_read = \<lambda>t e. ((gtid_undefined, error_not_implemented), e),
       prov_connect = \<lambda>a b c d e. (success, e), prov_disconnect = \<lambda>e. (0, e), prov_desync = \<lambda>e. (0, e),
       prov_resync = \<lambda>e. (0, e), prov_pause = \<lambda>e. (0, e), prov_resume = \<lambda>e. (0, e),
       prov_sst_sent = \<lambda>g n e. (success, e), prov_sst_received = \<lambda>g n e. (success, e)\<rparr>,
     client_ops = db_client_service (return 0) (return success),
     storage = \<lparr>st_acquire = \<lambda>e. (True, e), st_release = id, st_requires_globals = \<lambda>e. False, st_store_globals = id,
       st_start_transaction = \<lambda>h e. (0, e), st_adopt_transaction = \<lambda>t. id, st_append_fragment = \<lambda>i t f d x e. (0, e),
       st_update_fragment_meta = \<lambda>m e. (0, e), st_remove_fragments = \<lambda>e. (0, e), st_commit = \<lambda>h m e. (0, e),
       st_rollback = \<lambda>h m e. (0, e)\<rparr>,
     server_ops = \<lparr>sv_set_position = \<lambda>g. id, sv_background_rollback = skip, sv_streaming_applier_service = \<lambda>e. (0, e),
       sv_release_high_priority_service = \<lambda>h. id, sv_bootstrap = id, sv_log_view = \<lambda>h v. id,
       sv_recover_streaming_appliers = skip, sv_get_view = \<lambda>i e. (view_default, e), sv_get_position = \<lambda>e. (gtid_undefined, e),
       sv_log_state_change = \<lambda>s t. id, sv_sst_before_init = \<lambda>e. True, sv_sst_request = \<lambda>e. ([], e),
       sv_start_sst = \<lambda>r g b e. (0, e), sv_wait_committing_transactions = \<lambda>t e. (0, e)\<rparr>,
     hps = \<lparr>hps_transaction = \<lambda>h e. transaction_init, hps_is_replaying = \<lambda>h e. False,
       hps_start_transaction = \<lambda>h a m e. (0, e), hps_next_fragment = \<lambda>h m e. (0, e), hps_adopt_transaction = \<lambda>h t e. (0, e),
       hps_apply_write_set = \<lambda>h m d e. ((0, []), e), hps_append_fragment_and_commit = \<lambda>h a m d x e. (0, e),
       hps_remove_fragments = \<lambda>h m e. (0, e), hps_commit = \<lambda>h a m e. (0, e), hps_rollback = \<lambda>h a m e. (0, e),
       hps_apply_toi = \<lambda>h m d e. ((0, []), e), hps_apply_nbo_begin = \<lambda>h m d e. ((0, []), e),
       hps_after_apply = \<lambda>h. id, hps_store_globals = \<lambda>h. id, hps_reset_globals = \<lambda>h. id,
       hps_switch_execution_context = \<lambda>h g. id, hps_log_dummy_write_set = \<lambda>h a m d e. ((0, []), e),
       hps_adopt_apply_error = \<lambda>h d e. ([], e)\<rparr>,
     bf_arrivals = \<lambda>e. ([], e), bf_thread = 0, server_events = \<lambda>e. ([], e),
     peer_transaction = \<lambda>c e. transaction_init, peer_total_order_bf_abort = \<lambda>c q. skip, clock = \<lambda>e. 0, usleep = id\<rparr>"

lemma solo_contracts:
  "provider_contract solo_base" "finishes_commits solo_base" "debug_build solo_base"
  "orders_commits solo_base (\<lambda>g e. position_after (se_position (db_engine e)) g)"
  "engine_behind (\<lambda>g e. position_after (se_position (db_engine e)) g)"
  "others_leave_client_alone solo_base me" "mutex_released (quiet_db_ops\<lparr>dm_wait_commit_mutex := db_commit_mutex_update (\<lambda>_. None)\<rparr>) me"
  by (simp_all add: solo_base_def provider_contract_def finishes_commits_def orders_commits_def engine_behind_def
      others_leave_client_alone_def provider_keeps_def storage_keeps_def server_keeps_def fn_keeps_def mutex_released_def
      solo_order_def solo_enter_def bf_abort_status_def keeps_intro Let_def wsm_seqno_def seqno_is_undefined_def
      own_part_def reached_def seqno_undefined_def split_beta)

definition solo_world :: "int db_env world" where
  "solo_world = \<lparr>w_cs = (client_state_init 1 4 m_local)\<lparr>cs_state := s_exec,
       cs_transaction := transaction_init\<lparr>trx_id := 7\<rparr>\<rparr>,
     w_ss = (server_state_init ''1'' gtid_undefined rm_async)\<lparr>provider_loaded := True\<rparr>, w_self = 4, w_thread = 1, w_locked = False,
     w_env = (db_env_init db_params_default 0)\<lparr>db_se_trx := Some 4,
       db_engine := (make_storage_engine db_params_default)\<lparr>se_transactions := [4]\<rparr>\<rparr>\<rparr>"


text \<open>The frame holds for the services of the simulator on this provider.\<close>

interpretation solo: env_frame "db_services solo_base (\<lambda>svc h. return success) k" "own_part me act st gs" p
  for k me act st gs p
  by (rule leaves_frame) (rule db_services_leave [OF solo_contracts(6)])

end
