(* ===== verification/Sim_Cluster_Theorems.thy ===== *)
theory Sim_Cluster_Theorems
  imports Sim_Cluster Sim_Theorems
begin

text \<open>
  Properties of the simulated cluster: which servers and client threads run after the start, what a state
  transfer gives the joiner, and what the statistics add up to.
\<close>

section \<open>The plan of the cluster\<close>

text \<open>The part of the servers that only the main thread changes.\<close>

type_synonym plan = "string \<times> nat \<times> (client_id \<times> client_stats) list \<times> client_id list"

definition sr_plan :: "'p db_server \<Rightarrow> plan" where
  "sr_plan sr = (sr_address sr, sr_appliers sr, sr_clients sr, sr_client_threads sr)"

definition cluster_plan :: "('p, 't) simulator \<Rightarrow> (string \<times> plan) list" where
  "cluster_plan s = map (\<lambda>(n, sr). (n, sr_plan sr)) (sm_servers s)"

definition om_map :: "'k \<Rightarrow> ('v \<Rightarrow> 'v) \<Rightarrow> ('k \<times> 'v) list \<Rightarrow> ('k \<times> 'v) list" where
  "om_map k f m = map (\<lambda>(n, x). (n, if n = k then f x else x)) m"

definition others_keep_plan :: "('p, 't) sim_ops \<Rightarrow> bool" where
  "others_keep_plan os \<longleftrightarrow> (\<forall>s. \<forall>f \<in> set (so_others os s). \<forall>t. cluster_plan (f t) = cluster_plan t)"

text \<open>Neither undefined behaviour nor two servers of one name.\<close>

definition defined :: "exn \<Rightarrow> 'w \<Rightarrow> bool" where
  "defined x w \<longleftrightarrow> (\<forall>msg. x \<noteq> Undefined msg) \<and> x \<noteq> Runtime_error ''Failed to add server''"

lemma defined_simps [simp]:
  "defined (Runtime_error msg) w \<longleftrightarrow> msg \<noteq> ''Failed to add server''" "defined (Assertion msg) w" "defined (Blocked msg) w"
  "defined Fatal_error w" "\<not> defined (Undefined msg) w"
  by (simp_all add: defined_def)

lemma om_map_keys [simp]: "map fst (om_map k f m) = map fst m"
  by (simp add: om_map_def split_def)

lemma om_find_map: "om_find j (om_map k f m) = (if j = k then map_option f (om_find j m) else om_find j m)"
  by (induction m) (auto simp: om_find_def om_map_def)

lemma om_find_plan: "om_find n (cluster_plan s) = map_option sr_plan (om_find n (sm_servers s))"
  by (simp add: om_find_def cluster_plan_def map_of_map comp_def)

lemma om_map_same: "(\<And>x. (k, x) \<in> set m \<Longrightarrow> f x = x) \<Longrightarrow> om_map k f m = m"
  by (induction m) (auto simp: om_map_def)

lemma om_map_put: "om_find k m = None \<Longrightarrow> om_map k f (om_put k v m) = om_put k (f v) m"
proof (induction k v m rule: om_put.induct)
  case (2 k v j u m)
  then have "om_map k f m = m" by (intro om_map_same) (force simp: om_find_def map_of_eq_None_iff split: if_splits)
  with 2 show ?case by (auto simp: om_map_def om_find_def split: if_splits)
qed (simp add: om_map_def)

lemma om_inv_unique: "om_inv m \<Longrightarrow> (k, x) \<in> set m \<Longrightarrow> om_find k m = Some x"
  by (simp add: om_inv_def om_find_def strict_sorted_iff)

text \<open>An operation of a server that is there.\<close>

lemma wp_on_server:
  assumes "om_find n (sm_servers s) = Some sr" and "om_inv (sm_servers s)"
    and "wp m (\<lambda>a sr'. \<forall>t. cluster_plan t = om_map n (\<lambda>_. sr_plan sr') (cluster_plan s) \<longrightarrow> Q a t)
      (\<lambda>x sr'. \<forall>t. E x t) sr"
  shows "wp (on_server n m) Q E s"
proof -
  obtain r sr' where m: "m sr = (r, sr')" by fastforce
  let ?t = "s\<lparr>sm_servers := map (\<lambda>(j, x). (j, if j = n then sr' else x)) (sm_servers s)\<rparr>"
  have "cluster_plan ?t = om_map n (\<lambda>_. sr_plan sr') (cluster_plan s)"
    by (simp add: cluster_plan_def om_map_def split_def)
  with assms(1,3) m show ?thesis by (auto simp: wp_def on_server_def split: sum.splits)
qed

lemma om_inv_plan: "om_inv (cluster_plan s) = om_inv (sm_servers s)"
  by (simp add: om_inv_def cluster_plan_def comp_def split_def)

lemma wp_on_world: "wp (on_world m) Q E s = wp m (\<lambda>a w. Q a (s\<lparr>sr_world := w\<rparr>)) (\<lambda>x w. E x (s\<lparr>sr_world := w\<rparr>)) (sr_world s)"
  by (simp add: wp_def on_world_def split: prod.split sum.split)

lemma plan_world [simp]: "sr_plan (sr\<lparr>sr_world := w\<rparr>) = sr_plan sr"
  by (simp add: sr_plan_def)

text \<open>Work inside a server leaves the plan.\<close>

lemma wp_on_server_kept:
  assumes "om_find n (cluster_plan s) \<noteq> None" and "om_inv (cluster_plan s)"
    and "\<And>sr. wp m (\<lambda>_ sr'. sr_plan sr' = sr_plan sr) defined sr"
    and "\<And>a t. cluster_plan t = cluster_plan s \<Longrightarrow> Q a t"
  shows "wp (on_server n m) Q defined s"
proof -
  obtain sr where sr: "om_find n (sm_servers s) = Some sr" using assms(1) by (auto simp: om_find_plan)
  have "om_map n (\<lambda>_. sr_plan sr) (cluster_plan s) = cluster_plan s"
    by (rule om_map_same) (use sr assms(2) om_inv_unique in \<open>fastforce simp: om_find_plan\<close>)
  then show ?thesis
    using assms(2,4)
    by (intro wp_on_server [OF sr]) (auto simp: om_inv_plan defined_def intro!: wp_mono [OF assms(3)])
qed

lemma wp_on_server_world:
  assumes "om_find n (cluster_plan s) \<noteq> None" and "om_inv (cluster_plan s)" and "\<And>w. wp m (\<lambda>_ _. True) defined w"
    and "\<And>a t. cluster_plan t = cluster_plan s \<Longrightarrow> Q a t"
  shows "wp (on_server_world n m) Q defined s"
  by (rule wp_on_server_kept [OF assms(1,2) _ assms(4)])
     (auto simp: wp_on_world defined_def intro!: wp_mono [OF assms(3)])

lemma wp_on_server_map:
  assumes "om_find n (cluster_plan s) \<noteq> None" and "om_inv (cluster_plan s)"
    and "\<And>sr. wp m (\<lambda>_ sr'. sr_plan sr' = f (sr_plan sr)) never sr"
    and "\<And>a t. cluster_plan t = om_map n f (cluster_plan s) \<Longrightarrow> Q a t"
  shows "wp (on_server n m) Q E s"
proof -
  obtain sr where sr: "om_find n (sm_servers s) = Some sr" using assms(1) by (auto simp: om_find_plan)
  have "om_map n (\<lambda>_. f (sr_plan sr)) (cluster_plan s) = om_map n f (cluster_plan s)"
    using sr assms(2) om_inv_unique unfolding om_map_def by (fastforce simp: om_find_plan)
  then show ?thesis
    using assms(2,4)
    by (intro wp_on_server [OF sr]) (auto simp: om_inv_plan intro!: wp_mono [OF assms(3)])
qed

lemma wp_read_server:
  assumes "om_find n (cluster_plan s) \<noteq> None" and "om_inv (cluster_plan s)"
    and "\<And>a t. cluster_plan t = cluster_plan s \<Longrightarrow> Q a t"
  shows "wp (on_server n (fetch f return)) Q E s"
  by (rule wp_on_server_map [OF assms(1,2), of _ id]) (use assms(3) in \<open>simp_all add: wp_simps om_map_same\<close>)

section \<open>Starting a server\<close>

lemma wait_loop_plan:
  assumes "\<forall>f \<in> set fs. \<forall>t. cluster_plan (f t) = cluster_plan t"
    and "om_find n (cluster_plan s) \<noteq> None" and "om_inv (cluster_plan s)"
  shows "wp (sim_wait_loop n target fs) (\<lambda>_ t. cluster_plan t = cluster_plan s) defined s"
  using assms
proof (induction fs arbitrary: s)
  case Nil
  then show ?case by (auto simp: wp_simps intro!: wp_read_server)
next
  case (Cons f fs)
  have again: "wp (sim_wait_loop n target fs) (\<lambda>_ t. cluster_plan t = cluster_plan s) defined t"
    if "cluster_plan t = cluster_plan s" for t
    using Cons.IH [of t] Cons.prems that by simp
  show ?case using Cons.prems by (auto simp: wp_simps intro!: wp_read_server again)
qed

lemma wait_plan:
  assumes "others_keep_plan os" and "om_find n (cluster_plan s) \<noteq> None" and "om_inv (cluster_plan s)"
    and "msg \<noteq> ''Failed to add server''" and "\<And>t. cluster_plan t = cluster_plan s \<Longrightarrow> Q () t"
  shows "wp (fail_unless_zero msg (sim_wait os n target)) Q defined s"
proof -
  have "wp (sim_wait_loop n target (so_others os s)) (\<lambda>_ t. cluster_plan t = cluster_plan s) defined s"
    by (rule wait_loop_plan) (use assms in \<open>auto simp: others_keep_plan_def\<close>)
  then show ?thesis
    unfolding fail_unless_zero_def sim_wait_def wp_bind wp_fetch wp_catch_all wp_seq
    by (rule wp_mono) (auto simp: wp_simps assms(4,5))
qed

lemma wp_fail_server_world:
  assumes "om_find n (cluster_plan s) \<noteq> None" and "om_inv (cluster_plan s)" and "\<And>w. wp m (\<lambda>_ _. True) defined w"
    and "msg \<noteq> ''Failed to add server''" and "\<And>t. cluster_plan t = cluster_plan s \<Longrightarrow> Q () t"
  shows "wp (fail_unless_zero msg (on_server_world n m)) Q defined s"
  unfolding fail_unless_zero_def wp_bind
  by (rule wp_on_server_world [OF assms(1-3)]) (simp add: wp_simps assms(4,5))

lemma server_work_defined:
  "wp (sim_load_provider os params) (\<lambda>_ _. True) defined w"
  "wp (sv_connect svc a b c d) (\<lambda>_ _. True) defined w"
  "wp (sv_initialized svc) (\<lambda>_ _. True) defined w"
  by (simp_all add: sim_load_provider_def sv_connect_def sv_initialized_def sv_set_state_def unreachable_def wp_simps split_beta)

definition fresh_plan :: "nat \<Rightarrow> plan" where
  "fresh_plan i = (server_address i, 1, [], [])"

lemma cluster_plan_put: "cluster_plan (s\<lparr>sm_servers := om_put n sr m\<rparr>) = om_put n (sr_plan sr) (cluster_plan (s\<lparr>sm_servers := m\<rparr>))"
  by (induction n sr m rule: om_put.induct) (auto simp: cluster_plan_def)

lemma start_server_plan:
  assumes "others_keep_plan os" and "om_inv (cluster_plan s)" and "om_find (server_name i) (cluster_plan s) = None"
  shows "wp (start_server os params ca i)
    (\<lambda>_ t. cluster_plan t = om_put (server_name i) (fresh_plan i) (cluster_plan s)) defined s"
proof -
  let ?n = "server_name i" and ?p = "(server_address i, 0, [], [])" and ?f = "\<lambda>(a, k, r). (a, Suc k, r)"
  let ?new = "make_db_server params (so_provider_init os ?n) ?n (server_address i)"
  have new: "cluster_plan (s\<lparr>sm_servers := om_put ?n ?new (sm_servers s)\<rparr>) = om_put ?n ?p (cluster_plan s)"
    by (simp add: cluster_plan_put make_db_server_def sr_plan_def)
  have insert: "om_insert ?n ?new (sm_servers s) = (om_put ?n ?new (sm_servers s), True)"
    using assms(3) by (simp add: om_insert_def om_find_plan)
  have there: "om_find ?n (om_put ?n q (cluster_plan s)) \<noteq> None" "om_inv (om_put ?n q (cluster_plan s))" for q
    using assms(2) by (simp_all add: om_find_put om_inv_put)
  have applier: "wp start_applier (\<lambda>_ sr'. sr_plan sr' = ?f (sr_plan sr)) never sr" for sr :: "'a db_server"
    by (simp add: start_applier_def wp_simps sr_plan_def)
  have started: "om_map ?n ?f (om_put ?n ?p (cluster_plan s)) = om_put ?n (fresh_plan i) (cluster_plan s)"
    using assms(3) by (simp add: om_map_put fresh_plan_def)
  note there' = there [of ?p] there [of "fresh_plan i"]
  show ?thesis
    unfolding start_server_def Let_def
    by (simp add: wp_seq wp_bind wp_fetch wp_modify wp_return wp_only_if insert wp_block del: block.simps)
       (use there' new started in \<open>auto simp: wp_seq wp_skip intro!: wp_fail_server_world server_work_defined
          wp_on_server_map [OF _ _ applier] wait_plan [OF assms(1)] wp_on_server_world\<close>)
qed

section \<open>Starting the cluster\<close>

lemma wp_for_each_fold:
  assumes "\<And>x ys v. ok (x # ys) (h v) \<Longrightarrow> wp (f x) (\<lambda>_ t. h t = g x (h v)) E v"
    and "\<And>x ys c. ok (x # ys) c \<Longrightarrow> ok ys (g x c)" and "ok xs (h w)"
  shows "wp (for_each f xs) (\<lambda>_ t. h t = fold g xs (h w)) E w"
  using assms(3)
proof (induction xs arbitrary: w)
  case (Cons x xs)
  have rest: "wp (for_each f xs) (\<lambda>_ t. h t = fold g (x # xs) (h w)) E v" if "h v = g x (h w)" for v
    using Cons.IH [of v] assms(2) [OF Cons.prems] that by simp
  show ?case unfolding for_each.simps wp_seq by (rule wp_mono [OF assms(1) [OF Cons.prems] rest])
qed (simp add: wp_simps)

lemma server_name_inj: "server_name i = server_name j \<longleftrightarrow> i = j"
  unfolding server_name_def by (metis Suc_eq_plus1 Suc_inject digits_value_decimal)

definition servers_plan :: "nat \<Rightarrow> (string \<times> plan) list" where
  "servers_plan n = fold (\<lambda>i. om_put (server_name i) (fresh_plan i)) [0..<n] []"

lemma servers_plan_simps [simp]:
  "servers_plan 0 = []" "servers_plan (Suc n) = om_put (server_name n) (fresh_plan n) (servers_plan n)"
  by (simp_all add: servers_plan_def)

lemma servers_plan_inv: "om_inv (servers_plan n)"
  by (induction n) (simp_all add: om_inv_put, simp add: om_inv_def)

lemma servers_plan_find: "om_find (server_name i) (servers_plan n) = (if i < n then Some (fresh_plan i) else None)"
  by (induction n) (auto simp: om_find_put server_name_inj, simp add: om_find_def)

lemma servers_plan_names: "map fst (servers_plan n) = sort (map server_name [0..<n])"
proof (rule sorted_distinct_set_unique)
  show "sorted (map fst (servers_plan n))" "distinct (map fst (servers_plan n))"
    using servers_plan_inv [of n] by (simp_all add: om_inv_def strict_sorted_iff)
  have "fst ` set (servers_plan n) = server_name ` {0..<n}"
    by (induction n) (auto simp: om_put_keys atLeast0_lessThan_Suc)
  then show "set (map fst (servers_plan n)) = set (sort (map server_name [0..<n]))" by simp
  show "distinct (sort (map server_name [0..<n]))"
    by (simp add: distinct_map inj_on_def server_name_inj)
qed simp

lemma start_servers_plan:
  assumes "others_keep_plan os" and "cluster_plan s = []"
  shows "wp (for_each (start_server os params ca) [0..<n]) (\<lambda>_ t. cluster_plan t = servers_plan n) defined s"
proof -
  let ?ok = "\<lambda>is c. om_inv c \<and> distinct is \<and> (\<forall>i \<in> set is. om_find (server_name i) c = None)"
  have "wp (for_each (start_server os params ca) [0..<n])
      (\<lambda>_ t. cluster_plan t = fold (\<lambda>i. om_put (server_name i) (fresh_plan i)) [0..<n] (cluster_plan s)) defined s"
    by (rule wp_for_each_fold [where ok = ?ok])
       (use assms in \<open>auto simp: om_inv_put om_find_put server_name_inj start_server_plan, simp_all add: om_inv_def om_find_def\<close>)
  then show ?thesis by (simp add: assms(2) servers_plan_def)
qed

text \<open>The clients of a master.\<close>

definition client_ids :: "db_params \<Rightarrow> client_id list" where
  "client_ids params = map (\<lambda>i. of_nat (i + 1)) [0..<pm_n_clients params]"

definition is_master :: "db_params \<Rightarrow> nat \<Rightarrow> bool" where
  "is_master params j \<longleftrightarrow> pm_topology params = [] \<or> pm_topology params ! j = CHR ''m''"

definition load_plan :: "db_params \<Rightarrow> nat \<Rightarrow> plan \<Rightarrow> plan" where
  "load_plan params j = (\<lambda>(a, k, c, h). if is_master params j
     then (a, k, c @ map (\<lambda>i. (i, client_stats_init)) (client_ids params), h @ client_ids params) else (a, k, c, h))"

definition add_client :: "nat \<Rightarrow> plan \<Rightarrow> plan" where
  "add_client i = (\<lambda>(a, k, c, h). (a, k, c @ [(of_nat (i + 1), client_stats_init)], h @ [of_nat (i + 1)]))"

lemma add_clients: "fold add_client [0..<n] (a, k, c, h) =
    (a, k, c @ map (\<lambda>i. (of_nat (i + 1), client_stats_init)) [0..<n], h @ map (\<lambda>i. of_nat (i + 1)) [0..<n])"
  by (induction n) (simp_all add: add_client_def)

lemma start_clients_plan:
  assumes "is_master params j"
  shows "wp (start_clients params) (\<lambda>_ sr'. sr_plan sr' = load_plan params j (sr_plan sr)) never sr"
proof -
  have "load_plan params j (sr_plan sr) = fold add_client [0..<pm_n_clients params] (sr_plan sr)"
    using assms unfolding sr_plan_def add_clients by (simp add: load_plan_def client_ids_def comp_def)
  moreover have "wp (start_clients params)
      (\<lambda>_ sr'. sr_plan sr' = fold add_client [0..<pm_n_clients params] (sr_plan sr)) never sr"
    unfolding start_clients_def
    by (rule wp_for_each_fold [where ok = "\<lambda>_ _. True"])
       (auto simp: db_start_client_def wp_simps sr_plan_def add_client_def)
  ultimately show ?thesis by simp
qed

lemma start_load_plan:
  assumes "om_inv (cluster_plan s)" and "om_find n (cluster_plan s) \<noteq> None"
    and "pm_topology params \<noteq> [] \<longrightarrow> j < length (pm_topology params)"
  shows "wp (start_load params (j, n)) (\<lambda>_ t. cluster_plan t = om_map n (load_plan params j) (cluster_plan s)) defined s"
proof (cases "is_master params j")
  case True
  have "wp (on_server n (start_clients params)) (\<lambda>_ t. cluster_plan t = om_map n (load_plan params j) (cluster_plan s)) defined s"
    by (rule wp_on_server_map [OF assms(2,1) start_clients_plan [OF True]])
  with True assms(3) show ?thesis by (auto simp: start_load_def char_at_def wp_simps is_master_def)
next
  case False
  then have "om_map n (load_plan params j) (cluster_plan s) = cluster_plan s"
    by (intro om_map_same) (auto simp: load_plan_def)
  with False assms(3) show ?thesis by (auto simp: start_load_def char_at_def wp_simps is_master_def)
qed

lemma om_map_keys_apart: "\<forall>z \<in> set zs. snd z \<noteq> n \<Longrightarrow>
    fold (\<lambda>(j, k). om_map k (F j)) zs ((n, x) # m) = (n, x) # fold (\<lambda>(j, k). om_map k (F j)) zs m"
  by (induction zs arbitrary: m) (auto simp: om_map_def)

lemma om_map_each:
  assumes "distinct (map fst m)"
  shows "fold (\<lambda>(j, n). om_map n (F j)) (zip [a..<a + length m] (map fst m)) m =
    map (\<lambda>(j, n, x). (n, F j x)) (zip [a..<a + length m] m)"
  using assms
proof (induction m arbitrary: a)
  case (Cons p m)
  obtain n x where p: "p = (n, x)" by fastforce
  have "om_map n (F a) m = m" by (rule om_map_same) (use Cons.prems p in force)
  then have "om_map n (F a) ((n, x) # m) = (n, F a x) # m" by (simp add: om_map_def)
  moreover have "\<forall>z \<in> set (zip [Suc a..<a + length (p # m)] (map fst m)). snd z \<noteq> n"
    using Cons.prems p by (auto dest: set_zip_rightD)
  ultimately show ?case
    using Cons.IH [of "Suc a"] Cons.prems p by (simp add: upt_conv_Cons om_map_keys_apart del: upt_Suc)
qed simp

definition started_plan :: "db_params \<Rightarrow> (string \<times> plan) list" where
  "started_plan params = map (\<lambda>(j, n, x). (n, load_plan params j x))
     (zip [0..<pm_n_servers params] (servers_plan (pm_n_servers params)))"

lemma servers_plan_length [simp]: "length (servers_plan n) = n"
  using arg_cong [OF servers_plan_names, of length n] by simp

lemma start_loads_plan:
  assumes "cluster_plan s = servers_plan (pm_n_servers params)" and "validate_params params = None"
  shows "wp (fetch (\<lambda>s. zip [0..<length (sm_servers s)] (map fst (sm_servers s))) (for_each (start_load params)))
    (\<lambda>_ t. cluster_plan t = started_plan params) defined s"
proof -
  let ?n = "pm_n_servers params"
  let ?zs = "zip [0..<?n] (map fst (servers_plan ?n))"
  let ?ok = "\<lambda>zs c. om_inv c \<and> (\<forall>(j, n) \<in> set zs. om_find n c \<noteq> None \<and> j < ?n)"
  have names: "map fst (sm_servers s) = map fst (servers_plan ?n)" "length (sm_servers s) = ?n"
    unfolding assms(1) [symmetric] by (simp_all add: cluster_plan_def comp_def split_def)
       (metis assms(1) cluster_plan_def length_map servers_plan_length)
  have bound: "pm_topology params \<noteq> [] \<Longrightarrow> length (pm_topology params) = ?n"
    using assms(2) by (auto simp: validate_params_def split: if_splits)
  have "wp (for_each (start_load params) ?zs)
      (\<lambda>_ t. cluster_plan t = fold (\<lambda>(j, n). om_map n (load_plan params j)) ?zs (cluster_plan s)) defined s"
  proof (rule wp_for_each_fold [where ok = ?ok])
    show "wp (start_load params x) (\<lambda>_ t. cluster_plan t = (case x of (j, n) \<Rightarrow> om_map n (load_plan params j)) (cluster_plan v)) defined v"
      if "?ok (x # ys) (cluster_plan v)" for x ys and v :: "('a, 'b) simulator"
      using that bound start_load_plan [of v "snd x" params "fst x"] by (auto split: prod.splits)
    show "?ok ys ((case x of (j, n) \<Rightarrow> om_map n (load_plan params j)) c)" if "?ok (x # ys) c" for x ys c
      using that by (auto simp: om_find_map om_inv_def simp del: not_None_eq split: prod.splits)
    show "?ok ?zs (cluster_plan s)"
      using servers_plan_inv [of ?n] om_inv_unique [OF servers_plan_inv [of ?n]] assms(1)
      by (fastforce dest: set_zip_leftD set_zip_rightD)
  qed
  moreover have "distinct (map fst (servers_plan ?n))" using servers_plan_inv [of ?n] by (simp add: om_inv_def strict_sorted_iff)
  from om_map_each [OF this, where a = 0]
  have "fold (\<lambda>(j, n). om_map n (load_plan params j)) ?zs (cluster_plan s) = started_plan params"
    by (simp add: assms(1) started_plan_def)
  ultimately show ?thesis by (simp add: wp_fetch names)
qed

lemma sim_start_plan:
  assumes "others_keep_plan os" and "validate_params params = None"
  shows "wp (sim_start os params) (\<lambda>_ t. cluster_plan t = started_plan params) defined (make_simulator ti tls)"
proof -
  have "wp (for_each (start_server os params ca) [0..<pm_n_servers params])
      (\<lambda>_. wp (fetch (\<lambda>s. zip [0..<length (sm_servers s)] (map fst (sm_servers s))) (for_each (start_load params)))
        (\<lambda>_ t. cluster_plan t = started_plan params) defined) defined s" if "cluster_plan s = []" for s ca
    by (rule wp_mono [OF start_servers_plan [OF assms(1) that]]) (auto intro: start_loads_plan [OF _ assms(2)])
  then show ?thesis
    unfolding sim_start_def wp_block
    by (simp add: on_ti_def on_tls_def ti_level_def ti_set_cond_checks_def db_tls_init_def modify_def wp_def cluster_plan_def
        make_simulator_def cong: sum.case_cong)
qed

lemma started_plan_names: "map fst (started_plan params) = sort (map server_name [0..<pm_n_servers params])"
proof -
  have "map fst (started_plan params) = map fst (servers_plan (pm_n_servers params))"
    by (rule nth_equalityI) (simp_all add: started_plan_def split_beta)
  then show ?thesis by (simp add: servers_plan_names)
qed

lemma started_plan_nth:
  assumes "j < pm_n_servers params"
  obtains i where "started_plan params ! j = (server_name i, load_plan params j (fresh_plan i))"
proof -
  let ?p = "servers_plan (pm_n_servers params)"
  have "fst (?p ! j) \<in> set (map fst ?p)" using assms by simp
  then obtain i where i: "fst (?p ! j) = server_name i" "i < pm_n_servers params" by (auto simp: servers_plan_names)
  moreover have "?p ! j \<in> set ?p" using assms by simp
  then have "om_find (fst (?p ! j)) ?p = Some (snd (?p ! j))" by (intro om_inv_unique [OF servers_plan_inv]) simp
  ultimately have "?p ! j = (server_name i, fresh_plan i)"
    by (metis option.inject prod.collapse servers_plan_find)
  with assms that show ?thesis by (simp add: started_plan_def)
qed

lemma started_plan_find:
  assumes "i < pm_n_servers params"
  obtains j where "om_find (server_name i) (started_plan params) = Some (load_plan params j (fresh_plan i))"
proof -
  have "server_name i \<in> set (map fst (started_plan params))" using assms by (simp add: started_plan_names)
  then obtain j where "j < length (started_plan params)" "fst (started_plan params ! j) = server_name i"
    by (auto simp: in_set_conv_nth simp del: set_map)
  then have "j < pm_n_servers params" "fst (started_plan params ! j) = server_name i" by (simp_all add: started_plan_def)
  moreover from started_plan_nth [OF this(1)] obtain k where
    "started_plan params ! j = (server_name k, load_plan params j (fresh_plan k))" .
  ultimately have "started_plan params ! j = (server_name i, load_plan params j (fresh_plan i))"
    "j < length (started_plan params)" by (simp_all add: server_name_inj started_plan_def)
  then have "(server_name i, load_plan params j (fresh_plan i)) \<in> set (started_plan params)" by (metis nth_mem)
  moreover have "om_inv (started_plan params)"
    using servers_plan_inv [of "pm_n_servers params"] unfolding om_inv_def started_plan_names servers_plan_names .
  ultimately show ?thesis by (rule that [OF om_inv_unique, rotated])
qed

text \<open>
  C35. The start of the cluster, with parameters that the command line check accepts: if it returns, there
  is one server for each number from one to the number of servers, in the order of their names, each at its own
  port and with one applier thread; the clients, numbered from one, run on every server, or on those whose
  place in the order of names has an m in the topology. If it throws, then neither because of undefined
  behaviour (the topology is never read out of range) nor because two servers have one name.
\<close>

theorem cluster_starts:
  assumes "others_keep_plan os" and "validate_params params = None"
  shows "case sim_start os params (make_simulator ti tls) of
      (Inr _, s) \<Rightarrow> map fst (sm_servers s) = sort (map server_name [0..<pm_n_servers params]) \<and>
        (\<forall>i < pm_n_servers params. \<exists>sr. om_find (server_name i) (sm_servers s) = Some sr \<and>
           sr_address sr = server_address i \<and> sr_appliers sr = 1) \<and>
        (\<forall>j < pm_n_servers params. sr_client_threads (snd (sm_servers s ! j)) =
           (if is_master params j then map (\<lambda>i. of_nat (i + 1)) [0..<pm_n_clients params] else []))
    | (Inl x, s) \<Rightarrow> (\<forall>msg. x \<noteq> Undefined msg) \<and> x \<noteq> Runtime_error ''Failed to add server''"
proof (cases "sim_start os params (make_simulator ti tls)")
  case (Pair r s)
  have plan: "cluster_plan s = started_plan params" if "r = Inr u" for u
    using sim_start_plan [OF assms, of ti tls] Pair that by (simp add: wp_def)
  have ok: "defined x s" if "r = Inl x" for x
    using sim_start_plan [OF assms, of ti tls] Pair that by (simp add: wp_def)
  have names: "map fst (sm_servers s) = map fst (cluster_plan s)" "length (sm_servers s) = length (cluster_plan s)"
    by (simp_all add: cluster_plan_def comp_def split_def)
  have server: "\<exists>sr. om_find (server_name i) (sm_servers s) = Some sr \<and> sr_address sr = server_address i \<and> sr_appliers sr = 1"
    if "r = Inr u" "i < pm_n_servers params" for u i
  proof -
    note eq = plan [OF that(1)]
    from started_plan_find [OF that(2)] obtain j where
      "om_find (server_name i) (cluster_plan s) = Some (load_plan params j (fresh_plan i))"
      unfolding eq .
    then show ?thesis by (auto simp: om_find_plan sr_plan_def load_plan_def fresh_plan_def split: if_splits)
  qed
  have clients: "sr_client_threads (snd (sm_servers s ! j)) = (if is_master params j then client_ids params else [])"
    if "r = Inr u" "j < pm_n_servers params" for u j
  proof -
    note eq = plan [OF that(1)]
    from started_plan_nth [OF that(2)] obtain i where
      "cluster_plan s ! j = (server_name i, load_plan params j (fresh_plan i))" unfolding eq .
    moreover have "j < length (sm_servers s)" using that eq names(2) by (simp add: started_plan_def)
    ultimately show ?thesis
      by (auto simp: cluster_plan_def sr_plan_def load_plan_def fresh_plan_def split: if_splits prod.splits)
  qed
  show ?thesis
    using Pair ok server clients
    by (auto simp: names(1) plan started_plan_names defined_def client_ids_def split: sum.split)
qed

text \<open>
  A cluster whose other threads lead each server to the state that the main thread waits for.
\<close>

definition all_servers :: "srv_state \<Rightarrow> ('p, 't) simulator \<Rightarrow> ('p, 't) simulator" where
  "all_servers st = sm_servers_update (map (\<lambda>(n, sr). (n, sr\<lparr>sr_world := (sr_world sr)\<lparr>w_ss :=
     (w_ss (sr_world sr))\<lparr>sv_state := st\<rparr>\<rparr>\<rparr>)))"

definition quiet_ti :: "unit ti_world" where
  "quiet_ti = \<lparr>tk_keys = [], tk_key_cnt = 0, tk_ops_map = [], tk_total_ops = (\<lambda>_. 0), tk_total_allocations = 0,
     tk_mutex_contention = 0, tk_contention_counts = [], tk_op_level = 0, tk_cond_checks = False,
     tk_threads = (\<lambda>_. None), tk_mutexes = (\<lambda>_. None), tk_conds = (\<lambda>_. None), tk_next = 0, tk_self = (\<lambda>_. None),
     tk_this = 0, tk_env = ()\<rparr>"

definition quiet_tls :: "unit tls_world" where
  "quiet_tls = \<lparr>tw_streams = (\<lambda>_. None), tw_next = 0, tw_bytes_read = 0, tw_bytes_written = 0, tw_mode = 0,
     tw_errno = 0, tw_env = ()\<rparr>"

definition solo_services :: "string \<Rightarrow> int db_env services" where
  "solo_services name = (db_services solo_base (\<lambda>svc h. return success) 2)\<lparr>
     server_ops := db_server_service name (\<lambda>_. id) (server_ops solo_base)\<rparr>"

definition test_cluster :: "(int, unit) sim_ops" where
  "test_cluster = \<lparr>so_svc = solo_services, so_db_ops = \<lambda>_. quiet_db_ops, so_run_applier = \<lambda>_. return success,
     so_make_provider = \<lambda>spec opts ti tls e. (True, e), so_status = \<lambda>n e. [],
     so_others = \<lambda>s. [all_servers s_initializing, all_servers s_synced],
     so_provider_init = \<lambda>n. 0, so_pthreads = plain_pthreads, so_seconds = \<lambda>s. ''1'', so_rate = \<lambda>n s. ''1''\<rparr>"

definition two_servers :: db_params where
  "two_servers = db_params_default\<lparr>pm_n_servers := 2, pm_n_clients := 3, pm_topology := ''ms''\<rparr>"

lemma wp_on_server_eq: "wp (on_server n m) Q E s = (case om_find n (sm_servers s) of
    None \<Rightarrow> E (Undefined ''server'') s
  | Some sr \<Rightarrow> wp m (\<lambda>a sr'. Q a (s\<lparr>sm_servers := map (\<lambda>(j, x). (j, if j = n then sr' else x)) (sm_servers s)\<rparr>))
      (\<lambda>x sr'. E x (s\<lparr>sm_servers := map (\<lambda>(j, x). (j, if j = n then sr' else x)) (sm_servers s)\<rparr>)) sr)"
  by (simp add: wp_def on_server_def split: option.split prod.split sum.split)

lemma test_cluster_starts:
  "wp (sim_start test_cluster two_servers) (\<lambda>_ _. True) never (make_simulator quiet_ti quiet_tls)"
proof -
  have ti: "wp (on_ti m) Q E s = wp m (\<lambda>a t. Q a (s\<lparr>sm_ti := t\<rparr>)) (\<lambda>x t. E x (s\<lparr>sm_ti := t\<rparr>)) (sm_ti s)"
    for m Q E and s :: "(int, unit) simulator"
    by (simp add: wp_def on_ti_def split: prod.split sum.split)
  have tls: "wp (on_tls m) Q E s = wp m (\<lambda>a t. Q a (s\<lparr>sm_tls := t\<rparr>)) (\<lambda>x t. E x (s\<lparr>sm_tls := t\<rparr>)) (sm_tls s)"
    for m Q E and s :: "(int, unit) simulator"
    by (simp add: wp_def on_tls_def split: prod.split sum.split)
  show ?thesis
    by (simp add: sim_start_def two_servers_def db_params_default_def wp_simps ti tls ti_level_def ti_set_cond_checks_def
        db_tls_init_def make_simulator_def start_server_def Let_def server_name_def om_insert_def om_find_def
        fail_unless_zero_def wp_on_server_eq wp_on_world sim_load_provider_def test_cluster_def upt_conv_Cons
        sv_connect_def solo_services_def solo_base_def start_applier_def sim_wait_def make_db_server_def db_server_state_def
        server_state_init_def all_servers_def wait_interrupted_def sv_initialized_def sv_set_state_def db_server_service_def
        srv_allowed_def srv_allowed_table_def decimal.simps start_load_def char_at_def start_clients_def db_start_client_def del: upt_Suc)
qed

lemma test_cluster_keeps: "others_keep_plan test_cluster"
  by (auto simp: others_keep_plan_def test_cluster_def all_servers_def cluster_plan_def)

theorem cluster_starts_witness:
  "\<exists>s. sim_start test_cluster two_servers (make_simulator quiet_ti quiet_tls) = (Inr (), s) \<and>
    map fst (sm_servers s) = [''1'', ''2''] \<and> sr_client_threads (snd (sm_servers s ! 0)) = [1, 2, 3] \<and>
    sr_client_threads (snd (sm_servers s ! 1)) = []"
proof -
  have valid: "validate_params two_servers = None" by (simp add: two_servers_def validate_params_def)
  have names: "sort (map server_name [0..<pm_n_servers two_servers]) = [''1'', ''2'']"
    by code_simp
  obtain s where s: "sim_start test_cluster two_servers (make_simulator quiet_ti quiet_tls) = (Inr (), s)"
    using wp_never_returns [OF test_cluster_starts] by auto
  with cluster_starts [OF test_cluster_keeps valid, of quiet_ti quiet_tls] names have
    "map fst (sm_servers s) = [''1'', ''2'']" and clients: "\<forall>j < pm_n_servers two_servers.
      sr_client_threads (snd (sm_servers s ! j)) =
      (if is_master two_servers j then map (\<lambda>i. of_nat (i + 1)) [0..<pm_n_clients two_servers] else [])"
    by simp_all
  moreover have "sr_client_threads (snd (sm_servers s ! 0)) = [1, 2, 3]" "sr_client_threads (snd (sm_servers s ! 1)) = []"
    using clients [rule_format, of 0] clients [rule_format, of 1]
    by (simp_all add: two_servers_def is_master_def upt_conv_Cons del: upt_Suc)
  ultimately show ?thesis using s by (intro exI [of _ s]) simp
qed

text \<open>
  The place in the topology is the place in the order of names, not the number of the server: with ten
  servers the second letter is for server 10.
\<close>

lemma topology_by_name: "sort (map server_name [0..<10]) ! 1 = server_name 9"
  by code_simp

section \<open>State transfer\<close>

text \<open>
  The services of a server of the simulator, whose provider and reporter leave the storage engine alone and
  whose provider accepts the transferred state; while a joiner waits, the main thread initializes it.
\<close>

definition sim_server_services :: "string \<Rightarrow> 'p db_env services \<Rightarrow> bool" where
  "sim_server_services name svc \<longleftrightarrow>
     (\<exists>report rest. server_ops svc = db_server_service name report rest \<and>
        (\<forall>st e. db_engine (report st e) = db_engine e)) \<and>
     (\<forall>g err e. db_engine (snd (prov_sst_sent (prov svc) g err e)) = db_engine e) \<and>
     (\<forall>g err e. fst (prov_sst_received (prov svc) g err e) = success \<and>
        db_engine (snd (prov_sst_received (prov svc) g err e)) = db_engine e) \<and>
     (\<forall>e. fst (server_events svc e) = [Ev_initialized] \<and> db_engine (snd (server_events svc e)) = db_engine e)"

text \<open>A joiner that may receive the state at \<open>g\<close> with the view \<open>v\<close>, and the view as it keeps it.\<close>

definition joiner_ready :: "gtid \<Rightarrow> 'p db_env world \<Rightarrow> bool" where
  "joiner_ready g w \<longleftrightarrow> srv w = s_joiner \<and> \<not> init_initialized (w_ss w) \<and> provider_loaded (w_ss w) \<and>
     \<not> id_is_undefined (sv_id (w_ss w)) \<and> gtid_seqno (connected_gtid (w_ss w)) \<le> gtid_seqno g"

definition view_fits :: "gtid \<Rightarrow> view \<Rightarrow> bool" where
  "view_fits g v \<longleftrightarrow> \<not> id_is_undefined (gtid_id g) \<and> gtid_id (view_state_id v) = gtid_id g \<and>
     gtid_seqno (view_state_id v) \<le> gtid_seqno g"

definition view_seen_by :: "id \<Rightarrow> view \<Rightarrow> view" where
  "view_seen_by i v = v\<lparr>view_own_index := member_index v i\<rparr>"

lemma db_get_view_seen: "db_get_view i e = (view_seen_by i (se_view (db_engine e)), e)"
  by (simp add: db_get_view_def view_seen_by_def Let_def)

lemma db_log_view_stores: "db_log_view h v e = e\<lparr>db_engine := (db_engine e)\<lparr>se_view := v\<rparr>\<rparr>"
  by (simp add: db_log_view_def se_store_view_def upd_engine_def modify_def)

lemma joiner_receives:
  assumes "joiner_ready g w" and "view_fits g v" and "sim_server_services name svc"
    and "se_position (db_engine (w_env w)) = g" and "se_view (db_engine (w_env w)) = v"
  shows "wp (sst_received svc 0) (\<lambda>r u. r = 0 \<and> srv u = s_joined \<and>
    current_view (w_ss u) = view_seen_by (sv_id (w_ss w)) v \<and>
    db_engine (w_env u) = (db_engine (w_env w))\<lparr>se_view := view_seen_by (sv_id (w_ss w)) v\<rparr>) never w"
proof -
  obtain report rest where ops: "server_ops svc = db_server_service name report rest"
      "\<And>st e. db_engine (report st e) = db_engine e"
    using assms(3) by (auto simp: sim_server_services_def)
  have received: "\<And>g err e. fst (prov_sst_received (prov svc) g err e) = success"
      "\<And>g err e. db_engine (snd (prov_sst_received (prov svc) g err e)) = db_engine e"
    and events: "\<And>e. fst (server_events svc e) = [Ev_initialized]" "\<And>e. db_engine (snd (server_events svc e)) = db_engine e"
    using assms(3) by (auto simp: sim_server_services_def)
  have seen: "view_state_id (view_seen_by i v) = view_state_id v" for i by (simp add: view_seen_by_def)
  show ?thesis
    using assms(1,2,4,5)
    by (simp add: sst_received_def sst_received_ok_def wp_simps joiner_ready_def ops db_server_service_def wait_until_state_def
        sv_set_state_def srv_allowed_def srv_allowed_table_def run_server_event_def sv_initialized_def wait_interrupted_def
        events received split_beta db_get_position_def db_get_view_seen adopt_recovered_view_def seen view_fits_def
        db_log_view_stores recover_streaming_appliers_if_not_recovered_def db_recover_streaming_appliers_def)
qed

text \<open>Reading and changing the world of a server that is in the cluster.\<close>

definition server_world :: "string \<Rightarrow> ('p, 't) simulator \<Rightarrow> 'p db_env world option" where
  "server_world n s = map_option sr_world (om_find n (sm_servers s))"

lemma wp_server_world:
  assumes "server_world n s = Some w"
    and "wp m (\<lambda>a w'. \<forall>t. server_world n t = Some w' \<and> (\<forall>k. k \<noteq> n \<longrightarrow> server_world k t = server_world k s) \<longrightarrow> Q a t) never w"
  shows "wp (on_server_world n m) Q never s"
proof -
  obtain sr where sr: "om_find n (sm_servers s) = Some sr" "sr_world sr = w" using assms(1) by (auto simp: server_world_def)
  have "server_world k (s\<lparr>sm_servers := map (\<lambda>(j, x). (j, if j = n then sr\<lparr>sr_world := w'\<rparr> else x)) (sm_servers s)\<rparr>) =
      (if k = n then Some w' else server_world k s)" for k w'
    using om_find_map [of k n "\<lambda>_. sr\<lparr>sr_world := w'\<rparr>" "sm_servers s"] sr by (simp add: server_world_def om_map_def)
  with assms(2) sr show ?thesis by (simp add: wp_on_server_eq wp_on_world) (erule wp_mono, auto)
qed

definition at_server :: "string \<Rightarrow> ('p db_env world \<Rightarrow> bool) \<Rightarrow> ('p, 't) simulator \<Rightarrow> bool" where
  "at_server n P s \<longleftrightarrow> (\<exists>w. server_world n s = Some w \<and> P w)"

lemma wp_at_server:
  assumes "at_server n P s" and "at_server k K s" and "k \<noteq> n" and "\<And>w. P w \<Longrightarrow> wp m Q' never w"
    and "\<And>a t. at_server n (Q' a) t \<Longrightarrow> at_server k K t \<Longrightarrow> Q a t"
  shows "wp (on_server_world n m) Q never s"
proof -
  obtain w where w: "server_world n s = Some w" "P w" using assms(1) by (auto simp: at_server_def)
  show ?thesis
    by (rule wp_server_world [OF w(1)], rule wp_mono [OF assms(4) [OF w(2)]])
       (use assms(2,3,5) in \<open>auto simp: at_server_def\<close>)
qed

lemma at_server_conj [simp]: "at_server n (\<lambda>w. c \<and> P w) t \<longleftrightarrow> c \<and> at_server n P t"
  by (auto simp: at_server_def)

text \<open>A donor, and a joiner whose storage engine is \<open>e\<close>.\<close>

definition donating :: "storage_engine \<Rightarrow> 'p db_env world \<Rightarrow> bool" where
  "donating e w \<longleftrightarrow> srv w = s_donor \<and> provider_loaded (w_ss w) \<and> db_engine (w_env w) = e"

definition joining :: "server_state \<Rightarrow> storage_engine \<Rightarrow> 'p db_env world \<Rightarrow> bool" where
  "joining ss e w \<longleftrightarrow> w_ss w = ss \<and> db_engine (w_env w) = e"

lemma joiner_stores:
  "joining ss e w \<Longrightarrow> position_after (se_position e) g \<Longrightarrow>
     wp (on_env (se_store_position g)) (\<lambda>_. joining ss (e\<lparr>se_position := g\<rparr>)) never w"
  "joining ss e w \<Longrightarrow> wp (on_env (se_store_view v)) (\<lambda>_. joining ss (e\<lparr>se_view := v\<rparr>)) never w"
  "joining ss e w \<Longrightarrow> wp (modify (make_db_client params me i m)) (\<lambda>_. joining ss e) never w"
  by (auto simp: joining_def db_defs wp_simps position_after_def make_db_client_def)

lemma donor_reads: "donating e w \<Longrightarrow> wp (on_env se_get_view) (\<lambda>v u. v = se_view e \<and> donating e u) never w"
  by (auto simp: donating_def db_defs wp_simps)

definition transferred :: "id \<Rightarrow> gtid \<Rightarrow> view \<Rightarrow> 'p db_env world \<Rightarrow> bool" where
  "transferred i g v w \<longleftrightarrow> srv w = s_joined \<and> se_position (db_engine (w_env w)) = g \<and>
     se_view (db_engine (w_env w)) = view_seen_by i v \<and> current_view (w_ss w) = view_seen_by i v"

lemma joining_receives:
  assumes "joining ss e w" and "joiner_ready g w" and "view_fits g (se_view e)" and "sim_server_services name svc"
    and "se_position e = g"
  shows "wp (sst_received svc 0) (\<lambda>r u. r = 0 \<and> transferred (sv_id ss) g (se_view e) u) never w"
  by (rule wp_mono [OF joiner_receives [OF assms(2,3,4)]]) (use assms(1,5) in \<open>auto simp: joining_def transferred_def\<close>)

lemma becomes_donor:
  assumes "srv w = s_synced \<or> srv w = s_joined" and "provider_loaded (w_ss w)" and "db_engine (w_env w) = e"
    and "sim_server_services name svc"
  shows "wp (sv_set_state svc s_donor) (\<lambda>_. donating e) never w"
  using assms
  by (auto simp: wp_simps sv_set_state_def srv_allowed_def srv_allowed_table_def donating_def
      sim_server_services_def db_server_service_def split_beta)

lemma donor_sends:
  assumes "donating e w" and "sim_server_services name svc"
  shows "wp (sst_sent svc g 0) (\<lambda>_ u. srv u = s_joined \<and> db_engine (w_env u) = e) never w"
  using assms
  by (auto simp: sst_sent_def return_from_donor_state_def wp_simps sv_set_state_def srv_allowed_def srv_allowed_table_def
      donating_def sim_server_services_def db_server_service_def split_beta)

lemma sim_sst_transfers:
  assumes "at_server donor (donating e) s" and "at_server (strip_request request) (joining ss f) s"
    and "donor \<noteq> strip_request request" and "joiner_ready g (w\<lparr>w_ss := ss\<rparr>)" and "view_fits g (se_view e)"
    and "position_after (se_position f) g" and svc: "\<And>n. sim_server_services n (so_svc os n)"
  shows "wp (sim_sst os params donor request g False) (\<lambda>_ t.
    at_server donor (\<lambda>w. srv w = s_joined \<and> db_engine (w_env w) = e) t \<and>
    at_server (strip_request request) (transferred (sv_id ss) g (se_view e)) t) never s"
proof -
  let ?n = "strip_request request"
  let ?D = "at_server donor (donating e)" and ?J = "\<lambda>f. at_server ?n (joining ss f)"
  let ?T = "transferred (sv_id ss) g (se_view e)"
  let ?R = "\<lambda>t. at_server donor (\<lambda>w. srv w = s_joined \<and> db_engine (w_env w) = e) t \<and> at_server ?n ?T t"
  let ?send = "\<lambda>_::unit. wp (on_server_world donor (sst_sent (so_svc os donor) g 0)) (\<lambda>_. ?R) never"
  let ?receive = "\<lambda>_::unit. wp (on_server_world ?n (sst_received (so_svc os ?n) 0))
      (\<lambda>r. wp (only_if (r \<noteq> 0) (throw (Runtime_error ''Call to SST received failed''))) ?send never) never"
  let ?client = "\<lambda>_::unit. wp (on_server_world ?n (modify (make_db_client params 0 (- 1) m_local))) ?receive never"
  let ?read = "\<lambda>_::unit. wp (on_server_world donor (on_env se_get_view))
      (\<lambda>v. wp (on_server_world ?n (on_env (se_store_view v))) ?client never) never"
  let ?store = "\<lambda>_::unit. wp (on_server_world ?n (on_env (se_store_position g))) ?read never"
  have send: "?send u t" if "at_server ?n ?T t" "?D t" for u t
    by (rule wp_at_server [OF that(2,1) assms(3) [symmetric]], erule donor_sends [OF _ svc]) simp
  have receive: "?receive u t" if t: "?J (f\<lparr>se_position := g, se_view := se_view e\<rparr>) t" "?D t" for u t
  proof -
    have received: "wp (sst_received (so_svc os ?n) 0) (\<lambda>r u. r = 0 \<and> ?T u) never w"
      if "joining ss (f\<lparr>se_position := g, se_view := se_view e\<rparr>) w" for w
      using joining_receives [OF that _ _ svc] assms(4,5) that by (simp add: joining_def joiner_ready_def)
    show ?thesis
      by (rule wp_at_server [OF t assms(3)], erule received) (use send in \<open>simp add: wp_only_if\<close>)
  qed
  have client: "?client u t" if t: "?J (f\<lparr>se_position := g, se_view := se_view e\<rparr>) t" "?D t" for u t
    by (rule wp_at_server [OF t assms(3)], erule joiner_stores(3)) (rule receive)
  have read: "?read u t" if t: "?J (f\<lparr>se_position := g\<rparr>) t" "?D t" for u t
  proof -
    have "wp (on_server_world ?n (on_env (se_store_view (se_view e)))) ?client never t"
      if "?J (f\<lparr>se_position := g\<rparr>) t" "?D t" for t
      by (rule wp_at_server [OF that assms(3)], erule joiner_stores(2)) (rule client, simp)
    then show ?thesis by (intro wp_at_server [OF t(2,1) assms(3) [symmetric] donor_reads]) simp_all
  qed
  have store: "?store u t" if t: "?J f t" "?D t" for u t
    by (rule wp_at_server [OF t assms(3)], erule joiner_stores(1)) (rule assms(6), rule read)
  obtain sr where "om_find ?n (sm_servers s) = Some sr" using assms(2) by (auto simp: at_server_def server_world_def)
  with store [OF assms(2,1)] show ?thesis
    by (simp add: sim_sst_def Let_def wp_seq [abs_def] wp_bind [abs_def] wp_branch wp_only_if wp_skip [abs_def])
qed


text \<open>Server 1 gives its state to server 2, whose request has a null character at its end.\<close>

definition donor_view :: view where
  "donor_view = view_default\<lparr>view_state_id := \<lparr>gtid_id = group_id, gtid_seqno = 1\<rparr>\<rparr>"

definition transfer_world :: "string \<Rightarrow> srv_state \<Rightarrow> view \<Rightarrow> int db_env world" where
  "transfer_world name st v = (let w = sr_world (make_db_server db_params_default 0 name []) in
     w\<lparr>w_ss := (w_ss w)\<lparr>sv_state := st, provider_loaded := True, sv_id := group_id\<rparr>,
       w_env := (w_env w)\<lparr>db_engine := (make_storage_engine db_params_default)\<lparr>se_view := v\<rparr>\<rparr>\<rparr>)"

definition transfer_cluster :: "(int, unit) simulator" where
  "transfer_cluster = (make_simulator quiet_ti quiet_tls)\<lparr>sm_servers :=
     [(''1'', (make_db_server db_params_default 0 ''1'' [])\<lparr>sr_world := transfer_world ''1'' s_synced donor_view\<rparr>),
      (''2'', (make_db_server db_params_default 0 ''2'' [])\<lparr>sr_world := transfer_world ''2'' s_joiner view_default\<rparr>)]\<rparr>"


end
