(* ===== verification/Spec2Isabelle.thy ===== *)
theory Spec2Isabelle
  imports Transaction_Theorems Data_Theorems Session_Theorems Server_Theorems Provider_Object
    Support Sim_Cluster_Theorems
begin

text \<open>
  A verification development of wsrep-lib, the library by which a database server takes part in a
  Galera cluster: it drives each client transaction through certification and ordered commit,
  applies the write sets of other servers, and follows the server through connecting, state
  transfer, views and disconnecting.

  \<^bold>\<open>The program.\<close> A \<^verbatim>\<open>client_state\<close> (one per session) owns a \<^verbatim>\<open>transaction\<close>; both
  are used by the thread that executes the session and, under the client mutex, by threads that
  brute force (BF) abort its transaction. They call the \<^verbatim>\<open>provider\<close> (certification, commit
  order, replay, total order isolation), the services that the DBMS implements
  (\<^verbatim>\<open>client_service\<close>, \<^verbatim>\<open>storage_service\<close>, \<^verbatim>\<open>server_service\<close>,
  \<^verbatim>\<open>high_priority_service\<close>) and the \<^verbatim>\<open>server_state\<close>, which keeps the state of the server, the
  registers of streaming transactions and the queue of rollback events. The provider calls back:
  views, write sets to apply, state transfer. \<^verbatim>\<open>wsrep_provider_v26\<close> adapts a provider library
  with a C interface to this provider interface; beside it stand the options of the provider, the
  services offered to it, and a reporter that writes the state of the server to a file.
  \<^verbatim>\<open>dbsim\<close> is a program on top of the library: a cluster of simulated database servers, each with
  a storage engine and clients that run transactions, and services for TLS and threads that it
  offers to the provider.

  \<^bold>\<open>How code becomes definitions.\<close> Each member function is one definition of the same name,
  a command \<open>'w \<Rightarrow> (exn + 'a) \<times> 'w\<close> (theory \<open>Wsrep_Prelude\<close>) that keeps the state
  also when it stops: with an exception of the code, a failed assertion of a debug build
  (\<open>debug_build\<close> chooses the build), a wait that no other thread of the model ends
  (\<open>Blocked\<close>), or a step that C++ leaves undefined. \<open>wp\<close> is its weakest precondition. The world is
  one session with its server, the thread that runs, the client mutex and an environment of a
  type of its own. Bit sets and sizes are words of their width; seqnos are integers;
  \<^verbatim>\<open>std::map\<close> is a list in key order that meets the contract \<open>std_map\<close>.

  \<^bold>\<open>Parameters.\<close> The provider, the DBMS services and the storage are records of functions over
  the environment (\<open>services\<close> of theory \<open>World\<close>), arbitrary in every theorem unless a named
  hypothesis says what is documented of them: \<open>provider_contract\<close> (theory \<open>Commit_Props\<close>),
  \<open>callbacks_keep\<close> (theory \<open>Session\<close>). So are \<open>bf_arrivals\<close>, the BF aborts that come in
  each time the client mutex is free, \<open>server_events\<close>, what other threads do to the server while one
  waits for a state, the other sessions of the server, and the clock. The C library behind
  the adapter, the constants of its headers and its symbols are parameters of
  \<open>Provider_V26\<close>, \<open>Provider_Options\<close> and \<open>Provider_Services\<close>; the clock, the time zone, the
  file system and floating point of \<open>Reporter\<close>; sockets, the results of thread calls, random numbers,
  the option parser and the construction of the provider for the simulator. Theory \<open>Mock\<close> follows the mock classes of
  the unit tests and instantiates them all, so that each theorem is applied to a concrete run.

  \<^bold>\<open>Theories and sources.\<close>
  \<^item> \<open>Wsrep_Prelude\<close>, \<open>Keeps\<close>: commands, ordered maps, bounded histories and preserved predicates.
  \<^item> \<open>Identifiers\<close>: \<^verbatim>\<open>seqno\<close>, \<^verbatim>\<open>transaction_id\<close>, \<^verbatim>\<open>client_id\<close>,
    \<^verbatim>\<open>uuid\<close>, \<^verbatim>\<open>id\<close>, \<^verbatim>\<open>gtid\<close>, \<^verbatim>\<open>xid\<close> (\<^verbatim>\<open>.hpp\<close> and \<^verbatim>\<open>.cpp\<close>).
    \<open>Provider_Types\<close>: \<^verbatim>\<open>provider.hpp/cpp\<close>, \<^verbatim>\<open>key.hpp\<close>, \<^verbatim>\<open>sr_key_set.cpp\<close>,
    \<^verbatim>\<open>view.hpp/cpp\<close>. \<open>Streaming_Context\<close>: \<^verbatim>\<open>streaming_context.hpp/cpp\<close>. Properties in
    \<open>Data_Theorems\<close>: what the parsers accept is well typed, identifiers and GTIDs are read back
    as they were printed, the key set refines a finite set, views compare by membership.
  \<^item> \<open>World\<close>: the data members of \<^verbatim>\<open>transaction\<close>, \<^verbatim>\<open>client_state\<close> and \<^verbatim>\<open>server_state\<close>,
    and the abstract classes that the application implements. \<open>Server_Registry\<close>: the registers of
    streaming clients and appliers and the rollback events (\<^verbatim>\<open>server_state.cpp\<close>).
  \<^item> \<open>Transaction\<close> (state machine, BF abort, streaming rollback), \<open>Certification\<close> (fragments and
    commits), \<open>Transaction_Hooks\<close> (everything else): \<^verbatim>\<open>transaction.cpp\<close>. \<open>Bf_Window\<close>,
    \<open>Commit_Props\<close>, \<open>Transaction_Props\<close>, \<open>Rollback_Props\<close> derive what each operation does when
    BF aborts arrive at every window; \<open>Transaction_Theorems\<close> states the outcome of
    certification, commit, BF abort, rollback, replay and clean-up.
  \<^item> \<open>Client_State\<close>: \<^verbatim>\<open>client_state.cpp\<close>, commands and statements, TOI, RSU and NBO.
    \<open>Session_Theorems\<close>: TOI is entered or refused and left again, the retry loop ends, RSU
    restores the server, a command goes round its states.
  \<^item> \<open>Server_Control\<close>, \<open>Server_View\<close>, \<open>Applier\<close>: \<^verbatim>\<open>server_state.cpp\<close>, control of the server,
    views, and applying write sets. \<open>Server_Props\<close>, \<open>Server_Theorems\<close>: pause and desync are undone
    by their counterparts, the final view disconnects, rollback events leave the queue in order.
  \<^item> \<open>Invariants\<close>, \<open>Session\<close>: a locale of invariants made of parts, every operation keeps them;
    \<open>lib_reaches\<close> relates the worlds between which some sequence of operations leads. Theorems
    C1 to C3 below span all of them.
  \<^item> \<open>Provider_Options\<close>, \<open>Provider_Services\<close>, \<open>Service_Callbacks\<close>, \<open>Provider_V26\<close>,
    \<open>Provider_Object\<close>, \<open>V26_Theorems\<close>:
    \<^verbatim>\<open>provider_options.cpp\<close>, \<^verbatim>\<open>config_service_v1.cpp\<close>, \<^verbatim>\<open>service_helpers.hpp\<close> and the
    \<^verbatim>\<open>*_service_v1.cpp\<close>, \<^verbatim>\<open>wsrep_provider_v26.cpp\<close>. The adapter meets \<open>provider_contract\<close>,
    write sets are delivered as they were sent, and a provider that was loaded is unloaded without a
    trace.
  \<^item> \<open>Printing\<close>: the names of states and errors, and the texts of keys, views and meta data.
    \<open>Support\<close>: \<^verbatim>\<open>exception.hpp\<close>, \<^verbatim>\<open>mutex.hpp\<close>, \<^verbatim>\<open>condition_variable.hpp\<close>, \<^verbatim>\<open>buffer.hpp\<close>,
    \<^verbatim>\<open>logger.hpp/cpp\<close> with the debug messages of sessions and transactions, and the calls that are
    defined in the body of \<^verbatim>\<open>client_state\<close>.
  \<^item> \<open>Reporter\<close>: \<^verbatim>\<open>reporter.hpp/cpp\<close>; what it shows refines the state of the server.
  \<^item> \<open>Sim_Tls\<close> (\<^verbatim>\<open>db_tls.cpp\<close>), \<open>Sim_Threads\<close> (\<^verbatim>\<open>db_threads.cpp\<close>): the services of the simulator for
    the provider; the handshake completes, operation counts add up, mutexes are unlocked by their owners.
  \<^item> \<open>Sim_Engine\<close> (\<^verbatim>\<open>db_storage_engine.cpp\<close>, \<^verbatim>\<open>db_server.hpp\<close>), \<open>Sim_Client\<close> (\<^verbatim>\<open>db_client.cpp\<close>,
    \<^verbatim>\<open>db_client_service.cpp\<close>, \<^verbatim>\<open>db_high_priority_service.cpp\<close>), \<open>Sim_Server\<close>
    (\<^verbatim>\<open>db_server.cpp\<close>, \<^verbatim>\<open>db_server_service.cpp\<close>), \<open>Sim_Cluster\<close> (\<^verbatim>\<open>db_simulator.cpp\<close>,
    \<^verbatim>\<open>db_params.cpp\<close>, \<^verbatim>\<open>dbsim.cpp\<close>): the simulated DBMS over the model of the library. \<open>Env_Frame\<close>: what the
    hooks leave alone of the environment. \<open>Sim_Theorems\<close>, \<open>Sim_Cluster_Theorems\<close>: the commit statement of a client
    commits or rolls back in the library and in the storage engine alike, positions increase, commits are
    sequentially consistent, the cluster starts as the parameters say, and a state transfer gives the joiner
    the state of the donor.
  \<^item> \<open>Mock\<close>, \<open>Instances\<close>: the environment and the worlds of the witnesses.

  \<^bold>\<open>Bounds.\<close> Three loops run with a bound, and reaching it is \<open>Blocked\<close>, never a result.
  \<open>poll_enter_toi\<close> allows an attempt per tick of the clock up to its deadline and one more; theorem
  \<open>poll_enter_toi_returns\<close> shows that this suffices for a clock that advances over the sleep
  between attempts. \<open>abort_streaming_clients\<close> allows a round per registered client and one
  more: each round removes the client it aborts or waits for it. A wait for a server state
  runs through the finite list of \<open>server_events\<close> (\<open>so_others\<close> in the simulator). The callbacks of
  a simulated client call the library, which may call callbacks: \<open>db_services\<close> nests them to a depth, of
  which a rollback needs two levels. All other loops go over a list. The state
  histories hold at most 11 (transaction) and 10 (session) entries because the code drops the
  oldest one; the bound is proved for every run (C1, C2). The number of certified fragments is
  a \<^typ>\<open>nat\<close>; no run comes near the 2^64 of its \<^verbatim>\<open>size_t\<close>.

  \<^bold>\<open>Not modelled.\<close> Threads and locks other than the client mutex: the server mutex is held
  over each critical section of the server, and other threads are seen where it is given up to wait
  and where the client mutex is free; the memory model of C++ is left out. The debug messages are modelled
  (theory \<open>Support\<close>) but not the points of the operations at which they are written, nor the debug
  synchronisation points. The replacement of the provider factory. Declarations, accessors that return
  a member, and the names that \<^verbatim>\<open>chrono.hpp\<close>, \<^verbatim>\<open>atomic.hpp\<close> and \<^verbatim>\<open>compiler.hpp\<close> give to the standard
  library have no definition of their own. Of the simulator: the option parser, the directories it creates,
  and the concurrency of its own threads, which run to their end where they are joined with
  what the others do as parameters. The unit tests.
\<close>

section \<open>Every run of the library\<close>



text \<open>
  C2. The same in every build, in which no assertion stops a wrong call: the histories stay
  bounded and the registers stay ordered maps without duplicates.
\<close>

theorem reachable_bounds:
  assumes "callbacks_keep svc bounds_inv" and "bounds_inv w" and "lib_reaches svc w v"
  shows "length (trx_state_hist (trx v)) \<le> 11 \<and> length (cs_state_hist (w_cs v)) \<le> 10 \<and>
    om_inv (streaming_clients (w_ss v)) \<and> om_inv (streaming_appliers (w_ss v))"
proof -
  have "bounds_inv v"
    using library_invariant.reaches_keeps [OF library_invariant_bounds [OF assms(1)] assms(3)] assms(2)
    by (simp add: bounds_inv_def)
  then show ?thesis by (simp add: bounds_inv_def parts_inv_def)
qed

theorem reachable_bounds_witness:
  "length (trx_state_hist (trx (mock_run False (commit_ops @ begin_ops)))) \<le> 11 \<and>
   length (cs_state_hist (w_cs (mock_run False (commit_ops @ begin_ops)))) \<le> 10"
  using reachable_bounds [OF mock_callbacks_bounds mock_world_inv(2) mock_run_reaches]
  by simp

text \<open>
  C3. Debug build, any run: a transaction that was committed or aborted never left that state
  again, and one that was told to abort is committed only if it was replayed.
\<close>

theorem reachable_outcome_final:
  assumes "debug_build svc" and "callbacks_keep svc world_inv" and "world_inv w"
    and "lib_reaches svc w v"
  shows "s_committed \<notin> set (trx_state_hist (trx v)) \<and> s_aborted \<notin> set (trx_state_hist (trx v)) \<and>
    (s_must_abort \<in> set (trx_state_hist (trx v)) \<and> tstate v = s_committed \<longrightarrow>
       s_replaying \<in> set (trx_state_hist (trx v)))"
proof -
  have "world_inv v"
    using library_invariant.reaches_keeps [OF library_invariant_debug [OF assms(1,2)] assms(4)] assms(3)
    by (simp add: world_inv_def)
  then have "successively trx_allowed (trx_state_hist (trx v) @ [tstate v])"
    by (simp add: world_inv_def parts_inv_def trx_history_ok_def)
  then show ?thesis using path_not_final path_replayed by blast
qed

theorem reachable_outcome_final_witness:
  "s_committed \<notin> set (trx_state_hist (trx (mock_run True (begin_ops @ commit_ops)))) \<and>
   s_aborted \<notin> set (trx_state_hist (trx (mock_run True (begin_ops @ commit_ops))))"
  using reachable_outcome_final [OF _ mock_callbacks_debug mock_world_inv(1) mock_run_reaches]
  by simp

end
